(* ===== verification/Prelude.thy ===== *)
theory Prelude
  imports Main "HOL-Library.Word" "HOL-Library.List_Lexorder" "HOL-Library.Multiset"
begin

text \<open>
  Shared material of the development: the collections of rewrite rules the component
  theories fill, and the facts about lists and lookups that several of them need.

  \<^item> \<open>form_defs\<close>: the definitions of the pure form libraries under \<^verbatim>\<open>frontend/src/lib\<close>;
  \<^item> \<open>view_defs\<close>: the definitions of the event handlers of the views;
  \<^item> \<open>prog_simps\<close>: the rules that evaluate asynchronous programs up to their next await.
\<close>

named_theorems form_defs
named_theorems view_defs
named_theorems prog_simps

subsection \<open>The Map and Object.fromEntries constructors\<close>

text \<open>
  \<^verbatim>\<open>new Map(entries)\<close> and \<^verbatim>\<open>Object.fromEntries(entries)\<close> insert the entries from the
  left to the right, so of two entries with one key the later one is looked up.
\<close>

definition js_map :: "('k \<times> 'v) list \<Rightarrow> 'k \<Rightarrow> 'v option" where
  "js_map entries = map_of (rev entries)"

lemma js_map_None_iff [simp]: "js_map xs k = None \<longleftrightarrow> k \<notin> fst ` set xs"
  by (simp add: js_map_def map_of_eq_None_iff)

lemma js_map_SomeD: "js_map xs k = Some v \<Longrightarrow> (k, v) \<in> set xs"
  by (auto simp: js_map_def dest: map_of_SomeD)

lemma js_map_distinct: "distinct (map fst xs) \<Longrightarrow> js_map xs k = Some v \<longleftrightarrow> (k, v) \<in> set xs"
  by (simp add: js_map_def map_of_eq_Some_iff rev_map [symmetric])

lemma js_map_by_id:
  assumes "distinct (map idf xs)" and "x \<in> set xs"
  shows "js_map (map (\<lambda>y. (idf y, f y)) xs) (idf x) = Some (f x)"
proof -
  have "distinct (map fst (map (\<lambda>y. (idf y, f y)) xs))"
    using assms(1) by (simp add: o_def)
  then show ?thesis
    using assms(2) by (simp add: js_map_distinct)
qed

lemma js_map_by_idD:
  "js_map (map (\<lambda>y. (idf y, f y)) xs) k = Some v \<Longrightarrow> \<exists>x\<in>set xs. idf x = k \<and> f x = v"
  by (drule js_map_SomeD) auto

lemma js_map_by_id_None:
  "js_map (map (\<lambda>y. (idf y, f y)) xs) k = None \<longleftrightarrow> (\<forall>x\<in>set xs. idf x \<noteq> k)"
  by force

subsection \<open>Lists\<close>

lemma length_filter_drop_one: "x \<in> set xs \<Longrightarrow> \<not> P x \<Longrightarrow> Suc (length (filter P xs)) \<le> length xs"
  by (metis Suc_leI length_filter_less)

lemma find_SomeD: "List.find P xs = Some x \<Longrightarrow> x \<in> set xs \<and> P x"
  by (auto simp: find_Some_iff)

lemma count_one_unique:
  assumes "length (filter P xs) \<le> 1" and "i < length xs" and "j < length xs"
    and "P (xs ! i)" and "P (xs ! j)"
  shows "i = j"
proof (rule ccontr)
  assume "i \<noteq> j"
  have "{i, j} \<subseteq> {k. k < length xs \<and> P (xs ! k)}"
    using assms by auto
  then have "card {i, j} \<le> card {k. k < length xs \<and> P (xs ! k)}"
    by (intro card_mono) auto
  then show False
    using assms(1) \<open>i \<noteq> j\<close> by (simp add: length_filter_conv_card)
qed

end
