(* ===== verification/Js_Strings.thy ===== *)
theory Js_Strings
  imports Prelude
begin

unbundle bit_operations_syntax

text \<open>
  Strings of the language: finite lists of 16-bit code units. Here are the operations of the
  standard library that the sources under \<^verbatim>\<open>frontend/src\<close> use on them: iteration by code
  point (\<^verbatim>\<open>Array.from\<close>), the UTF-8 encoder, \<^verbatim>\<open>trim\<close>, \<^verbatim>\<open>slice\<close>, \<^verbatim>\<open>includes\<close> and the control
  character class of the validators. The order on code unit lists is the lexicographic one of
  \<^verbatim>\<open>HOL-Library.List_Lexorder\<close>, which is how \<^verbatim>\<open><\<close> and \<^verbatim>\<open>sort\<close> compare strings.
\<close>

type_synonym code_unit = "16 word"
type_synonym jstring = "code_unit list"

text \<open>An ASCII literal of the source.\<close>

definition js :: "string \<Rightarrow> jstring" where
  "js s = map of_char s"

lemma js_simps [simp]:
  "js [] = []"
  "js (c # cs) = of_char c # js cs"
  "js (s @ t) = js s @ js t"
  "length (js s) = length s"
  by (simp_all add: js_def)

subsection \<open>Code points\<close>

definition is_high :: "code_unit \<Rightarrow> bool" where
  "is_high u \<longleftrightarrow> 0xD800 \<le> u \<and> u \<le> 0xDBFF"

definition is_low :: "code_unit \<Rightarrow> bool" where
  "is_low u \<longleftrightarrow> 0xDC00 \<le> u \<and> u \<le> 0xDFFF"

text \<open>The string iterator: a surrogate pair is one code point, a lone surrogate is itself.\<close>

fun code_points :: "jstring \<Rightarrow> nat list" where
  "code_points [] = []"
| "code_points [u] = [unat u]"
| "code_points (u # v # us) =
     (if is_high u \<and> is_low v
      then (0x10000 + (unat u - 0xD800) * 0x400 + (unat v - 0xDC00)) # code_points us
      else unat u # code_points (v # us))"

text \<open>\<^verbatim>\<open>Array.from(s).length\<close>\<close>

definition char_count :: "jstring \<Rightarrow> nat" where
  "char_count s = length (code_points s)"

lemma char_count_Nil [simp]: "char_count [] = 0"
  by (simp add: char_count_def)

lemma char_count_le_length: "char_count s \<le> length s"
  unfolding char_count_def by (induction s rule: code_points.induct) auto

lemma length_le_char_count: "length s \<le> 2 * char_count s"
  unfolding char_count_def by (induction s rule: code_points.induct) auto

lemma code_points_no_high:
  "\<forall>u\<in>set s. \<not> is_high u \<Longrightarrow> code_points s = map unat s"
  by (induction s rule: code_points.induct) auto

lemma char_count_no_high: "\<forall>u\<in>set s. \<not> is_high u \<Longrightarrow> char_count s = length s"
  by (simp add: char_count_def code_points_no_high)

lemma is_high_unat: "is_high u \<longleftrightarrow> 0xD800 \<le> unat u \<and> unat u \<le> 0xDBFF"
  by (simp add: is_high_def word_le_nat_alt)

lemma is_low_unat: "is_low u \<longleftrightarrow> 0xDC00 \<le> unat u \<and> unat u \<le> 0xDFFF"
  by (simp add: is_low_def word_le_nat_alt)

lemma unat_unit_less: "unat (u :: code_unit) < 0x10000"
  using unsigned_less [of u, where ?'a = nat] by simp

text \<open>Every code point the iterator yields is in the Unicode range.\<close>

lemma code_points_range: "c \<in> set (code_points s) \<Longrightarrow> c < 0x110000"
proof (induction s rule: code_points.induct)
  case (2 u)
  then show ?case using unat_unit_less [of u] by simp
next
  case (3 u v us)
  then show ?case
    using unat_unit_less [of u] unat_unit_less [of v]
    by (auto simp: is_high_unat is_low_unat split: if_splits)
qed simp

subsection \<open>TextEncoder: UTF-8\<close>

type_synonym byte = "8 word"

text \<open>The encoder reads scalar values: a lone surrogate becomes U+FFFD.\<close>

definition to_scalar :: "nat \<Rightarrow> nat" where
  "to_scalar c = (if 0xD800 \<le> c \<and> c \<le> 0xDFFF then 0xFFFD else c)"

definition utf8_char :: "nat \<Rightarrow> byte list" where
  "utf8_char c =
     (if c < 0x80 then [of_nat c]
      else if c < 0x800 then [of_nat (0xC0 + c div 0x40), of_nat (0x80 + c mod 0x40)]
      else if c < 0x10000 then
        [of_nat (0xE0 + c div 0x1000), of_nat (0x80 + c div 0x40 mod 0x40),
         of_nat (0x80 + c mod 0x40)]
      else
        [of_nat (0xF0 + c div 0x40000), of_nat (0x80 + c div 0x1000 mod 0x40),
         of_nat (0x80 + c div 0x40 mod 0x40), of_nat (0x80 + c mod 0x40)])"

definition text_encode :: "jstring \<Rightarrow> byte list" where
  "text_encode s = concat (map (utf8_char \<circ> to_scalar) (code_points s))"

lemma length_utf8_char:
  "length (utf8_char c) =
     (if c < 0x80 then 1 else if c < 0x800 then 2 else if c < 0x10000 then 3 else 4)"
  by (simp add: utf8_char_def)

lemma text_encode_Nil [simp]: "text_encode [] = []"
  by (simp add: text_encode_def)

lemma length_text_encode:
  "length (text_encode s) = (\<Sum>c\<leftarrow>code_points s. length (utf8_char (to_scalar c)))"
  by (simp add: text_encode_def length_concat o_def)

text \<open>The encoding of a string has between one and three bytes per code unit.\<close>

lemma char_count_le_bytes: "char_count s \<le> length (text_encode s)"
proof -
  have "length cs \<le> (\<Sum>c\<leftarrow>cs. length (utf8_char (to_scalar c)))" for cs
    by (induction cs) (auto simp: length_utf8_char)
  then show ?thesis by (simp add: length_text_encode char_count_def)
qed

lemma length_le_bytes: "length s \<le> length (text_encode s)"
  unfolding length_text_encode
proof (induction s rule: code_points.induct)
  case (3 u v us)
  then show ?case
    by (auto simp: length_utf8_char to_scalar_def is_high_unat is_low_unat)
qed (auto simp: length_utf8_char)

lemma bytes_le_length: "length (text_encode s) \<le> 3 * length s"
  unfolding length_text_encode
proof (induction s rule: code_points.induct)
  case (2 u)
  then show ?case using unat_unit_less [of u] by (simp add: length_utf8_char to_scalar_def)
next
  case (3 u v us)
  then show ?case
    using unat_unit_less [of u] by (auto simp: length_utf8_char to_scalar_def)
qed simp

definition is_ascii :: "jstring \<Rightarrow> bool" where
  "is_ascii s \<longleftrightarrow> list_all (\<lambda>u. u < 0x80) s"

lemma ascii_bytes: "is_ascii s \<Longrightarrow> length (text_encode s) = length s"
  unfolding length_text_encode is_ascii_def
  by (induction s rule: code_points.induct)
     (auto simp: length_utf8_char to_scalar_def is_high_def is_low_def word_less_nat_alt
        word_le_nat_alt)

subsection \<open>trim, control characters, slice, js_includes\<close>

text \<open>White space and line terminators as \<^verbatim>\<open>String.prototype.trim\<close> removes them.\<close>

definition is_space :: "code_unit \<Rightarrow> bool" where
  "is_space u \<longleftrightarrow>
     u \<in> {0x9, 0xA, 0xB, 0xC, 0xD, 0x20, 0xA0, 0x1680, 0x2028, 0x2029, 0x202F, 0x205F, 0x3000, 0xFEFF}
     \<or> (0x2000 \<le> u \<and> u \<le> 0x200A)"

definition trim :: "jstring \<Rightarrow> jstring" where
  "trim s = rev (dropWhile is_space (rev (dropWhile is_space s)))"

lemma trim_Nil [simp]: "trim [] = []"
  by (simp add: trim_def)

lemma rev_dropWhile_rev_id:
  "s = [] \<or> \<not> P (last s) \<Longrightarrow> rev (dropWhile P (rev s)) = s"
  by (cases s rule: rev_cases) auto

lemma last_rev_dropWhile:
  "rev (dropWhile P (rev s)) = [] \<or> \<not> P (last (rev (dropWhile P (rev s))))"
  by (metis hd_dropWhile last_rev rev.simps(1))

lemma prefix_rev_dropWhile: "\<exists>t. s = rev (dropWhile P (rev s)) @ t \<and> list_all P t"
proof (intro exI conjI)
  show "s = rev (dropWhile P (rev s)) @ rev (takeWhile P (rev s))"
    by (metis rev_append rev_rev_ident takeWhile_dropWhile_id)
  show "list_all P (rev (takeWhile P (rev s)))"
    by (auto simp: list_all_iff dest: set_takeWhileD)
qed

lemma hd_trim: "trim s \<noteq> [] \<Longrightarrow> \<not> is_space (hd (trim s))"
proof -
  let ?d = "dropWhile is_space s"
  assume ne: "trim s \<noteq> []"
  obtain t where t: "?d = trim s @ t"
    using prefix_rev_dropWhile [of ?d is_space] by (auto simp: trim_def)
  with ne have "?d \<noteq> []" and "hd ?d = hd (trim s)" by auto
  then show ?thesis by (metis hd_dropWhile)
qed

lemma last_trim: "trim s \<noteq> [] \<Longrightarrow> \<not> is_space (last (trim s))"
  unfolding trim_def using last_rev_dropWhile [of is_space "dropWhile is_space s"] by blast

lemma trim_id:
  assumes "s = [] \<or> (\<not> is_space (hd s) \<and> \<not> is_space (last s))"
  shows "trim s = s"
proof -
  have "dropWhile is_space s = s" using assms by (cases s) auto
  moreover have "rev (dropWhile is_space (rev s)) = s"
    by (rule rev_dropWhile_rev_id) (use assms in blast)
  ultimately show ?thesis by (simp add: trim_def)
qed

lemma trim_idem [simp]: "trim (trim s) = trim s"
  by (rule trim_id) (use hd_trim [of s] last_trim [of s] in blast)

lemma length_trim: "length (trim s) \<le> length s"
proof -
  have "length (dropWhile is_space (rev (dropWhile is_space s))) \<le> length (dropWhile is_space s)"
    using length_dropWhile_le [of is_space "rev (dropWhile is_space s)"] by simp
  also have "\<dots> \<le> length s" by (rule length_dropWhile_le)
  finally show ?thesis by (simp add: trim_def)
qed

lemma trim_eq_Nil_iff: "trim s = [] \<longleftrightarrow> list_all is_space s"
proof
  assume "list_all is_space s"
  then have "dropWhile is_space s = []" by (simp add: dropWhile_eq_Nil_conv list_all_iff)
  then show "trim s = []" by (simp only: trim_def rev.simps dropWhile.simps)
next
  assume "trim s = []"
  then have all: "\<forall>u\<in>set (dropWhile is_space s). is_space u"
    by (simp add: trim_def dropWhile_eq_Nil_conv)
  have "dropWhile is_space s = []"
  proof (rule ccontr)
    assume ne: "dropWhile is_space s \<noteq> []"
    then show False using all hd_dropWhile [OF ne] by simp
  qed
  then show "list_all is_space s" by (simp only: dropWhile_eq_Nil_conv list_all_iff)
qed

text \<open>
  The validators' class \<^verbatim>\<open>[\u0000-\u001f\u007f-\u009f]\<close>, matched with the \<^verbatim>\<open>u\<close> flag, that is
  code point by code point.
\<close>

definition is_control :: "nat \<Rightarrow> bool" where
  "is_control c \<longleftrightarrow> c \<le> 0x1F \<or> (0x7F \<le> c \<and> c \<le> 0x9F)"

definition has_control :: "jstring \<Rightarrow> bool" where
  "has_control s \<longleftrightarrow> list_ex is_control (code_points s)"

lemma has_control_units: "has_control s \<longleftrightarrow> (\<exists>u\<in>set s. is_control (unat u))"
  unfolding has_control_def
  by (induction s rule: code_points.induct)
     (auto simp: is_control_def is_high_unat is_low_unat)

lemma has_control_Nil [simp]: "\<not> has_control []"
  by (simp add: has_control_def)

text \<open>\<^verbatim>\<open>s.slice(a, b)\<close> for \<open>0 \<le> a \<le> b\<close>.\<close>

definition js_slice :: "nat \<Rightarrow> nat \<Rightarrow> 'a list \<Rightarrow> 'a list" where
  "js_slice a b s = take (b - a) (drop a s)"

lemma js_slice_short [simp]: "length s \<le> b \<Longrightarrow> js_slice 0 b s = s"
  by (simp add: js_slice_def)

lemma length_js_slice: "length (js_slice a b s) \<le> b - a"
  by (simp add: js_slice_def)

fun starts_with :: "jstring \<Rightarrow> jstring \<Rightarrow> bool" where
  "starts_with _ [] = True"
| "starts_with [] (_ # _) = False"
| "starts_with (u # s) (v # t) = (u = v \<and> starts_with s t)"

fun js_includes :: "jstring \<Rightarrow> jstring \<Rightarrow> bool" where
  "js_includes [] t = (t = [])"
| "js_includes (u # s) t = (starts_with (u # s) t \<or> js_includes s t)"

lemma starts_with_iff: "starts_with s t \<longleftrightarrow> (\<exists>r. s = t @ r)"
  by (induction s t rule: starts_with.induct) auto

lemma js_includes_iff: "js_includes s t \<longleftrightarrow> (\<exists>a b. s = a @ t @ b)"
proof (induction s t rule: js_includes.induct)
  case (2 u s t)
  then show ?case
    by (auto simp: starts_with_iff Cons_eq_append_conv)
qed simp

lemma js_includes_Nil [simp]: "js_includes s []"
  by (cases s) simp_all

end
