(* ===== verification/Api_Types.thy ===== *)
theory Api_Types
  imports Js_Strings
begin

text \<open>
  The data model of the API client (\<^verbatim>\<open>frontend/src/api/typings.d.ts\<close>), for the operations
  that the hooks call: requests and responses as records, string unions as datatypes. A field
  that may be missing or null is an option. The generated types leave the element type of
  arrays open (\<^verbatim>\<open>any\<close>); it is the one the views cast them to. Field names carry a prefix
  of their record, because record fields share one name space. Numbers are integers.
\<close>

subsection \<open>String unions\<close>

datatype category = Top | Bottom | One_piece | Outerwear | Shoes | Bag | Accessory
datatype availability = Wearable | Laundry | Lent_out | Packed
datatype formality = Casual | Smart_casual | Formal
datatype warmth = Light | Medium | Warm
datatype suitability = Suitable | Unsuitable
datatype item_source = From_wardrobe | From_quick_add
datatype lifecycle = Active_item | Archived_item
datatype plan_status = Plan_active | Plan_completed | Plan_not_worn | Plan_cancelled
datatype completeness = Partial | Complete
datatype source_kind = Followed_plan | Changed_plan | Different_outfit | Unplanned
datatype history_policy = Redact_snapshots | Delete_affected_history
datatype deletion_status = Deletion_pending | Deletion_complete
datatype user_role = Role_user | Role_moderator | Role_admin
datatype user_status = User_active | User_suspended | User_deleting
datatype media_status =
    Media_pending_upload | Media_uploaded | Media_checking | Media_ready | Media_rejected
  | Media_deleting | Media_deleted

subsection \<open>Wardrobe\<close>

text \<open>
  An attribute of a response is an object whose \<^verbatim>\<open>source\<close> has one possible value, or null: the
  option holds its \<^verbatim>\<open>value\<close>.
\<close>

record attributes =
  at_formality_band :: "formality option"
  at_warmth_band :: "warmth option"
  at_rain_use :: "suitability option"
  at_walking_use :: "suitability option"

record wardrobe_item =
  wi_id :: jstring
  wi_name :: jstring
  wi_category :: category
  wi_availability :: availability
  wi_revision :: int
  wi_attributes :: "attributes option"
  wi_sample_image :: "jstring option"
  wi_photo_media_id :: "jstring option"
  wi_original_photo_media_id :: "jstring option"
  wi_source :: item_source
  wi_lifecycle :: lifecycle
  wi_created_at :: jstring
  wi_updated_at :: jstring
  wi_archived_at :: "jstring option"

record item_fields =
  if_name :: jstring
  if_sample_image :: "jstring option"
  if_photo_media_id :: "jstring option"
  if_original_photo_media_id :: "jstring option"
  if_category :: category
  if_availability :: availability
  if_attributes :: attributes

record create_item = item_fields +
  ci_id :: jstring
  ci_source :: item_source

record update_item = item_fields +
  ui_expected_revision :: int

record deletion_impact =
  di_affected_plan_count :: int
  di_affected_wear_event_count :: int
  di_expected_impact :: jstring

subsection \<open>Outfit plans\<close>

record selection =
  os_item_id :: jstring
  os_revision :: int

record item_content =
  ic_item_id :: jstring
  ic_item_revision :: int
  ic_name :: jstring
  ic_category :: category
  ic_availability :: availability
  ic_attributes :: "attributes option"

record snapshot_item =
  si_ordinal :: int
  si_content :: "item_content option"

record outfit_plan =
  op_id :: jstring
  op_local_date :: jstring
  op_time_zone :: jstring
  op_context_summary :: "jstring option"
  op_items :: "snapshot_item list"
  op_revision :: int
  op_status :: plan_status
  op_created_at :: jstring
  op_updated_at :: jstring

record plan_fields =
  pf_local_date :: jstring
  pf_time_zone :: jstring
  pf_context_summary :: "jstring option"
  pf_items :: "selection list"
  pf_confirmed_unavailable_ids :: "jstring list"

record create_plan = plan_fields +
  cp_id :: jstring

record update_plan = plan_fields +
  up_expected_revision :: int

subsection \<open>Wear events\<close>

record wear_candidate =
  wc_id :: jstring
  wc_revision :: int

record wear_event =
  we_id :: jstring
  we_local_date :: jstring
  we_time_zone :: jstring
  we_completeness :: completeness
  we_context_summary :: "jstring option"
  we_source_kind :: source_kind
  we_source_plan_id :: "jstring option"
  we_source_plan_revision :: "int option"
  we_items :: "snapshot_item list"
  we_revision :: int
  we_created_at :: jstring
  we_updated_at :: jstring

record wear_fields =
  wf_local_date :: jstring
  wf_time_zone :: jstring
  wf_completeness :: completeness
  wf_context_summary :: "jstring option"
  wf_source_kind :: source_kind
  wf_source_plan_id :: "jstring option"
  wf_source_plan_revision :: "int option"
  wf_items :: "selection list"
  wf_confirmed_unavailable_ids :: "jstring list"
  wf_laundry_item_ids :: "jstring list"
  wf_duplicate_confirmations :: "wear_candidate list"

record create_wear = wear_fields +
  cw_id :: jstring

record update_wear = wear_fields +
  uw_expected_revision :: int

record wear_item_use =
  wu_item_id :: jstring
  wu_count :: int

record wear_statistics =
  ws_from :: jstring
  ws_to :: jstring
  ws_item_uses :: "wear_item_use list"
  ws_wear_days :: int
  ws_wear_events :: int

subsection \<open>Recommendations\<close>

record recommendation_request =
  rr_local_date :: jstring
  rr_time_zone :: jstring
  rr_formality_band :: "formality option"
  rr_warmth_band :: "warmth option"
  rr_requires_rain_suitability :: bool
  rr_requires_walking_suitability :: bool
  rr_include_packed_items :: bool

record recommendation_candidate =
  rc_items :: "wardrobe_item list"
  rc_reasons :: "jstring list"
  rc_uncertainties :: "jstring list"

record recommendation_response =
  rp_candidates :: "recommendation_candidate list"
  rp_gap :: "jstring option"
  rp_policy_version :: jstring

subsection \<open>Account\<close>

record user =
  us_id :: jstring
  us_display_name :: jstring
  us_email :: jstring
  us_email_verified :: bool
  us_revision :: int
  us_role :: user_role
  us_status :: user_status
  us_created_at :: jstring
  us_updated_at :: jstring

record register_request =
  rg_display_name :: jstring
  rg_email :: jstring
  rg_password :: jstring

record session_request =
  cs_email :: jstring
  cs_password :: jstring

record update_user_request =
  uu_display_name :: "jstring option"
  uu_email :: "jstring option"
  uu_expected_revision :: int

record account_deletion =
  ad_id :: jstring
  ad_status :: deletion_status
  ad_receipt_token :: jstring
  ad_generation_count :: int
  ad_media_count :: int
  ad_requested_at :: jstring
  ad_receipt_expires_at :: jstring
  ad_completed_at :: "jstring option"

subsection \<open>Private media\<close>

record upload_request =
  ur_purpose :: string
  ur_content_type :: jstring
  ur_byte_size :: nat
  ur_sha256 :: jstring

record media =
  me_id :: jstring
  me_status :: media_status

record media_upload =
  mu_media :: media
  mu_url :: jstring
  mu_headers :: "(jstring \<times> jstring) list"

subsection \<open>Facts about extended records\<close>

lemmas record_spread =
  plan_fields.defs create_plan.defs update_plan.defs wear_fields.defs create_wear.defs
  update_wear.defs item_fields.defs create_item.defs update_item.defs

end
