(* ===== verification/Js_Values.thy ===== *)
theory Js_Values
  imports Js_Strings
begin

text \<open>
  Values of unknown type, as a \<^verbatim>\<open>catch\<close> clause receives them.

  The texts the interface shows are Chinese literals in the sources. Each component has a
  datatype of its texts, one constructor per literal, named after what it says; all the literals
  are non-empty, so a text that is set is truthy. Here are the messages of
  \<^verbatim>\<open>WardrobePhotoError\<close>, the error class of \<^verbatim>\<open>lib/wardrobe/photo.ts\<close>. Numbers are
  integers: the only numbers read from unknown values are status codes and revisions, which the
  server sends as integers within the exact range of a double.
\<close>

datatype photo_text =
    Photo_undecodable | Photo_over_24_megapixels_upload | Storage_without_version
  | Photo_rejected | Photo_still_processing
  | Canvas_unavailable | Photo_unreadable | Photo_over_24_megapixels
  | Processed_photo_too_large | Crop_invalid | No_clear_outline | No_garment_found

text \<open>
  Objects list their own properties; of two entries with one key the first counts. A
  \<^verbatim>\<open>WardrobePhotoError\<close> is an object of its own class with the message it was built with.
\<close>

datatype jsval =
    JUndefined
  | JNull
  | JBool bool
  | JNum int
  | JStr jstring
  | JArr "jsval list"
  | JObj "(string \<times> jsval) list"
  | JPhotoError photo_text

text \<open>\<^verbatim>\<open>typeof v === 'object' && v !== null\<close>\<close>

fun is_object :: "jsval \<Rightarrow> bool" where
  "is_object (JArr _) = True"
| "is_object (JObj _) = True"
| "is_object (JPhotoError _) = True"
| "is_object _ = False"

text \<open>
  \<^verbatim>\<open>k in v\<close> followed by \<^verbatim>\<open>v.k\<close>, for the property names the sources test (\<^verbatim>\<open>response\<close>,
  \<^verbatim>\<open>status\<close>, \<^verbatim>\<open>data\<close>, \<^verbatim>\<open>duplicate_candidates\<close>), none of which an array or an error object
  of the application has.
\<close>

fun prop_in :: "jsval \<Rightarrow> string \<Rightarrow> jsval option" where
  "prop_in (JObj ps) k = map_of ps k"
| "prop_in _ k = None"

text \<open>A property read, \<^verbatim>\<open>undefined\<close> where it is missing.\<close>

definition js_prop :: "jsval \<Rightarrow> string \<Rightarrow> jsval" where
  "js_prop v k = (case prop_in v k of None \<Rightarrow> JUndefined | Some w \<Rightarrow> w)"

lemma prop_in_object: "prop_in v k = Some w \<Longrightarrow> is_object v"
  by (cases v) auto

text \<open>An error of the HTTP client: its response has a status and a body.\<close>

definition http_error :: "int \<Rightarrow> jsval \<Rightarrow> jsval" where
  "http_error status body =
     JObj [(''response'', JObj [(''status'', JNum status), (''data'', body)])]"

text \<open>The \<^verbatim>\<open>RangeError\<close> that a formatter throws for a time zone it does not know.\<close>

definition range_error :: "jstring \<Rightarrow> jsval" where
  "range_error tz = JObj [(''message'', JStr (js ''Invalid time zone specified: '' @ tz))]"

text \<open>A file of the browser; two file objects are the same object when their keys agree.\<close>

record js_file =
  file_key :: nat
  file_type :: jstring
  file_size :: nat

end
