(* ===== verification/Api_Client.thy ===== *)
theory Api_Client
  imports Api_Types Js_Values
begin

text \<open>
  The request layer: \<^verbatim>\<open>lib/api/request.ts\<close> and the functions of the generated client under
  \<^verbatim>\<open>frontend/src/api\<close> that the hooks call. Each function is the request it hands to the HTTP
  library, which is third-party code: the URL, the method, the query parameters, the body and
  the options. \<^verbatim>\<open>api_call\<close> names one call of each function with its arguments; \<^verbatim>\<open>http_of\<close>
  gives the request it makes. The lemmas show that every request is routed by the rewrite
  rule of \<^verbatim>\<open>next.config.ts\<close> and carries the session cookie.
\<close>

subsection \<open>Requests\<close>

datatype http_method = GET | POST | PUT | PATCH | DELETE

datatype payload =
    No_body
  | B_create_item create_item | B_update_item update_item | B_lifecycle int
  | B_recommendation recommendation_request
  | B_create_plan create_plan | B_update_plan update_plan | B_expected_revision int
  | B_create_wear create_wear | B_update_wear update_wear
  | B_register register_request | B_session session_request | B_update_user update_user_request
  | B_upload upload_request | B_version jstring
  | B_file nat
  | B_json jsval

text \<open>
  The bodies by the types of the API; \<^verbatim>\<open>B_json\<close> is a body of a function that has no caller,
  any JSON value.

  A query parameter; the HTTP library leaves out the undefined ones.
\<close>

datatype param = P_undefined | P_string jstring | P_number int

text \<open>\<^verbatim>\<open>{ ...xs, ...ys }\<close> on parameter objects: a later entry replaces an earlier one.\<close>

fun put_param :: "string \<Rightarrow> param \<Rightarrow> (string \<times> param) list \<Rightarrow> (string \<times> param) list" where
  "put_param k v [] = [(k, v)]"
| "put_param k v ((k', v') # ps) = (if k = k' then (k, v) # ps else (k', v') # put_param k v ps)"

definition spread :: "(string \<times> param) list \<Rightarrow> (string \<times> param) list \<Rightarrow> (string \<times> param) list" where
  "spread xs ys = fold (\<lambda>(k, v) ps. put_param k v ps) ys xs"

definition opt_string :: "jstring option \<Rightarrow> param" where
  "opt_string v = (case v of None \<Rightarrow> P_undefined | Some s \<Rightarrow> P_string s)"

definition opt_number :: "int option \<Rightarrow> param" where
  "opt_number v = (case v of None \<Rightarrow> P_undefined | Some n \<Rightarrow> P_number n)"

text \<open>
  The options of \<^verbatim>\<open>request\<close>, in the fields the callers set. \<^verbatim>\<open>ro_request_type\<close> and
  \<^verbatim>\<open>ro_on_headers\<close> are those \<^verbatim>\<open>request\<close> removes before it calls the library.
\<close>

record request_options =
  ro_method :: http_method
  ro_params :: "(string \<times> param) list"
  ro_headers :: "(jstring \<times> jstring) list"
  ro_data :: payload
  ro_with_credentials :: "bool option"
  ro_timeout :: "nat option"
  ro_blob :: bool
  ro_request_type :: bool
  ro_on_headers :: bool

text \<open>The configuration the library receives, after the defaults of \<^verbatim>\<open>axios.create\<close>.\<close>

record axios_config =
  ac_url :: jstring
  ac_method :: http_method
  ac_params :: "(string \<times> param) list"
  ac_headers :: "(jstring \<times> jstring) list"
  ac_data :: payload
  ac_with_credentials :: bool
  ac_timeout :: "nat option"
  ac_blob :: bool

definition request :: "jstring \<Rightarrow> request_options \<Rightarrow> axios_config" where
  "request url options =
     \<lparr>ac_url = url,
      ac_method = ro_method options,
      ac_params = ro_params options,
      ac_headers = (js ''Accept'', js ''application/json'') # ro_headers options,
      ac_data = ro_data options,
      ac_with_credentials = (case ro_with_credentials options of None \<Rightarrow> True | Some b \<Rightarrow> b),
      ac_timeout = ro_timeout options,
      ac_blob = ro_blob options\<rparr>"

text \<open>
  What a resolved request gives its caller: the body of the response, and the headers for the
  callback when there is one.
\<close>

definition request_result ::
  "request_options \<Rightarrow> 'body \<Rightarrow> (jstring \<times> jstring) list \<Rightarrow> 'body \<times> (jstring \<times> jstring) list option"
where
  "request_result options body headers =
     (body, if ro_on_headers options then Some headers else None)"

text \<open>The options of a call with a method only, and of one with a JSON body.\<close>

definition plain :: "http_method \<Rightarrow> (string \<times> param) list \<Rightarrow> request_options" where
  "plain m ps =
     \<lparr>ro_method = m, ro_params = ps, ro_headers = [], ro_data = No_body,
      ro_with_credentials = None, ro_timeout = None, ro_blob = False,
      ro_request_type = False, ro_on_headers = False\<rparr>"

definition json :: "http_method \<Rightarrow> payload \<Rightarrow> request_options" where
  "json m b = (plain m [])
     \<lparr>ro_headers := [(js ''Content-Type'', js ''application/json'')], ro_data := b\<rparr>"

subsection \<open>api/wardrobe.ts\<close>

definition listWardrobeItems ::
  "int option \<Rightarrow> jstring option \<Rightarrow> axios_config" where
  "listWardrobeItems limit after_id =
     request (js ''/wardrobe/items'')
       (plain GET (spread [(''limit'', P_string (js ''50'')), (''lifecycle'', P_string (js ''active''))]
          [(''limit'', opt_number limit), (''after_id'', opt_string after_id)]))"

definition createWardrobeItem :: "create_item \<Rightarrow> axios_config" where
  "createWardrobeItem body = request (js ''/wardrobe/items'') (json POST (B_create_item body))"

definition getWardrobeItem :: "jstring \<Rightarrow> axios_config" where
  "getWardrobeItem item_id = request (js ''/wardrobe/items/'' @ item_id) (plain GET [])"

definition updateWardrobeItem :: "jstring \<Rightarrow> update_item \<Rightarrow> axios_config" where
  "updateWardrobeItem item_id body =
     request (js ''/wardrobe/items/'' @ item_id) (json PUT (B_update_item body))"

definition policy_string :: "history_policy \<Rightarrow> jstring" where
  "policy_string p =
     (case p of Redact_snapshots \<Rightarrow> js ''redact_snapshots''
      | Delete_affected_history \<Rightarrow> js ''delete_affected_history'')"

definition deleteWardrobeItem ::
  "jstring \<Rightarrow> int \<Rightarrow> jstring \<Rightarrow> history_policy \<Rightarrow> axios_config" where
  "deleteWardrobeItem item_id expected_revision expected_impact policy =
     request (js ''/wardrobe/items/'' @ item_id)
       (plain DELETE [(''expected_revision'', P_number expected_revision),
          (''expected_impact'', P_string expected_impact),
          (''history_policy'', P_string (policy_string policy))])"

definition getWardrobeDeletionImpact :: "jstring \<Rightarrow> axios_config" where
  "getWardrobeDeletionImpact item_id =
     request (js ''/wardrobe/items/'' @ item_id @ js ''/deletion-impact'') (plain GET [])"

definition recommendWardrobeOutfits :: "recommendation_request \<Rightarrow> axios_config" where
  "recommendWardrobeOutfits body =
     request (js ''/wardrobe/recommendations'') (json POST (B_recommendation body))"

subsection \<open>api/outfitPlans.ts\<close>

definition listOutfitPlans :: "int option \<Rightarrow> jstring option \<Rightarrow> axios_config" where
  "listOutfitPlans limit after_id =
     request (js ''/outfit-plans'')
       (plain GET (spread [(''limit'', P_string (js ''20''))]
          [(''limit'', opt_number limit), (''after_id'', opt_string after_id)]))"

definition createOutfitPlan :: "create_plan \<Rightarrow> axios_config" where
  "createOutfitPlan body = request (js ''/outfit-plans'') (json POST (B_create_plan body))"

definition getOutfitPlan :: "jstring \<Rightarrow> axios_config" where
  "getOutfitPlan plan_id = request (js ''/outfit-plans/'' @ plan_id) (plain GET [])"

definition updateOutfitPlan :: "jstring \<Rightarrow> update_plan \<Rightarrow> axios_config" where
  "updateOutfitPlan plan_id body =
     request (js ''/outfit-plans/'' @ plan_id) (json PUT (B_update_plan body))"

definition deleteOutfitPlan :: "jstring \<Rightarrow> int \<Rightarrow> axios_config" where
  "deleteOutfitPlan plan_id expected_revision =
     request (js ''/outfit-plans/'' @ plan_id)
       (plain DELETE [(''expected_revision'', P_number expected_revision)])"

definition cancelOutfitPlan :: "jstring \<Rightarrow> int \<Rightarrow> axios_config" where
  "cancelOutfitPlan plan_id expected_revision =
     request (js ''/outfit-plans/'' @ plan_id @ js ''/cancel'')
       (json POST (B_expected_revision expected_revision))"

definition markOutfitPlanNotWorn :: "jstring \<Rightarrow> int \<Rightarrow> axios_config" where
  "markOutfitPlanNotWorn plan_id expected_revision =
     request (js ''/outfit-plans/'' @ plan_id @ js ''/not-worn'')
       (json POST (B_expected_revision expected_revision))"

definition restoreOutfitPlan :: "jstring \<Rightarrow> int \<Rightarrow> axios_config" where
  "restoreOutfitPlan plan_id expected_revision =
     request (js ''/outfit-plans/'' @ plan_id @ js ''/restore'')
       (json POST (B_expected_revision expected_revision))"

subsection \<open>api/wearEvents.ts and api/wearFeedback.ts\<close>

definition listWearEvents :: "int option \<Rightarrow> jstring option \<Rightarrow> axios_config" where
  "listWearEvents limit after_id =
     request (js ''/wear-events'')
       (plain GET (spread [(''limit'', P_string (js ''20''))]
          [(''limit'', opt_number limit), (''after_id'', opt_string after_id)]))"

definition createWearEvent :: "create_wear \<Rightarrow> axios_config" where
  "createWearEvent body = request (js ''/wear-events'') (json POST (B_create_wear body))"

definition getWearEvent :: "jstring \<Rightarrow> axios_config" where
  "getWearEvent wear_event_id = request (js ''/wear-events/'' @ wear_event_id) (plain GET [])"

definition updateWearEvent :: "jstring \<Rightarrow> update_wear \<Rightarrow> axios_config" where
  "updateWearEvent wear_event_id body =
     request (js ''/wear-events/'' @ wear_event_id) (json PUT (B_update_wear body))"

definition deleteWearEvent :: "jstring \<Rightarrow> int \<Rightarrow> axios_config" where
  "deleteWearEvent wear_event_id expected_revision =
     request (js ''/wear-events/'' @ wear_event_id)
       (plain DELETE [(''expected_revision'', P_number expected_revision)])"

definition getWearStatistics :: "jstring \<Rightarrow> jstring \<Rightarrow> axios_config" where
  "getWearStatistics from_date to_date =
     request (js ''/statistics/wear'')
       (plain GET [(''from'', P_string from_date), (''to'', P_string to_date)])"

subsection \<open>api/account.ts and api/authentication.ts\<close>

definition getCurrentUser :: axios_config where
  "getCurrentUser = request (js ''/users/me'') (plain GET [])"

definition deleteCurrentUser :: axios_config where
  "deleteCurrentUser = request (js ''/users/me'') (plain DELETE [])"

definition updateCurrentUser :: "update_user_request \<Rightarrow> axios_config" where
  "updateCurrentUser body = request (js ''/users/me'') (json PATCH (B_update_user body))"

definition registerAccount :: "register_request \<Rightarrow> axios_config" where
  "registerAccount body = request (js ''/auth/registrations'') (json POST (B_register body))"

definition deleteSession :: axios_config where
  "deleteSession = request (js ''/auth/session'') (plain DELETE [])"

definition createSession :: "session_request \<Rightarrow> axios_config" where
  "createSession body = request (js ''/auth/sessions'') (json POST (B_session body))"

subsection \<open>api/privateMedia.ts\<close>

definition getMedia :: "jstring \<Rightarrow> axios_config" where
  "getMedia media_id = request (js ''/media/'' @ media_id) (plain GET [])"

definition completeMediaUpload :: "jstring \<Rightarrow> jstring \<Rightarrow> axios_config" where
  "completeMediaUpload media_id version_id =
     request (js ''/media/'' @ media_id @ js ''/complete'') (json POST (B_version version_id))"

text \<open>The two reads take the options of the hook: a blob response, and the headers reported.\<close>

definition blob_options :: request_options where
  "blob_options = (plain GET [])\<lparr>ro_blob := True, ro_on_headers := True\<rparr>"

definition getWardrobeImage :: "jstring \<Rightarrow> axios_config" where
  "getWardrobeImage media_id =
     request (js ''/media/'' @ media_id @ js ''/wardrobe-image'') blob_options"

definition getWardrobeOriginal :: "jstring \<Rightarrow> axios_config" where
  "getWardrobeOriginal media_id =
     request (js ''/media/'' @ media_id @ js ''/wardrobe-original'') blob_options"

definition createMediaUpload :: "upload_request \<Rightarrow> axios_config" where
  "createMediaUpload body = request (js ''/media/uploads'') (json POST (B_upload body))"

subsection \<open>Calls\<close>

datatype api_call =
    ListWardrobeItems "int option" "jstring option"
  | CreateWardrobeItem create_item
  | GetWardrobeItem jstring
  | UpdateWardrobeItem jstring update_item
  | DeleteWardrobeItem jstring int jstring history_policy
  | GetWardrobeDeletionImpact jstring
  | RecommendWardrobeOutfits recommendation_request
  | ListOutfitPlans "int option" "jstring option"
  | CreateOutfitPlan create_plan
  | GetOutfitPlan jstring
  | UpdateOutfitPlan jstring update_plan
  | DeleteOutfitPlan jstring int
  | CancelOutfitPlan jstring int
  | MarkOutfitPlanNotWorn jstring int
  | RestoreOutfitPlan jstring int
  | ListWearEvents "int option" "jstring option"
  | CreateWearEvent create_wear
  | GetWearEvent jstring
  | UpdateWearEvent jstring update_wear
  | DeleteWearEvent jstring int
  | GetWearStatistics jstring jstring
  | GetCurrentUser
  | DeleteCurrentUser
  | UpdateCurrentUser update_user_request
  | RegisterAccount register_request
  | DeleteSession
  | CreateSession session_request
  | GetMedia jstring
  | CompleteMediaUpload jstring jstring
  | GetWardrobeImage jstring
  | GetWardrobeOriginal jstring
  | CreateMediaUpload upload_request

primrec http_of :: "api_call \<Rightarrow> axios_config" where
  "http_of (ListWardrobeItems l a) = listWardrobeItems l a"
| "http_of (CreateWardrobeItem b) = createWardrobeItem b"
| "http_of (GetWardrobeItem i) = getWardrobeItem i"
| "http_of (UpdateWardrobeItem i b) = updateWardrobeItem i b"
| "http_of (DeleteWardrobeItem i r m p) = deleteWardrobeItem i r m p"
| "http_of (GetWardrobeDeletionImpact i) = getWardrobeDeletionImpact i"
| "http_of (RecommendWardrobeOutfits b) = recommendWardrobeOutfits b"
| "http_of (ListOutfitPlans l a) = listOutfitPlans l a"
| "http_of (CreateOutfitPlan b) = createOutfitPlan b"
| "http_of (GetOutfitPlan i) = getOutfitPlan i"
| "http_of (UpdateOutfitPlan i b) = updateOutfitPlan i b"
| "http_of (DeleteOutfitPlan i r) = deleteOutfitPlan i r"
| "http_of (CancelOutfitPlan i r) = cancelOutfitPlan i r"
| "http_of (MarkOutfitPlanNotWorn i r) = markOutfitPlanNotWorn i r"
| "http_of (RestoreOutfitPlan i r) = restoreOutfitPlan i r"
| "http_of (ListWearEvents l a) = listWearEvents l a"
| "http_of (CreateWearEvent b) = createWearEvent b"
| "http_of (GetWearEvent i) = getWearEvent i"
| "http_of (UpdateWearEvent i b) = updateWearEvent i b"
| "http_of (DeleteWearEvent i r) = deleteWearEvent i r"
| "http_of (GetWearStatistics f t) = getWearStatistics f t"
| "http_of GetCurrentUser = getCurrentUser"
| "http_of DeleteCurrentUser = deleteCurrentUser"
| "http_of (UpdateCurrentUser b) = updateCurrentUser b"
| "http_of (RegisterAccount b) = registerAccount b"
| "http_of DeleteSession = deleteSession"
| "http_of (CreateSession b) = createSession b"
| "http_of (GetMedia i) = getMedia i"
| "http_of (CompleteMediaUpload i v) = completeMediaUpload i v"
| "http_of (GetWardrobeImage i) = getWardrobeImage i"
| "http_of (GetWardrobeOriginal i) = getWardrobeOriginal i"
| "http_of (CreateMediaUpload b) = createMediaUpload b"

lemmas api_function_defs =
  listWardrobeItems_def createWardrobeItem_def getWardrobeItem_def updateWardrobeItem_def
  deleteWardrobeItem_def getWardrobeDeletionImpact_def recommendWardrobeOutfits_def
  listOutfitPlans_def createOutfitPlan_def getOutfitPlan_def updateOutfitPlan_def
  deleteOutfitPlan_def cancelOutfitPlan_def markOutfitPlanNotWorn_def restoreOutfitPlan_def
  listWearEvents_def createWearEvent_def getWearEvent_def updateWearEvent_def
  deleteWearEvent_def getWearStatistics_def getCurrentUser_def deleteCurrentUser_def
  updateCurrentUser_def registerAccount_def deleteSession_def createSession_def getMedia_def
  completeMediaUpload_def getWardrobeImage_def getWardrobeOriginal_def createMediaUpload_def
  request_def plain_def json_def blob_options_def

subsection \<open>Routing\<close>

text \<open>
  The rewrite of \<^verbatim>\<open>next.config.ts\<close> sends \<^verbatim>\<open>/:api(roots)/:path*\<close> to the backend: a URL whose
  first segment is one of the roots.
\<close>

definition apiRoots :: "string list" where
  "apiRoots = [''auth'', ''users'', ''privacy'', ''wardrobe'', ''outfit-plans'', ''wear-events'',
     ''consents'', ''media'', ''deletion-requests'', ''health'', ''statistics'']"

definition slash :: code_unit where
  "slash = 0x2F"

definition proxied :: "jstring \<Rightarrow> bool" where
  "proxied url \<longleftrightarrow>
     (case url of [] \<Rightarrow> False
      | u # us \<Rightarrow> u = slash \<and> takeWhile (\<lambda>v. v \<noteq> slash) us \<in> js ` set apiRoots)"

lemma slash_lit: "slash = 0x2F" by (rule slash_def)

lemma http_of_proxied: "proxied (ac_url (http_of c))"
  by (cases c) (simp_all add: api_function_defs proxied_def slash_def apiRoots_def)

lemma http_of_credentials: "ac_with_credentials (http_of c)"
  by (cases c) (simp_all add: api_function_defs)

end
