(* ===== verification/Calendar_Dates.thy ===== *)
theory Calendar_Dates
  imports Js_Values
begin

text \<open>
  Local dates as the form libraries handle them: ten characters \<^verbatim>\<open>YYYY-MM-DD\<close>, checked with a
  regular expression and with the \<^verbatim>\<open>Date\<close> constructor, and compared as strings. The clock, the
  device time zone and the formatter of \<^verbatim>\<open>Intl\<close> are the record \<^verbatim>\<open>env\<close>, an argument of every
  definition that reads them; its laws (\<^verbatim>\<open>env_ok\<close>) are the documented format of the formatter
  in a time zone it knows. For a zone it does not know it throws a \<^verbatim>\<open>RangeError\<close>.
\<close>

subsection \<open>Digits\<close>

definition is_digit :: "code_unit \<Rightarrow> bool" where
  "is_digit u \<longleftrightarrow> 0x30 \<le> u \<and> u \<le> 0x39"

definition digit_value :: "code_unit \<Rightarrow> nat" where
  "digit_value u = unat u - 0x30"

text \<open>\<^verbatim>\<open>Number(s)\<close> for a string of decimal digits.\<close>

fun digits_value :: "nat \<Rightarrow> jstring \<Rightarrow> nat" where
  "digits_value acc [] = acc"
| "digits_value acc (u # us) = digits_value (10 * acc + digit_value u) us"

definition js_number :: "jstring \<Rightarrow> nat" where
  "js_number s = digits_value 0 s"

lemma is_digit_unat: "is_digit u \<longleftrightarrow> 0x30 \<le> unat u \<and> unat u \<le> 0x39"
  by (simp add: is_digit_def word_le_nat_alt)

lemma digit_value_less: "is_digit u \<Longrightarrow> digit_value u < 10"
  unfolding is_digit_unat digit_value_def by arith

lemma digit_value_inj: "is_digit u \<Longrightarrow> is_digit v \<Longrightarrow> digit_value u = digit_value v \<Longrightarrow> u = v"
  unfolding is_digit_unat digit_value_def word_unat_eq_iff by arith

lemma digit_value_mono:
  "is_digit u \<Longrightarrow> is_digit v \<Longrightarrow> u < v \<longleftrightarrow> digit_value u < digit_value v"
  by (auto simp: is_digit_unat digit_value_def word_less_nat_alt)

lemma digits_value_acc: "digits_value acc us = acc * 10 ^ length us + digits_value 0 us"
proof (induction us arbitrary: acc)
  case (Cons u us)
  show ?case
    using Cons.IH [of "10 * acc + digit_value u"] Cons.IH [of "digit_value u"]
    by (simp add: algebra_simps)
qed simp

lemma digits_value_bound: "list_all is_digit us \<Longrightarrow> digits_value 0 us < 10 ^ length us"
proof (induction us)
  case (Cons u us)
  then have "digits_value 0 us < 10 ^ length us" and "digit_value u < 10"
    by (simp_all add: digit_value_less)
  have "Suc (digit_value u) * 10 ^ length us \<le> 10 * 10 ^ length us"
    using \<open>digit_value u < 10\<close> by (intro mult_le_mono1) simp
  then have "digit_value u * 10 ^ length us + digits_value 0 us < 10 * 10 ^ length us"
    using \<open>digits_value 0 us < 10 ^ length us\<close> unfolding mult_Suc by linarith
  then show ?case
    using digits_value_acc [of "digit_value u" us] by simp
qed simp

text \<open>On digit strings of one length, the order of strings is the order of numbers.\<close>

lemma digits_less_iff:
  "length us = length vs \<Longrightarrow> list_all is_digit us \<Longrightarrow> list_all is_digit vs \<Longrightarrow>
   us < vs \<longleftrightarrow> digits_value 0 us < digits_value 0 vs"
proof (induction us vs rule: list_induct2)
  case (Cons u us v vs)
  have b: "digits_value 0 us < 10 ^ length vs" "digits_value 0 vs < 10 ^ length vs"
    using Cons digits_value_bound [of us] digits_value_bound [of vs] by auto
  have eq: "digits_value 0 (u # us) = digit_value u * 10 ^ length vs + digits_value 0 us"
    "digits_value 0 (v # vs) = digit_value v * 10 ^ length vs + digits_value 0 vs"
    using digits_value_acc [of "digit_value u" us] digits_value_acc [of "digit_value v" vs]
      Cons.hyps by simp_all
  have less: "a * 10 ^ n + x < b * 10 ^ n + y" if "a < b" "x < 10 ^ n" for a b x y n :: nat
  proof -
    have "a * 10 ^ n + x < Suc a * 10 ^ n" using that by simp
    also have "\<dots> \<le> b * 10 ^ n" using that by (intro mult_le_mono1) simp
    finally show ?thesis by simp
  qed
  consider "digit_value u < digit_value v" | "digit_value v < digit_value u"
    | "digit_value u = digit_value v" by linarith
  then show ?case
  proof cases
    case 1
    then have "u < v" using Cons digit_value_mono by simp
    then show ?thesis unfolding eq using less [OF 1 b(1)] by simp
  next
    case 2
    then have "v < u" using Cons digit_value_mono by simp
    then show ?thesis unfolding eq using less [OF 2 b(2), of "digits_value 0 us"] by auto
  next
    case 3
    then have "u = v" using Cons digit_value_inj by simp
    then show ?thesis unfolding eq using Cons by simp
  qed
qed simp

subsection \<open>Calendar dates\<close>

text \<open>A year, a month and a day, in chronological order.\<close>

datatype date = Date (year_of: nat) (month_of: nat) (day_of: nat)

instantiation date :: linorder
begin

definition less_date :: "date \<Rightarrow> date \<Rightarrow> bool" where
  "a < b \<longleftrightarrow> year_of a < year_of b
     \<or> (year_of a = year_of b \<and> (month_of a < month_of b
        \<or> (month_of a = month_of b \<and> day_of a < day_of b)))"

definition less_eq_date :: "date \<Rightarrow> date \<Rightarrow> bool" where
  "a \<le> b \<longleftrightarrow> a = b \<or> a < (b :: date)"

instance
proof
  fix a b c :: date
  show "a < b \<longleftrightarrow> a \<le> b \<and> \<not> b \<le> a" by (auto simp: less_eq_date_def less_date_def)
  show "a \<le> a" by (simp add: less_eq_date_def)
  show "a \<le> b \<Longrightarrow> b \<le> c \<Longrightarrow> a \<le> c" by (auto simp: less_eq_date_def less_date_def)
  show "a \<le> b \<Longrightarrow> b \<le> a \<Longrightarrow> a = b" by (auto simp: less_eq_date_def less_date_def)
  show "a \<le> b \<or> b \<le> a"
    by (auto simp: less_eq_date_def less_date_def not_less intro: date.expand)
qed

end

lemma Date_less [simp]:
  "Date y m d < Date y' m' d' \<longleftrightarrow> y < y' \<or> (y = y' \<and> (m < m' \<or> (m = m' \<and> d < d')))"
  by (simp add: less_date_def)

definition leap_year :: "nat \<Rightarrow> bool" where
  "leap_year y \<longleftrightarrow> (y mod 4 = 0 \<and> y mod 100 \<noteq> 0) \<or> y mod 400 = 0"

definition days_in_month :: "nat \<Rightarrow> nat \<Rightarrow> nat" where
  "days_in_month y m =
     (if m = 2 then (if leap_year y then 29 else 28)
      else if m = 4 \<or> m = 6 \<or> m = 9 \<or> m = 11 then 30 else 31)"

fun calendar_date :: "date \<Rightarrow> bool" where
  "calendar_date (Date y m d) = (1 \<le> m \<and> m \<le> 12 \<and> 1 \<le> d \<and> d \<le> days_in_month y m)"

text \<open>
  The regular expression \<^verbatim>\<open>^\d{4}-\d{2}-\d{2}$\<close>: ten code units, the fifth and the eighth a
  hyphen, the others digits.
\<close>

definition iso_shape :: "jstring \<Rightarrow> bool" where
  "iso_shape s \<longleftrightarrow>
     length s = 10 \<and> s ! 4 = 0x2D \<and> s ! 7 = 0x2D \<and>
     list_all is_digit (js_slice 0 4 s) \<and> list_all is_digit (js_slice 5 7 s) \<and>
     list_all is_digit (js_slice 8 10 s)"

definition iso_fields :: "jstring \<Rightarrow> date" where
  "iso_fields s = Date (js_number (js_slice 0 4 s)) (js_number (js_slice 5 7 s)) (js_number (js_slice 8 10 s))"

text \<open>
  \<^verbatim>\<open>new Date(`${s}T00:00:00`)\<close> read back with \<^verbatim>\<open>getFullYear\<close>, \<^verbatim>\<open>getMonth() + 1\<close> and
  \<^verbatim>\<open>getDate\<close>; \<^verbatim>\<open>None\<close> is the invalid date. The engines accept a day up to 31 in every month
  and carry the excess into the next one. Only strings of the shape above are read: for any
  other string the caller's test has already failed. The local zone is taken to have a
  local midnight, or a later first instant, on the date itself.
\<close>

definition js_local_date :: "jstring \<Rightarrow> date option" where
  "js_local_date s =
     (case iso_fields s of Date y m d \<Rightarrow>
       if 1 \<le> m \<and> m \<le> 12 \<and> 1 \<le> d \<and> d \<le> 31 then
         (if d \<le> days_in_month y m then Some (Date y m d)
          else Some (Date y (m + 1) (d - days_in_month y m)))
       else None)"

text \<open>The five tests that both form validators make on \<^verbatim>\<open>form.localDate\<close>, negated.\<close>

definition local_date_ok :: "jstring \<Rightarrow> bool" where
  "local_date_ok s \<longleftrightarrow>
     iso_shape s \<and>
     (case js_local_date s of
        None \<Rightarrow> False
      | Some (Date y m d) \<Rightarrow>
          y = js_number (js_slice 0 4 s) \<and> m = js_number (js_slice 5 7 s) \<and>
          d = js_number (js_slice 8 10 s))"

lemma local_date_ok_iff: "local_date_ok s \<longleftrightarrow> iso_shape s \<and> calendar_date (iso_fields s)"
proof -
  have dim: "days_in_month y m \<le> 31" for y m
    by (simp add: days_in_month_def)
  then show ?thesis
    by (auto simp: local_date_ok_def js_local_date_def iso_fields_def
        intro: le_trans [OF _ dim])
qed

subsection \<open>Order\<close>

lemma list_less_append:
  fixes a b c d :: "'a::linorder list"
  assumes "length a = length b"
  shows "a @ c < b @ d \<longleftrightarrow> a < b \<or> (a = b \<and> c < d)"
  using assms by (induction a b rule: list_induct2) auto

lemma iso_shape_split:
  assumes "iso_shape s"
  shows "s = js_slice 0 4 s @ [0x2D] @ js_slice 5 7 s @ [0x2D] @ js_slice 8 10 s"
proof -
  have len: "length s = 10" and h4: "s ! 4 = 0x2D" and h7: "s ! 7 = 0x2D"
    using assms by (simp_all add: iso_shape_def)
  have "s = take 4 s @ s ! 4 # take 2 (drop 5 s) @ s ! 7 # drop 8 s"
    using len by (intro nth_equalityI) (auto simp: nth_append nth_Cons' nth_drop less_Suc_eq_0_disj numeral_eq_Suc)
  then show ?thesis using len h4 h7 by (simp add: js_slice_def)
qed

theorem iso_order:
  assumes "iso_shape s" and "iso_shape t"
  shows "s < t \<longleftrightarrow> iso_fields s < iso_fields t"
proof -
  have lens: "length (js_slice 0 4 s) = length (js_slice 0 4 t)"
    "length (js_slice 5 7 s) = length (js_slice 5 7 t)"
    "length (js_slice 8 10 s) = length (js_slice 8 10 t)"
    using assms by (simp_all add: iso_shape_def js_slice_def)
  have digs: "us < vs \<longleftrightarrow> js_number us < js_number vs" "us = vs \<longleftrightarrow> js_number us = js_number vs"
    if "length us = length vs" "list_all is_digit us" "list_all is_digit vs" for us vs
  proof -
    show 1: "us < vs \<longleftrightarrow> js_number us < js_number vs"
      using that digits_less_iff by (simp add: js_number_def)
    show "us = vs \<longleftrightarrow> js_number us = js_number vs"
      using 1 that digits_less_iff [of vs us] by (metis js_number_def less_irrefl linorder_less_linear)
  qed
  have "s < t \<longleftrightarrow> js_slice 0 4 s @ [0x2D] @ js_slice 5 7 s @ [0x2D] @ js_slice 8 10 s
      < js_slice 0 4 t @ [0x2D] @ js_slice 5 7 t @ [0x2D] @ js_slice 8 10 t"
    using iso_shape_split [OF assms(1)] iso_shape_split [OF assms(2)] by metis
  also have "\<dots> \<longleftrightarrow> iso_fields s < iso_fields t"
    using assms lens digs by (simp add: list_less_append iso_shape_def iso_fields_def)
  finally show ?thesis .
qed

subsection \<open>The environment: clock, time zone and fresh identifiers\<close>

text \<open>
  What the code asks the platform for: \<^verbatim>\<open>Intl.DateTimeFormat().resolvedOptions().timeZone\<close>,
  the time zones that \<^verbatim>\<open>new Intl.DateTimeFormat\<close> accepts beside that one, the parts that the
  formatter of \<^verbatim>\<open>todayInTimeZone\<close> gives for the current instant in a time zone,
  \<^verbatim>\<open>crypto.randomUUID()\<close>, and what the successive calls of \<^verbatim>\<open>URL.createObjectURL\<close> in
  one handler give.
\<close>

record env =
  env_time_zone :: jstring
  env_knows :: "jstring \<Rightarrow> bool"
  env_parts :: "jstring \<Rightarrow> (jstring \<times> jstring) list"
  env_uuid :: jstring
  env_object_url :: "nat \<Rightarrow> jstring"

text \<open>A template literal shows an undefined value as \<^verbatim>\<open>undefined\<close>.\<close>

definition js_template :: "jstring option \<Rightarrow> jstring" where
  "js_template v = (case v of None \<Rightarrow> js ''undefined'' | Some s \<Rightarrow> s)"

definition formatted_date :: "env \<Rightarrow> jstring \<Rightarrow> jstring" where
  "formatted_date e timeZone =
     (let value = js_map (env_parts e timeZone);
          year = value (js ''year'');
          month = value (js ''month'');
          day = value (js ''day'')
      in js_template year @ js ''-'' @ js_template month @ js ''-'' @ js_template day)"

text \<open>\<^verbatim>\<open>resolvedOptions().timeZone || 'UTC'\<close>\<close>

definition device_time_zone :: "env \<Rightarrow> jstring" where
  "device_time_zone e = (if env_time_zone e = [] then js ''UTC'' else env_time_zone e)"

lemma device_time_zone_nonempty [simp]: "device_time_zone e \<noteq> []"
  by (simp add: device_time_zone_def)

text \<open>
  The zones the constructor of the formatter accepts: the zone the platform reports as its own
  (or \<^verbatim>\<open>UTC\<close>, which every platform has) and those of its database. Any other makes it throw.
\<close>

definition zone_known :: "env \<Rightarrow> jstring \<Rightarrow> bool" where
  "zone_known e tz \<longleftrightarrow> tz = device_time_zone e \<or> env_knows e tz"

definition todayInTimeZone :: "env \<Rightarrow> jstring \<Rightarrow> jsval + jstring" where
  "todayInTimeZone e timeZone =
     (if zone_known e timeZone then Inr (formatted_date e timeZone) else Inl (range_error timeZone))"

text \<open>\<^verbatim>\<open>todayInTimeZone(timeZone)\<close> for the zone of the device, which never throws.\<close>

definition device_today :: "env \<Rightarrow> jstring" where
  "device_today e = formatted_date e (device_time_zone e)"

lemma device_zone_known [simp]: "zone_known e (device_time_zone e)"
  by (simp add: zone_known_def)

lemma today_of_device: "todayInTimeZone e (device_time_zone e) = Inr (device_today e)"
  by (simp add: todayInTimeZone_def device_today_def)

text \<open>
  The documented output of the formatter for a zone it knows (\<^verbatim>\<open>year: 'numeric'\<close>, \<^verbatim>\<open>month\<close> and \<^verbatim>\<open>day\<close>
  \<^verbatim>\<open>'2-digit'\<close>, between the years 1000 and 9999): one part of each type, of four, two and two
  digits, a calendar date.
\<close>

definition env_ok :: "env \<Rightarrow> bool" where
  "env_ok e \<longleftrightarrow> (\<forall>tz. zone_known e tz \<longrightarrow> (\<exists>y m d.
     js_map (env_parts e tz) (js ''year'') = Some y \<and> length y = 4 \<and> list_all is_digit y \<and>
     js_map (env_parts e tz) (js ''month'') = Some m \<and> length m = 2 \<and> list_all is_digit m \<and>
     js_map (env_parts e tz) (js ''day'') = Some d \<and> length d = 2 \<and> list_all is_digit d \<and>
     calendar_date (Date (js_number y) (js_number m) (js_number d))))"

lemma iso_shape_build:
  assumes "length y = 4" "list_all is_digit y" "length m = 2" "list_all is_digit m"
    "length d = 2" "list_all is_digit d"
  shows "iso_shape (y @ [0x2D] @ m @ [0x2D] @ d)"
    and "iso_fields (y @ [0x2D] @ m @ [0x2D] @ d) = Date (js_number y) (js_number m) (js_number d)"
  using assms by (simp_all add: iso_shape_def iso_fields_def js_slice_def nth_append)

lemma today_ok:
  assumes "env_ok e" and "zone_known e tz"
  shows "local_date_ok (formatted_date e tz)"
proof -
  obtain y m d where
    "js_map (env_parts e tz) (js ''year'') = Some y" "length y = 4" "list_all is_digit y"
    "js_map (env_parts e tz) (js ''month'') = Some m" "length m = 2" "list_all is_digit m"
    "js_map (env_parts e tz) (js ''day'') = Some d" "length d = 2" "list_all is_digit d"
    "calendar_date (Date (js_number y) (js_number m) (js_number d))"
    using assms unfolding env_ok_def by metis
  moreover from this have "formatted_date e tz = y @ [0x2D] @ m @ [0x2D] @ d"
    by (simp add: formatted_date_def js_template_def)
  ultimately show ?thesis
    using iso_shape_build [of y m d] by (simp add: local_date_ok_iff)
qed

end
