(* ===== verification/Image_Processing.thy ===== *)
theory Image_Processing
  imports Complex_Main Js_Values
begin

text \<open>
  The local image processing of the wardrobe, \<^verbatim>\<open>lib/wardrobe/image-processing.ts\<close>: the
  arithmetic of cropping, of the input and the mask of the segmentation model, and the loops
  that find the visible part of the result. The numbers are rationals; the code computes the
  same expressions in double precision, whose results differ from them by rounding only.

  Decoding, drawing, encoding and the model itself are the platform's: \<^verbatim>\<open>bg_world\<close> and
  \<^verbatim>\<open>crop_world\<close> hold what they answer in one run, in the order the code asks.
\<close>

definition js_round :: "rat \<Rightarrow> int" where
  "js_round x = \<lfloor>x + 1 / 2\<rfloor>"

lemma js_round_le: "x \<le> of_int n \<Longrightarrow> js_round x \<le> n"
  unfolding js_round_def by linarith

lemma js_round_ge: "of_int n \<le> x \<Longrightarrow> n \<le> js_round x"
  unfolding js_round_def by linarith

lemma js_round_of_int [simp]: "js_round (of_int n) = n"
  unfolding js_round_def by linarith

lemma js_round_mono: "x \<le> y \<Longrightarrow> js_round x \<le> js_round y"
  unfolding js_round_def by (simp add: floor_mono)

subsection \<open>Cropping\<close>

text \<open>Insets in per cent; \<^verbatim>\<open>None\<close> is a value that is not finite.\<close>

record crop_insets =
  ins_top :: "rat option"
  ins_right :: "rat option"
  ins_bottom :: "rat option"
  ins_left :: "rat option"

definition emptyCrop :: crop_insets where
  "emptyCrop = \<lparr>ins_top = Some 0, ins_right = Some 0, ins_bottom = Some 0, ins_left = Some 0\<rparr>"

record box =
  bx_x :: int
  bx_y :: int
  bx_width :: int
  bx_height :: int

definition inset_bad :: "rat option \<Rightarrow> bool" where
  "inset_bad v = (case v of None \<Rightarrow> True | Some r \<Rightarrow> r < 0 \<or> 45 < r)"

text \<open>One axis of \<^verbatim>\<open>cropBounds\<close>: the offset and the extent.\<close>

definition crop_offset :: "int \<Rightarrow> rat \<Rightarrow> int" where
  "crop_offset extent before = \<lfloor>of_int extent * before / 100\<rfloor>"

definition crop_extent :: "int \<Rightarrow> rat \<Rightarrow> rat \<Rightarrow> int" where
  "crop_extent extent before after = max 1 (js_round (of_int extent * (100 - before - after) / 100))"

definition cropBounds :: "int \<Rightarrow> int \<Rightarrow> crop_insets \<Rightarrow> photo_text + box" where
  "cropBounds width height crop =
     (if list_ex inset_bad [ins_top crop, ins_right crop, ins_bottom crop, ins_left crop]
         \<or> the (ins_left crop) + the (ins_right crop) \<ge> 100
         \<or> the (ins_top crop) + the (ins_bottom crop) \<ge> 100
      then Inl Crop_invalid
      else Inr
        \<lparr>bx_x = crop_offset width (the (ins_left crop)),
         bx_y = crop_offset height (the (ins_top crop)),
         bx_width = crop_extent width (the (ins_left crop)) (the (ins_right crop)),
         bx_height = crop_extent height (the (ins_top crop)) (the (ins_bottom crop))\<rparr>)"

lemma crop_axis:
  assumes "1 \<le> n" and "0 \<le> a" "a \<le> 45" and "0 \<le> b" "b \<le> 45"
  shows "0 \<le> crop_offset n a \<and> 1 \<le> crop_extent n a b \<and> crop_offset n a + crop_extent n a b \<le> n"
proof -
  define p where "p = of_int n * a / 100"
  define q where "q = of_int n * (100 - a - b) / 100"
  have n: "(1 :: rat) \<le> of_int n" using assms(1) by simp
  have "0 \<le> p" unfolding p_def using n assms(2) by simp
  have "of_int n * a \<le> of_int n * 45" using n assms(3) by (intro mult_left_mono) simp_all
  then have "p \<le> of_int n * 45 / 100" unfolding p_def by (intro divide_right_mono) simp_all
  then have "p < of_int n" using n by linarith
  then have off: "\<lfloor>p\<rfloor> + 1 \<le> n" by linarith
  have "p + q = of_int n * (100 - b) / 100"
    unfolding p_def q_def by (simp add: field_simps)
  also have "\<dots> \<le> of_int n"
    using n assms(4) mult_left_mono [of "100 - b" 100 "of_int n"] by (simp add: field_simps)
  finally have "\<lfloor>p\<rfloor> + \<lfloor>q + 1 / 2\<rfloor> \<le> n" by linarith
  moreover have "0 \<le> \<lfloor>p\<rfloor>" using \<open>0 \<le> p\<close> by simp
  ultimately show ?thesis
    using off by (simp add: crop_offset_def crop_extent_def js_round_def p_def q_def max_def)
qed

lemma cropBounds_inside:
  assumes "cropBounds w h crop = Inr bx" and "1 \<le> w" and "1 \<le> h"
  shows "0 \<le> bx_x bx \<and> 1 \<le> bx_width bx \<and> bx_x bx + bx_width bx \<le> w
    \<and> 0 \<le> bx_y bx \<and> 1 \<le> bx_height bx \<and> bx_y bx + bx_height bx \<le> h"
proof -
  obtain t r b l where crop: "crop = \<lparr>ins_top = Some t, ins_right = Some r, ins_bottom = Some b, ins_left = Some l\<rparr>"
    and ok: "0 \<le> t" "t \<le> 45" "0 \<le> r" "r \<le> 45" "0 \<le> b" "b \<le> 45" "0 \<le> l" "l \<le> 45"
    using assms(1)
    by (cases crop) (auto simp: cropBounds_def inset_bad_def not_less split: if_splits option.splits)
  show ?thesis
    using assms crop crop_axis [OF assms(2) ok(7,8,3,4)] crop_axis [OF assms(3) ok(1,2,5,6)]
    by (auto simp: cropBounds_def split: if_splits)
qed

lemma cropBounds_rejects:
  "cropBounds w h crop = Inl m \<longleftrightarrow>
     m = Crop_invalid \<and>
     list_ex inset_bad [ins_top crop, ins_right crop, ins_bottom crop, ins_left crop]"
  by (cases crop) (auto simp: cropBounds_def inset_bad_def not_less split: option.splits)

lemma cropBounds_empty: "1 \<le> w \<Longrightarrow> 1 \<le> h \<Longrightarrow>
   cropBounds w h emptyCrop = Inr \<lparr>bx_x = 0, bx_y = 0, bx_width = w, bx_height = h\<rparr>"
  by (simp add: cropBounds_def emptyCrop_def inset_bad_def crop_offset_def crop_extent_def)

text \<open>The scale to at most 2048 pixels on the longer side.\<close>

definition scale_ratio :: "int \<Rightarrow> int \<Rightarrow> rat" where
  "scale_ratio w h = min 1 (2048 / of_int (max w h))"

definition crop_size :: "box \<Rightarrow> int \<times> int" where
  "crop_size bx =
     (let ratio = scale_ratio (bx_width bx) (bx_height bx)
      in (max 1 (js_round (of_int (bx_width bx) * ratio)),
          max 1 (js_round (of_int (bx_height bx) * ratio))))"

lemma scale_side:
  assumes "1 \<le> w" and "1 \<le> h"
  shows "of_int w * scale_ratio w h \<le> 2048" and "of_int w * scale_ratio w h \<le> of_int w"
    and "of_int h * scale_ratio w h \<le> 2048" and "of_int h * scale_ratio w h \<le> of_int h"
    and "0 < scale_ratio w h"
proof -
  let ?m = "max w h"
  have m: "(0 :: rat) < of_int ?m" using assms by simp
  show pos: "0 < scale_ratio w h" using m by (simp add: scale_ratio_def)
  have side: "of_int x * scale_ratio w h \<le> 2048 \<and> of_int x * scale_ratio w h \<le> of_int x"
    if "1 \<le> x" "x \<le> ?m" for x
  proof
    have "of_int x * scale_ratio w h \<le> of_int ?m * scale_ratio w h"
      using that pos by (intro mult_right_mono) simp_all
    also have "\<dots> \<le> of_int ?m * (2048 / of_int ?m)"
      using m by (intro mult_left_mono) (simp_all add: scale_ratio_def)
    also have "\<dots> = 2048" using m by simp
    finally show "of_int x * scale_ratio w h \<le> 2048" .
    show "of_int x * scale_ratio w h \<le> of_int x"
      using that mult_left_mono [of "scale_ratio w h" 1 "of_int x"] by (simp add: scale_ratio_def)
  qed
  show "of_int w * scale_ratio w h \<le> 2048" "of_int w * scale_ratio w h \<le> of_int w"
    using side [of w] assms by auto
  show "of_int h * scale_ratio w h \<le> 2048" "of_int h * scale_ratio w h \<le> of_int h"
    using side [of h] assms by auto
qed

lemma crop_size_bounds:
  assumes "1 \<le> bx_width bx" and "1 \<le> bx_height bx" and "crop_size bx = (w, h)"
  shows "1 \<le> w \<and> w \<le> 2048 \<and> w \<le> bx_width bx \<and> 1 \<le> h \<and> h \<le> 2048 \<and> h \<le> bx_height bx"
  using assms scale_side [OF assms(1,2)]
  by (auto simp: crop_size_def Let_def intro!: js_round_le)

subsection \<open>Decoding and encoding\<close>

text \<open>What an operation takes from the platform and has to give back: a decoded image by
  \<^verbatim>\<open>close()\<close>, a tensor by \<^verbatim>\<open>dispose()\<close>.\<close>

datatype resource = Decoded_image | Input_tensor | Output_tensors

text \<open>
  \<^verbatim>\<open>bitmap(file)\<close>: what it has taken, what it has given back, and the size of the decoded image,
  if it decodes. An image that is too large is closed here.
\<close>

definition bitmap_size ::
  "(nat \<times> nat) option \<Rightarrow> resource list \<times> resource list \<times> (photo_text + (int \<times> int))" where
  "bitmap_size decoded =
     (case decoded of
        None \<Rightarrow> ([], [], Inl Photo_unreadable)
      | Some (w, h) \<Rightarrow>
          if w * h > 24000000 then ([Decoded_image], [Decoded_image], Inl Photo_over_24_megapixels)
          else ([Decoded_image], [], Inr (int w, int h)))"

text \<open>\<^verbatim>\<open>pngFile(canvas)\<close>: the size of the blob, if there is one.\<close>

definition pngFile :: "nat option \<Rightarrow> photo_text + nat" where
  "pngFile blob =
     (case blob of
        None \<Rightarrow> Inl Processed_photo_too_large
      | Some n \<Rightarrow>
          if n > 12 * 1024 * 1024 then Inl Processed_photo_too_large else Inr n)"

record crop_world =
  crw_bitmap :: "(nat \<times> nat) option"
  crw_canvas :: bool
  crw_blob :: "nat option"

record png =
  png_width :: int
  png_height :: int
  png_source :: box
  png_size :: nat

text \<open>\<^verbatim>\<open>cropPhoto\<close>: what it takes, what it gives back, and its result.\<close>

definition cropPhoto ::
  "crop_world \<Rightarrow> crop_insets \<Rightarrow> resource list \<times> resource list \<times> (photo_text + png)" where
  "cropPhoto world crop =
     (case bitmap_size (crw_bitmap world) of
        (taken, freed, Inl m) \<Rightarrow> (taken, freed, Inl m)
      | (taken, freed, Inr (width, height)) \<Rightarrow>
          (taken, freed @ [Decoded_image],
           case cropBounds width height crop of
             Inl m \<Rightarrow> Inl m
           | Inr bx \<Rightarrow>
               if \<not> crw_canvas world then Inl Canvas_unavailable
               else case pngFile (crw_blob world) of
                 Inl m \<Rightarrow> Inl m
               | Inr n \<Rightarrow>
                   Inr \<lparr>png_width = fst (crop_size bx), png_height = snd (crop_size bx),
                        png_source = bx, png_size = n\<rparr>))"

subsection \<open>The input of the segmentation model\<close>

definition channel_mean :: "nat \<Rightarrow> rat" where
  "channel_mean c = [485 / 1000, 456 / 1000, 406 / 1000] ! c"

definition channel_std :: "nat \<Rightarrow> rat" where
  "channel_std c = [229 / 1000, 224 / 1000, 225 / 1000] ! c"

text \<open>The nested loops of the code, over \<open>n\<close> pixels of four bytes.\<close>

definition pixel_maximum :: "nat \<Rightarrow> (nat \<Rightarrow> nat) \<Rightarrow> nat" where
  "pixel_maximum n pixels =
     fold (\<lambda>i. fold (\<lambda>c m. max m (pixels (4 * i + c))) [0..<3]) [0..<n] 1"

definition tensor_data :: "nat \<Rightarrow> (nat \<Rightarrow> nat) \<Rightarrow> nat \<Rightarrow> rat" where
  "tensor_data n pixels =
     (let maximum = pixel_maximum n pixels in
      fold (\<lambda>i. fold (\<lambda>c data. data(c * n + i :=
              (of_nat (pixels (4 * i + c)) / of_nat maximum - channel_mean c) / channel_std c))
            [0..<3]) [0..<n] (\<lambda>_. 0))"

lemma fold_max_ge:
  "(m :: nat) \<le> fold (\<lambda>c m. max m (f c)) xs m
   \<and> (\<forall>x\<in>set xs. f x \<le> fold (\<lambda>c m. max m (f c)) xs m)"
proof (induction xs arbitrary: m)
  case (Cons a xs)
  from Cons [of "max m (f a)"] show ?case by auto
qed simp

lemma pixel_maximum_bounds:
  "1 \<le> pixel_maximum n pixels
   \<and> (\<forall>i<n. \<forall>c<3. pixels (4 * i + c) \<le> pixel_maximum n pixels)"
proof -
  define inner where "inner = (\<lambda>i. fold (\<lambda>c m. max m (pixels (4 * i + c))) [0..<3])"
  have inner: "m \<le> inner i m" "\<forall>c<3. pixels (4 * i + c) \<le> inner i m" for i m
    using fold_max_ge [of m "\<lambda>c. pixels (4 * i + c)" "[0..<3]"] by (simp_all add: inner_def)
  have "m \<le> fold inner xs m \<and> (\<forall>i\<in>set xs. \<forall>c<3. pixels (4 * i + c) \<le> fold inner xs m)" for xs m
  proof (induction xs arbitrary: m)
    case (Cons a xs)
    have "pixels (4 * a + c) \<le> fold inner xs (inner a m)" if "c < 3" for c
      using Cons [of "inner a m"] inner(2) [of a m] that by (blast intro: order_trans)
    with Cons [of "inner a m"] inner(1) [of m a] show ?case
      by (auto intro: order_trans)
  qed simp
  from this [of 1 "[0..<n]"] show ?thesis
    by (auto simp: pixel_maximum_def inner_def)
qed

lemma plane_index:
  assumes "i < n" "j < n" shows "(c * n + i = d * n + j) \<longleftrightarrow> (c = d \<and> i = (j :: nat))"
proof
  assume eq: "c * n + i = d * n + j"
  have "(c * n + i) div n = c" "(d * n + j) div n = d"
    using assms by simp_all
  with eq show "c = d \<and> i = j" by simp
qed simp

lemma tensor_data_at:
  assumes "i < n" and "c < 3"
  shows "tensor_data n pixels (c * n + i) =
    (of_nat (pixels (4 * i + c)) / of_nat (pixel_maximum n pixels) - channel_mean c) / channel_std c"
proof -
  define v where "v = (\<lambda>i c. (of_nat (pixels (4 * i + c)) / of_nat (pixel_maximum n pixels)
    - channel_mean c) / channel_std c)"
  define row where "row = (\<lambda>i. fold (\<lambda>c data. data(c * n + i := v i c)) [0..<3])"
  have three: "[0..<3] = [0, 1, 2 :: nat]" by (simp add: upt_rec numeral_eq_Suc)
  have hit: "row i d (c * n + i) = v i c" if "i < n" "c < 3" for d i c
    using that by (auto simp: row_def three less_Suc_eq numeral_3_eq_3)
  have miss: "row j d (c * n + i) = d (c * n + i)" if "i < n" "j < n" "i \<noteq> j" for d i j c
    using that plane_index [of i n j c 0] plane_index [of i n j c 1] plane_index [of i n j c 2]
    by (auto simp: row_def three)
  have "fold row xs d (c * n + i) = (if i \<in> set xs then v i c else d (c * n + i))"
    if "set xs \<subseteq> {..<n}" for xs d
    using that
  proof (induction xs arbitrary: d)
    case (Cons a xs)
    then show ?case
      using hit [OF assms] miss [OF assms(1), of a] by auto
  qed simp
  from this [of "[0..<n]" "\<lambda>_. 0"] assms show ?thesis
    by (simp add: tensor_data_def row_def v_def Let_def subset_iff)
qed

subsection \<open>The mask\<close>

text \<open>The least and the greatest prediction; \<^verbatim>\<open>None\<close> stands for the infinite start value.\<close>

definition min_inf :: "rat option \<Rightarrow> rat \<Rightarrow> rat option" where
  "min_inf acc x = Some (case acc of None \<Rightarrow> x | Some y \<Rightarrow> min y x)"

definition max_inf :: "rat option \<Rightarrow> rat \<Rightarrow> rat option" where
  "max_inf acc x = Some (case acc of None \<Rightarrow> x | Some y \<Rightarrow> max y x)"

definition prediction_range :: "nat \<Rightarrow> (nat \<Rightarrow> rat) \<Rightarrow> rat option \<times> rat option" where
  "prediction_range n prediction =
     fold (\<lambda>i (lo, hi). (min_inf lo (prediction i), max_inf hi (prediction i))) [0..<n] (None, None)"

definition mask_alpha :: "rat \<Rightarrow> rat \<Rightarrow> rat \<Rightarrow> int" where
  "mask_alpha lo hi p =
     js_round (255 * max 0 (min 1 (((p - lo) / (hi - lo) - 8 / 100) / (84 / 100))))"

lemma prediction_range_bounds:
  assumes "0 < n"
  shows "\<exists>lo hi. prediction_range n f = (Some lo, Some hi)
    \<and> (\<forall>i<n. lo \<le> f i \<and> f i \<le> hi) \<and> (\<exists>i<n. f i = lo) \<and> (\<exists>i<n. f i = hi)"
  using assms unfolding prediction_range_def
proof (induction n rule: nat_induct_non_zero)
  case 1
  show ?case by (simp add: min_inf_def max_inf_def)
next
  case (Suc n)
  then obtain lo hi where
    fold: "fold (\<lambda>i (lo, hi). (min_inf lo (f i), max_inf hi (f i))) [0..<n] (None, None) = (Some lo, Some hi)"
    and lo: "\<forall>i<n. lo \<le> f i \<and> f i \<le> hi" "\<exists>i<n. f i = lo" "\<exists>i<n. f i = hi"
    by blast
  have "\<forall>i<Suc n. min lo (f n) \<le> f i \<and> f i \<le> max hi (f n)"
    using lo(1) by (auto simp: less_Suc_eq min_le_iff_disj le_max_iff_disj)
  moreover have "\<exists>i<Suc n. f i = min lo (f n)" "\<exists>i<Suc n. f i = max hi (f n)"
    using lo(2,3) by (auto simp: less_Suc_eq min_def max_def)
  ultimately show ?case
    using fold by (simp add: min_inf_def max_inf_def)
qed

lemma mask_alpha_byte: "0 \<le> mask_alpha lo hi p \<and> mask_alpha lo hi p \<le> 255"
  unfolding mask_alpha_def
  using js_round_ge [of 0] js_round_le [of _ 255] by simp

lemma mask_alpha_mono:
  assumes "lo < hi" and "p \<le> q"
  shows "mask_alpha lo hi p \<le> mask_alpha lo hi q"
proof -
  define scaled where "scaled x = ((x - lo) / (hi - lo) - 8 / 100) / (84 / 100)" for x
  have "scaled p \<le> scaled q"
    unfolding scaled_def using assms by (intro divide_right_mono diff_right_mono) simp_all
  then have "255 * max 0 (min 1 (scaled p)) \<le> 255 * max 0 (min 1 (scaled q))" by auto
  then show ?thesis
    unfolding mask_alpha_def scaled_def by (rule js_round_mono)
qed

text \<open>The least prediction is transparent, the greatest opaque.\<close>

lemma mask_alpha_ends: "lo < hi \<Longrightarrow> mask_alpha lo hi lo = 0 \<and> mask_alpha lo hi hi = 255"
  using js_round_of_int [of 0] js_round_of_int [of 255] by (simp add: mask_alpha_def)

text \<open>The size of the result before trimming.\<close>

definition result_size :: "int \<Rightarrow> int \<Rightarrow> int \<times> int" where
  "result_size width height =
     (let ratio = scale_ratio width height
      in (js_round (of_int width * ratio), js_round (of_int height * ratio)))"

lemma result_size_bounds:
  assumes "1 \<le> width" and "1 \<le> height" and "result_size width height = (w, h)"
  shows "0 \<le> w \<and> w \<le> 2048 \<and> w \<le> width \<and> 0 \<le> h \<and> h \<le> 2048 \<and> h \<le> height"
  using assms scale_side [OF assms(1,2)]
  by (auto simp: result_size_def Let_def intro!: js_round_le js_round_ge)

subsection \<open>Trimming\<close>

text \<open>The box \<^verbatim>\<open>left, top, right, bottom\<close> of the visible pixels, as the nested loop computes it.\<close>

type_synonym extent = "int \<times> int \<times> int \<times> int"

definition trim_pixel :: "(int \<Rightarrow> int \<Rightarrow> int) \<Rightarrow> int \<Rightarrow> int \<Rightarrow> extent \<Rightarrow> extent" where
  "trim_pixel alpha y x = (\<lambda>(left, top, right, bottom).
     if alpha x y > 24 then (min left x, min top y, max right x, max bottom y)
     else (left, top, right, bottom))"

definition trim_scan :: "int \<Rightarrow> int \<Rightarrow> (int \<Rightarrow> int \<Rightarrow> int) \<Rightarrow> extent" where
  "trim_scan w h alpha =
     fold (\<lambda>y. fold (\<lambda>x. trim_pixel alpha y x) [0..w - 1]) [0..h - 1] (w, h, -1, -1)"

definition trim_box :: "int \<Rightarrow> int \<Rightarrow> extent \<Rightarrow> photo_text + box" where
  "trim_box w h = (\<lambda>(left, top, right, bottom).
     if right < left then Inl No_garment_found
     else
       let padding = \<lceil>(of_int (max (right - left) (bottom - top)) * (3 / 100) :: rat)\<rceil>;
           left = max 0 (left - padding);
           top = max 0 (top - padding);
           right = min (w - 1) (right + padding);
           bottom = min (h - 1) (bottom + padding)
       in Inr \<lparr>bx_x = left, bx_y = top, bx_width = right - left + 1, bx_height = bottom - top + 1\<rparr>)"

definition visible :: "int \<Rightarrow> int \<Rightarrow> (int \<Rightarrow> int \<Rightarrow> int) \<Rightarrow> (int \<times> int) set" where
  "visible w h alpha = {(x, y). 0 \<le> x \<and> x < w \<and> 0 \<le> y \<and> y < h \<and> alpha x y > 24}"

text \<open>
  \<open>encloses\<close>: the extent is the tight one of the pixels \<open>V\<close>, and the start value when there are
  none.
\<close>

definition encloses :: "int \<Rightarrow> int \<Rightarrow> (int \<times> int) set \<Rightarrow> extent \<Rightarrow> bool" where
  "encloses w h V = (\<lambda>(left, top, right, bottom).
     if V = {} then (left, top, right, bottom) = (w, h, -1, -1)
     else (\<forall>(x, y)\<in>V. left \<le> x \<and> x \<le> right \<and> top \<le> y \<and> y \<le> bottom)
       \<and> left \<in> fst ` V \<and> right \<in> fst ` V \<and> top \<in> snd ` V \<and> bottom \<in> snd ` V)"

lemma trim_pixel_encloses:
  assumes "encloses w h V e" and "V \<subseteq> {0..<w} \<times> {0..<h}" and "0 \<le> x" "x < w" "0 \<le> y" "y < h"
  shows "encloses w h (V \<union> (if alpha x y > 24 then {(x, y)} else {})) (trim_pixel alpha y x e)"
proof (cases "alpha x y > 24")
  case True
  obtain l t r b where e: "e = (l, t, r, b)" by (cases e)
  show ?thesis
  proof (cases "V = {}")
    case True
    with assms e \<open>alpha x y > 24\<close> show ?thesis by (simp add: encloses_def trim_pixel_def)
  next
    case False
    with assms(1) e have box: "\<forall>(x, y)\<in>V. l \<le> x \<and> x \<le> r \<and> t \<le> y \<and> y \<le> b"
      and ends: "l \<in> fst ` V" "r \<in> fst ` V" "t \<in> snd ` V" "b \<in> snd ` V"
      by (simp_all add: encloses_def)
    have "\<forall>(x', y')\<in>insert (x, y) V. min l x \<le> x' \<and> x' \<le> max r x \<and> min t y \<le> y' \<and> y' \<le> max b y"
      using box by (auto simp: min_le_iff_disj le_max_iff_disj)
    moreover have "min l x \<in> insert x (fst ` V)" "max r x \<in> insert x (fst ` V)"
      "min t y \<in> insert y (snd ` V)" "max b y \<in> insert y (snd ` V)"
      using ends by (auto simp: min_def max_def)
    ultimately show ?thesis
      using True e by (simp add: encloses_def trim_pixel_def)
  qed
qed (use assms in \<open>auto simp: trim_pixel_def split: prod.splits\<close>)

lemma trim_row_encloses:
  assumes "encloses w h V e" and "V \<subseteq> {0..<w} \<times> {0..<h}" and "set xs \<subseteq> {0..<w}" and "0 \<le> y" "y < h"
  shows "encloses w h (V \<union> {(x, y) | x. x \<in> set xs \<and> alpha x y > 24}) (fold (\<lambda>x. trim_pixel alpha y x) xs e)"
  using assms
proof (induction xs arbitrary: V e)
  case (Cons a xs)
  let ?V = "V \<union> (if alpha a y > 24 then {(a, y)} else {})"
  have "encloses w h ?V (trim_pixel alpha y a e)"
    using Cons.prems by (intro trim_pixel_encloses) auto
  then have "encloses w h (?V \<union> {(x, y) | x. x \<in> set xs \<and> alpha x y > 24})
      (fold (\<lambda>x. trim_pixel alpha y x) xs (trim_pixel alpha y a e))"
    using Cons.prems by (intro Cons.IH) auto
  moreover have "?V \<union> {(x, y) | x. x \<in> set xs \<and> alpha x y > 24}
      = V \<union> {(x, y) | x. x \<in> set (a # xs) \<and> alpha x y > 24}"
    by auto
  ultimately show ?case by simp
qed simp

lemma trim_rows_encloses:
  assumes "encloses w h V e" and "V \<subseteq> {0..<w} \<times> {0..<h}" and "set ys \<subseteq> {0..<h}"
  shows "encloses w h (V \<union> {(x, y). 0 \<le> x \<and> x < w \<and> y \<in> set ys \<and> alpha x y > 24})
    (fold (\<lambda>y. fold (\<lambda>x. trim_pixel alpha y x) [0..w - 1]) ys e)"
  using assms
proof (induction ys arbitrary: V e)
  case (Cons a ys)
  let ?V = "V \<union> {(x, a) | x. x \<in> set [0..w - 1] \<and> alpha x a > 24}"
  have "encloses w h ?V (fold (\<lambda>x. trim_pixel alpha a x) [0..w - 1] e)"
    using Cons.prems by (intro trim_row_encloses) auto
  then have "encloses w h (?V \<union> {(x, y). 0 \<le> x \<and> x < w \<and> y \<in> set ys \<and> alpha x y > 24})
      (fold (\<lambda>y. fold (\<lambda>x. trim_pixel alpha y x) [0..w - 1]) ys
        (fold (\<lambda>x. trim_pixel alpha a x) [0..w - 1] e))"
    using Cons.prems by (intro Cons.IH) auto
  moreover have "?V \<union> {(x, y). 0 \<le> x \<and> x < w \<and> y \<in> set ys \<and> alpha x y > 24}
      = V \<union> {(x, y). 0 \<le> x \<and> x < w \<and> y \<in> set (a # ys) \<and> alpha x y > 24}"
    by auto
  ultimately show ?case by simp
qed simp

lemma trim_scan_encloses: "encloses w h (visible w h alpha) (trim_scan w h alpha)"
proof -
  have "encloses w h {} (w, h, -1, -1)" by (simp add: encloses_def)
  from trim_rows_encloses [OF this, of "[0..h - 1]" alpha] show ?thesis
    by (simp add: trim_scan_def visible_def conj_ac subset_iff)
qed

text \<open>The trimmed box lies in the image and holds every visible pixel.\<close>

lemma trim_box_holds_visible:
  assumes "trim_box w h (trim_scan w h alpha) = Inr bx" and "0 \<le> w"
  shows "0 \<le> bx_x bx \<and> 1 \<le> bx_width bx \<and> bx_x bx + bx_width bx \<le> w
    \<and> 0 \<le> bx_y bx \<and> 1 \<le> bx_height bx \<and> bx_y bx + bx_height bx \<le> h
    \<and> (\<forall>(x, y)\<in>visible w h alpha. bx_x bx \<le> x \<and> x < bx_x bx + bx_width bx
        \<and> bx_y bx \<le> y \<and> y < bx_y bx + bx_height bx)"
proof -
  obtain l t r b where scan: "trim_scan w h alpha = (l, t, r, b)" by (cases "trim_scan w h alpha")
  let ?V = "visible w h alpha"
  from scan trim_scan_encloses [of w h alpha] have enc: "encloses w h ?V (l, t, r, b)" by simp
  define pad where "pad = \<lceil>(of_int (max (r - l) (b - t)) * (3 / 100) :: rat)\<rceil>"
  from assms scan have "l \<le> r"
    and bx: "bx = \<lparr>bx_x = max 0 (l - pad), bx_y = max 0 (t - pad),
        bx_width = min (w - 1) (r + pad) - max 0 (l - pad) + 1,
        bx_height = min (h - 1) (b + pad) - max 0 (t - pad) + 1\<rparr>"
    by (auto simp: trim_box_def pad_def Let_def split: if_splits)
  have "?V \<noteq> {}"
  proof
    assume "?V = {}"
    with enc have "l = w" "r = -1" by (simp_all add: encloses_def)
    with \<open>l \<le> r\<close> \<open>0 \<le> w\<close> show False by simp
  qed
  with enc have box: "\<forall>(x, y)\<in>?V. l \<le> x \<and> x \<le> r \<and> t \<le> y \<and> y \<le> b"
    and "l \<in> fst ` ?V" "r \<in> fst ` ?V" "t \<in> snd ` ?V" "b \<in> snd ` ?V"
    by (simp_all add: encloses_def)
  then have lim: "0 \<le> l" "l < w" "0 \<le> r" "r < w" "0 \<le> t" "t < h" "0 \<le> b" "b < h" "t \<le> b"
    by (auto simp: visible_def)
  have "0 \<le> pad"
  proof -
    have "(0 :: rat) \<le> of_int (max (r - l) (b - t)) * (3 / 100)" using \<open>l \<le> r\<close> by simp
    then have "\<lceil>0 :: rat\<rceil> \<le> pad" unfolding pad_def by (rule ceiling_mono)
    then show ?thesis by simp
  qed
  then have pad: "max 0 (l - pad) \<le> l" "r \<le> min (w - 1) (r + pad)"
    "max 0 (t - pad) \<le> t" "b \<le> min (h - 1) (b + pad)"
    using lim by simp_all
  have "max 0 (l - pad) \<le> x \<and> x \<le> min (w - 1) (r + pad)
      \<and> max 0 (t - pad) \<le> y \<and> y \<le> min (h - 1) (b + pad)" if "(x, y) \<in> ?V" for x y
    using bspec [OF box that] pad by auto
  then show ?thesis
    unfolding bx using lim \<open>l \<le> r\<close> pad by fastforce
qed

lemma trim_box_none:
  assumes "0 \<le> w"
  shows "trim_box w h (trim_scan w h alpha) = Inl m \<longleftrightarrow>
    m = No_garment_found \<and> visible w h alpha = {}"
proof -
  obtain l t r b where scan: "trim_scan w h alpha = (l, t, r, b)" by (cases "trim_scan w h alpha")
  from scan trim_scan_encloses [of w h alpha]
  have enc: "encloses w h (visible w h alpha) (l, t, r, b)" by simp
  have "r < l \<longleftrightarrow> visible w h alpha = {}"
  proof
    assume "r < l"
    show "visible w h alpha = {}"
    proof (rule ccontr)
      assume ne: "visible w h alpha \<noteq> {}"
      then obtain x y where "(x, y) \<in> visible w h alpha" by auto
      with enc ne have "l \<le> x" "x \<le> r" by (auto simp: encloses_def)
      with \<open>r < l\<close> show False by simp
    qed
  next
    assume "visible w h alpha = {}"
    with enc assms show "r < l" by (simp add: encloses_def)
  qed
  then show ?thesis using scan by (auto simp: trim_box_def Let_def)
qed

subsection \<open>Removing the background\<close>

text \<open>
  What the platform answers in one run: whether the runtime loads, whether a session of the
  model is created (asked for only when none is kept), the decoded size, the canvas contexts
  in the order they are asked for, the 320 by 320 pixels, the prediction, the alpha of the
  composed result and the blob.
\<close>

record bg_world =
  bg_import :: "jsval option"
  bg_create :: "jsval option"
  bg_bitmap :: "(nat \<times> nat) option"
  bg_canvas :: "nat \<Rightarrow> bool"
  bg_pixels :: "nat \<Rightarrow> nat"
  bg_run :: "(nat \<Rightarrow> rat) \<Rightarrow> jsval + (nat \<Rightarrow> rat)"
  bg_alpha :: "(nat \<Rightarrow> int) \<Rightarrow> int \<Rightarrow> int \<Rightarrow> int"
  bg_blob :: "nat option"

text \<open>The error of \<^verbatim>\<open>getImageData\<close> on a canvas without pixels.\<close>

definition index_size_error :: jsval where
  "index_size_error = JObj [(''name'', JStr (js ''IndexSizeError''))]"

definition mask_size :: nat where "mask_size = 320 * 320"

text \<open>The alpha bytes of the mask, pixel by pixel, once the range is known.\<close>

definition mask_image :: "rat option \<Rightarrow> rat option \<Rightarrow> (nat \<Rightarrow> rat) \<Rightarrow> nat \<Rightarrow> int" where
  "mask_image lo hi prediction i = mask_alpha (the lo) (the hi) (prediction i)"

text \<open>
  The body of the \<^verbatim>\<open>try\<close> block: the tensors that \<^verbatim>\<open>input\<close> and \<^verbatim>\<open>outputs\<close> hold when it ends, and its result.
\<close>

definition segment_and_trim :: "bg_world \<Rightarrow> int \<Rightarrow> int \<Rightarrow> resource list \<times> (jsval + png)" where
  "segment_and_trim world width height =
     (if \<not> bg_canvas world 0 then ([], Inl (JPhotoError Canvas_unavailable))
      else case bg_run world (tensor_data mask_size (bg_pixels world)) of
        Inl e \<Rightarrow> ([Input_tensor], Inl e)
      | Inr prediction \<Rightarrow>
          ([Input_tensor, Output_tensors],
           case prediction_range mask_size prediction of (lo, hi) \<Rightarrow>
           if the hi - the lo < 1 / 1000 then Inl (JPhotoError No_clear_outline)
           else if \<not> bg_canvas world 1 then Inl (JPhotoError Canvas_unavailable)
           else
             (case result_size width height of (w, h) \<Rightarrow>
              if w = 0 \<or> h = 0 then Inl index_size_error
              else
                case trim_box w h (trim_scan w h (bg_alpha world (mask_image lo hi prediction))) of
                  Inl m \<Rightarrow> Inl (JPhotoError m)
                | Inr bx \<Rightarrow>
                    if \<not> bg_canvas world 2 then Inl (JPhotoError Canvas_unavailable)
                    else case pngFile (bg_blob world) of
                      Inl m \<Rightarrow> Inl (JPhotoError m)
                    | Inr n \<Rightarrow>
                        Inr \<lparr>png_width = bx_width bx, png_height = bx_height bx,
                             png_source = bx, png_size = n\<rparr>)))"

text \<open>The \<^verbatim>\<open>finally\<close> block: the two variables are tested, the image is there.\<close>

definition bg_finally :: "resource list \<Rightarrow> resource list" where
  "bg_finally held =
     (if Input_tensor \<in> set held then [Input_tensor] else [])
     @ (if Output_tensors \<in> set held then [Output_tensors] else [])
     @ [Decoded_image]"

text \<open>
  The whole function. \<open>kept\<close> is whether the module keeps a session; the results are whether it
  keeps one afterwards, what was taken, what was given back, and the outcome.
\<close>

definition removeBackground ::
  "bg_world \<Rightarrow> bool \<Rightarrow> bool \<times> resource list \<times> resource list \<times> (jsval + png)" where
  "removeBackground world kept =
     (case bg_import world of
        Some e \<Rightarrow> (kept, [], [], Inl e)
      | None \<Rightarrow>
          (case (if kept then None else bg_create world) of
             Some cause \<Rightarrow> (False, [], [], Inl cause)
           | None \<Rightarrow>
               (case bitmap_size (bg_bitmap world) of
                  (taken, freed, Inl m) \<Rightarrow> (True, taken, freed, Inl (JPhotoError m))
                | (taken, freed, Inr (width, height)) \<Rightarrow>
                    (case segment_and_trim world width height of
                       (held, result) \<Rightarrow> (True, taken @ held, freed @ bg_finally held, result)))))"

lemma bitmap_size_cases:
  obtains (unread) "d = None" "bitmap_size d = ([], [], Inl Photo_unreadable)"
  | (large) m n where "d = Some (m, n)" "24000000 < m * n"
      "bitmap_size d = ([Decoded_image], [Decoded_image], Inl Photo_over_24_megapixels)"
  | (sized) m n where "d = Some (m, n)" "m * n \<le> 24000000"
      "bitmap_size d = ([Decoded_image], [], Inr (int m, int n))"
  by (cases d) (auto simp: bitmap_size_def, metis not_le_imp_less)

text \<open>What the block holds depends on the canvas and on the run of the model alone.\<close>

lemma segment_held:
  "fst (segment_and_trim world w h) =
     (if bg_canvas world 0
      then Input_tensor # (if isl (bg_run world (tensor_data mask_size (bg_pixels world))) then [] else [Output_tensors])
      else [])"
  by (auto simp: segment_and_trim_def isl_def split: sum.split)

lemma crop_releases: "cropPhoto world crop = (taken, freed, result) \<Longrightarrow> mset freed = mset taken"
  by (cases "crw_bitmap world" rule: bitmap_size_cases) (auto simp: cropPhoto_def)

lemma segment_png:
  assumes "segment_and_trim world width height = (rs, Inr png)" and "1 \<le> width" and "1 \<le> height"
  shows "1 \<le> png_width png \<and> png_width png \<le> 2048 \<and> 1 \<le> png_height png \<and> png_height png \<le> 2048
    \<and> png_size png \<le> 12582912"
proof -
  obtain w h where wh: "result_size width height = (w, h)" by (cases "result_size width height")
  have bound: "0 \<le> w" "w \<le> 2048" "h \<le> 2048"
    using result_size_bounds [OF assms(2,3) wh] by auto
  from assms(1) wh obtain alpha bx n where
    bx: "trim_box w h (trim_scan w h alpha) = Inr bx" and n: "pngFile (bg_blob world) = Inr n"
    and png: "png = \<lparr>png_width = bx_width bx, png_height = bx_height bx, png_source = bx, png_size = n\<rparr>"
    by (auto simp: segment_and_trim_def split: if_splits sum.splits prod.splits)
  show ?thesis
    using trim_box_holds_visible [OF bx bound(1)] bound n unfolding png
    by (auto simp: pngFile_def split: option.splits if_splits)
qed

end
