(* ===== verification/Async_Prog.thy ===== *)
theory Async_Prog
  imports Api_Client Calendar_Dates Js_Values Image_Processing
begin

text \<open>
  Event handlers as asynchronous programs. A handler runs without interruption up to its next
  \<^verbatim>\<open>await\<close>; there it is parked with its continuation, other handlers run, and it goes on when
  the awaited promise settles. \<^verbatim>\<open>prog\<close> is the type of such programs over the state of a view
  (its \<^verbatim>\<open>useState\<close> and \<^verbatim>\<open>useRef\<close> cells); \<^verbatim>\<open>bind\<close>, \<^verbatim>\<open>catch\<close> and \<^verbatim>\<open>finally_do\<close> are the
  sequencing and exception constructs of the language; \<^verbatim>\<open>run\<close> executes a segment;
  \<^verbatim>\<open>loop_step\<close> is the event loop, which interleaves the segments of all running handlers in any
  order and lets every request succeed or fail.

  \<^verbatim>\<open>wp\<close> computes what a program guarantees at each of its yield points and at its end,
  whatever the responses and the other handlers do in between. The locale \<^verbatim>\<open>config_invariant\<close>
  states what makes a predicate hold of every reachable configuration; the locale
  \<^verbatim>\<open>exclusive_view\<close> gives one, and so turns such one-program facts into facts about every reachable configuration: an invariant, a
  relation between earlier and later states, a policy for the effects, and a busy flag that lets
  one of the exclusive handlers run at a time.
\<close>

subsection \<open>Requests, responses and effects\<close>

text \<open>Keys of the query cache, a third-party library that the hooks notify.\<close>

datatype query_key =
  Current_user_key | Wardrobe_key | Plans_key | Wear_events_key | Statistics_key

text \<open>
  What is awaited: a call of the API client, the query cache (which resolves when its queries
  have been fetched again, and does not reject), the upload of a photo by the upload hook, the
  reading of a stored photo, an image operation of the browser, the loading of a module.
\<close>

datatype image_op = Remove_background js_file | Crop_photo js_file crop_insets | Decode_image jstring

datatype request =
    Call api_call
  | Invalidate_queries "query_key list"
  | Refetch_query query_key
  | Fetch_next_page query_key
  | Upload_photo js_file
  | Read_photo jstring bool
  | Image_op image_op
  | Load_module

datatype response =
    R_item wardrobe_item
  | R_impact deletion_impact
  | R_recommendation recommendation_response
  | R_plan outfit_plan
  | R_event wear_event
  | R_user user
  | R_deletion account_deletion
  | R_media_id jstring
  | R_file js_file bool
  | R_void

type_synonym outcome = "jsval + response"

datatype route = To_login | To_account

datatype toast =
    Toast_profile_saved | Toast_plan_updated | Toast_plan_created | Toast_plan_cancelled
  | Toast_plan_not_worn | Toast_plan_restored | Toast_wear_corrected | Toast_wear_created
  | Toast_item_updated | Toast_item_created | Toast_samples_added | Toast_plan_from_recommendation

datatype effect =
    Issued request
  | Replace_route route
  | Toast toast
  | Cache_clear
  | Cache_set_user user
  | Revoke_url jstring

subsection \<open>Programs\<close>

datatype (dead 's, 'a) prog =
    Return 'a
  | Throw jsval
  | Update "'s \<Rightarrow> 's" "('s, 'a) prog"
  | Read "env \<Rightarrow> 's \<Rightarrow> ('s, 'a) prog"
  | Emit effect "('s, 'a) prog"
  | Await request "outcome \<Rightarrow> ('s, 'a) prog"

lemma prog_induct [case_names Return Throw Update Read Emit Await]:
  assumes "\<And>a. P (Return a)" and "\<And>x. P (Throw x)"
    and "\<And>f p. P p \<Longrightarrow> P (Update f p)" and "\<And>g. (\<And>e s. P (g e s)) \<Longrightarrow> P (Read g)"
    and "\<And>x p. P p \<Longrightarrow> P (Emit x p)" and "\<And>c k. (\<And>r. P (k r)) \<Longrightarrow> P (Await c k)"
  shows "P p"
proof (induction p)
  case (Read g)
  have "P (g e s)" for e s by (rule Read.IH [of "g e"]) simp_all
  then show ?case by (rule assms(4))
qed (auto intro: assms)

primrec bind :: "('s, 'a) prog \<Rightarrow> ('a \<Rightarrow> ('s, 'b) prog) \<Rightarrow> ('s, 'b) prog" where
  "bind (Return a) f = f a"
| "bind (Throw e) f = Throw e"
| "bind (Update u p) f = Update u (bind p f)"
| "bind (Read g) f = Read (\<lambda>e s. bind (g e s) f)"
| "bind (Emit x p) f = Emit x (bind p f)"
| "bind (Await c k) f = Await c (\<lambda>r. bind (k r) f)"

primrec catch :: "('s, 'a) prog \<Rightarrow> (jsval \<Rightarrow> ('s, 'a) prog) \<Rightarrow> ('s, 'a) prog" where
  "catch (Return a) h = Return a"
| "catch (Throw e) h = h e"
| "catch (Update u p) h = Update u (catch p h)"
| "catch (Read g) h = Read (\<lambda>e s. catch (g e s) h)"
| "catch (Emit x p) h = Emit x (catch p h)"
| "catch (Await c k) h = Await c (\<lambda>r. catch (k r) h)"

primrec finally_do :: "('s, 'a) prog \<Rightarrow> ('s, unit) prog \<Rightarrow> ('s, 'a) prog" where
  "finally_do (Return a) f = bind f (\<lambda>_. Return a)"
| "finally_do (Throw e) f = bind f (\<lambda>_. Throw e)"
| "finally_do (Update u p) f = Update u (finally_do p f)"
| "finally_do (Read g) f = Read (\<lambda>e s. finally_do (g e s) f)"
| "finally_do (Emit x p) f = Emit x (finally_do p f)"
| "finally_do (Await c k) f = Await c (\<lambda>r. finally_do (k r) f)"

text \<open>A statement that only sets state.\<close>

abbreviation set_state :: "('s \<Rightarrow> 's) \<Rightarrow> ('s, unit) prog" where
  "set_state f \<equiv> Update f (Return ())"

text \<open>
  One segment: the state it leaves, the effects it had in order, and what remains, a finished
  program or one that waits.
\<close>

primrec run :: "env \<Rightarrow> ('s, 'a) prog \<Rightarrow> 's \<Rightarrow> 's \<times> effect list \<times> ('s, 'a) prog" where
  "run e (Return a) s = (s, [], Return a)"
| "run e (Throw x) s = (s, [], Throw x)"
| "run e (Update u p) s = run e p (u s)"
| "run e (Read g) s = run e (g e s) s"
| "run e (Emit x p) s = (case run e p s of (s', out, q) \<Rightarrow> (s', x # out, q))"
| "run e (Await c k) s = (s, [Issued c], Await c k)"

declare run.simps [prog_simps] bind.simps [prog_simps] catch.simps [prog_simps]
  finally_do.simps [prog_simps]

subsection \<open>The event loop\<close>

type_synonym ('s, 'ev) config = "'s \<times> ('ev \<times> ('s, unit) prog) list \<times> effect list"

definition park ::
  "'ev \<Rightarrow> ('s, unit) prog \<Rightarrow> ('ev \<times> ('s, unit) prog) list \<Rightarrow> ('ev \<times> ('s, unit) prog) list"
where
  "park ev q ts = (case q of Await c k \<Rightarrow> ts @ [(ev, q)] | _ \<Rightarrow> ts)"

text \<open>
  A view is given by its dispatch function: the program that an event starts in a state, or
  \<^verbatim>\<open>None\<close> where the control of the event is not shown or is disabled. A step dispatches an
  event, or resumes one parked handler with any outcome of what it awaits.
\<close>

inductive loop_step ::
  "('s \<Rightarrow> 'ev \<Rightarrow> ('s, unit) prog option) \<Rightarrow> ('s, 'ev) config \<Rightarrow> ('s, 'ev) config \<Rightarrow> bool"
  for D where
  dispatch: "D s ev = Some p \<Longrightarrow> run e p s = (s', out, q) \<Longrightarrow>
     loop_step D (s, ts, tr) (s', park ev q ts, tr @ out)"
| resume: "run e (k r) s = (s', out, q) \<Longrightarrow>
     loop_step D (s, ts1 @ (ev, Await c k) # ts2, tr) (s', park ev q (ts1 @ ts2), tr @ out)"

inductive reach ::
  "('s \<Rightarrow> 'ev \<Rightarrow> ('s, unit) prog option) \<Rightarrow> 's \<Rightarrow> ('s, 'ev) config \<Rightarrow> bool"
  for D s0 where
  start: "reach D s0 (s0, [], [])"
| step: "reach D s0 c \<Longrightarrow> loop_step D c c' \<Longrightarrow> reach D s0 c'"

inductive_cases loop_stepE: "loop_step D c c'"

lemmas reach_dispatch = reach.step [OF _ loop_step.dispatch]
lemmas reach_resume = reach.step [OF _ loop_step.resume]

subsection \<open>What a program guarantees\<close>

text \<open>
  A contract: which effects a program may have, what holds whenever it waits, how a segment may
  change the state, and how the state may have changed when it goes on.
\<close>

record 's contract =
  admits :: "effect \<Rightarrow> bool"
  holds :: "'s \<Rightarrow> bool"
  keeps :: "'s \<Rightarrow> 's \<Rightarrow> bool"
  relies :: "'s \<Rightarrow> 's \<Rightarrow> bool"

text \<open>
  \<^verbatim>\<open>wp C p Q E u s\<close>: the segment that runs \<open>p\<close> began in state \<open>u\<close> and is now in \<open>s\<close>; the
  program meets the contract from here, ends in \<open>Q\<close> or throws in \<open>E\<close>, whatever the responses
  and whatever the other handlers do that \<open>relies\<close> admits.
\<close>

primrec wp ::
  "'s contract \<Rightarrow> ('s, 'a) prog \<Rightarrow> ('a \<Rightarrow> 's \<Rightarrow> 's \<Rightarrow> bool) \<Rightarrow> (jsval \<Rightarrow> 's \<Rightarrow> 's \<Rightarrow> bool) \<Rightarrow>
   's \<Rightarrow> 's \<Rightarrow> bool"
where
  "wp C (Return a) Q E u s = Q a u s"
| "wp C (Throw x) Q E u s = E x u s"
| "wp C (Update f p) Q E u s = wp C p Q E u (f s)"
| "wp C (Read g) Q E u s = (\<forall>e. wp C (g e s) Q E u s)"
| "wp C (Emit x p) Q E u s = (admits C x \<and> wp C p Q E u s)"
| "wp C (Await c k) Q E u s =
     (admits C (Issued c) \<and> holds C s \<and> keeps C u s \<and>
      (\<forall>r t. holds C t \<longrightarrow> relies C s t \<longrightarrow> wp C (k r) Q E t t))"

lemma wp_Return [simp]: "wp C (Return a) Q E = Q a"
  and wp_Throw [simp]: "wp C (Throw x) Q E = E x"
  by (simp_all add: fun_eq_iff)

lemma wp_bind [simp, prog_simps]:
  "wp C (bind p f) Q E u s = wp C p (\<lambda>a. wp C (f a) Q E) E u s"
  by (induction p arbitrary: u s rule: prog_induct) auto

lemma wp_catch [simp, prog_simps]:
  "wp C (catch p h) Q E u s = wp C p Q (\<lambda>x. wp C (h x) Q E) u s"
  by (induction p arbitrary: u s rule: prog_induct) auto

lemma wp_finally_do [simp, prog_simps]:
  "wp C (finally_do p f) Q E u s =
     wp C p (\<lambda>a. wp C f (\<lambda>_. Q a) E) (\<lambda>x. wp C f (\<lambda>_. E x) E) u s"
  by (induction p arbitrary: u s rule: prog_induct) auto

lemma wp_mono:
  assumes "wp C p Q E u s"
    and "\<And>a u s. Q a u s \<Longrightarrow> Q' a u s" and "\<And>x u s. E x u s \<Longrightarrow> E' x u s"
  shows "wp C p Q' E' u s"
  using assms(1) by (induction p arbitrary: u s rule: prog_induct) (auto intro: assms(2,3))

text \<open>What is left of a program after a segment.\<close>

definition rest_ok ::
  "'s contract \<Rightarrow> ('a \<Rightarrow> 's \<Rightarrow> 's \<Rightarrow> bool) \<Rightarrow> (jsval \<Rightarrow> 's \<Rightarrow> 's \<Rightarrow> bool) \<Rightarrow> 's \<Rightarrow> 's \<Rightarrow>
   ('s, 'a) prog \<Rightarrow> bool"
where
  "rest_ok C Q E u s q =
     (case q of
        Return a \<Rightarrow> Q a u s
      | Throw x \<Rightarrow> E x u s
      | Await c k \<Rightarrow> holds C s \<and> keeps C u s \<and>
          (\<forall>r t. holds C t \<longrightarrow> relies C s t \<longrightarrow> wp C (k r) Q E t t)
      | _ \<Rightarrow> False)"

lemma wp_run:
  assumes "wp C p Q E u s" and "run e p s = (s', out, q)"
  shows "list_all (admits C) out \<and> rest_ok C Q E u s' q"
  using assms
proof (induction p arbitrary: u s s' out q rule: prog_induct)
  case (Emit x p)
  then show ?case by (auto split: prod.splits)
next
  case (Read g)
  from Read.prems have "wp C (g e s) Q E u s" and "run e (g e s) s = (s', out, q)"
    by simp_all
  then show ?case by (rule Read.IH)
qed (auto simp: rest_ok_def)

subsection \<open>Invariants of configurations\<close>

text \<open>
  A predicate of configurations that holds of the first one and that both kinds of step keep holds
  of every reachable one. The views below, and the bound on their handlers' waits, are instances.
\<close>

locale config_invariant =
  fixes D :: "'s \<Rightarrow> 'ev \<Rightarrow> ('s, unit) prog option" and s0 :: 's
    and P :: "('s, 'ev) config \<Rightarrow> bool"
  assumes begun: "P (s0, [], [])"
    and dispatched: "P (s, ts, tr) \<Longrightarrow> D s ev = Some p \<Longrightarrow> run e p s = (s', out, q) \<Longrightarrow>
      P (s', park ev q ts, tr @ out)"
    and resumed: "P (s, ts1 @ (ev, Await c k) # ts2, tr) \<Longrightarrow> run e (k r) s = (s', out, q) \<Longrightarrow>
      P (s', park ev q (ts1 @ ts2), tr @ out)"
begin

lemma reach_holds: "reach D s0 c \<Longrightarrow> P c"
proof (induction rule: reach.induct)
  case (step c c')
  from step.hyps(2) show ?case
    by (cases rule: loop_step.cases) (use step.IH in \<open>auto intro: dispatched resumed\<close>)
qed (rule begun)

end

subsection \<open>Views with a busy flag\<close>

text \<open>
  The obligations of a view. Every handler keeps the invariant \<open>I\<close>, changes the state within
  \<open>R\<close>, and has only effects that \<open>G\<close> admits. The exclusive handlers are those that
  set the busy flag before they wait and do nothing while it is set; the others neither change the flag nor, while it is set, leave \<open>S\<close>, so a running
  exclusive handler can rely on \<open>S\<close>. \<open>ends\<close> is what holds when no exclusive handler runs:
  that the flag is clear, in a view whose handlers always clear it.
\<close>

definition own_contract ::
  "(effect \<Rightarrow> bool) \<Rightarrow> ('s \<Rightarrow> bool) \<Rightarrow> ('s \<Rightarrow> bool) \<Rightarrow> ('s \<Rightarrow> 's \<Rightarrow> bool) \<Rightarrow> ('s \<Rightarrow> 's \<Rightarrow> bool) \<Rightarrow>
   's contract" where
  "own_contract G I busy R S =
     \<lparr>admits = G, holds = \<lambda>s. I s \<and> busy s, keeps = R, relies = \<lambda>s t. R s t \<and> S s t\<rparr>"

definition stable ::
  "('s \<Rightarrow> bool) \<Rightarrow> ('s \<Rightarrow> 's \<Rightarrow> bool) \<Rightarrow> ('s \<Rightarrow> 's \<Rightarrow> bool) \<Rightarrow> ('s \<Rightarrow> bool) \<Rightarrow> 's \<Rightarrow> 's \<Rightarrow> bool" where
  "stable busy R S ends u t \<longleftrightarrow>
     R u t \<and> busy u = busy t \<and> (busy u \<longrightarrow> S u t) \<and> (ends u \<longrightarrow> ends t)"

definition shared_contract ::
  "(effect \<Rightarrow> bool) \<Rightarrow> ('s \<Rightarrow> bool) \<Rightarrow> ('s \<Rightarrow> bool) \<Rightarrow> ('s \<Rightarrow> 's \<Rightarrow> bool) \<Rightarrow> ('s \<Rightarrow> 's \<Rightarrow> bool) \<Rightarrow>
   ('s \<Rightarrow> bool) \<Rightarrow> 's contract" where
  "shared_contract G I busy R S ends =
     \<lparr>admits = G, holds = I, keeps = stable busy R S ends, relies = R\<rparr>"

definition released ::
  "('s \<Rightarrow> bool) \<Rightarrow> ('s \<Rightarrow> 's \<Rightarrow> bool) \<Rightarrow> ('s \<Rightarrow> bool) \<Rightarrow> 'a \<Rightarrow> 's \<Rightarrow> 's \<Rightarrow> bool" where
  "released I R ends = (\<lambda>_ u t. I t \<and> R u t \<and> ends t)"

definition kept ::
  "('s \<Rightarrow> bool) \<Rightarrow> ('s \<Rightarrow> bool) \<Rightarrow> ('s \<Rightarrow> 's \<Rightarrow> bool) \<Rightarrow> ('s \<Rightarrow> 's \<Rightarrow> bool) \<Rightarrow> ('s \<Rightarrow> bool) \<Rightarrow>
   'a \<Rightarrow> 's \<Rightarrow> 's \<Rightarrow> bool" where
  "kept I busy R S ends = (\<lambda>_ u t. I t \<and> stable busy R S ends u t)"

definition runs_own ::
  "(effect \<Rightarrow> bool) \<Rightarrow> ('s \<Rightarrow> bool) \<Rightarrow> ('s \<Rightarrow> bool) \<Rightarrow> ('s \<Rightarrow> 's \<Rightarrow> bool) \<Rightarrow> ('s \<Rightarrow> 's \<Rightarrow> bool) \<Rightarrow>
   ('s \<Rightarrow> bool) \<Rightarrow> 's \<Rightarrow> ('s, unit) prog \<Rightarrow> bool" where
  "runs_own G I busy R S ends s p \<longleftrightarrow>
     wp (own_contract G I busy R S) p (released I R ends) (released I R ends) s s"

definition runs_shared ::
  "(effect \<Rightarrow> bool) \<Rightarrow> ('s \<Rightarrow> bool) \<Rightarrow> ('s \<Rightarrow> bool) \<Rightarrow> ('s \<Rightarrow> 's \<Rightarrow> bool) \<Rightarrow> ('s \<Rightarrow> 's \<Rightarrow> bool) \<Rightarrow>
   ('s \<Rightarrow> bool) \<Rightarrow> 's \<Rightarrow> ('s, unit) prog \<Rightarrow> bool" where
  "runs_shared G I busy R S ends s p \<longleftrightarrow>
     wp (shared_contract G I busy R S ends) p (kept I busy R S ends) (kept I busy R S ends) s s"

lemma contract_simps [simp]:
  "admits (own_contract G I busy R S) = G"
  "holds (own_contract G I busy R S) s \<longleftrightarrow> I s \<and> busy s"
  "keeps (own_contract G I busy R S) = R"
  "relies (own_contract G I busy R S) s t \<longleftrightarrow> R s t \<and> S s t"
  "admits (shared_contract G I busy R S ends) = G"
  "holds (shared_contract G I busy R S ends) = I"
  "keeps (shared_contract G I busy R S ends) = stable busy R S ends"
  "relies (shared_contract G I busy R S ends) = R"
  by (simp_all add: own_contract_def shared_contract_def)

lemmas contract_defs = runs_own_def runs_shared_def released_def kept_def stable_def

locale exclusive_view =
  fixes D :: "'s \<Rightarrow> 'ev \<Rightarrow> ('s, unit) prog option"
    and s0 :: 's
    and busy :: "'s \<Rightarrow> bool"
    and excl :: "'ev \<Rightarrow> bool"
    and ends :: "'s \<Rightarrow> bool"
    and I :: "'s \<Rightarrow> bool"
    and R :: "'s \<Rightarrow> 's \<Rightarrow> bool"
    and S :: "'s \<Rightarrow> 's \<Rightarrow> bool"
    and G :: "effect \<Rightarrow> bool"
  assumes init: "I s0 \<and> ends s0"
    and R_refl: "R s s" and R_trans: "R s t \<Longrightarrow> R t u \<Longrightarrow> R s u"
    and S_refl: "S s s" and S_trans: "S s t \<Longrightarrow> S t u \<Longrightarrow> S s u"
    and exclusive: "D s ev = Some p \<Longrightarrow> excl ev \<Longrightarrow> I s \<Longrightarrow> \<not> busy s \<Longrightarrow>
      runs_own G I busy R S ends s p"
    and inert: "D s ev = Some p \<Longrightarrow> excl ev \<Longrightarrow> busy s \<Longrightarrow> p = Return ()"
    and others: "D s ev = Some p \<Longrightarrow> \<not> excl ev \<Longrightarrow> I s \<Longrightarrow>
      runs_shared G I busy R S ends s p"
begin

abbreviation own :: "'s contract" where
  "own \<equiv> own_contract G I busy R S"

abbreviation shared :: "'s contract" where
  "shared \<equiv> shared_contract G I busy R S ends"

abbreviation done_own :: "'a \<Rightarrow> 's \<Rightarrow> 's \<Rightarrow> bool" where
  "done_own \<equiv> released I R ends"

abbreviation done_shared :: "'a \<Rightarrow> 's \<Rightarrow> 's \<Rightarrow> bool" where
  "done_shared \<equiv> kept I busy R S ends"

definition waiting :: "'s contract \<Rightarrow> (unit \<Rightarrow> 's \<Rightarrow> 's \<Rightarrow> bool) \<Rightarrow> (jsval \<Rightarrow> 's \<Rightarrow> 's \<Rightarrow> bool) \<Rightarrow>
    's \<Rightarrow> ('s, unit) prog \<Rightarrow> bool" where
  "waiting C Q E s q = (\<exists>c k. q = Await c k \<and>
     (\<forall>r t. holds C t \<longrightarrow> relies C s t \<longrightarrow> wp C (k r) Q E t t))"

definition task_ok :: "'s \<Rightarrow> 'ev \<times> ('s, unit) prog \<Rightarrow> bool" where
  "task_ok s = (\<lambda>(ev, q). if excl ev then waiting own done_own done_own s q
                         else waiting shared done_shared done_shared s q)"

definition claims :: "('ev \<times> ('s, unit) prog) list \<Rightarrow> nat" where
  "claims ts = length (filter (\<lambda>t. excl (fst t)) ts)"

definition good :: "('s, 'ev) config \<Rightarrow> bool" where
  "good = (\<lambda>(s, ts, tr). I s \<and> list_all G tr \<and> list_all (task_ok s) ts \<and>
     (claims ts = 0 \<and> ends s \<or> claims ts = 1 \<and> busy s))"

lemma claims_simps [simp]:
  "claims [] = 0"
  "claims (t # ts) = (if excl (fst t) then 1 else 0) + claims ts"
  "claims (ts @ us) = claims ts + claims us"
  by (simp_all add: claims_def)

lemma claims_park:
  "claims (park ev q ts) = (case q of Await c k \<Rightarrow> if excl ev then 1 else 0 | _ \<Rightarrow> 0) + claims ts"
  by (cases q) (simp_all add: park_def)

lemma no_claims: "claims ts = 0 \<Longrightarrow> t \<in> set ts \<Longrightarrow> \<not> excl (fst t)"
  by (auto simp: claims_def filter_empty_conv)

lemma waiting_later:
  "waiting C Q E s q \<Longrightarrow> (\<And>t. relies C s' t \<Longrightarrow> relies C s t) \<Longrightarrow> waiting C Q E s' q"
  unfolding waiting_def by blast

lemma task_later: "task_ok s t \<Longrightarrow> R s s' \<Longrightarrow> excl (fst t) \<longrightarrow> S s s' \<Longrightarrow> task_ok s' t"
  unfolding task_ok_def
  by (cases t)
     (auto split: if_splits elim!: waiting_later intro: R_trans S_trans)

lemma own_segment:
  assumes "wp own p done_own done_own s s" and "excl ev" and "run e p s = (s', out, q)"
    and "claims ts = 0" and "list_all (task_ok s) ts" and "list_all G tr"
  shows "good (s', park ev q ts, tr @ out)"
proof -
  have out: "list_all G out" and rest: "rest_ok own done_own done_own s s' q"
    using wp_run [OF assms(1,3)] by simp_all
  then have "R s s'"
    by (auto simp: rest_ok_def released_def split: prog.splits)
  then have "list_all (task_ok s') ts"
    using assms(4,5) by (auto simp: list_all_iff intro: task_later dest: no_claims)
  moreover have "list_all (task_ok s') (park ev q [])"
    and "I s' \<and> (claims (park ev q []) = 0 \<and> ends s' \<or> claims (park ev q []) = 1 \<and> busy s')"
    using rest \<open>excl ev\<close>
    by (auto simp: park_def task_ok_def waiting_def rest_ok_def released_def
        split: prog.splits)
  ultimately show ?thesis
    using assms(4,6) out by (auto simp: good_def claims_park park_def split: prog.splits if_splits)
qed

lemma shared_segment:
  assumes "wp shared p done_shared done_shared s s" and "\<not> excl ev" and "run e p s = (s', out, q)"
    and "claims ts = 0 \<and> ends s \<or> claims ts = 1 \<and> busy s" and "list_all (task_ok s) ts" and "list_all G tr"
  shows "good (s', park ev q ts, tr @ out)"
proof -
  have out: "list_all G out" and rest: "rest_ok shared done_shared done_shared s s' q"
    using wp_run [OF assms(1,3)] by simp_all
  then have s': "I s'" "R s s'" "busy s = busy s'" "busy s \<longrightarrow> S s s'" "ends s \<longrightarrow> ends s'"
    by (auto simp: rest_ok_def kept_def stable_def split: prog.splits)
  have "task_ok s' t" if "t \<in> set ts" for t
  proof (rule task_later)
    show "task_ok s t" using assms(5) that by (simp add: list_all_iff)
    show "excl (fst t) \<longrightarrow> S s s'"
      using no_claims [OF _ that] assms(4) s'(4) by (cases "busy s") auto
  qed (rule s')
  moreover have "list_all (task_ok s') (park ev q [])"
    using rest \<open>\<not> excl ev\<close>
    by (auto simp: park_def task_ok_def waiting_def rest_ok_def split: prog.splits)
  ultimately show ?thesis
    using assms(2,4,6) out s'
    by (auto simp: good_def claims_park park_def list_all_iff split: prog.splits)
qed

end

sublocale exclusive_view \<subseteq> configs: config_invariant D s0 good
proof
  show "good (s0, [], [])" using init by (simp add: good_def)
next
  fix s ts tr ev p e s' out q
  assume g: "good (s, ts, tr)" and D: "D s ev = Some p" and r: "run e p s = (s', out, q)"
  from g have s: "I s" "list_all G tr" "list_all (task_ok s) ts"
    "claims ts = 0 \<and> ends s \<or> claims ts = 1 \<and> busy s"
    by (simp_all add: good_def)
  consider (own) "excl ev" "\<not> busy s" | (idle) "excl ev" "busy s" | (other) "\<not> excl ev"
    by blast
  then show "good (s', park ev q ts, tr @ out)"
  proof cases
    case own
    from exclusive [OF D this(1) s(1) this(2)] own s show ?thesis
      by (intro own_segment [OF _ _ r]) (simp_all add: runs_own_def)
  next
    case idle
    have "p = Return ()" using inert [OF D idle] .
    then show ?thesis using r s by (auto simp: good_def park_def)
  next
    case other
    from others [OF D this s(1)] other s show ?thesis
      by (intro shared_segment [OF _ _ r]) (simp_all add: runs_shared_def)
  qed
next
  fix s ts1 ev c k ts2 tr e r s' out q
  assume g: "good (s, ts1 @ (ev, Await c k) # ts2, tr)" and run: "run e (k r) s = (s', out, q)"
  from g have s: "I s" "list_all G tr" "list_all (task_ok s) (ts1 @ ts2)" "task_ok s (ev, Await c k)"
    "(if excl ev then 1 else 0) + claims (ts1 @ ts2) = 0 \<and> ends s
     \<or> (if excl ev then 1 else 0) + claims (ts1 @ ts2) = 1 \<and> busy s"
    by (auto simp: good_def)
  show "good (s', park ev q (ts1 @ ts2), tr @ out)"
  proof (cases "excl ev")
    case True
    with s(5) have "busy s" and "claims (ts1 @ ts2) = 0" by (auto split: if_splits)
    moreover have "wp own (k r) done_own done_own s s"
      using s(1,4) \<open>busy s\<close> True R_refl S_refl
      by (auto simp: task_ok_def waiting_def)
    ultimately show ?thesis
      using s True by (intro own_segment [OF _ _ run]) simp_all
  next
    case False
    have "wp shared (k r) done_shared done_shared s s"
      using s(1,4) False R_refl by (auto simp: task_ok_def waiting_def)
    then show ?thesis
      using s False by (intro shared_segment [OF _ _ run]) simp_all
  qed
qed

context exclusive_view
begin

lemmas reach_good = configs.reach_holds

lemma reach_invariant: "reach D s0 (s, ts, tr) \<Longrightarrow> I s"
  by (drule reach_good) (simp add: good_def)

lemma reach_effects: "reach D s0 (s, ts, tr) \<Longrightarrow> x \<in> set tr \<Longrightarrow> G x"
  by (drule reach_good) (simp add: good_def list_all_iff)

text \<open>At most one exclusive handler runs, and only while the busy flag is set.\<close>

lemma reach_exclusive:
  "reach D s0 (s, ts, tr) \<Longrightarrow>
     length (filter (\<lambda>(ev, q). excl ev) ts) = 0 \<and> ends s
     \<or> length (filter (\<lambda>(ev, q). excl ev) ts) = 1 \<and> busy s"
  by (drule reach_good) (simp add: good_def claims_def case_prod_unfold)

end

end
