(* ===== verification/Query_Hooks.thy ===== *)
theory Query_Hooks
  imports Async_Prog Error_Messages
begin

text \<open>
  The hooks under \<^verbatim>\<open>frontend/src/hooks\<close> as programs over the state of the view that calls them:
  the action objects of the account, the plans, the wear events and the wardrobe, and the pages
  of the lists. Every action awaits one call of the API client and then brings the query cache
  up to date; its errors are those of the call.
\<close>

subsection \<open>Awaiting a typed response\<close>

text \<open>
  \<^verbatim>\<open>await call\<close>. A response has the type of its operation; the case of another one, which
  the types of the client exclude, ends like a failed property read.
\<close>

definition await :: "request \<Rightarrow> (response \<Rightarrow> ('s, 'a) prog) \<Rightarrow> ('s, 'a) prog" where
  "await c k = Await c (\<lambda>r. case r of Inl e \<Rightarrow> Throw e | Inr v \<Rightarrow> k v)"

definition await_as :: "request \<Rightarrow> (response \<Rightarrow> 'a option) \<Rightarrow> ('s, 'a) prog" where
  "await_as c proj = await c (\<lambda>v. case proj v of Some a \<Rightarrow> Return a | None \<Rightarrow> Throw JUndefined)"

definition await_call :: "api_call \<Rightarrow> (response \<Rightarrow> 'a option) \<Rightarrow> ('s, 'a) prog" where
  "await_call c proj = await_as (Call c) proj"

text \<open>\<^verbatim>\<open>await queryClient.invalidateQueries(...)\<close>, which does not reject.\<close>

definition invalidate :: "query_key list \<Rightarrow> ('s, unit) prog" where
  "invalidate keys = Await (Invalidate_queries keys) (\<lambda>_. Return ())"

definition refetch :: "query_key \<Rightarrow> ('s, unit) prog" where
  "refetch key = Await (Refetch_query key) (\<lambda>_. Return ())"

definition fetchNextPage :: "query_key \<Rightarrow> ('s, unit) prog" where
  "fetchNextPage key = Await (Fetch_next_page key) (\<lambda>_. Return ())"

fun as_item where "as_item (R_item i) = Some i" | "as_item _ = None"
fun as_impact where "as_impact (R_impact i) = Some i" | "as_impact _ = None"
fun as_recommendation where "as_recommendation (R_recommendation r) = Some r" | "as_recommendation _ = None"
fun as_plan where "as_plan (R_plan p) = Some p" | "as_plan _ = None"
fun as_event where "as_event (R_event v) = Some v" | "as_event _ = None"
fun as_user where "as_user (R_user u) = Some u" | "as_user _ = None"
fun as_deletion where "as_deletion (R_deletion d) = Some d" | "as_deletion _ = None"
fun as_media_id where "as_media_id (R_media_id m) = Some m" | "as_media_id _ = None"
fun as_file where "as_file (R_file f l) = Some (f, l)" | "as_file _ = None"
fun as_void where "as_void R_void = Some ()" | "as_void _ = None"

lemma wp_await [simp]:
  "wp C (await c k) Q E u s \<longleftrightarrow>
     admits C (Issued c) \<and> holds C s \<and> keeps C u s \<and>
     (\<forall>t. holds C t \<longrightarrow> relies C s t \<longrightarrow>
        (\<forall>e. E e t t) \<and> (\<forall>v. wp C (k v) Q E t t))"
  by (auto simp: await_def split: sum.split)

lemma wp_await_as [simp]:
  "wp C (await_as c proj) Q E u s \<longleftrightarrow>
     admits C (Issued c) \<and> holds C s \<and> keeps C u s \<and>
     (\<forall>t. holds C t \<longrightarrow> relies C s t \<longrightarrow>
        (\<forall>e. E e t t) \<and> (\<forall>v a. proj v = Some a \<longrightarrow> Q a t t))"
  by (auto simp: await_as_def split: option.split)

lemma wp_await_call [simp]:
  "wp C (await_call c proj) Q E u s \<longleftrightarrow>
     admits C (Issued (Call c)) \<and> holds C s \<and> keeps C u s \<and>
     (\<forall>t. holds C t \<longrightarrow> relies C s t \<longrightarrow>
        (\<forall>e. E e t t) \<and> (\<forall>v a. proj v = Some a \<longrightarrow> Q a t t))"
  by (simp add: await_call_def)

lemma wp_invalidate [simp]:
  "wp C (invalidate ks) Q E u s \<longleftrightarrow>
     admits C (Issued (Invalidate_queries ks)) \<and> holds C s \<and> keeps C u s \<and>
     (\<forall>t. holds C t \<longrightarrow> relies C s t \<longrightarrow> Q () t t)"
  by (simp add: invalidate_def)

lemma wp_refetch [simp]:
  "wp C (refetch k) Q E u s \<longleftrightarrow>
     admits C (Issued (Refetch_query k)) \<and> holds C s \<and> keeps C u s \<and>
     (\<forall>t. holds C t \<longrightarrow> relies C s t \<longrightarrow> Q () t t)"
  by (simp add: refetch_def)

lemma wp_fetchNextPage [simp]:
  "wp C (fetchNextPage k) Q E u s \<longleftrightarrow>
     admits C (Issued (Fetch_next_page k)) \<and> holds C s \<and> keeps C u s \<and>
     (\<forall>t. holds C t \<longrightarrow> relies C s t \<longrightarrow> Q () t t)"
  by (simp add: fetchNextPage_def)

declare await_def [prog_simps] await_as_def [prog_simps] await_call_def [prog_simps] invalidate_def [prog_simps]
  refetch_def [prog_simps] fetchNextPage_def [prog_simps]

subsection \<open>use-account-actions.ts\<close>

definition account_register :: "register_request \<Rightarrow> ('s, unit) prog" where
  "account_register body =
     bind (await_call (RegisterAccount body) as_user) (\<lambda>user.
       Emit Cache_clear (Emit (Cache_set_user user) (Return ())))"

definition account_login :: "session_request \<Rightarrow> ('s, unit) prog" where
  "account_login body =
     bind (await_call (CreateSession body) as_user) (\<lambda>user.
       Emit Cache_clear (Emit (Cache_set_user user) (Return ())))"

definition account_update :: "update_user_request \<Rightarrow> ('s, unit) prog" where
  "account_update body =
     bind (await_call (UpdateCurrentUser body) as_user) (\<lambda>user.
       Emit (Cache_set_user user) (Return ()))"

definition account_logout :: "('s, unit) prog" where
  "account_logout =
     bind (await_call DeleteSession as_void) (\<lambda>_. Emit Cache_clear (Return ()))"

definition account_remove :: "('s, account_deletion) prog" where
  "account_remove =
     bind (await_call DeleteCurrentUser as_deletion) (\<lambda>receipt.
       Emit Cache_clear (Return receipt))"

definition account_clear_current :: "('s, unit) prog" where
  "account_clear_current = Emit Cache_clear (Return ())"

subsection \<open>use-outfit-plans.ts\<close>

definition plan_changed :: "('s, 'a) prog \<Rightarrow> ('s, 'a) prog" where
  "plan_changed operation =
     bind operation (\<lambda>result. bind (invalidate [Plans_key]) (\<lambda>_. Return result))"

definition plan_create :: "create_plan \<Rightarrow> ('s, outfit_plan) prog" where
  "plan_create body = plan_changed (await_call (CreateOutfitPlan body) as_plan)"

definition plan_update :: "jstring \<Rightarrow> update_plan \<Rightarrow> ('s, outfit_plan) prog" where
  "plan_update i body = plan_changed (await_call (UpdateOutfitPlan i body) as_plan)"

definition plan_get :: "jstring \<Rightarrow> ('s, outfit_plan) prog" where
  "plan_get i = await_call (GetOutfitPlan i) as_plan"

definition plan_cancel :: "jstring \<Rightarrow> int \<Rightarrow> ('s, outfit_plan) prog" where
  "plan_cancel i revision = plan_changed (await_call (CancelOutfitPlan i revision) as_plan)"

definition plan_mark_not_worn :: "jstring \<Rightarrow> int \<Rightarrow> ('s, outfit_plan) prog" where
  "plan_mark_not_worn i revision =
     plan_changed (await_call (MarkOutfitPlanNotWorn i revision) as_plan)"

definition plan_restore :: "jstring \<Rightarrow> int \<Rightarrow> ('s, outfit_plan) prog" where
  "plan_restore i revision = plan_changed (await_call (RestoreOutfitPlan i revision) as_plan)"

definition plan_remove :: "jstring \<Rightarrow> int \<Rightarrow> ('s, unit) prog" where
  "plan_remove i revision = plan_changed (await_call (DeleteOutfitPlan i revision) as_void)"

subsection \<open>use-wear-events.ts\<close>

definition wear_changed :: "('s, 'a) prog \<Rightarrow> ('s, 'a) prog" where
  "wear_changed operation =
     bind operation (\<lambda>result.
       bind (invalidate [Wear_events_key, Statistics_key, Plans_key, Wardrobe_key])
         (\<lambda>_. Return result))"

definition wear_create :: "create_wear \<Rightarrow> ('s, wear_event) prog" where
  "wear_create body = wear_changed (await_call (CreateWearEvent body) as_event)"

definition wear_update :: "jstring \<Rightarrow> update_wear \<Rightarrow> ('s, wear_event) prog" where
  "wear_update i body = wear_changed (await_call (UpdateWearEvent i body) as_event)"

definition wear_get :: "jstring \<Rightarrow> ('s, wear_event) prog" where
  "wear_get i = await_call (GetWearEvent i) as_event"

definition wear_remove :: "jstring \<Rightarrow> int \<Rightarrow> ('s, unit) prog" where
  "wear_remove i revision = wear_changed (await_call (DeleteWearEvent i revision) as_void)"

subsection \<open>use-wardrobe.ts\<close>

definition wardrobe_create :: "create_item \<Rightarrow> ('s, wardrobe_item) prog" where
  "wardrobe_create body =
     bind (await_call (CreateWardrobeItem body) as_item) (\<lambda>item.
       bind (invalidate [Wardrobe_key, Statistics_key]) (\<lambda>_. Return item))"

definition wardrobe_update :: "jstring \<Rightarrow> update_item \<Rightarrow> ('s, wardrobe_item) prog" where
  "wardrobe_update i body =
     bind (await_call (UpdateWardrobeItem i body) as_item) (\<lambda>item.
       bind (invalidate [Wardrobe_key, Statistics_key]) (\<lambda>_. Return item))"

definition wardrobe_get :: "jstring \<Rightarrow> ('s, wardrobe_item) prog" where
  "wardrobe_get i = await_call (GetWardrobeItem i) as_item"

definition wardrobe_impact :: "jstring \<Rightarrow> ('s, deletion_impact) prog" where
  "wardrobe_impact i = await_call (GetWardrobeDeletionImpact i) as_impact"

definition wardrobe_remove ::
  "jstring \<Rightarrow> int \<Rightarrow> jstring \<Rightarrow> history_policy \<Rightarrow> ('s, unit) prog" where
  "wardrobe_remove i revision impact policy =
     bind (await_call (DeleteWardrobeItem i revision impact policy) as_void) (\<lambda>_.
       invalidate [Wardrobe_key, Statistics_key])"

subsection \<open>The recommendation, the upload and the stored photo\<close>

definition recommend :: "recommendation_request \<Rightarrow> ('s, recommendation_response) prog" where
  "recommend body = await_call (RecommendWardrobeOutfits body) as_recommendation"

definition upload_photo :: "js_file \<Rightarrow> ('s, jstring) prog" where
  "upload_photo file = await_as (Upload_photo file) as_media_id"

definition read_photo :: "jstring \<Rightarrow> bool \<Rightarrow> ('s, js_file \<times> bool) prog" where
  "read_photo i original = await_as (Read_photo i original) as_file"

lemmas hook_defs =
  account_register_def account_login_def account_update_def account_logout_def account_remove_def
  account_clear_current_def plan_changed_def plan_create_def plan_update_def plan_get_def
  plan_cancel_def plan_mark_not_worn_def plan_restore_def plan_remove_def wear_changed_def
  wear_create_def wear_update_def wear_get_def wear_remove_def wardrobe_create_def
  wardrobe_update_def wardrobe_get_def wardrobe_impact_def wardrobe_remove_def recommend_def
  upload_photo_def read_photo_def

declare hook_defs [prog_simps]

subsection \<open>Queries\<close>

text \<open>
  What a query of the cache shows a view: whether it is pending or failed, and the data it
  has, which a failed refetch leaves in place.
\<close>

datatype query_status = Q_pending | Q_error jsval | Q_success

record 'a query =
  q_status :: query_status
  q_data :: "'a option"

definition isPending :: "('a, 'z) query_scheme \<Rightarrow> bool" where
  "isPending q \<longleftrightarrow> q_status q = Q_pending"

definition isError :: "('a, 'z) query_scheme \<Rightarrow> bool" where
  "isError q \<longleftrightarrow> (case q_status q of Q_error _ \<Rightarrow> True | _ \<Rightarrow> False)"

definition q_error :: "('a, 'z) query_scheme \<Rightarrow> jsval" where
  "q_error q = (case q_status q of Q_error e \<Rightarrow> e | _ \<Rightarrow> JNull)"

text \<open>\<^verbatim>\<open>query.isError && accountStatus(query.error) === 401\<close>\<close>

definition session_lost :: "('a, 'z) query_scheme \<Rightarrow> bool" where
  "session_lost q \<longleftrightarrow> isError q \<and> accountStatus (q_error q) = Some 401"

definition no_query :: "'a query" where
  "no_query = \<lparr>q_status = Q_pending, q_data = None\<rparr>"

text \<open>
  A query of pages: \<^verbatim>\<open>useInfiniteQuery\<close>. There is a next page when the last one names a
  cursor; a flag tells that a further page is being fetched.
\<close>

record 'a page =
  pg_items :: "'a list"
  pg_next_after_id :: "jstring option"

record 'a list_query = "'a page list query" +
  q_fetching_next :: bool

definition no_list_query :: "'a list_query" where
  "no_list_query = query.extend no_query \<lparr>q_fetching_next = False\<rparr>"

definition wardrobe_page :: "jstring option \<Rightarrow> api_call" where
  "wardrobe_page pageParam = ListWardrobeItems (Some 30) pageParam"

definition plans_page :: "jstring option \<Rightarrow> api_call" where
  "plans_page pageParam = ListOutfitPlans (Some 20) pageParam"

definition wear_page :: "jstring option \<Rightarrow> api_call" where
  "wear_page pageParam = ListWearEvents (Some 20) pageParam"

definition getNextPageParam :: "'a page \<Rightarrow> jstring option" where
  "getNextPageParam page = pg_next_after_id page"

text \<open>\<^verbatim>\<open>query.data?.pages.flatMap((page) => page.items) ?? []\<close>\<close>

definition all_items :: "'a list_query \<Rightarrow> 'a list" where
  "all_items q = (case q_data q of None \<Rightarrow> [] | Some pages \<Rightarrow> concat (map pg_items pages))"

definition hasNextPage :: "'a list_query \<Rightarrow> bool" where
  "hasNextPage q =
     (case q_data q of
        None \<Rightarrow> False
      | Some pages \<Rightarrow> pages \<noteq> [] \<and> getNextPageParam (last pages) \<noteq> None)"

definition loading_items :: "'a list_query \<Rightarrow> bool" where
  "loading_items q \<longleftrightarrow> q_status q = Q_pending \<or> q_fetching_next q"

text \<open>\<^verbatim>\<open>use-wear-statistics.ts\<close>: the query is enabled with a session and both dates.\<close>

definition wear_statistics_query :: "bool \<Rightarrow> jstring \<Rightarrow> jstring \<Rightarrow> api_call option" where
  "wear_statistics_query enabled from_date to_date =
     (if enabled \<and> from_date \<noteq> [] \<and> to_date \<noteq> [] then Some (GetWearStatistics from_date to_date)
      else None)"

end
