(* ===== verification/Outfit_Plan_Lib.thy ===== *)
theory Outfit_Plan_Lib
  imports Api_Types Calendar_Dates
begin

text \<open>
  The form of an outfit plan, \<^verbatim>\<open>lib/outfit-plan/form.ts\<close>, and the selection of garments of the
  flat-lay editor, \<^verbatim>\<open>lib/outfit-plan/selection.ts\<close>.
\<close>

subsection \<open>The form\<close>

record plan_form =
  pl_local_date :: jstring
  pl_time_zone :: jstring
  pl_context_summary :: jstring
  pl_items :: "selection list"
  pl_confirmed_unavailable_ids :: "jstring list"

definition emptyPlanForm :: "env \<Rightarrow> plan_form" where
  "emptyPlanForm e =
     (let timeZone = device_time_zone e in
      \<lparr>pl_local_date = device_today e,
       pl_time_zone = timeZone,
       pl_context_summary = [],
       pl_items = [],
       pl_confirmed_unavailable_ids = []\<rparr>)"

text \<open>The selections of the snapshot items whose content has not been cleared.\<close>

definition kept_selections :: "snapshot_item list \<Rightarrow> selection list" where
  "kept_selections items =
     concat (map (\<lambda>item. case si_content item of
        Some content \<Rightarrow> [\<lparr>os_item_id = ic_item_id content, os_revision = ic_item_revision content\<rparr>]
      | None \<Rightarrow> []) items)"

definition planFormFromResponse :: "outfit_plan \<Rightarrow> plan_form" where
  "planFormFromResponse plan =
     \<lparr>pl_local_date = op_local_date plan,
      pl_time_zone = op_time_zone plan,
      pl_context_summary = (case op_context_summary plan of None \<Rightarrow> [] | Some s \<Rightarrow> s),
      pl_items = kept_selections (op_items plan),
      pl_confirmed_unavailable_ids = []\<rparr>"

datatype plan_form_text =
    Plan_date_invalid | Time_zone_unreadable | Plan_date_past | Items_1_to_20 | Summary_invalid
  | Items_not_loaded | Unavailable_not_confirmed

text \<open>The summary test that the plan and the wear form share.\<close>

definition summary_bad :: "jstring \<Rightarrow> bool" where
  "summary_bad summary \<longleftrightarrow> 120 < char_count summary \<or> has_control summary"

text \<open>A summary as it is sent: absent, or trimmed, short and free of control characters.\<close>

definition summary_ok :: "jstring option \<Rightarrow> bool" where
  "summary_ok summary \<longleftrightarrow>
     (case summary of
        None \<Rightarrow> True
      | Some t \<Rightarrow> t \<noteq> [] \<and> trim t = t \<and> char_count t \<le> 120 \<and> \<not> has_control t)"

text \<open>\<^verbatim>\<open>Inl\<close> is the exception of \<^verbatim>\<open>todayInTimeZone\<close>, which nothing here catches.\<close>

definition planFormError :: "env \<Rightarrow> plan_form \<Rightarrow> jstring option \<Rightarrow> jsval + plan_form_text option" where
  "planFormError e form originalDate =
     (if \<not> local_date_ok (pl_local_date form) then Inr (Some Plan_date_invalid)
      else if pl_time_zone form = [] then Inr (Some Time_zone_unreadable)
      else case todayInTimeZone e (pl_time_zone form) of
        Inl x \<Rightarrow> Inl x
      | Inr today \<Rightarrow> Inr
         (if pl_local_date form < today \<and> Some (pl_local_date form) \<noteq> originalDate
          then Some Plan_date_past
          else if length (pl_items form) < 1 \<or> length (pl_items form) > 20 then Some Items_1_to_20
          else if summary_bad (trim (pl_context_summary form)) then Some Summary_invalid
          else None))"

text \<open>\<^verbatim>\<open>s || undefined\<close>\<close>

definition or_undefined :: "jstring \<Rightarrow> jstring option" where
  "or_undefined s = (if s = [] then None else Some s)"

definition planRequestFields :: "plan_form \<Rightarrow> plan_fields" where
  "planRequestFields form =
     \<lparr>pf_local_date = pl_local_date form,
      pf_time_zone = pl_time_zone form,
      pf_context_summary = or_undefined (trim (pl_context_summary form)),
      pf_items = pl_items form,
      pf_confirmed_unavailable_ids = pl_confirmed_unavailable_ids form\<rparr>"

declare emptyPlanForm_def [form_defs] planFormFromResponse_def [form_defs]
  planRequestFields_def [form_defs] or_undefined_def [form_defs]

lemma plan_form_accepted_iff:
  "planFormError e f d = Inr None \<longleftrightarrow>
     local_date_ok (pl_local_date f) \<and> pl_time_zone f \<noteq> [] \<and> zone_known e (pl_time_zone f)
     \<and> (formatted_date e (pl_time_zone f) \<le> pl_local_date f \<or> d = Some (pl_local_date f))
     \<and> length (pl_items f) \<in> {1..20} \<and> \<not> summary_bad (trim (pl_context_summary f))"
  by (auto simp: planFormError_def todayInTimeZone_def not_less Suc_le_eq)

lemma kept_selections_ids:
  "os_item_id ` set (kept_selections items) = {ic_item_id c | c. Some c \<in> si_content ` set items}"
  by (force simp: kept_selections_def split: option.splits)

lemma kept_selections_le: "length (kept_selections items) \<le> length items"
  by (induction items) (auto simp: kept_selections_def split: option.splits)

lemma kept_selections_append [simp]:
  "kept_selections (xs @ ys) = kept_selections xs @ kept_selections ys"
  by (simp add: kept_selections_def)

text \<open>A date the validator accepts for a new plan is a calendar date, and none before today.\<close>

lemma plan_date_not_past:
  assumes "planFormError e f None = Inr None" and "env_ok e"
  shows "calendar_date (iso_fields (pl_local_date f))
    \<and> iso_fields (formatted_date e (pl_time_zone f)) \<le> iso_fields (pl_local_date f)"
proof -
  from assms(1) have "local_date_ok (pl_local_date f)"
    and "\<not> pl_local_date f < formatted_date e (pl_time_zone f)" and "zone_known e (pl_time_zone f)"
    by (auto simp: plan_form_accepted_iff)
  moreover have "local_date_ok (formatted_date e (pl_time_zone f))"
    using assms(2) calculation(3) by (rule today_ok)
  ultimately show ?thesis by (simp add: local_date_ok_iff iso_order [symmetric] flip: not_less)
qed

subsection \<open>Replacing a garment\<close>

definition conflict_set :: "category \<Rightarrow> category set" where
  "conflict_set c =
     {c} \<union> (if c = One_piece then {Top, Bottom} else {})
     \<union> (if c = Top \<or> c = Bottom then {One_piece} else {})"

definition replaceGarment ::
  "selection list \<Rightarrow> wardrobe_item \<Rightarrow> wardrobe_item list \<Rightarrow> selection list" where
  "replaceGarment selections item wardrobe =
     (let categories = js_map (map (\<lambda>entry. (wi_id entry, wi_category entry)) wardrobe);
          conflicts = conflict_set (wi_category item)
      in filter (\<lambda>entry. case categories (os_item_id entry) of
             None \<Rightarrow> True
           | Some category \<Rightarrow> category \<notin> conflicts) selections
         @ [\<lparr>os_item_id = wi_id item, os_revision = wi_revision item\<rparr>])"

text \<open>
  What the table is for: a garment covers certain parts of the body, and two garments that cover a
  part in common are not worn together.
\<close>

datatype body_part = Upper_body | Lower_body | Outer_layer | Feet | Carried | Adornment

fun covers :: "category \<Rightarrow> body_part set" where
  "covers Top = {Upper_body}"
| "covers Bottom = {Lower_body}"
| "covers One_piece = {Upper_body, Lower_body}"
| "covers Outerwear = {Outer_layer}"
| "covers Shoes = {Feet}"
| "covers Bag = {Carried}"
| "covers Accessory = {Adornment}"

text \<open>The table of the code is exactly that of the body: garments conflict if they cover a part in common.\<close>

lemma conflict_covers: "d \<in> conflict_set c \<longleftrightarrow> covers d \<inter> covers c \<noteq> {}"
  by (cases c; cases d) (simp_all add: conflict_set_def)

text \<open>
  The category of a selection, and what the editor is to keep: among the selections whose
  garment is in the wardrobe no two cover a part in common.
\<close>

definition sel_category :: "wardrobe_item list \<Rightarrow> selection \<Rightarrow> category option" where
  "sel_category wardrobe entry =
     js_map (map (\<lambda>w. (wi_id w, wi_category w)) wardrobe) (os_item_id entry)"

definition conflicting :: "wardrobe_item list \<Rightarrow> selection \<Rightarrow> selection \<Rightarrow> bool" where
  "conflicting wardrobe a b =
     (case (sel_category wardrobe a, sel_category wardrobe b) of
        (Some c, Some d) \<Rightarrow> covers c \<inter> covers d \<noteq> {}
      | _ \<Rightarrow> False)"

lemma conflicting_table:
  "conflicting wardrobe a b \<longleftrightarrow>
     (case (sel_category wardrobe a, sel_category wardrobe b) of
        (Some c, Some d) \<Rightarrow> d \<in> conflict_set c
      | _ \<Rightarrow> False)"
  by (auto simp: conflicting_def conflict_covers Int_commute split: option.split)

fun compatible :: "wardrobe_item list \<Rightarrow> selection list \<Rightarrow> bool" where
  "compatible w [] = True"
| "compatible w (a # as) = (list_all (\<lambda>b. \<not> conflicting w a b) as \<and> compatible w as)"

lemma conflict_refl [simp]: "c \<in> conflict_set c"
  by (simp add: conflict_set_def)

lemma conflict_sym: "c \<in> conflict_set d \<longleftrightarrow> d \<in> conflict_set c"
  by (cases c; cases d; simp add: conflict_set_def)

lemma replaceGarment_eq:
  "replaceGarment sel item w =
     filter (\<lambda>a. case sel_category w a of None \<Rightarrow> True | Some c \<Rightarrow> c \<notin> conflict_set (wi_category item)) sel
     @ [\<lparr>os_item_id = wi_id item, os_revision = wi_revision item\<rparr>]"
  by (simp add: replaceGarment_def sel_category_def)

lemma sel_category_item:
  "distinct (map wi_id w) \<Longrightarrow> item \<in> set w \<Longrightarrow>
     sel_category w \<lparr>os_item_id = wi_id item, os_revision = r\<rparr> = Some (wi_category item)"
  by (simp add: sel_category_def js_map_by_id)

lemma compatible_append:
  "compatible w (as @ bs) \<longleftrightarrow> compatible w as \<and> compatible w bs
     \<and> (\<forall>a\<in>set as. \<forall>b\<in>set bs. \<not> conflicting w a b)"
  by (induction as) (auto simp: list_all_iff)

lemma compatible_filter: "compatible w as \<Longrightarrow> compatible w (filter P as)"
  by (induction as) (auto simp: list_all_iff)

lemma compatible_replace:
  assumes "distinct (map wi_id w)" and "item \<in> set w" and "compatible w sel"
  shows "compatible w (replaceGarment sel item w)"
  using assms
  by (auto simp: replaceGarment_eq compatible_append compatible_filter conflicting_table
      sel_category_item conflict_sym split: option.splits)

lemma replace_idem:
  assumes "distinct (map wi_id w)" and "item \<in> set w"
  shows "replaceGarment (replaceGarment sel item w) item w = replaceGarment sel item w"
  using assms by (simp add: replaceGarment_eq sel_category_item)

lemma replace_keeps:
  "a \<in> set sel \<Longrightarrow>
     sel_category w a = None \<or> (\<exists>c. sel_category w a = Some c \<and> c \<notin> conflict_set (wi_category item))
     \<Longrightarrow> a \<in> set (replaceGarment sel item w)"
  by (auto simp: replaceGarment_eq)

text \<open>At most six known garments are worn at once, so the bound of twenty is out of reach.\<close>

lemma conflict_insert:
  assumes "\<forall>d\<in>X. d \<notin> conflict_set c" and "\<not> (One_piece \<in> X \<and> (Top \<in> X \<or> Bottom \<in> X))"
  shows "c \<notin> X \<and> \<not> (One_piece \<in> insert c X \<and> (Top \<in> insert c X \<or> Bottom \<in> insert c X))"
  using assms by (cases c) (auto simp: conflict_set_def)

lemma compatible_categories:
  assumes "compatible w sel" and "\<And>a. a \<in> set sel \<Longrightarrow> sel_category w a \<noteq> None"
  defines "cs \<equiv> map (\<lambda>a. the (sel_category w a)) sel"
  shows "distinct cs \<and> \<not> (One_piece \<in> set cs \<and> (Top \<in> set cs \<or> Bottom \<in> set cs))"
  using assms(1,2) unfolding cs_def
proof (induction sel)
  case (Cons a sel)
  let ?cs = "map (\<lambda>a. the (sel_category w a)) sel"
  obtain c where c: "sel_category w a = Some c" using Cons.prems(2) [of a] by auto
  have "the (sel_category w b) \<notin> conflict_set c" if "b \<in> set sel" for b
  proof -
    have "sel_category w b \<noteq> None" using Cons.prems(2) that by simp
    then obtain d where "sel_category w b = Some d" by blast
    then show ?thesis using Cons.prems(1) that c by (auto simp: list_all_iff conflicting_table)
  qed
  then have "\<forall>d\<in>set ?cs. d \<notin> conflict_set c" by simp
  moreover have IH: "distinct ?cs \<and> \<not> (One_piece \<in> set ?cs \<and> (Top \<in> set ?cs \<or> Bottom \<in> set ?cs))"
    using Cons by simp
  ultimately show ?case
    using conflict_insert [of "set ?cs" c] c by (simp del: set_map)
qed simp

lemma compatible_length:
  assumes "compatible w sel" and "\<And>a. a \<in> set sel \<Longrightarrow> sel_category w a \<noteq> None"
  shows "length sel \<le> 6"
proof -
  let ?cs = "map (\<lambda>a. the (sel_category w a)) sel"
  have d: "distinct ?cs" and one: "\<not> (One_piece \<in> set ?cs \<and> (Top \<in> set ?cs \<or> Bottom \<in> set ?cs))"
    using compatible_categories [OF assms] by simp_all
  have "length sel = card (set ?cs)" using distinct_card [OF d] by simp
  also have "card (set ?cs) \<le> 6"
  proof (cases "One_piece \<in> set ?cs")
    case True
    then have "c \<in> {One_piece, Outerwear, Shoes, Bag, Accessory}" if "c \<in> set ?cs" for c
      using one that by (cases c) (simp_all del: set_map)
    then have "set ?cs \<subseteq> {One_piece, Outerwear, Shoes, Bag, Accessory}" by blast
    then have "card (set ?cs) \<le> card {One_piece, Outerwear, Shoes, Bag, Accessory}"
      by (intro card_mono) simp_all
    then show ?thesis by simp
  next
    case False
    then have "c \<in> {Top, Bottom, Outerwear, Shoes, Bag, Accessory}" if "c \<in> set ?cs" for c
      using that by (cases c) (simp_all del: set_map)
    then have "set ?cs \<subseteq> {Top, Bottom, Outerwear, Shoes, Bag, Accessory}" by blast
    then have "card (set ?cs) \<le> card {Top, Bottom, Outerwear, Shoes, Bag, Accessory}"
      by (intro card_mono) simp_all
    then show ?thesis by simp
  qed
  finally show ?thesis .
qed

end
