(* ===== verification/Wardrobe_Lib.thy ===== *)
theory Wardrobe_Lib
  imports Api_Types Js_Values
begin

text \<open>
  The wardrobe libraries: the item form (\<^verbatim>\<open>lib/wardrobe/form.ts\<close>), the sample garments
  (\<^verbatim>\<open>lib/wardrobe/samples.ts\<close>), the garments of the fitting room
  (\<^verbatim>\<open>lib/fitting-room/samples.ts\<close>), the scenes of the recommendation page
  (\<^verbatim>\<open>lib/recommendation/scenes.ts\<close>) and the source of an item's picture
  (\<^verbatim>\<open>components/wardrobe/wardrobe-item-image.tsx\<close>).
\<close>

subsection \<open>The item form\<close>

record wardrobe_form =
  fm_original_photo_media_id :: "jstring option"
  fm_photo_original_file :: "js_file option"
  fm_original_photo_preview :: "jstring option"
  fm_photo_media_id :: "jstring option"
  fm_photo_file :: "js_file option"
  fm_photo_preview :: "jstring option"
  fm_name :: jstring
  fm_sample_image :: "jstring option"
  fm_category :: category
  fm_availability :: availability
  fm_attributes :: attributes

text \<open>The labels, as the code units of the literals.\<close>

definition categoryLabels :: "category \<Rightarrow> jstring" where
  "categoryLabels c =
     (case c of
        Top \<Rightarrow> [0x4E0A, 0x8863]
      | Bottom \<Rightarrow> [0x4E0B, 0x88C5]
      | One_piece \<Rightarrow> [0x8FDE, 0x8863, 0x88C5]
      | Outerwear \<Rightarrow> [0x5916, 0x5957]
      | Shoes \<Rightarrow> [0x978B, 0x5C65]
      | Bag \<Rightarrow> [0x5305]
      | Accessory \<Rightarrow> [0x914D, 0x9970])"

definition availabilityLabels :: "availability \<Rightarrow> jstring" where
  "availabilityLabels a =
     (case a of
        Wearable \<Rightarrow> [0x53EF, 0x7A7F]
      | Laundry \<Rightarrow> [0x5F85, 0x6D17]
      | Lent_out \<Rightarrow> [0x501F, 0x51FA]
      | Packed \<Rightarrow> [0x5DF2, 0x6536, 0x7EB3])"

definition no_attributes :: attributes where
  "no_attributes =
     \<lparr>at_formality_band = None, at_warmth_band = None, at_rain_use = None, at_walking_use = None\<rparr>"

definition emptyWardrobeForm :: wardrobe_form where
  "emptyWardrobeForm =
     \<lparr>fm_original_photo_media_id = None, fm_photo_original_file = None,
      fm_original_photo_preview = None, fm_photo_media_id = None, fm_photo_file = None,
      fm_photo_preview = None, fm_name = [], fm_sample_image = None,
      fm_category = Top, fm_availability = Wearable, fm_attributes = no_attributes\<rparr>"

text \<open>\<^verbatim>\<open>a ?? b\<close>\<close>

definition coalesce :: "'a option \<Rightarrow> 'a option \<Rightarrow> 'a option" where
  "coalesce a b = (case a of None \<Rightarrow> b | Some _ \<Rightarrow> a)"

definition wardrobeFormFromItem :: "wardrobe_item \<Rightarrow> wardrobe_form" where
  "wardrobeFormFromItem item =
     \<lparr>fm_original_photo_media_id =
        coalesce (wi_original_photo_media_id item) (wi_photo_media_id item),
      fm_photo_original_file = None,
      fm_original_photo_preview = None,
      fm_photo_media_id = wi_photo_media_id item,
      fm_photo_file = None,
      fm_photo_preview = None,
      fm_name = wi_name item,
      fm_sample_image = wi_sample_image item,
      fm_category = wi_category item,
      fm_availability = wi_availability item,
      fm_attributes =
        (case wi_attributes item of
           None \<Rightarrow> no_attributes
         | Some a \<Rightarrow>
             \<lparr>at_formality_band = at_formality_band a, at_warmth_band = at_warmth_band a,
              at_rain_use = at_rain_use a, at_walking_use = at_walking_use a\<rparr>)\<rparr>"

datatype name_text = Item_name_invalid

definition wardrobeNameError :: "jstring \<Rightarrow> name_text option" where
  "wardrobeNameError name =
     (let value = trim name in
      if value = [] \<or> 80 < char_count value \<or> has_control value then Some Item_name_invalid
      else None)"

declare emptyWardrobeForm_def [form_defs] wardrobeFormFromItem_def [form_defs]
  coalesce_def [form_defs] no_attributes_def [form_defs]

lemma wardrobe_name_accepted_iff:
  "wardrobeNameError name = None \<longleftrightarrow>
     (\<exists>u\<in>set name. \<not> is_space u) \<and> char_count (trim name) \<le> 80 \<and> \<not> has_control (trim name)"
  by (auto simp: wardrobeNameError_def Let_def trim_eq_Nil_iff list_all_iff)

lemma wardrobe_name_trimmed: "wardrobeNameError (trim name) = wardrobeNameError name"
  by (simp add: wardrobeNameError_def)

lemma categoryLabels_inj: "categoryLabels c = categoryLabels d \<longleftrightarrow> c = d"
  by (cases c; cases d; simp add: categoryLabels_def)

lemma availabilityLabels_inj: "availabilityLabels a = availabilityLabels b \<longleftrightarrow> a = b"
  by (cases a; cases b; simp add: availabilityLabels_def)

subsection \<open>Lookups in the loaded wardrobe\<close>

text \<open>The map that the plan page and the wear page build to look items up.\<close>

definition itemByID :: "wardrobe_item list \<Rightarrow> jstring \<Rightarrow> wardrobe_item option" where
  "itemByID items = js_map (map (\<lambda>item. (wi_id item, item)) items)"

text \<open>\<^verbatim>\<open>itemByID.get(id)?.availability !== 'wearable'\<close>\<close>

definition not_wearable :: "wardrobe_item list \<Rightarrow> jstring \<Rightarrow> bool" where
  "not_wearable items i = (map_option wi_availability (itemByID items i) \<noteq> Some Wearable)"

subsection \<open>Samples\<close>

record garment_sample =
  gs_key :: string
  gs_name :: jstring
  gs_category :: category
  gs_id :: string

definition garmentSamples :: "garment_sample list" where
  "garmentSamples =
     [\<lparr>gs_key = ''cream-knit'', gs_name = [0x7C73, 0x767D, 0x9488, 0x7EC7, 0x886B],
       gs_category = Top, gs_id = ''6a236c7c-1e1e-4e48-8750-21d94a330001''\<rparr>,
      \<lparr>gs_key = ''navy-shirt'', gs_name = [0x6D77, 0x519B, 0x84DD, 0x886C, 0x886B],
       gs_category = Top, gs_id = ''6a236c7c-1e1e-4e48-8750-21d94a330002''\<rparr>,
      \<lparr>gs_key = ''charcoal-trousers'', gs_name = [0x70AD, 0x7070, 0x957F, 0x88E4],
       gs_category = Bottom, gs_id = ''6a236c7c-1e1e-4e48-8750-21d94a330003''\<rparr>,
      \<lparr>gs_key = ''blue-jeans'', gs_name = [0x84DD, 0x8272, 0x725B, 0x4ED4, 0x88E4],
       gs_category = Bottom, gs_id = ''6a236c7c-1e1e-4e48-8750-21d94a330004''\<rparr>,
      \<lparr>gs_key = ''white-sneakers'', gs_name = [0x767D, 0x8272, 0x8FD0, 0x52A8, 0x978B],
       gs_category = Shoes, gs_id = ''6a236c7c-1e1e-4e48-8750-21d94a330005''\<rparr>]"

definition sampleImagePath :: "jstring option \<Rightarrow> jstring option" where
  "sampleImagePath key =
     (if list_ex (\<lambda>sample. Some (js (gs_key sample)) = key) garmentSamples
      then Some (js ''/wardrobe-samples/'' @ the key @ js ''.png'')
      else None)"

text \<open>A file name without a separator: the path cannot leave the samples directory.\<close>

definition path_segment :: "jstring \<Rightarrow> bool" where
  "path_segment s \<longleftrightarrow> s \<noteq> [] \<and> list_all (\<lambda>u. u \<noteq> 0x2F \<and> u \<noteq> 0x5C \<and> u \<noteq> 0x3F \<and> u \<noteq> 0x23) s"

lemma sample_keys_segments: "list_all (\<lambda>s. path_segment (js (gs_key s))) garmentSamples"
  by (simp add: garmentSamples_def path_segment_def)

lemma sample_path_Some:
  assumes "sampleImagePath key = Some p"
  shows "\<exists>s\<in>set garmentSamples. key = Some (js (gs_key s))
    \<and> p = js ''/wardrobe-samples/'' @ js (gs_key s) @ js ''.png'' \<and> path_segment (js (gs_key s))"
  using assms sample_keys_segments
  by (auto simp: sampleImagePath_def list_ex_iff list_all_iff split: if_splits)

text \<open>\<^verbatim>\<open>previewSrc ?? (photo_media_id ? ... : sampleImagePath(sample_image))\<close>, and what is shown.\<close>

definition image_src :: "jstring option \<Rightarrow> jstring option \<Rightarrow> jstring option \<Rightarrow> jstring option" where
  "image_src previewSrc photo_media_id sample_image =
     (case previewSrc of
        Some src \<Rightarrow> Some src
      | None \<Rightarrow>
          (case photo_media_id of
             Some i \<Rightarrow> if i \<noteq> [] then Some (js ''/media/'' @ i @ js ''/wardrobe-image'')
                       else sampleImagePath sample_image
           | None \<Rightarrow> sampleImagePath sample_image))"

text \<open>The picture, or \<^verbatim>\<open>None\<close> for the placeholder; \<open>failed\<close> is the state \<^verbatim>\<open>failedSource\<close>.\<close>

definition shown_image :: "jstring option \<Rightarrow> jstring option \<Rightarrow> jstring option" where
  "shown_image failed src =
     (case src of
        None \<Rightarrow> None
      | Some s \<Rightarrow> if s \<noteq> [] \<and> failed \<noteq> Some s then Some s else None)"

subsection \<open>The fitting room\<close>

record preserved_garment =
  pg_id :: string
  pg_name :: jstring
  pg_image :: string
  pg_category_label :: jstring

record garment_option = preserved_garment +
  go_category :: category
  go_color :: jstring

definition top_label :: jstring where "top_label = [0x4E0A, 0x88C5]"
definition bottom_label :: jstring where "bottom_label = [0x4E0B, 0x88C5]"

definition fittingRoomGarments :: "garment_option list" where
  "fittingRoomGarments =
     [\<lparr>pg_id = ''shirt'',
       pg_name = [0x6D77, 0x519B, 0x84DD, 0x68C9, 0x8D28, 0x886C, 0x886B],
       pg_image = ''/wardrobe-samples/navy-shirt.png'', pg_category_label = top_label,
       go_category = Top, go_color = [0x6D77, 0x519B, 0x84DD]\<rparr>,
      \<lparr>pg_id = ''knit'', pg_name = [0x7C73, 0x767D, 0x9488, 0x7EC7, 0x886B],
       pg_image = ''/wardrobe-samples/cream-knit.png'', pg_category_label = top_label,
       go_category = Top, go_color = [0x7C73, 0x767D, 0x8272]\<rparr>,
      \<lparr>pg_id = ''jeans'',
       pg_name = [0x7ECF, 0x5178, 0x76F4, 0x7B52, 0x725B, 0x4ED4, 0x88E4],
       pg_image = ''/wardrobe-samples/blue-jeans.png'', pg_category_label = bottom_label,
       go_category = Bottom, go_color = [0x975B, 0x84DD, 0x8272]\<rparr>]"

definition original_top :: preserved_garment where
  "original_top =
     \<lparr>pg_id = ''original-knit'', pg_name = [0x7C73, 0x767D, 0x9488, 0x7EC7, 0x886B],
      pg_image = ''/wardrobe-samples/cream-knit.png'', pg_category_label = top_label\<rparr>"

definition original_bottom :: preserved_garment where
  "original_bottom =
     \<lparr>pg_id = ''original-trousers'',
      pg_name = [0x70AD, 0x7070, 0x5782, 0x611F, 0x957F, 0x88E4],
      pg_image = ''/wardrobe-samples/charcoal-trousers.png'', pg_category_label = bottom_label\<rparr>"

definition original_shoes :: preserved_garment where
  "original_shoes =
     \<lparr>pg_id = ''original-shoes'',
      pg_name = [0x767D, 0x8272, 0x4F4E, 0x5E2E, 0x8FD0, 0x52A8, 0x978B],
      pg_image = ''/wardrobe-samples/low-top-sneakers.png'',
      pg_category_label = [0x978B, 0x5C65]\<rparr>"

subsection \<open>Scenes\<close>

record scene =
  sc_id :: string
  sc_label :: jstring
  sc_description :: jstring

definition scenes :: "scene list" where
  "scenes =
     [\<lparr>sc_id = ''daily'', sc_label = [0x65E5, 0x5E38, 0x51FA, 0x884C],
       sc_description = [0x8F7B, 0x677E, 0x81EA, 0x5728]\<rparr>,
      \<lparr>sc_id = ''commute'', sc_label = [0x901A, 0x52E4, 0x4E0A, 0x73ED],
       sc_description = [0x6574, 0x6D01, 0x5F97, 0x4F53]\<rparr>,
      \<lparr>sc_id = ''friends'', sc_label = [0x4E0E, 0x670B, 0x53CB, 0x89C1, 0x9762],
       sc_description = [0x81EA, 0x5728, 0x76F8, 0x805A]\<rparr>,
      \<lparr>sc_id = ''date'', sc_label = [0x7EA6, 0x4F1A, 0x805A, 0x4F1A],
       sc_description = [0x7565, 0x5E26, 0x5FC3, 0x610F]\<rparr>,
      \<lparr>sc_id = ''travel'', sc_label = [0x65C5, 0x884C, 0x51FA, 0x6E38],
       sc_description = [0x4FBF, 0x4E8E, 0x8D70, 0x52A8]\<rparr>,
      \<lparr>sc_id = ''relax'', sc_label = [0x5C45, 0x5BB6, 0x653E, 0x677E],
       sc_description = [0x8212, 0x9002, 0x4E3A, 0x5148]\<rparr>]"

definition isSceneId :: "jstring \<Rightarrow> bool" where
  "isSceneId value = list_ex (\<lambda>s. js (sc_id s) = value) scenes"

end
