(* ===== verification/Plan_View.thy ===== *)
theory Plan_View
  imports Query_Hooks Outfit_Plan_Lib Wardrobe_Lib
begin

text \<open>
  The plan page, \<^verbatim>\<open>components/outfit-plan/outfit-plan-view.tsx\<close>, with its form
  (\<^verbatim>\<open>outfit-plan-form.tsx\<close>) and the flat-lay editor (\<^verbatim>\<open>outfit-flatlay-editor.tsx\<close>): the state,
  every handler, and which control is shown and enabled in which state.
\<close>

datatype plan_action = Act_cancel | Act_not_worn | Act_delete

record plan_state =
  pv_user :: "user query"
  pv_wardrobe :: "wardrobe_item list_query"
  pv_plans :: "outfit_plan list_query"
  pv_create_id :: "jstring option"
  pv_form :: plan_form
  pv_editing :: "outfit_plan option"
  pv_confirmation :: "(outfit_plan \<times> plan_action) option"
  pv_pending :: bool
  pv_form_error :: "plan_form_text option"
  pv_error :: "plan_text option"
  pv_deleted :: bool
  pv_timer :: bool
  pv_category :: category
  pv_search :: jstring

definition blank_plan_form :: plan_form where
  "blank_plan_form =
     \<lparr>pl_local_date = [], pl_time_zone = [], pl_context_summary = [], pl_items = [],
      pl_confirmed_unavailable_ids = []\<rparr>"

definition plan_init :: plan_state where
  "plan_init =
     \<lparr>pv_user = no_query, pv_wardrobe = no_list_query, pv_plans = no_list_query,
      pv_create_id = None, pv_form = blank_plan_form, pv_editing = None, pv_confirmation = None,
      pv_pending = False, pv_form_error = None, pv_error = None, pv_deleted = False,
      pv_timer = True, pv_category = Top, pv_search = []\<rparr>"

definition pv_items :: "plan_state \<Rightarrow> wardrobe_item list" where
  "pv_items s = all_items (pv_wardrobe s)"

subsection \<open>Errors and sessions\<close>

definition leave_plans :: "(plan_state, unit) prog" where
  "leave_plans = bind account_clear_current (\<lambda>_. Emit (Replace_route To_login) (Return ()))"

definition plan_showError :: "jsval \<Rightarrow> (plan_state, unit) prog" where
  "plan_showError cause =
     (if accountStatus cause = Some 401 then leave_plans
      else set_state (\<lambda>t. t\<lparr>pv_error := Some (planErrorMessage cause)\<rparr>))"

definition plan_session_effect :: "plan_state \<Rightarrow> (plan_state, unit) prog" where
  "plan_session_effect s =
     (if session_lost (pv_user s) \<or> session_lost (pv_wardrobe s) \<or> session_lost (pv_plans s)
      then leave_plans else Return ())"

subsection \<open>Editing\<close>

definition plan_cancelEdit :: "(plan_state, unit) prog" where
  "plan_cancelEdit =
     Update (\<lambda>t. t\<lparr>pv_editing := None\<rparr>)
       (Read (\<lambda>e _. set_state (\<lambda>t. t\<lparr>pv_form := emptyPlanForm e, pv_form_error := None,
          pv_error := None, pv_create_id := None\<rparr>)))"

definition plan_selectEdit :: "outfit_plan \<Rightarrow> (plan_state, unit) prog" where
  "plan_selectEdit plan =
     set_state (\<lambda>t. t\<lparr>pv_editing := Some plan, pv_form := planFormFromResponse plan,
       pv_form_error := None, pv_error := None\<rparr>)"

definition plan_not_pending :: "(plan_state, unit) prog" where
  "plan_not_pending = set_state (\<lambda>t. t\<lparr>pv_pending := False\<rparr>)"

definition plan_reloadEditing :: "plan_state \<Rightarrow> (plan_state, unit) prog" where
  "plan_reloadEditing s =
     (case pv_editing s of
        None \<Rightarrow> Return ()
      | Some editing \<Rightarrow>
          if pv_pending s then Return ()
          else
            Update (\<lambda>t. t\<lparr>pv_pending := True, pv_error := None\<rparr>)
              (finally_do
                (catch
                  (bind (plan_get (op_id editing)) (\<lambda>plan.
                     Update (\<lambda>t. t\<lparr>pv_editing := Some plan, pv_form := planFormFromResponse plan,
                         pv_form_error := None\<rparr>)
                       (refetch Plans_key)))
                  plan_showError)
                plan_not_pending))"

subsection \<open>Saving\<close>

text \<open>An exception of the form check comes before anything is set, and nothing catches it.\<close>

definition plan_validation :: "env \<Rightarrow> plan_state \<Rightarrow> jsval + plan_form_text option" where
  "plan_validation e s =
     (let form = pv_form s in
      case planFormError e form (map_option op_local_date (pv_editing s)) of
        Inl x \<Rightarrow> Inl x
      | Inr validation \<Rightarrow>
     (let validation =
            (if validation = None
                \<and> list_ex (\<lambda>entry. itemByID (pv_items s) (os_item_id entry) = None) (pl_items form)
             then Some Items_not_loaded else validation);
          validation =
            (if validation = None
                \<and> list_ex (\<lambda>entry. not_wearable (pv_items s) (os_item_id entry)
                    \<and> os_item_id entry \<notin> set (pl_confirmed_unavailable_ids form)) (pl_items form)
             then Some Unavailable_not_confirmed else validation)
      in Inr validation))"

definition plan_save_fields :: "plan_state \<Rightarrow> plan_fields" where
  "plan_save_fields s =
     (let request_fields = planRequestFields (pv_form s) in
      request_fields\<lparr>pf_confirmed_unavailable_ids :=
        filter (not_wearable (pv_items s)) (pf_confirmed_unavailable_ids request_fields)\<rparr>)"

text \<open>The objects \<^verbatim>\<open>{ id, ...fields }\<close> and \<^verbatim>\<open>{ ...fields, expected_revision }\<close>.\<close>

definition create_plan_body :: "jstring \<Rightarrow> plan_fields \<Rightarrow> create_plan" where
  "create_plan_body i request_fields = plan_fields.extend request_fields (create_plan.fields i)"

definition update_plan_body :: "plan_fields \<Rightarrow> int \<Rightarrow> update_plan" where
  "update_plan_body request_fields revision = plan_fields.extend request_fields (update_plan.fields revision)"

definition plan_save :: "plan_state \<Rightarrow> (plan_state, unit) prog" where
  "plan_save s =
     (if pv_pending s then Return ()
      else Read (\<lambda>e _. case plan_validation e s of Inl x \<Rightarrow> Throw x | Inr validation \<Rightarrow>
        Update (\<lambda>t. t\<lparr>pv_form_error := validation\<rparr>)
          (if validation \<noteq> None then Return ()
           else
             Update (\<lambda>t. t\<lparr>pv_pending := True, pv_error := None\<rparr>)
               (finally_do
                 (catch
                   (let request_fields = plan_save_fields s in
                    case pv_editing s of
                      Some editing \<Rightarrow>
                        bind (plan_update (op_id editing)
                            (update_plan_body request_fields (op_revision editing)))
                          (\<lambda>plan. Update (\<lambda>t. t\<lparr>pv_editing := Some plan,
                                 pv_form := planFormFromResponse plan\<rparr>)
                               (Emit (Toast Toast_plan_updated) (Return ())))
                    | None \<Rightarrow>
                        Read (\<lambda>e' t.
                          let i = (case pv_create_id t of Some i \<Rightarrow> i | None \<Rightarrow> env_uuid e') in
                          Update (\<lambda>t. t\<lparr>pv_create_id := Some i\<rparr>)
                            (bind (plan_create (create_plan_body i request_fields)) (\<lambda>_.
                               Update (\<lambda>t. t\<lparr>pv_create_id := None\<rparr>)
                                 (Read (\<lambda>e'' _. Update (\<lambda>t. t\<lparr>pv_form := emptyPlanForm e''\<rparr>)
                                    (Emit (Toast Toast_plan_created) (Return ()))))))))
                   plan_showError)
                 plan_not_pending))))"

subsection \<open>Actions on a plan of the list\<close>

definition action_request :: "outfit_plan \<Rightarrow> plan_action \<Rightarrow> (plan_state, unit) prog" where
  "action_request plan action =
     (case action of
        Act_cancel \<Rightarrow> bind (plan_cancel (op_id plan) (op_revision plan)) (\<lambda>_. Return ())
      | Act_not_worn \<Rightarrow> bind (plan_mark_not_worn (op_id plan) (op_revision plan)) (\<lambda>_. Return ())
      | Act_delete \<Rightarrow> plan_remove (op_id plan) (op_revision plan))"

definition action_toast :: "plan_action \<Rightarrow> toast" where
  "action_toast action = (if action = Act_cancel then Toast_plan_cancelled else Toast_plan_not_worn)"

definition plan_runAction :: "plan_state \<Rightarrow> (plan_state, unit) prog" where
  "plan_runAction s =
     (case pv_confirmation s of
        None \<Rightarrow> Return ()
      | Some (plan, action) \<Rightarrow>
          if pv_pending s then Return ()
          else
            Update (\<lambda>t. t\<lparr>pv_confirmation := None, pv_pending := True, pv_error := None\<rparr>)
              (finally_do
                (catch
                  (bind (action_request plan action) (\<lambda>_.
                     bind (if map_option op_id (pv_editing s) = Some (op_id plan)
                           then plan_cancelEdit else Return ())
                       (\<lambda>_. if action = Act_delete then set_state (\<lambda>t. t\<lparr>pv_deleted := True\<rparr>)
                            else Emit (Toast (action_toast action)) (Return ()))))
                  (\<lambda>cause. bind (plan_showError cause) (\<lambda>_. refetch Plans_key)))
                plan_not_pending))"

definition plan_do_restore :: "outfit_plan \<Rightarrow> plan_state \<Rightarrow> (plan_state, unit) prog" where
  "plan_do_restore plan s =
     (if pv_pending s then Return ()
      else
        Update (\<lambda>t. t\<lparr>pv_pending := True, pv_error := None\<rparr>)
          (finally_do
            (catch
              (bind (plan_restore (op_id plan) (op_revision plan)) (\<lambda>_.
                 Emit (Toast Toast_plan_restored) (Return ())))
              (\<lambda>cause. bind (plan_showError cause) (\<lambda>_. refetch Plans_key)))
            plan_not_pending))"

declare leave_plans_def [view_defs] plan_showError_def [view_defs] plan_session_effect_def [view_defs]
  plan_cancelEdit_def [view_defs] plan_selectEdit_def [view_defs] plan_not_pending_def [view_defs]
  plan_reloadEditing_def [view_defs] plan_save_def [view_defs] action_request_def [view_defs]
  plan_runAction_def [view_defs] plan_do_restore_def [view_defs]

subsection \<open>The form and the flat-lay editor\<close>

definition missing_selections :: "plan_form \<Rightarrow> wardrobe_item list \<Rightarrow> selection list" where
  "missing_selections form items =
     filter (\<lambda>entry. os_item_id entry \<notin> wi_id ` set items) (pl_items form)"

definition selected_items :: "plan_form \<Rightarrow> wardrobe_item list \<Rightarrow> wardrobe_item list" where
  "selected_items form items =
     filter (\<lambda>item. list_ex (\<lambda>entry. os_item_id entry = wi_id item) (pl_items form)) items"

text \<open>The search; \<open>lower\<close> is the platform's \<^verbatim>\<open>toLocaleLowerCase\<close>.\<close>

definition filtered_items ::
  "(jstring \<Rightarrow> jstring) \<Rightarrow> category \<Rightarrow> jstring \<Rightarrow> wardrobe_item list \<Rightarrow> wardrobe_item list" where
  "filtered_items lower category search items =
     filter (\<lambda>item. wi_category item = category
       \<and> js_includes (lower (wi_name item)) (lower (trim search))) items"

definition choose_garment :: "plan_form \<Rightarrow> wardrobe_item \<Rightarrow> wardrobe_item list \<Rightarrow> plan_form" where
  "choose_garment form item items =
     (let next = replaceGarment (pl_items form) item items in
      form\<lparr>pl_items := next,
        pl_confirmed_unavailable_ids :=
          filter (\<lambda>i. list_ex (\<lambda>entry. os_item_id entry = i) next)
            (pl_confirmed_unavailable_ids form)\<rparr>)"

definition choice_disabled :: "plan_form \<Rightarrow> wardrobe_item \<Rightarrow> wardrobe_item list \<Rightarrow> bool" where
  "choice_disabled form item items \<longleftrightarrow>
     \<not> list_ex (\<lambda>entry. os_item_id entry = wi_id item) (pl_items form)
     \<and> length (pl_items form) \<ge> 20
     \<and> \<not> list_ex (\<lambda>entry. wi_category entry = wi_category item) (selected_items form items)"

definition remove_garment :: "plan_form \<Rightarrow> jstring \<Rightarrow> plan_form" where
  "remove_garment form i =
     form\<lparr>pl_items := filter (\<lambda>entry. os_item_id entry \<noteq> i) (pl_items form),
       pl_confirmed_unavailable_ids := filter (\<lambda>j. j \<noteq> i) (pl_confirmed_unavailable_ids form)\<rparr>"

text \<open>The button of a selection whose garment is not loaded leaves the confirmations.\<close>

definition remove_missing :: "plan_form \<Rightarrow> jstring \<Rightarrow> plan_form" where
  "remove_missing form i =
     form\<lparr>pl_items := filter (\<lambda>entry. os_item_id entry \<noteq> i) (pl_items form)\<rparr>"

definition confirm_unavailable :: "plan_form \<Rightarrow> jstring \<Rightarrow> bool \<Rightarrow> plan_form" where
  "confirm_unavailable form i checked =
     form\<lparr>pl_confirmed_unavailable_ids :=
       (if checked then pl_confirmed_unavailable_ids form @ [i]
        else filter (\<lambda>j. j \<noteq> i) (pl_confirmed_unavailable_ids form))\<rparr>"

text \<open>The garments whose checkbox asks for a confirmation.\<close>

definition unavailable_selected :: "plan_form \<Rightarrow> wardrobe_item list \<Rightarrow> wardrobe_item list" where
  "unavailable_selected form items =
     filter (\<lambda>item. wi_availability item \<noteq> Wearable
       \<and> list_ex (\<lambda>entry. os_item_id entry = wi_id item) (pl_items form)) items"

definition preview_slots :: "wardrobe_item list \<Rightarrow> category list" where
  "preview_slots selected =
     filter (\<lambda>slot.
        if slot = Top \<or> slot = Bottom
        then \<not> list_ex (\<lambda>item. wi_category item = One_piece) selected
        else slot = Shoes \<or> list_ex (\<lambda>item. wi_category item = slot) selected)
       [Top, Bottom, Shoes, Outerwear, One_piece, Bag, Accessory]"

subsection \<open>Controls\<close>

datatype plan_page_kind = Plan_checking | Plan_account_unreadable plan_text | Plan_content

definition plan_page :: "plan_state \<Rightarrow> plan_page_kind" where
  "plan_page s =
     (if isPending (pv_user s) \<or> session_lost (pv_user s) then Plan_checking
      else if isError (pv_user s) then Plan_account_unreadable (planErrorMessage (q_error (pv_user s)))
      else Plan_content)"

text \<open>The plans of the list, where it is shown.\<close>

definition listed_plans :: "plan_state \<Rightarrow> outfit_plan list" where
  "listed_plans s =
     (if isPending (pv_plans s) \<or> isError (pv_plans s) then [] else all_items (pv_plans s))"

definition form_pending :: "plan_state \<Rightarrow> bool" where
  "form_pending s \<longleftrightarrow> pv_pending s \<or> pl_time_zone (pv_form s) = []"

definition cleared_content :: "outfit_plan \<Rightarrow> bool" where
  "cleared_content plan = list_ex (\<lambda>item. si_content item = None) (op_items plan)"

definition editor_shown :: "plan_state \<Rightarrow> bool" where
  "editor_shown s \<longleftrightarrow> \<not> loading_items (pv_wardrobe s) \<and> pv_items s \<noteq> []"

text \<open>
  The flat-lay editor is a component with state of its own: while it is not shown it is
  unmounted, and its category and search start afresh.
\<close>

definition unmount_editor :: "plan_state \<Rightarrow> plan_state" where
  "unmount_editor t =
     (if plan_page t = Plan_content \<and> editor_shown t then t
      else t\<lparr>pv_category := Top, pv_search := []\<rparr>)"

lemma unmount_editor_sel [simp]:
  "pv_pending (unmount_editor t) = pv_pending t" "pv_form (unmount_editor t) = pv_form t"
  "pv_editing (unmount_editor t) = pv_editing t" "pv_create_id (unmount_editor t) = pv_create_id t"
  "pv_timer (unmount_editor t) = pv_timer t" "pv_wardrobe (unmount_editor t) = pv_wardrobe t"
  by (simp_all add: unmount_editor_def)

datatype plan_event =
    Plan_timer
  | Plan_queries_changed "user query" "wardrobe_item list_query" "outfit_plan list_query"
  | Set_date jstring | Set_context jstring
  | Choose_garment wardrobe_item | Remove_garment jstring | Remove_missing jstring
  | Confirm_unavailable jstring bool
  | Choose_category category | Search jstring
  | Save_plan | Cancel_edit | Reload_editing
  | Edit_plan outfit_plan | Ask_action env outfit_plan plan_action | Close_confirmation
  | Run_action | Restore_plan outfit_plan
  | Retry_query query_key | Load_more query_key

definition set_plan_form :: "plan_form \<Rightarrow> (plan_state, unit) prog" where
  "set_plan_form form = set_state (\<lambda>t. t\<lparr>pv_form := form\<rparr>)"

text \<open>
  The handler of an event, where its control is shown and enabled. \<open>Ask_action\<close> carries the
  environment of the last rendering, which compares the date of the plan with today.
\<close>

definition plan_due :: "env \<Rightarrow> outfit_plan \<Rightarrow> bool" where
  "plan_due e plan \<longleftrightarrow>
     (case todayInTimeZone e (op_time_zone plan) of
        Inl _ \<Rightarrow> False
      | Inr today \<Rightarrow> op_local_date plan \<le> today)"

definition ask_shown :: "env \<Rightarrow> outfit_plan \<Rightarrow> plan_action \<Rightarrow> bool" where
  "ask_shown e plan action \<longleftrightarrow>
     (case action of
        Act_cancel \<Rightarrow> op_status plan = Plan_active
      | Act_not_worn \<Rightarrow>
          op_status plan = Plan_active \<and> plan_due e plan
      | Act_delete \<Rightarrow> True)"

definition retry_shown :: "plan_state \<Rightarrow> query_key \<Rightarrow> bool" where
  "retry_shown s key \<longleftrightarrow>
     (case key of
        Current_user_key \<Rightarrow> (case plan_page s of Plan_account_unreadable _ \<Rightarrow> True | _ \<Rightarrow> False)
      | Wardrobe_key \<Rightarrow> plan_page s = Plan_content \<and> isError (pv_wardrobe s) \<and> \<not> session_lost (pv_wardrobe s)
      | Plans_key \<Rightarrow> plan_page s = Plan_content \<and> isError (pv_plans s) \<and> \<not> session_lost (pv_plans s)
          \<and> \<not> isPending (pv_plans s)
      | _ \<Rightarrow> False)"

text \<open>The buttons that fetch a further page, of the garments in the form and of the list.\<close>

definition load_more_shown :: "plan_state \<Rightarrow> query_key \<Rightarrow> bool" where
  "load_more_shown s key \<longleftrightarrow>
     plan_page s = Plan_content \<and>
     (case key of
        Wardrobe_key \<Rightarrow>
          hasNextPage (pv_wardrobe s) \<and> \<not> form_pending s \<and> \<not> loading_items (pv_wardrobe s)
      | Plans_key \<Rightarrow>
          listed_plans s \<noteq> [] \<and> hasNextPage (pv_plans s) \<and> \<not> q_fetching_next (pv_plans s)
      | _ \<Rightarrow> False)"

definition plan_form_event :: "(jstring \<Rightarrow> jstring) \<Rightarrow> plan_state \<Rightarrow> plan_event \<Rightarrow> plan_form option" where
  "plan_form_event lower s ev =
     (let form = pv_form s in
      case ev of
        Set_date v \<Rightarrow> Some (form\<lparr>pl_local_date := v\<rparr>)
      | Set_context v \<Rightarrow> Some (form\<lparr>pl_context_summary := v\<rparr>)
      | Choose_garment item \<Rightarrow>
          if editor_shown s
             \<and> item \<in> set (filtered_items lower (pv_category s) (pv_search s) (pv_items s))
             \<and> \<not> choice_disabled form item (pv_items s)
          then Some (choose_garment form item (pv_items s)) else None
      | Remove_garment i \<Rightarrow>
          if editor_shown s \<and> i \<in> wi_id ` set (filter (\<lambda>item. wi_category item
               \<in> set (preview_slots (selected_items form (pv_items s)))) (selected_items form (pv_items s)))
          then Some (remove_garment form i) else None
      | Remove_missing i \<Rightarrow>
          if i \<in> os_item_id ` set (missing_selections form (pv_items s))
          then Some (remove_missing form i) else None
      | Confirm_unavailable i checked \<Rightarrow>
          if i \<in> wi_id ` set (unavailable_selected form (pv_items s))
          then Some (confirm_unavailable form i checked) else None
      | _ \<Rightarrow> None)"

definition plan_dispatch ::
  "(jstring \<Rightarrow> jstring) \<Rightarrow> plan_state \<Rightarrow> plan_event \<Rightarrow> (plan_state, unit) prog option" where
  "plan_dispatch lower s ev =
     (case ev of
        Plan_timer \<Rightarrow>
          if pv_timer s
          then Some (Read (\<lambda>e _. set_state (\<lambda>t. t\<lparr>pv_form := emptyPlanForm e, pv_timer := False\<rparr>)))
          else None
      | Plan_queries_changed u w p \<Rightarrow>
          Some (Update (\<lambda>t. unmount_editor (t\<lparr>pv_user := u, pv_wardrobe := w, pv_plans := p\<rparr>))
            (plan_session_effect (s\<lparr>pv_user := u, pv_wardrobe := w, pv_plans := p\<rparr>)))
      | Retry_query key \<Rightarrow> if retry_shown s key then Some (refetch key) else None
      | Load_more key \<Rightarrow> if load_more_shown s key then Some (fetchNextPage key) else None
      | Close_confirmation \<Rightarrow> if pv_confirmation s = None then None
          else Some (set_state (\<lambda>t. t\<lparr>pv_confirmation := None\<rparr>))
      | Run_action \<Rightarrow> if pv_confirmation s \<noteq> None then Some (plan_runAction s) else None
      | _ \<Rightarrow>
          if plan_page s \<noteq> Plan_content then None
          else
            (case ev of
               Save_plan \<Rightarrow>
                 if form_pending s \<or> loading_items (pv_wardrobe s) then None else Some (plan_save s)
             | Cancel_edit \<Rightarrow>
                 if pv_editing s = None \<or> form_pending s then None else Some plan_cancelEdit
             | Reload_editing \<Rightarrow>
                 if pv_editing s = None \<or> form_pending s then None else Some (plan_reloadEditing s)
             | Choose_category c \<Rightarrow>
                 if form_pending s \<or> \<not> editor_shown s then None
                 else Some (set_state (\<lambda>t. t\<lparr>pv_category := c\<rparr>))
             | Search v \<Rightarrow>
                 if form_pending s \<or> \<not> editor_shown s then None
                 else Some (set_state (\<lambda>t. t\<lparr>pv_search := v\<rparr>))
             | Edit_plan plan \<Rightarrow>
                 if plan \<in> set (listed_plans s) \<and> op_status plan = Plan_active \<and> \<not> pv_pending s
                    \<and> \<not> cleared_content plan
                 then Some (plan_selectEdit plan) else None
             | Ask_action e plan action \<Rightarrow>
                 if plan \<in> set (listed_plans s) \<and> ask_shown e plan action \<and> \<not> pv_pending s
                 then Some (set_state (\<lambda>t. t\<lparr>pv_confirmation := Some (plan, action)\<rparr>)) else None
             | Restore_plan plan \<Rightarrow>
                 if plan \<in> set (listed_plans s) \<and> op_status plan = Plan_not_worn \<and> \<not> pv_pending s
                 then Some (plan_do_restore plan s) else None
             | _ \<Rightarrow>
                 if form_pending s then None
                 else map_option set_plan_form (plan_form_event lower s ev)))"

subsection \<open>The contract of the page\<close>

definition plan_fields_ok :: "'z plan_fields_scheme \<Rightarrow> bool" where
  "plan_fields_ok f \<longleftrightarrow>
     iso_shape (pf_local_date f) \<and> calendar_date (iso_fields (pf_local_date f))
     \<and> pf_time_zone f \<noteq> [] \<and> length (pf_items f) \<in> {1..20} \<and> summary_ok (pf_context_summary f)"

definition plan_policy :: "effect \<Rightarrow> bool" where
  "plan_policy x =
     (case x of
        Issued (Call c) \<Rightarrow>
          (case c of
             CreateOutfitPlan b \<Rightarrow> plan_fields_ok b
           | UpdateOutfitPlan _ b \<Rightarrow> plan_fields_ok b
           | GetOutfitPlan _ \<Rightarrow> True
           | CancelOutfitPlan _ _ \<Rightarrow> True
           | MarkOutfitPlanNotWorn _ _ \<Rightarrow> True
           | RestoreOutfitPlan _ _ \<Rightarrow> True
           | DeleteOutfitPlan _ _ \<Rightarrow> True
           | _ \<Rightarrow> False)
      | Replace_route r \<Rightarrow> r = To_login
      | _ \<Rightarrow> True)"

definition plan_exclusive :: "plan_event \<Rightarrow> bool" where
  "plan_exclusive ev \<longleftrightarrow>
     (case ev of Save_plan \<Rightarrow> True | Reload_editing \<Rightarrow> True | Run_action \<Rightarrow> True
      | Restore_plan _ \<Rightarrow> True | _ \<Rightarrow> False)"

text \<open>
  What the running operation can rely on: the plan being edited and the identifier of the next
  creation stay, and so does the form once the timer of the mount has fired.
\<close>

definition plan_stable :: "plan_state \<Rightarrow> plan_state \<Rightarrow> bool" where
  "plan_stable u t \<longleftrightarrow>
     pv_editing t = pv_editing u \<and> pv_create_id t = pv_create_id u
     \<and> (pv_form t = pv_form u \<or> pv_timer u) \<and> (pv_timer t \<longrightarrow> pv_timer u)"

lemma body_simps [simp]:
  "pf_local_date (create_plan_body i f) = pf_local_date f"
  "pf_time_zone (create_plan_body i f) = pf_time_zone f"
  "pf_context_summary (create_plan_body i f) = pf_context_summary f"
  "pf_items (create_plan_body i f) = pf_items f"
  "pf_confirmed_unavailable_ids (create_plan_body i f) = pf_confirmed_unavailable_ids f"
  "cp_id (create_plan_body i f) = i"
  "pf_local_date (update_plan_body f r) = pf_local_date f"
  "pf_time_zone (update_plan_body f r) = pf_time_zone f"
  "pf_context_summary (update_plan_body f r) = pf_context_summary f"
  "pf_items (update_plan_body f r) = pf_items f"
  "pf_confirmed_unavailable_ids (update_plan_body f r) = pf_confirmed_unavailable_ids f"
  "up_expected_revision (update_plan_body f r) = r"
  by (simp_all add: create_plan_body_def update_plan_body_def record_spread)

lemma plan_validation_None:
  "plan_validation e s = Inr None \<longleftrightarrow>
     planFormError e (pv_form s) (map_option op_local_date (pv_editing s)) = Inr None
     \<and> (\<forall>entry\<in>set (pl_items (pv_form s)). itemByID (pv_items s) (os_item_id entry) \<noteq> None
          \<and> (not_wearable (pv_items s) (os_item_id entry) \<longrightarrow>
              os_item_id entry \<in> set (pl_confirmed_unavailable_ids (pv_form s))))"
  by (auto simp: plan_validation_def Let_def list_ex_iff split: sum.split)

lemma plan_save_fields_ok:
  assumes "plan_validation e s = Inr None"
  shows "plan_fields_ok (plan_save_fields s)"
proof -
  from assms have "planFormError e (pv_form s) (map_option op_local_date (pv_editing s)) = Inr None"
    by (simp add: plan_validation_None)
  then show ?thesis
    by (auto simp: plan_form_accepted_iff local_date_ok_iff plan_fields_ok_def plan_save_fields_def
        summary_ok_def summary_bad_def form_defs Let_def split: option.split)
qed

lemma body_ok [simp]:
  "plan_fields_ok (create_plan_body i f) = plan_fields_ok f"
  "plan_fields_ok (update_plan_body f r) = plan_fields_ok f"
  by (simp_all add: plan_fields_ok_def)

abbreviation plan_own :: "plan_state contract" where
  "plan_own \<equiv> own_contract plan_policy (\<lambda>_. True) pv_pending (\<lambda>_ _. True) plan_stable"

abbreviation plan_done :: "'a \<Rightarrow> plan_state \<Rightarrow> plan_state \<Rightarrow> bool" where
  "plan_done \<equiv> (\<lambda>_ _ t. \<not> pv_pending t)"

lemma plan_showError_wp [simp]:
  "wp plan_own (plan_showError cause) Q E u s \<longleftrightarrow>
     Q () u (if accountStatus cause = Some 401 then s
             else s\<lparr>pv_error := Some (planErrorMessage cause)\<rparr>)"
  by (simp add: view_defs hook_defs plan_policy_def)

lemma plan_save_wp:
  assumes "\<not> pv_pending s"
  shows "wp plan_own (plan_save s) plan_done plan_done s s"
  using assms plan_save_fields_ok
  by (auto simp: plan_save_def plan_not_pending_def plan_policy_def hook_defs Let_def
      split: option.split sum.split)

lemma plan_reload_wp: "\<not> pv_pending s \<Longrightarrow> wp plan_own (plan_reloadEditing s) plan_done plan_done s s"
  by (auto simp: plan_reloadEditing_def plan_not_pending_def plan_policy_def hook_defs split: option.split)

lemma plan_action_wp: "\<not> pv_pending s \<Longrightarrow> wp plan_own (plan_runAction s) plan_done plan_done s s"
  by (auto simp: plan_runAction_def plan_cancelEdit_def action_request_def plan_not_pending_def
      plan_policy_def hook_defs split: option.split plan_action.split)

lemma plan_restore_wp: "\<not> pv_pending s \<Longrightarrow> wp plan_own (plan_do_restore p s) plan_done plan_done s s"
  by (auto simp: plan_do_restore_def plan_not_pending_def plan_policy_def hook_defs)

interpretation plans: exclusive_view "plan_dispatch lower" plan_init pv_pending plan_exclusive
  "\<lambda>s. \<not> pv_pending s" "\<lambda>_. True" "\<lambda>_ _. True" plan_stable plan_policy for lower
proof
  fix s ev p
  assume D: "plan_dispatch lower s ev = Some p"
  show "runs_own plan_policy (\<lambda>_. True) pv_pending (\<lambda>_ _. True) plan_stable (\<lambda>s. \<not> pv_pending s) s p"
    if ev: "plan_exclusive ev" and idle: "\<not> pv_pending s"
  proof -
    consider "p = plan_save s" | "p = plan_reloadEditing s" | "p = plan_runAction s"
      | plan where "p = plan_do_restore plan s"
      using D ev by (auto simp: plan_dispatch_def plan_exclusive_def split: plan_event.splits if_splits)
    then show ?thesis
      unfolding contract_defs
      using plan_save_wp [OF idle] plan_reload_wp [OF idle] plan_action_wp [OF idle]
        plan_restore_wp [OF idle]
      by cases simp_all
  qed
  show "p = Return ()" if "plan_exclusive ev" "pv_pending s"
    using D that
    by (auto simp: plan_dispatch_def plan_exclusive_def form_pending_def plan_runAction_def
        split: plan_event.splits if_splits option.splits)
  show "runs_shared plan_policy (\<lambda>_. True) pv_pending (\<lambda>_ _. True) plan_stable
      (\<lambda>s. \<not> pv_pending s) s p" if "\<not> plan_exclusive ev"
    using D that
    by (auto simp: plan_dispatch_def plan_exclusive_def plan_policy_def contract_defs plan_stable_def
        form_pending_def set_plan_form_def view_defs hook_defs
        split: plan_event.splits if_splits)
qed (auto simp: plan_init_def plan_stable_def)

end
