(* ===== verification/Wear_Event_Lib.thy ===== *)
theory Wear_Event_Lib
  imports Outfit_Plan_Lib
begin

text \<open>
  The form of a wear event, \<^verbatim>\<open>lib/wear-event/form.ts\<close>, and the range of the statistics,
  \<^verbatim>\<open>lib/wear-event/statistics.ts\<close>.
\<close>

record wear_form =
  wr_local_date :: jstring
  wr_time_zone :: jstring
  wr_completeness :: completeness
  wr_context_summary :: jstring
  wr_source_kind :: source_kind
  wr_source_plan_id :: jstring
  wr_source_plan_revision :: "int option"
  wr_items :: "selection list"
  wr_confirmed_unavailable_ids :: "jstring list"
  wr_laundry_item_ids :: "jstring list"
  wr_duplicate_confirmations :: "wear_candidate list"

definition emptyWearForm :: "env \<Rightarrow> wear_form" where
  "emptyWearForm e =
     (let timeZone = device_time_zone e in
      \<lparr>wr_local_date = device_today e,
       wr_time_zone = timeZone,
       wr_completeness = Complete,
       wr_context_summary = [],
       wr_source_kind = Unplanned,
       wr_source_plan_id = [],
       wr_source_plan_revision = None,
       wr_items = [],
       wr_confirmed_unavailable_ids = [],
       wr_laundry_item_ids = [],
       wr_duplicate_confirmations = []\<rparr>)"

text \<open>\<^verbatim>\<open>v ?? ''\<close>\<close>

definition or_empty :: "jstring option \<Rightarrow> jstring" where
  "or_empty v = (case v of None \<Rightarrow> [] | Some s \<Rightarrow> s)"

definition wearFormFromResponse :: "wear_event \<Rightarrow> wear_form" where
  "wearFormFromResponse event =
     \<lparr>wr_local_date = we_local_date event,
      wr_time_zone = we_time_zone event,
      wr_completeness = we_completeness event,
      wr_context_summary = or_empty (we_context_summary event),
      wr_source_kind = we_source_kind event,
      wr_source_plan_id = or_empty (we_source_plan_id event),
      wr_source_plan_revision = we_source_plan_revision event,
      wr_items = kept_selections (we_items event),
      wr_confirmed_unavailable_ids = [],
      wr_laundry_item_ids = [],
      wr_duplicate_confirmations = []\<rparr>"

datatype wear_form_text =
    Wear_date_invalid | Wear_zone_unreadable | Wear_date_future | Wear_items_1_to_20
  | Wear_items_repeated | Wear_plan_missing | Wear_plan_not_allowed | Wear_summary_invalid
  | Plan_garments_cleared | Garments_differ_from_plan
  | Wear_items_stale | Wear_unavailable_not_confirmed | Wear_plan_not_loaded

text \<open>\<^verbatim>\<open>!revision\<close> for a number or null\<close>

definition no_revision :: "int option \<Rightarrow> bool" where
  "no_revision r \<longleftrightarrow> r = None \<or> r = Some 0"

definition wearFormError :: "env \<Rightarrow> wear_form \<Rightarrow> jsval + wear_form_text option" where
  "wearFormError e form =
     (if \<not> local_date_ok (wr_local_date form) then Inr (Some Wear_date_invalid)
      else if wr_time_zone form = [] then Inr (Some Wear_zone_unreadable)
      else case todayInTimeZone e (wr_time_zone form) of Inl x \<Rightarrow> Inl x | Inr today \<Rightarrow> Inr (
      if wr_local_date form > today then Some Wear_date_future
      else if length (wr_items form) < 1 \<or> length (wr_items form) > 20
      then Some Wear_items_1_to_20
      else if card (set (map os_item_id (wr_items form))) \<noteq> length (wr_items form)
      then Some Wear_items_repeated
      else if wr_source_kind form \<noteq> Unplanned
              \<and> (wr_source_plan_id form = [] \<or> no_revision (wr_source_plan_revision form))
      then Some Wear_plan_missing
      else if wr_source_kind form = Unplanned
              \<and> (wr_source_plan_id form \<noteq> [] \<or> \<not> no_revision (wr_source_plan_revision form))
      then Some Wear_plan_not_allowed
      else if summary_bad (trim (wr_context_summary form)) then Some Wear_summary_invalid
      else None))"

text \<open>\<^verbatim>\<open>planned.some((id, index) => id !== actual[index])\<close> for lists of equal length\<close>

definition differs :: "jstring list \<Rightarrow> jstring list \<Rightarrow> bool" where
  "differs planned actual = list_ex (\<lambda>(p, a). p \<noteq> a) (zip planned actual)"

definition followedPlanError :: "wear_form \<Rightarrow> outfit_plan option \<Rightarrow> wear_form_text option" where
  "followedPlanError form plan =
     (case plan of
        None \<Rightarrow> None
      | Some plan \<Rightarrow>
          if wr_source_kind form \<noteq> Followed_plan then None
          else
            let items = op_items plan in
            if list_ex (\<lambda>item. si_content item = None) items then Some Plan_garments_cleared
            else
              let planned = sort (map (\<lambda>item. ic_item_id (the (si_content item))) items);
                  actual = sort (map os_item_id (wr_items form))
              in if length planned \<noteq> length actual \<or> differs planned actual
                 then Some Garments_differ_from_plan
                 else None)"

definition wearRequestFields :: "wear_form \<Rightarrow> wear_fields" where
  "wearRequestFields form =
     \<lparr>wf_local_date = wr_local_date form,
      wf_time_zone = wr_time_zone form,
      wf_completeness = wr_completeness form,
      wf_context_summary = or_undefined (trim (wr_context_summary form)),
      wf_source_kind = wr_source_kind form,
      wf_source_plan_id = or_undefined (wr_source_plan_id form),
      wf_source_plan_revision = wr_source_plan_revision form,
      wf_items = wr_items form,
      wf_confirmed_unavailable_ids = wr_confirmed_unavailable_ids form,
      wf_laundry_item_ids = wr_laundry_item_ids form,
      wf_duplicate_confirmations = wr_duplicate_confirmations form\<rparr>"

declare emptyWearForm_def [form_defs] wearFormFromResponse_def [form_defs]
  wearRequestFields_def [form_defs] or_empty_def [form_defs]

subsection \<open>What the checks accept\<close>

lemma wear_form_accepted_iff:
  "wearFormError e f = Inr None \<longleftrightarrow>
     local_date_ok (wr_local_date f) \<and> wr_time_zone f \<noteq> [] \<and> zone_known e (wr_time_zone f)
     \<and> wr_local_date f \<le> formatted_date e (wr_time_zone f)
     \<and> length (wr_items f) \<in> {1..20} \<and> distinct (map os_item_id (wr_items f))
     \<and> (if wr_source_kind f = Unplanned
        then wr_source_plan_id f = [] \<and> no_revision (wr_source_plan_revision f)
        else wr_source_plan_id f \<noteq> [] \<and> \<not> no_revision (wr_source_plan_revision f))
     \<and> \<not> summary_bad (trim (wr_context_summary f))"
proof -
  have "card (set (map os_item_id (wr_items f))) = length (wr_items f)
      \<longleftrightarrow> distinct (map os_item_id (wr_items f))"
    by (metis card_distinct distinct_card length_map)
  then show ?thesis
    by (auto simp: wearFormError_def todayInTimeZone_def not_less Suc_le_eq)
qed

lemma wear_date_not_future:
  assumes "wearFormError e f = Inr None" and "env_ok e"
  shows "calendar_date (iso_fields (wr_local_date f))
    \<and> iso_fields (wr_local_date f) \<le> iso_fields (formatted_date e (wr_time_zone f))"
proof -
  from assms(1) have "local_date_ok (wr_local_date f)"
    and "\<not> formatted_date e (wr_time_zone f) < wr_local_date f" and "zone_known e (wr_time_zone f)"
    by (auto simp: wear_form_accepted_iff)
  moreover have "local_date_ok (formatted_date e (wr_time_zone f))"
    using assms(2) calculation(3) by (rule today_ok)
  ultimately show ?thesis by (simp add: local_date_ok_iff iso_order [symmetric] flip: not_less)
qed

lemma differs_iff: "length xs = length ys \<Longrightarrow> differs xs ys \<longleftrightarrow> xs \<noteq> ys"
  by (induction xs ys rule: list_induct2) (auto simp: differs_def)

lemma sort_eq_iff_mset: "sort xs = sort (ys :: 'a :: linorder list) \<longleftrightarrow> mset xs = mset ys"
  by (metis mset_sort properties_for_sort sorted_sort)

text \<open>A record that follows a plan lists exactly the garments of the plan, in any order.\<close>

lemma followed_plan_accepted_iff:
  "followedPlanError f (Some plan) = None \<longleftrightarrow>
     (wr_source_kind f = Followed_plan \<longrightarrow>
        (\<forall>item\<in>set (op_items plan). si_content item \<noteq> None)
        \<and> mset (map os_item_id (wr_items f)) = mset (map os_item_id (kept_selections (op_items plan))))"
proof -
  have kept: "map os_item_id (kept_selections items) = map (\<lambda>i. ic_item_id (the (si_content i))) items"
    if "\<forall>item\<in>set items. si_content item \<noteq> None" for items
    using that by (induction items) (auto simp: kept_selections_def split: option.splits)
  have "followedPlanError f (Some plan) = None \<longleftrightarrow>
     (wr_source_kind f = Followed_plan \<longrightarrow>
        (\<forall>item\<in>set (op_items plan). si_content item \<noteq> None)
        \<and> sort (map (\<lambda>item. ic_item_id (the (si_content item))) (op_items plan))
          = sort (map os_item_id (wr_items f)))"
    by (auto simp: followedPlanError_def Let_def list_ex_iff differs_iff dest: arg_cong [where f = length])
  then show ?thesis unfolding sort_eq_iff_mset using kept [of "op_items plan"] by metis
qed

subsection \<open>Statistics\<close>

definition currentWearRange :: "env \<Rightarrow> jstring \<times> jstring" where
  "currentWearRange e =
     (let today = device_today e
      in (js_slice 0 4 today @ js ''-01-01'', today))"

lemma wear_range:
  assumes "env_ok e" and "currentWearRange e = (a, b)"
  shows "local_date_ok a \<and> local_date_ok b \<and> iso_fields a \<le> iso_fields b
    \<and> iso_fields a = Date (year_of (iso_fields b)) 1 1"
proof -
  have b: "local_date_ok b"
    using assms today_ok by (auto simp: currentWearRange_def device_today_def Let_def)
  then have shape: "iso_shape b" and cal: "calendar_date (iso_fields b)"
    by (simp_all add: local_date_ok_iff)
  have a: "a = js_slice 0 4 b @ js ''-01-01''"
    using assms(2) by (auto simp: currentWearRange_def Let_def)
  have year: "length (js_slice 0 4 b) = 4" "list_all is_digit (js_slice 0 4 b)"
    using shape by (simp_all add: iso_shape_def js_slice_def)
  have one: "list_all is_digit [0x30, 0x31]" "js_number [0x30, 0x31] = 1"
    by (simp_all add: is_digit_def js_number_def digit_value_def)
  have "a = js_slice 0 4 b @ [0x2D] @ [0x30, 0x31] @ [0x2D] @ [0x30, 0x31]"
    by (simp add: a)
  then have a': "iso_shape a" "iso_fields a = Date (year_of (iso_fields b)) 1 1"
    using iso_shape_build [OF year _ one(1) _ one(1)] one(2) by (simp_all add: iso_fields_def)
  moreover have "calendar_date (iso_fields a)"
    unfolding a'(2) by (simp add: days_in_month_def)
  moreover have "iso_fields a \<le> iso_fields b"
    unfolding a'(2) using cal by (cases "iso_fields b") (auto simp: less_eq_date_def)
  ultimately show ?thesis using b by (simp add: local_date_ok_iff)
qed

end
