(* ===== verification/Account_Lib.thy ===== *)
theory Account_Lib
  imports Api_Types
begin

text \<open>
  The checks on what a person types or chooses: \<^verbatim>\<open>lib/account/validation.ts\<close> (registration) and
  \<^verbatim>\<open>lib/person/photo.ts\<close> (the local photo of a person).
\<close>

subsection \<open>Registration\<close>

definition passwordLengthValid :: "jstring \<Rightarrow> bool" where
  "passwordLengthValid password =
     (let bytes = length (text_encode password) in 12 \<le> bytes \<and> bytes \<le> 72)"

record registration =
  re_display_name :: jstring
  re_email :: jstring
  re_password :: jstring
  re_confirmation :: jstring

datatype registration_text =
    Name_invalid | Email_missing | Password_length | Passwords_differ
  | Email_type_invalid | Email_taken | Password_missing

text \<open>The object of errors by field; a field without an error has no entry.\<close>

record registration_errors =
  er_display_name :: "registration_text option"
  er_email :: "registration_text option"
  er_password :: "registration_text option"
  er_confirmation :: "registration_text option"

definition no_registration_errors :: registration_errors where
  "no_registration_errors =
     \<lparr>er_display_name = None, er_email = None, er_password = None, er_confirmation = None\<rparr>"

definition registrationErrors :: "registration \<Rightarrow> registration_errors" where
  "registrationErrors values =
     (let errors = no_registration_errors;
          errors = (if trim (re_display_name values) = []
                       \<or> 80 < char_count (trim (re_display_name values))
                    then errors\<lparr>er_display_name := Some Name_invalid\<rparr> else errors);
          errors = (if trim (re_email values) = []
                    then errors\<lparr>er_email := Some Email_missing\<rparr> else errors);
          errors = (if \<not> passwordLengthValid (re_password values)
                    then errors\<lparr>er_password := Some Password_length\<rparr> else errors);
          errors = (if re_password values \<noteq> re_confirmation values
                    then errors\<lparr>er_confirmation := Some Passwords_differ\<rparr> else errors)
      in errors)"

text \<open>\<^verbatim>\<open>Object.keys(errors).length\<close>\<close>

definition error_count :: "registration_errors \<Rightarrow> nat" where
  "error_count errors =
     length (filter (\<lambda>v. v \<noteq> None)
       [er_display_name errors, er_email errors, er_password errors, er_confirmation errors])"

lemma error_count_zero: "error_count errors = 0 \<longleftrightarrow> errors = no_registration_errors"
  by (cases errors) (simp add: error_count_def no_registration_errors_def)

lemma registration_accepted_iff:
  "error_count (registrationErrors v) = 0 \<longleftrightarrow>
     (\<exists>u\<in>set (re_display_name v). \<not> is_space u) \<and> char_count (trim (re_display_name v)) \<le> 80
     \<and> (\<exists>u\<in>set (re_email v). \<not> is_space u)
     \<and> passwordLengthValid (re_password v) \<and> re_password v = re_confirmation v"
  unfolding error_count_zero registrationErrors_def Let_def
  by (auto simp: no_registration_errors_def trim_eq_Nil_iff list_all_iff)

text \<open>The byte bounds in terms of what is typed.\<close>

lemma password_units:
  assumes "passwordLengthValid p"
  shows "4 \<le> length p \<and> length p \<le> 72"
  using assms length_le_bytes [of p] bytes_le_length [of p]
  by (simp add: passwordLengthValid_def Let_def)

lemma password_ascii: "is_ascii p \<Longrightarrow> passwordLengthValid p \<longleftrightarrow> 12 \<le> length p \<and> length p \<le> 72"
  by (simp add: passwordLengthValid_def Let_def ascii_bytes)

subsection \<open>Person photos\<close>

datatype person_photo_text = Photo_type_invalid | Photo_over_10_mb | Photo_empty

definition photoValidationError :: "jstring \<Rightarrow> nat \<Rightarrow> person_photo_text option" where
  "photoValidationError file_type file_size =
     (if file_type \<notin> set [js ''image/jpeg'', js ''image/png'', js ''image/webp'']
      then Some Photo_type_invalid
      else if file_size > 10 * 1024 * 1024 then Some Photo_over_10_mb
      else if file_size = 0 then Some Photo_empty
      else None)"

lemma photo_accepted_iff:
  "photoValidationError t n = None \<longleftrightarrow>
     t \<in> {js ''image/jpeg'', js ''image/png'', js ''image/webp''} \<and> 1 \<le> n \<and> n \<le> 10485760"
  by (auto simp: photoValidationError_def)

end
