(* ===== verification/Demo_Data.thy ===== *)
theory Demo_Data
  imports Query_Hooks Outfit_Plan_Lib Wear_Event_Lib Wardrobe_Lib Account_Lib
begin

text \<open>
  Concrete data for the worked examples: a device clock, an account, two garments, a plan and an
  actual record, and queries that have loaded them. The examples run the pages on these data.
\<close>

definition demo_env :: env where
  "demo_env =
     \<lparr>env_time_zone = js ''UTC'', env_knows = (\<lambda>tz. tz = js ''UTC''),
      env_parts = (\<lambda>_. [(js ''year'', js ''2026''), (js ''month'', js ''01''), (js ''day'', js ''15'')]),
      env_uuid = js ''n1'', env_object_url = (\<lambda>n. js ''blob:'' @ replicate n 0x61)\<rparr>"

definition demo_user :: user where
  "demo_user =
     \<lparr>us_id = js ''u1'', us_display_name = js ''Ann'', us_email = js ''a@b.c'', us_email_verified = True,
      us_revision = 4, us_role = Role_user, us_status = User_active, us_created_at = [],
      us_updated_at = []\<rparr>"

definition demo_item :: wardrobe_item where
  "demo_item =
     \<lparr>wi_id = js ''i1'', wi_name = js ''Shirt'', wi_category = Top, wi_availability = Wearable,
      wi_revision = 3, wi_attributes = None, wi_sample_image = None, wi_photo_media_id = None,
      wi_original_photo_media_id = None, wi_source = From_wardrobe, wi_lifecycle = Active_item,
      wi_created_at = [], wi_updated_at = [], wi_archived_at = None\<rparr>"

definition demo_trousers :: wardrobe_item where
  "demo_trousers = demo_item\<lparr>wi_id := js ''i2'', wi_name := js ''Jeans'', wi_category := Bottom,
     wi_availability := Laundry, wi_revision := 7\<rparr>"

definition demo_content :: item_content where
  "demo_content =
     \<lparr>ic_item_id = js ''i1'', ic_item_revision = 3, ic_name = js ''Shirt'', ic_category = Top,
      ic_availability = Wearable, ic_attributes = None\<rparr>"

definition demo_plan :: outfit_plan where
  "demo_plan =
     \<lparr>op_id = js ''p1'', op_local_date = js ''2026-01-15'', op_time_zone = js ''UTC'',
      op_context_summary = None, op_items = [\<lparr>si_ordinal = 0, si_content = Some demo_content\<rparr>],
      op_revision = 2, op_status = Plan_active, op_created_at = [], op_updated_at = []\<rparr>"

definition demo_event :: wear_event where
  "demo_event =
     \<lparr>we_id = js ''w1'', we_local_date = js ''2026-01-10'', we_time_zone = js ''UTC'',
      we_completeness = Complete, we_context_summary = None, we_source_kind = Unplanned,
      we_source_plan_id = None, we_source_plan_revision = None,
      we_items = [\<lparr>si_ordinal = 0, si_content = Some demo_content\<rparr>], we_revision = 5,
      we_created_at = [], we_updated_at = []\<rparr>"

definition loaded :: "'a \<Rightarrow> 'a query" where
  "loaded x = \<lparr>q_status = Q_success, q_data = Some x\<rparr>"

definition loaded_list :: "'a list \<Rightarrow> 'a list_query" where
  "loaded_list xs =
     \<lparr>q_status = Q_success, q_data = Some [\<lparr>pg_items = xs, pg_next_after_id = None\<rparr>],
      q_fetching_next = False\<rparr>"

text \<open>A response of the server that carries a status alone, and a connection that was lost.\<close>

definition status_error :: "int \<Rightarrow> jsval" where
  "status_error n = http_error n JNull"

definition network_error :: jsval where
  "network_error = JObj [(''message'', JStr (js ''Network Error''))]"

lemma loaded_simps [simp]:
  "q_data (loaded x) = Some x" "\<not> isPending (loaded x)" "\<not> isError (loaded x)"
  "\<not> session_lost (loaded x)"
  "all_items (loaded_list xs) = xs" "\<not> loading_items (loaded_list xs)"
  "\<not> isPending (loaded_list xs)" "\<not> isError (loaded_list xs)" "\<not> session_lost (loaded_list xs)"
  "\<not> hasNextPage (loaded_list xs)"
  by (simp_all add: loaded_def loaded_list_def isPending_def isError_def session_lost_def
      all_items_def loading_items_def hasNextPage_def getNextPageParam_def)

lemma demo_status [simp]:
  "accountStatus network_error = None" "accountStatus (status_error n) = Some n"
  by (simp add: network_error_def accountStatus_def) (simp add: status_error_def)

lemma demo_today: "formatted_date demo_env tz = js ''2026-01-15''"
  by (simp add: formatted_date_def demo_env_def js_map_def js_template_def)

lemma demo_zone: "device_time_zone demo_env = js ''UTC''"
  by (simp add: device_time_zone_def demo_env_def)

lemma demo_known: "zone_known demo_env tz \<longleftrightarrow> tz = js ''UTC''"
  by (simp add: zone_known_def demo_zone) (simp add: demo_env_def)

lemma demo_device_today: "device_today demo_env = js ''2026-01-15''"
  by (simp add: device_today_def demo_today)

lemma demo_date_ok:
  "local_date_ok (js ''2026-01-15'')" "local_date_ok (js ''2026-01-10'')"
  by (simp_all add: local_date_ok_iff iso_shape_def iso_fields_def days_in_month_def
      js_slice_def is_digit_def js_number_def digit_value_def)

lemma demo_env_ok: "env_ok demo_env"
  by (simp add: env_ok_def demo_env_def zone_known_def device_time_zone_def js_map_def is_digit_def js_number_def digit_value_def
      days_in_month_def)

subsection \<open>Steps of the examples\<close>

lemma reach_sync:
  "reach D s0 (s, ts, tr) \<Longrightarrow> D s ev = Some p \<Longrightarrow> run e p s = (s', out, Return ()) \<Longrightarrow>
     reach D s0 (s', ts, tr @ out)"
  by (drule (1) reach_dispatch) (auto simp: park_def)

lemma reach_start_await:
  "reach D s0 (s, ts, tr) \<Longrightarrow> D s ev = Some p \<Longrightarrow> run e p s = (s', out, Await c k) \<Longrightarrow>
     reach D s0 (s', ts @ [(ev, Await c k)], tr @ out)"
  by (drule (1) reach_dispatch) (auto simp: park_def)

lemma reach_settle:
  "reach D s0 (s, [(ev, Await c k)], tr) \<Longrightarrow> run e (k r) s = (s', out, Return ()) \<Longrightarrow>
     reach D s0 (s', [], tr @ out)"
  using reach_resume [of D s0 s "[]" ev c k "[]" tr e r s' out "Return ()"] by (simp add: park_def)

lemmas demo_defs = demo_user_def demo_item_def demo_trousers_def demo_content_def demo_plan_def
  demo_event_def

end
