(* ===== verification/Plan_Properties.thy ===== *)
theory Plan_Properties
  imports Plan_View Demo_Data
begin

text \<open>
  What the plan page guarantees: the first segment of a save and of an action in closed form,
  what a failed creation leaves for the retry, and the consequences of the page's contract for
  every reachable configuration.
\<close>

subsection \<open>The first segment of a save\<close>

definition new_plan_id :: "env \<Rightarrow> plan_state \<Rightarrow> jstring" where
  "new_plan_id e s = (case pv_create_id s of Some i \<Rightarrow> i | None \<Rightarrow> env_uuid e)"

definition plan_save_call :: "env \<Rightarrow> plan_state \<Rightarrow> api_call" where
  "plan_save_call e s =
     (case pv_editing s of
        Some plan \<Rightarrow> UpdateOutfitPlan (op_id plan) (update_plan_body (plan_save_fields s) (op_revision plan))
      | None \<Rightarrow> CreateOutfitPlan (create_plan_body (new_plan_id e s) (plan_save_fields s)))"

lemma save_dispatched:
  "plan_dispatch lower s Save_plan = Some p \<Longrightarrow>
     p = plan_save s \<and> \<not> pv_pending s \<and> \<not> loading_items (pv_wardrobe s) \<and> pl_time_zone (pv_form s) \<noteq> []"
  by (simp add: plan_dispatch_def form_pending_def split: if_splits)

lemma run_save_invalid:
  "\<not> pv_pending s \<Longrightarrow> plan_validation e s = Inr (Some x) \<Longrightarrow>
     run e (plan_save s) s = (s\<lparr>pv_form_error := Some x\<rparr>, [], Return ())"
  "\<not> pv_pending s \<Longrightarrow> plan_validation e s = Inl y \<Longrightarrow> run e (plan_save s) s = (s, [], Throw y)"
  by (simp_all add: plan_save_def)

lemma plan_validation_cases:
  obtains (threw) x where "plan_validation e s = Inl x" | (failed) x where "plan_validation e s = Inr (Some x)"
  | (passed) "plan_validation e s = Inr None"
  by (cases "plan_validation e s") auto

text \<open>A save that passes the checks waits for its one call; if that fails, the error is shown.\<close>

lemma run_save_valid:
  assumes "\<not> pv_pending s" and "plan_validation e s = Inr None"
  shows "\<exists>k. run e (plan_save s) s =
       (s\<lparr>pv_form_error := None, pv_pending := True, pv_error := None,
          pv_create_id := (if pv_editing s = None then Some (new_plan_id e s) else pv_create_id s)\<rparr>,
        [Issued (Call (plan_save_call e s))], Await (Call (plan_save_call e s)) k)
     \<and> (\<forall>cause. k (Inl cause) = finally_do (plan_showError cause) plan_not_pending)"
  using assms
  by (cases "pv_editing s")
     (simp_all add: plan_save_def plan_save_call_def new_plan_id_def prog_simps Let_def)

text \<open>What a save sends, and what it can rely on until the response comes.\<close>

lemma save_issues:
  assumes "plan_dispatch lower s Save_plan = Some p" and "run e p s = (s', out, q)"
    and "Issued (Call c) \<in> set out"
  shows "plan_validation e s = Inr None \<and> c = plan_save_call e s"
proof -
  have p: "p = plan_save s" "\<not> pv_pending s" using save_dispatched [OF assms(1)] by simp_all
  show ?thesis
  proof (cases e s rule: plan_validation_cases)
    case passed
    with run_save_valid [OF p(2) passed] assms(2,3) p(1) show ?thesis by auto
  qed (use run_save_invalid [OF p(2)] assms(2,3) p(1) in auto)
qed

lemma itemByID_loaded: "itemByID items i = Some item \<Longrightarrow> item \<in> set items \<and> wi_id item = i"
  by (auto simp: itemByID_def dest!: js_map_by_idD)

subsection \<open>An example run\<close>

definition demo_form :: plan_form where
  "demo_form = (emptyPlanForm demo_env)\<lparr>pl_items := [\<lparr>os_item_id = js ''i1'', os_revision = 3\<rparr>]\<rparr>"

definition demo_ready :: plan_state where
  "demo_ready = plan_init\<lparr>pv_user := loaded demo_user, pv_wardrobe := loaded_list [demo_item, demo_trousers],
     pv_plans := loaded_list [demo_plan], pv_timer := False, pv_form := demo_form\<rparr>"

abbreviation demo_view :: "plan_state \<Rightarrow> plan_event \<Rightarrow> (plan_state, unit) prog option" where
  "demo_view \<equiv> plan_dispatch (\<lambda>v. v)"

lemma demo_ready_reached: "reach demo_view plan_init (demo_ready, [], [])"
proof -
  let ?s1 = "plan_init\<lparr>pv_form := emptyPlanForm demo_env, pv_timer := False\<rparr>"
  let ?s2 = "?s1\<lparr>pv_user := loaded demo_user, pv_wardrobe := loaded_list [demo_item, demo_trousers],
     pv_plans := loaded_list [demo_plan]\<rparr>"
  have "reach demo_view plan_init (?s1, [], [] @ [])"
    by (rule reach_sync [OF reach.start, of _ _ Plan_timer _ demo_env])
       (simp add: plan_dispatch_def plan_init_def)+
  then have "reach demo_view plan_init (?s2, [], ([] @ []) @ [])"
    by (rule reach_sync [of _ _ _ _ _ "Plan_queries_changed (loaded demo_user)
          (loaded_list [demo_item, demo_trousers]) (loaded_list [demo_plan])" _ demo_env])
       (simp add: plan_dispatch_def plan_session_effect_def unmount_editor_def plan_init_def)+
  then have "reach demo_view plan_init (demo_ready, [], (([] @ []) @ []) @ [])"
    by (rule reach_sync [of _ _ _ _ _ "Choose_garment demo_item" _ demo_env])
       (simp add: plan_dispatch_def plan_init_def plan_page_def form_pending_def emptyPlanForm_def
         demo_zone plan_form_event_def editor_shown_def pv_items_def filtered_items_def choice_disabled_def
         set_plan_form_def demo_ready_def demo_form_def choose_garment_def replaceGarment_def Let_def
         demo_item_def)+
  then show ?thesis by simp
qed

lemma demo_valid: "plan_validation demo_env demo_ready = Inr None"
  by (simp add: plan_validation_None plan_form_accepted_iff demo_ready_def demo_form_def emptyPlanForm_def
      demo_today demo_device_today demo_known demo_zone demo_date_ok [simplified] plan_init_def summary_bad_def pv_items_def itemByID_def js_map_def
      not_wearable_def demo_item_def demo_trousers_def)

lemma demo_save: "demo_view demo_ready Save_plan = Some (plan_save demo_ready)" "\<not> pv_pending demo_ready"
  by (simp_all add: plan_dispatch_def demo_ready_def plan_init_def plan_page_def form_pending_def demo_form_def
      emptyPlanForm_def demo_zone Let_def)

lemma demo_sel [simp]:
  "pv_editing demo_ready = None" "pv_create_id demo_ready = None" "pv_form demo_ready = demo_form"
  "pv_wardrobe demo_ready = loaded_list [demo_item, demo_trousers]"
  by (simp_all add: demo_ready_def plan_init_def)

lemma demo_saving:
  "\<exists>s1 k. run demo_env (plan_save demo_ready) demo_ready
     = (s1, [Issued (Call (plan_save_call demo_env demo_ready))],
        Await (Call (plan_save_call demo_env demo_ready)) k)
   \<and> pv_pending s1 \<and> \<not> pv_timer s1
   \<and> reach demo_view plan_init (s1, [(Save_plan, Await (Call (plan_save_call demo_env demo_ready)) k)],
       [Issued (Call (plan_save_call demo_env demo_ready))])"
proof -
  from run_save_valid [OF demo_save(2) demo_valid] obtain s1 k where
    r: "run demo_env (plan_save demo_ready) demo_ready
     = (s1, [Issued (Call (plan_save_call demo_env demo_ready))],
        Await (Call (plan_save_call demo_env demo_ready)) k)"
    and "pv_pending s1" "\<not> pv_timer s1"
    by (auto simp: demo_ready_def)
  moreover have "reach demo_view plan_init (s1, [(Save_plan, Await (Call (plan_save_call demo_env demo_ready)) k)],
       [Issued (Call (plan_save_call demo_env demo_ready))])"
    using reach_start_await [OF demo_ready_reached demo_save(1) r] by simp
  ultimately show ?thesis by blast
qed

lemma demo_call:
  "plan_save_call demo_env demo_ready = CreateOutfitPlan (create_plan_body (js ''n1'') (plan_save_fields demo_ready))"
  by (simp add: plan_save_call_def new_plan_id_def demo_ready_def plan_init_def demo_env_def)

subsection \<open>Properties\<close>

text \<open>
  C2. In every reachable configuration of the plan page, every request that creates or updates
  a plan names a calendar date and a time zone, has 1 to 20 garments, and a summary that is
  absent or trimmed, non-empty, of at most 120 code points and without control characters.
\<close>

theorem plan_sends_checked:
  assumes "reach (plan_dispatch lower) plan_init (s, ts, tr)"
  shows "(Issued (Call (CreateOutfitPlan b)) \<in> set tr \<longrightarrow> plan_fields_ok b)
    \<and> (Issued (Call (UpdateOutfitPlan i u)) \<in> set tr \<longrightarrow> plan_fields_ok u)"
  using plans.reach_effects [OF assms, of "Issued (Call (CreateOutfitPlan b))"]
    plans.reach_effects [OF assms, of "Issued (Call (UpdateOutfitPlan i u))"]
  by (auto simp: plan_policy_def)

theorem plan_sends_checked_witness:
  "\<exists>s ts tr b. reach demo_view plan_init (s, ts, tr) \<and> Issued (Call (CreateOutfitPlan b)) \<in> set tr
     \<and> plan_fields_ok b"
proof -
  obtain s1 k where "reach demo_view plan_init (s1, [(Save_plan, Await (Call (plan_save_call demo_env demo_ready)) k)],
       [Issued (Call (plan_save_call demo_env demo_ready))])"
    using demo_saving by blast
  from plan_sends_checked [OF this] this show ?thesis
    unfolding demo_call by (meson list.set_intros(1))
qed

text \<open>
  Saving, reloading, the confirmed actions and restoring exclude each other: the number of
  them in flight is one while the page is pending and zero otherwise.
\<close>

lemma plan_one_operation:
  assumes "reach (plan_dispatch lower) plan_init (s, ts, tr)"
  shows "length (filter (\<lambda>(ev, q). plan_exclusive ev) ts) = (if pv_pending s then 1 else 0)"
  using plans.reach_exclusive [OF assms] by auto

lemma plan_one_operation_witness:
  "\<exists>s ts tr. reach demo_view plan_init (s, ts, tr) \<and> pv_pending s
     \<and> length (filter (\<lambda>(ev, q). plan_exclusive ev) ts) = 1"
proof -
  obtain s1 k where "pv_pending s1" and
    r: "reach demo_view plan_init (s1, [(Save_plan, Await (Call (plan_save_call demo_env demo_ready)) k)],
       [Issued (Call (plan_save_call demo_env demo_ready))])"
    using demo_saving by blast
  have "length (filter (\<lambda>(ev, q). plan_exclusive ev)
      [(Save_plan, Await (Call (plan_save_call demo_env demo_ready)) k)]) = 1"
    using plan_one_operation [OF r] \<open>pv_pending s1\<close> by (simp only: if_True)
  with r \<open>pv_pending s1\<close> show ?thesis by blast
qed

text \<open>
  A save sends nothing when a check fails and shows the first failed check, and does nothing at all when
  the time zone of the form is one the formatter does not know; otherwise it
  sends exactly one request, which updates the plan being edited at its shown revision, or
  creates one under the identifier kept for the creation.
\<close>

lemma plan_save_first_segment:
  assumes "plan_dispatch lower s Save_plan = Some p" and "run e p s = (s', out, q)"
  shows "(case plan_validation e s of
      Inl x \<Rightarrow> out = [] \<and> q = Throw x \<and> s' = s
    | Inr (Some x) \<Rightarrow> out = [] \<and> q = Return () \<and> s' = s\<lparr>pv_form_error := Some x\<rparr>
    | Inr None \<Rightarrow> pv_pending s' \<and> pv_form s' = pv_form s \<and> pv_editing s' = pv_editing s
        \<and> out = [Issued (Call (case pv_editing s of
            Some plan \<Rightarrow> UpdateOutfitPlan (op_id plan)
              (update_plan_body (plan_save_fields s) (op_revision plan))
          | None \<Rightarrow> CreateOutfitPlan (create_plan_body
              (case pv_create_id s of Some i \<Rightarrow> i | None \<Rightarrow> env_uuid e) (plan_save_fields s))))])"
proof -
  have p: "p = plan_save s" "\<not> pv_pending s" using save_dispatched [OF assms(1)] by simp_all
  show ?thesis
  proof (cases e s rule: plan_validation_cases)
    case passed
    with run_save_valid [OF p(2) passed] assms(2) p(1) show ?thesis
      by (auto simp: plan_save_call_def new_plan_id_def split: option.split)
  qed (use run_save_invalid [OF p(2)] assms(2) p(1) in auto)
qed

lemma plan_save_first_segment_witness:
  "\<exists>s' q. run demo_env (plan_save demo_ready) demo_ready
     = (s', [Issued (Call (CreateOutfitPlan (create_plan_body (js ''n1'') (plan_save_fields demo_ready))))], q)
     \<and> pv_pending s'"
proof -
  obtain s' out q where r: "run demo_env (plan_save demo_ready) demo_ready = (s', out, q)"
    by (rule prod_cases3)
  from plan_save_first_segment [OF demo_save(1) r] r show ?thesis
    by (simp add: demo_valid) (simp add: demo_env_def)
qed

text \<open>
  C15. Whatever a save sends, each of its garments is loaded in the wardrobe, and each that is
  not wearable now is named in the confirmations of the request.
\<close>

theorem plan_save_confirms:
  assumes "plan_dispatch lower s Save_plan = Some p" and "run e p s = (s', out, q)"
    and "Issued (Call c) \<in> set out"
    and "c = CreateOutfitPlan b \<and> sel \<in> set (pf_items b) \<and> conf = pf_confirmed_unavailable_ids b
      \<or> c = UpdateOutfitPlan i u \<and> sel \<in> set (pf_items u) \<and> conf = pf_confirmed_unavailable_ids u"
  shows "\<exists>item\<in>set (pv_items s). wi_id item = os_item_id sel
    \<and> (wi_availability item \<noteq> Wearable \<longrightarrow> os_item_id sel \<in> set conf)"
proof -
  from save_issues [OF assms(1-3)] have valid: "plan_validation e s = Inr None"
    and c: "c = plan_save_call e s" by simp_all
  from c assms(4) have sel: "sel \<in> set (pl_items (pv_form s))"
    and conf: "conf = pf_confirmed_unavailable_ids (plan_save_fields s)"
    by (auto simp: plan_save_call_def plan_save_fields_def form_defs Let_def split: option.splits)
  with valid obtain item where item: "itemByID (pv_items s) (os_item_id sel) = Some item"
    and "not_wearable (pv_items s) (os_item_id sel) \<longrightarrow>
      os_item_id sel \<in> set (pl_confirmed_unavailable_ids (pv_form s))"
    by (auto simp: plan_validation_None)
  then have "wi_availability item \<noteq> Wearable \<longrightarrow> os_item_id sel \<in> set conf"
    by (auto simp: conf plan_save_fields_def form_defs Let_def not_wearable_def)
  then show ?thesis using itemByID_loaded [OF item] by blast
qed

theorem plan_save_confirms_witness:
  "\<exists>item\<in>set (pv_items demo_ready). wi_id item = js ''i1''
     \<and> (wi_availability item = Wearable
          \<or> js ''i1'' \<in> set (pf_confirmed_unavailable_ids (plan_save_fields demo_ready)))"
proof -
  let ?b = "create_plan_body (js ''n1'') (plan_save_fields demo_ready)"
  let ?sel = "\<lparr>os_item_id = js ''i1'', os_revision = 3\<rparr>"
  obtain s1 k where r: "run demo_env (plan_save demo_ready) demo_ready
     = (s1, [Issued (Call (CreateOutfitPlan ?b))], Await (Call (CreateOutfitPlan ?b)) k)"
    using demo_saving unfolding demo_call by blast
  have "?sel \<in> set (pf_items ?b)"
    by (simp add: plan_save_fields_def form_defs demo_ready_def demo_form_def Let_def)
  then show ?thesis
    using plan_save_confirms [OF demo_save(1) r, of "CreateOutfitPlan ?b" ?b ?sel
        "pf_confirmed_unavailable_ids ?b"] by (simp add: disj_imp)
qed

text \<open>
  C16. A creation that fails for any reason but a lost session can be repeated: the form and the
  identifier are kept, the failure is shown and the page is free, and saving the unchanged form
  against the unchanged lists sends the same request again.
\<close>

theorem plan_failed_create_repeats:
  assumes "plan_dispatch lower s Save_plan = Some p" and "run e p s = (s1, out, Await c k)"
    and "pv_editing s = None" and "plan_stable s1 t" and "\<not> pv_timer s1"
    and "accountStatus cause \<noteq> Some 401" and "run e' (k (Inl cause)) t = (t', out', q)"
  shows "q = Return () \<and> out' = [] \<and> \<not> pv_pending t' \<and> pv_form t' = pv_form s
    \<and> pv_error t' = Some (planErrorMessage cause)
    \<and> (pv_wardrobe t' = pv_wardrobe s \<and> plan_validation e2 t' = Inr None \<longrightarrow>
        (\<exists>t2 k2. run e2 (plan_save t') t' = (t2, [Issued c], Await c k2)))"
proof -
  have p: "p = plan_save s" "\<not> pv_pending s" using save_dispatched [OF assms(1)] by simp_all
  have valid: "plan_validation e s = Inr None"
    using run_save_invalid [OF p(2)] assms(2) p(1) by (cases e s rule: plan_validation_cases) auto
  from run_save_valid [OF p(2) valid] assms(2,3) p(1)
  have s1: "s1 = s\<lparr>pv_form_error := None, pv_pending := True, pv_error := None,
      pv_create_id := Some (new_plan_id e s)\<rparr>"
    and c: "c = Call (plan_save_call e s)" and k: "k (Inl cause) = finally_do (plan_showError cause) plan_not_pending"
    by auto
  have t': "t' = t\<lparr>pv_error := Some (planErrorMessage cause), pv_pending := False\<rparr>" "q = Return ()" "out' = []"
    using assms(6,7) by (simp_all add: k plan_showError_def plan_not_pending_def prog_simps)
  have t: "pv_form t = pv_form s" "pv_create_id t = Some (new_plan_id e s)" "pv_editing t = None"
    using assms(3,4,5) by (auto simp: plan_stable_def s1)
  have "\<exists>t2 k2. run e2 (plan_save t') t' = (t2, [Issued c], Await c k2)"
    if "pv_wardrobe t' = pv_wardrobe s" "plan_validation e2 t' = Inr None"
  proof -
    have "plan_save_call e2 t' = plan_save_call e s"
      using t that(1) assms(3)
      by (simp add: plan_save_call_def plan_save_fields_def new_plan_id_def pv_items_def t'(1))
    with run_save_valid [of t' e2] that(2) c show ?thesis by (auto simp: t'(1))
  qed
  then show ?thesis using t t' by simp
qed

theorem plan_failed_create_repeats_witness:
  "\<exists>s1 c k t' t2 k2. run demo_env (plan_save demo_ready) demo_ready = (s1, [Issued c], Await c k)
     \<and> run demo_env (k (Inl network_error)) s1 = (t', [], Return ())
     \<and> run demo_env (plan_save t') t' = (t2, [Issued c], Await c k2)"
proof -
  let ?c = "Call (plan_save_call demo_env demo_ready)"
  from run_save_valid [OF demo_save(2) demo_valid] obtain k where
    r: "run demo_env (plan_save demo_ready) demo_ready
       = (demo_ready\<lparr>pv_form_error := None, pv_pending := True, pv_error := None,
            pv_create_id := Some (new_plan_id demo_env demo_ready)\<rparr>, [Issued ?c], Await ?c k)"
    (is "_ = (?s1, _, _)")
    and k: "k (Inl network_error) = finally_do (plan_showError network_error) plan_not_pending"
    by (auto simp: demo_ready_def plan_init_def)
  obtain t' out' q where r': "run demo_env (k (Inl network_error)) ?s1 = (t', out', q)"
    by (rule prod_cases3)
  then have t': "t' = ?s1\<lparr>pv_error := Some (planErrorMessage network_error), pv_pending := False\<rparr>"
    by (simp add: k plan_showError_def plan_not_pending_def prog_simps)
  have "plan_validation demo_env t' = Inr None" "pv_wardrobe t' = pv_wardrobe demo_ready"
    using demo_valid by (simp_all add: t' plan_validation_None pv_items_def)
  moreover have "pv_editing demo_ready = None" "plan_stable ?s1 ?s1" "\<not> pv_timer ?s1"
    by (simp_all add: demo_ready_def plan_init_def plan_stable_def)
  ultimately show ?thesis
    using plan_failed_create_repeats [OF demo_save(1) r _ _ _ _ r', of demo_env] r r' by auto
qed

text \<open>
  The confirmed action sends exactly one request, for the plan and the revision that the
  dialog was opened for, and closes the dialog.
\<close>

lemma plan_action_sends_shown:
  assumes "pv_confirmation s = Some (plan, action)" and "\<not> pv_pending s"
    and "run e (plan_runAction s) s = (s', out, q)"
  shows "pv_confirmation s' = None \<and> pv_pending s'
    \<and> out = [Issued (Call (case action of
        Act_cancel \<Rightarrow> CancelOutfitPlan (op_id plan) (op_revision plan)
      | Act_not_worn \<Rightarrow> MarkOutfitPlanNotWorn (op_id plan) (op_revision plan)
      | Act_delete \<Rightarrow> DeleteOutfitPlan (op_id plan) (op_revision plan)))]"
  using assms by (cases action) (auto simp: plan_runAction_def action_request_def prog_simps)

lemma plan_action_sends_shown_witness:
  "\<exists>s' q. run demo_env (plan_runAction (demo_ready\<lparr>pv_confirmation := Some (demo_plan, Act_delete)\<rparr>))
       (demo_ready\<lparr>pv_confirmation := Some (demo_plan, Act_delete)\<rparr>)
     = (s', [Issued (Call (DeleteOutfitPlan (js ''p1'') 2))], q) \<and> pv_pending s'"
proof -
  let ?s = "demo_ready\<lparr>pv_confirmation := Some (demo_plan, Act_delete)\<rparr>"
  obtain s' out q where r: "run demo_env (plan_runAction ?s) ?s = (s', out, q)"
    by (rule prod_cases3)
  from plan_action_sends_shown [OF _ _ r, of demo_plan Act_delete] r show ?thesis
    by (simp add: demo_save(2) demo_plan_def)
qed

text \<open>
  C23. Choosing a garment in the flat-lay editor keeps the chosen garments compatible (one of a
  category, no one-piece with a top or a bottom), puts the garment in at its loaded revision,
  and leaves no confirmation for a garment that is not chosen; the bound of 20 garments that
  disables a choice is never reached by garments of the wardrobe.
\<close>

theorem choose_garment_keeps_compatible:
  assumes "distinct (map wi_id items)" and "item \<in> set items"
    and "compatible items (pl_items form)"
    and "\<And>a. a \<in> set (pl_items form) \<Longrightarrow> sel_category items a \<noteq> None"
  defines "form' \<equiv> choose_garment form item items"
  shows "compatible items (pl_items form') \<and> length (pl_items form') \<le> 6
    \<and> \<lparr>os_item_id = wi_id item, os_revision = wi_revision item\<rparr> \<in> set (pl_items form')
    \<and> set (pl_confirmed_unavailable_ids form') \<subseteq> os_item_id ` set (pl_items form')
    \<and> \<not> choice_disabled form item items"
proof -
  have comp: "compatible items (replaceGarment (pl_items form) item items)"
    by (rule compatible_replace [OF assms(1-3)])
  have known: "sel_category items a \<noteq> None" if "a \<in> set (replaceGarment (pl_items form) item items)" for a
    using that assms(4) sel_category_item [OF assms(1,2)] by (auto simp: replaceGarment_eq)
  have "length (pl_items form) \<le> 6" by (rule compatible_length [OF assms(3,4)])
  moreover have "length (replaceGarment (pl_items form) item items) \<le> 6"
    by (rule compatible_length [OF comp known])
  ultimately show ?thesis
    using comp
    by (auto simp: form'_def choose_garment_def choice_disabled_def replaceGarment_eq list_ex_iff Let_def)
qed

theorem choose_garment_keeps_compatible_witness:
  "compatible [demo_item, demo_trousers]
     (pl_items (choose_garment demo_form demo_trousers [demo_item, demo_trousers]))"
proof -
  have "distinct (map wi_id [demo_item, demo_trousers])" by (simp add: demo_item_def demo_trousers_def)
  moreover have "compatible [demo_item, demo_trousers] (pl_items demo_form)" by (simp add: demo_form_def)
  moreover have "sel_category [demo_item, demo_trousers] a \<noteq> None" if "a \<in> set (pl_items demo_form)" for a
    using that by (simp add: demo_form_def sel_category_def js_map_def demo_item_def demo_trousers_def)
  ultimately show ?thesis
    using choose_garment_keeps_compatible [of "[demo_item, demo_trousers]" demo_trousers demo_form] by simp
qed

text \<open>
  C39. Removing a selected garment that is no longer loaded does not withdraw its confirmation:
  the next request confirms a garment that is not among its items, which the backend rejects.
\<close>

theorem plan_remove_missing_keeps_confirmation:
  assumes "i \<in> set (pl_confirmed_unavailable_ids (pv_form s))" and "i \<notin> wi_id ` set (pv_items s)"
  defines "s' \<equiv> s\<lparr>pv_form := remove_missing (pv_form s) i\<rparr>"
  shows "i \<notin> os_item_id ` set (pf_items (plan_save_fields s'))
    \<and> i \<in> set (pf_confirmed_unavailable_ids (plan_save_fields s'))"
proof -
  have "itemByID (pv_items s') i = None"
    using assms(2) by (auto simp: itemByID_def s'_def pv_items_def)
  then show ?thesis
    using assms(1)
    by (auto simp: s'_def plan_save_fields_def remove_missing_def form_defs not_wearable_def Let_def)
qed

theorem plan_remove_missing_keeps_confirmation_witness:
  "js ''i2'' \<in> set (pf_confirmed_unavailable_ids (plan_save_fields (demo_ready
     \<lparr>pv_wardrobe := loaded_list [demo_item],
      pv_form := remove_missing (demo_form\<lparr>pl_confirmed_unavailable_ids := [js ''i2'']\<rparr>) (js ''i2'')\<rparr>)))"
  using plan_remove_missing_keeps_confirmation [of "js ''i2''"
      "demo_ready\<lparr>pv_wardrobe := loaded_list [demo_item],
         pv_form := demo_form\<lparr>pl_confirmed_unavailable_ids := [js ''i2'']\<rparr>\<rparr>"]
  by (simp add: pv_items_def demo_item_def)

end
