(* ===== verification/Wear_View.thy ===== *)
theory Wear_View
  imports Query_Hooks Wear_Event_Lib Wardrobe_Lib
begin

text \<open>
  The page of actual wear, \<^verbatim>\<open>components/wear-event/wear-event-view.tsx\<close>, with its form
  (\<^verbatim>\<open>wear-event-form.tsx\<close>) and the statistics (\<^verbatim>\<open>wear-statistics.tsx\<close>): the state, every
  handler, and which control is shown and enabled in which state.
\<close>

record wear_state =
  wv_user :: "user query"
  wv_wardrobe :: "wardrobe_item list_query"
  wv_plans :: "outfit_plan list_query"
  wv_events :: "wear_event list_query"
  wv_stats :: "wear_statistics query"
  wv_create_id :: "jstring option"
  wv_form :: wear_form
  wv_linked_plan :: "outfit_plan option"
  wv_editing :: "wear_event option"
  wv_duplicate :: "wear_candidate list option"
  wv_confirm_delete :: "wear_event option"
  wv_editor_open :: bool
  wv_pending :: bool
  wv_form_error :: "wear_form_text option"
  wv_error :: "wear_text option"
  wv_deleted :: bool
  wv_timer :: bool

definition blank_wear_form :: wear_form where
  "blank_wear_form =
     \<lparr>wr_local_date = [], wr_time_zone = [], wr_completeness = Complete, wr_context_summary = [],
      wr_source_kind = Unplanned, wr_source_plan_id = [], wr_source_plan_revision = None,
      wr_items = [], wr_confirmed_unavailable_ids = [], wr_laundry_item_ids = [],
      wr_duplicate_confirmations = []\<rparr>"

text \<open>\<^verbatim>\<open>!!initialPlanID\<close>\<close>

definition has_plan :: "jstring option \<Rightarrow> bool" where
  "has_plan initialPlanID \<longleftrightarrow> initialPlanID \<noteq> None \<and> initialPlanID \<noteq> Some []"

definition wear_init :: "jstring option \<Rightarrow> wear_state" where
  "wear_init initialPlanID =
     \<lparr>wv_user = no_query, wv_wardrobe = no_list_query, wv_plans = no_list_query,
      wv_events = no_list_query, wv_stats = no_query, wv_create_id = None, wv_form = blank_wear_form,
      wv_linked_plan = None, wv_editing = None, wv_duplicate = None, wv_confirm_delete = None,
      wv_editor_open = has_plan initialPlanID, wv_pending = False, wv_form_error = None,
      wv_error = None, wv_deleted = False, wv_timer = True\<rparr>"

definition wv_items :: "wear_state \<Rightarrow> wardrobe_item list" where
  "wv_items s = all_items (wv_wardrobe s)"

definition wv_plan_items :: "wear_state \<Rightarrow> outfit_plan list" where
  "wv_plan_items s =
     (let listed = all_items (wv_plans s) in
      case wv_linked_plan s of
        None \<Rightarrow> listed
      | Some linked \<Rightarrow>
          if \<not> list_ex (\<lambda>plan. op_id plan = op_id linked) listed then linked # listed else listed)"

subsection \<open>The plan named in the address\<close>

definition plan_wear_form :: "env \<Rightarrow> outfit_plan \<Rightarrow> wear_form" where
  "plan_wear_form e plan = (emptyWearForm e)
     \<lparr>wr_local_date := op_local_date plan,
      wr_time_zone := op_time_zone plan,
      wr_context_summary := or_empty (op_context_summary plan),
      wr_source_kind := Followed_plan,
      wr_source_plan_id := op_id plan,
      wr_source_plan_revision := Some (op_revision plan),
      wr_items := kept_selections (op_items plan)\<rparr>"

definition wear_mount :: "jstring option \<Rightarrow> (wear_state, unit) prog" where
  "wear_mount initialPlanID =
     Update (\<lambda>t. t\<lparr>wv_timer := False\<rparr>)
       (if \<not> has_plan initialPlanID
        then Read (\<lambda>e _. set_state (\<lambda>t. t\<lparr>wv_form := emptyWearForm e\<rparr>))
        else
          catch
            (bind (plan_get (the initialPlanID)) (\<lambda>plan.
               Update (\<lambda>t. t\<lparr>wv_linked_plan := Some plan\<rparr>)
                 (Read (\<lambda>e _. set_state (\<lambda>t. t\<lparr>wv_form := plan_wear_form e plan\<rparr>)))))
            (\<lambda>_. Read (\<lambda>e _. set_state (\<lambda>t. t\<lparr>wv_form := emptyWearForm e,
                  wv_error := Some Wear_source_plan_unreadable\<rparr>))))"

subsection \<open>Errors and sessions\<close>

definition leave_wear :: "(wear_state, unit) prog" where
  "leave_wear = bind account_clear_current (\<lambda>_. Emit (Replace_route To_login) (Return ()))"

definition wear_session_effect :: "wear_state \<Rightarrow> (wear_state, unit) prog" where
  "wear_session_effect s =
     (if session_lost (wv_user s) \<or> session_lost (wv_wardrobe s) \<or> session_lost (wv_plans s)
         \<or> session_lost (wv_events s)
      then leave_wear else Return ())"

definition wear_showError :: "jsval \<Rightarrow> (wear_state, unit) prog" where
  "wear_showError cause =
     (if accountStatus cause = Some 401 then leave_wear
      else
        (case duplicateCandidates cause of
           Some candidates \<Rightarrow>
             set_state (\<lambda>t. t\<lparr>wv_duplicate := Some candidates, wv_error := None\<rparr>)
         | None \<Rightarrow>
             set_state (\<lambda>t. t\<lparr>wv_duplicate := None, wv_error := Some (wearErrorMessage cause)\<rparr>)))"

subsection \<open>Editing\<close>

definition wear_changeForm :: "wear_form \<Rightarrow> (wear_state, unit) prog" where
  "wear_changeForm form =
     set_state (\<lambda>t. t\<lparr>wv_form := form, wv_duplicate := None, wv_form_error := None\<rparr>)"

definition wear_cancelEdit :: "(wear_state, unit) prog" where
  "wear_cancelEdit =
     Update (\<lambda>t. t\<lparr>wv_editor_open := False, wv_editing := None\<rparr>)
       (Read (\<lambda>e _. set_state (\<lambda>t. t\<lparr>wv_form := emptyWearForm e, wv_form_error := None,
          wv_error := None, wv_duplicate := None, wv_create_id := None\<rparr>)))"

definition wear_selectEdit :: "wear_event \<Rightarrow> (wear_state, unit) prog" where
  "wear_selectEdit event =
     set_state (\<lambda>t. t\<lparr>wv_editor_open := True, wv_editing := Some event,
       wv_form := wearFormFromResponse event, wv_form_error := None, wv_error := None,
       wv_duplicate := None\<rparr>)"

text \<open>
  The form after the choice of a source plan: with the relation \<^verbatim>\<open>followed_plan\<close> it takes the
  garments of the plan, at the revisions of the loaded wardrobe.
\<close>

definition selectPlan_form :: "wear_state \<Rightarrow> jstring \<Rightarrow> wear_form" where
  "selectPlan_form s i =
     (let form = wv_form s;
          plan = List.find (\<lambda>item. op_id item = i) (wv_plan_items s);
          selected =
            (case plan of
               Some p \<Rightarrow>
                 if wr_source_kind form = Followed_plan
                 then map (\<lambda>entry. entry\<lparr>os_revision :=
                        (case itemByID (wv_items s) (os_item_id entry) of
                           Some item \<Rightarrow> wi_revision item | None \<Rightarrow> os_revision entry)\<rparr>)
                      (kept_selections (op_items p))
                 else wr_items form
             | None \<Rightarrow> wr_items form)
      in form\<lparr>wr_source_plan_id := i,
           wr_source_plan_revision :=
             (case plan of
                Some p \<Rightarrow> Some (op_revision p)
              | None \<Rightarrow> if i = wr_source_plan_id form then wr_source_plan_revision form else None),
           wr_items := selected,
           wr_confirmed_unavailable_ids := [],
           wr_laundry_item_ids := []\<rparr>)"

definition wear_not_pending :: "(wear_state, unit) prog" where
  "wear_not_pending = set_state (\<lambda>t. t\<lparr>wv_pending := False\<rparr>)"

definition wear_reloadEditing :: "wear_state \<Rightarrow> (wear_state, unit) prog" where
  "wear_reloadEditing s =
     (case wv_editing s of
        None \<Rightarrow> Return ()
      | Some editing \<Rightarrow>
          if wv_pending s then Return ()
          else
            Update (\<lambda>t. t\<lparr>wv_pending := True, wv_error := None, wv_duplicate := None\<rparr>)
              (finally_do
                (catch
                  (bind (wear_get (we_id editing)) (\<lambda>event.
                     Update (\<lambda>t. t\<lparr>wv_editing := Some event, wv_form := wearFormFromResponse event,
                         wv_form_error := None\<rparr>)
                       (refetch Wear_events_key)))
                  wear_showError)
                wear_not_pending))"

subsection \<open>Saving\<close>

definition item_stale :: "wardrobe_item list \<Rightarrow> selection \<Rightarrow> bool" where
  "item_stale items entry \<longleftrightarrow>
     map_option wi_revision (itemByID items (os_item_id entry)) \<noteq> Some (os_revision entry)"

text \<open>An exception of the form check comes before anything is set, and nothing catches it.\<close>

definition wear_validation :: "env \<Rightarrow> wear_state \<Rightarrow> jsval + wear_form_text option" where
  "wear_validation e s =
     (let form = wv_form s in
      case wearFormError e form of
        Inl x \<Rightarrow> Inl x
      | Inr validation \<Rightarrow>
     (let validation =
            (if validation = None \<and> list_ex (item_stale (wv_items s)) (wr_items form)
             then Some Wear_items_stale else validation);
          validation =
            (if validation = None
                \<and> list_ex (\<lambda>entry. not_wearable (wv_items s) (os_item_id entry)
                    \<and> os_item_id entry \<notin> set (wr_confirmed_unavailable_ids form)) (wr_items form)
             then Some Wear_unavailable_not_confirmed else validation);
          validation =
            (if validation = None \<and> wr_source_kind form \<noteq> Unplanned
                \<and> \<not> list_ex (\<lambda>plan. op_id plan = wr_source_plan_id form) (wv_plan_items s)
                \<and> wv_editing s = None
             then Some Wear_plan_not_loaded else validation)
      in Inr (if validation = None
         then followedPlanError form
           (List.find (\<lambda>plan. op_id plan = wr_source_plan_id form) (wv_plan_items s))
         else validation)))"

definition wear_save_fields :: "wear_state \<Rightarrow> wear_candidate list \<Rightarrow> wear_fields" where
  "wear_save_fields s confirmations =
     (let body = wearRequestFields (wv_form s) in
      body\<lparr>wf_confirmed_unavailable_ids :=
             filter (not_wearable (wv_items s)) (wf_confirmed_unavailable_ids body),
           wf_duplicate_confirmations := confirmations\<rparr>)"

definition create_wear_body :: "jstring \<Rightarrow> wear_fields \<Rightarrow> create_wear" where
  "create_wear_body i body = wear_fields.extend body (create_wear.fields i)"

definition update_wear_body :: "wear_fields \<Rightarrow> int \<Rightarrow> update_wear" where
  "update_wear_body body revision = wear_fields.extend body (update_wear.fields revision)"

definition wear_saveEvent :: "wear_candidate list \<Rightarrow> wear_state \<Rightarrow> (wear_state, unit) prog" where
  "wear_saveEvent confirmations s =
     (if wv_pending s then Return ()
      else Read (\<lambda>e _. case wear_validation e s of Inl x \<Rightarrow> Throw x | Inr validation \<Rightarrow>
        Update (\<lambda>t. t\<lparr>wv_form_error := validation\<rparr>)
          (if validation \<noteq> None then Return ()
           else
             Update (\<lambda>t. t\<lparr>wv_pending := True, wv_error := None, wv_duplicate := None\<rparr>)
               (finally_do
                 (catch
                   (let body = wear_save_fields s confirmations in
                    case wv_editing s of
                      Some editing \<Rightarrow>
                        bind (wear_update (we_id editing)
                            (update_wear_body body (we_revision editing)))
                          (\<lambda>event. Update (\<lambda>t. t\<lparr>wv_editing := Some event,
                                 wv_form := wearFormFromResponse event\<rparr>)
                               (Emit (Toast Toast_wear_corrected) (Return ())))
                    | None \<Rightarrow>
                        Read (\<lambda>e' t.
                          let i = (case wv_create_id t of Some i \<Rightarrow> i | None \<Rightarrow> env_uuid e') in
                          Update (\<lambda>t. t\<lparr>wv_create_id := Some i\<rparr>)
                            (bind (wear_create (create_wear_body i body)) (\<lambda>_.
                               Update (\<lambda>t. t\<lparr>wv_create_id := None\<rparr>)
                                 (Read (\<lambda>e'' _. Update (\<lambda>t. t\<lparr>wv_form := emptyWearForm e''\<rparr>)
                                    (Emit (Toast Toast_wear_created) (Return ()))))))))
                   wear_showError)
                 wear_not_pending))))"

definition wear_remove_event :: "wear_state \<Rightarrow> (wear_state, unit) prog" where
  "wear_remove_event s =
     (case wv_confirm_delete s of
        None \<Rightarrow> Return ()
      | Some event \<Rightarrow>
          if wv_pending s then Return ()
          else
            Update (\<lambda>t. t\<lparr>wv_confirm_delete := None, wv_pending := True, wv_error := None\<rparr>)
              (finally_do
                (catch
                  (bind (wear_remove (we_id event) (we_revision event)) (\<lambda>_.
                     bind (if map_option we_id (wv_editing s) = Some (we_id event)
                           then wear_cancelEdit else Return ())
                       (\<lambda>_. set_state (\<lambda>t. t\<lparr>wv_deleted := True\<rparr>))))
                  (\<lambda>cause. bind (wear_showError cause) (\<lambda>_. refetch Wear_events_key)))
                wear_not_pending))"

declare wear_mount_def [view_defs] leave_wear_def [view_defs] wear_session_effect_def [view_defs]
  wear_showError_def [view_defs] wear_changeForm_def [view_defs] wear_cancelEdit_def [view_defs]
  wear_selectEdit_def [view_defs] wear_not_pending_def [view_defs] wear_reloadEditing_def [view_defs]
  wear_saveEvent_def [view_defs] wear_remove_event_def [view_defs]

subsection \<open>The form\<close>

definition wear_selected :: "wear_form \<Rightarrow> jstring \<Rightarrow> bool" where
  "wear_selected form i = list_ex (\<lambda>entry. os_item_id entry = i) (wr_items form)"

definition wear_toggleItem :: "wear_form \<Rightarrow> wardrobe_item \<Rightarrow> bool \<Rightarrow> wear_form" where
  "wear_toggleItem form item checked =
     form\<lparr>wr_items :=
       (if checked
        then wr_items form @ [\<lparr>os_item_id = wi_id item, os_revision = wi_revision item\<rparr>]
        else filter (\<lambda>entry. os_item_id entry \<noteq> wi_id item) (wr_items form)),
       wr_confirmed_unavailable_ids :=
         filter (\<lambda>i. i \<noteq> wi_id item) (wr_confirmed_unavailable_ids form),
       wr_laundry_item_ids := filter (\<lambda>i. i \<noteq> wi_id item) (wr_laundry_item_ids form)\<rparr>"

definition wear_item_disabled :: "wear_form \<Rightarrow> wardrobe_item \<Rightarrow> bool" where
  "wear_item_disabled form item \<longleftrightarrow> \<not> wear_selected form (wi_id item) \<and> length (wr_items form) \<ge> 20"

definition wear_set_source :: "wear_form \<Rightarrow> source_kind \<Rightarrow> wear_form" where
  "wear_set_source form kind =
     form\<lparr>wr_source_kind := kind,
       wr_source_plan_id := (if kind = Unplanned then [] else wr_source_plan_id form),
       wr_source_plan_revision := (if kind = Unplanned then None else wr_source_plan_revision form)\<rparr>"

definition wear_confirm_unavailable :: "wear_form \<Rightarrow> jstring \<Rightarrow> bool \<Rightarrow> wear_form" where
  "wear_confirm_unavailable form i checked =
     form\<lparr>wr_confirmed_unavailable_ids :=
       (if checked then wr_confirmed_unavailable_ids form @ [i]
        else filter (\<lambda>j. j \<noteq> i) (wr_confirmed_unavailable_ids form))\<rparr>"

definition wear_set_laundry :: "wear_form \<Rightarrow> jstring \<Rightarrow> bool \<Rightarrow> wear_form" where
  "wear_set_laundry form i checked =
     form\<lparr>wr_laundry_item_ids :=
       (if checked then wr_laundry_item_ids form @ [i]
        else filter (\<lambda>j. j \<noteq> i) (wr_laundry_item_ids form))\<rparr>"

definition wear_missing :: "wear_form \<Rightarrow> wardrobe_item list \<Rightarrow> selection list" where
  "wear_missing form items = filter (\<lambda>entry. os_item_id entry \<notin> wi_id ` set items) (wr_items form)"

definition wear_remove_missing :: "wear_form \<Rightarrow> jstring \<Rightarrow> wear_form" where
  "wear_remove_missing form i =
     form\<lparr>wr_items := filter (\<lambda>entry. os_item_id entry \<noteq> i) (wr_items form)\<rparr>"

text \<open>The options of the source plan.\<close>

definition plan_options :: "wear_form \<Rightarrow> outfit_plan list \<Rightarrow> jstring list" where
  "plan_options form plans =
     [[]]
     @ (if wr_source_plan_id form \<noteq> [] \<and> \<not> list_ex (\<lambda>plan. op_id plan = wr_source_plan_id form) plans
        then [wr_source_plan_id form] else [])
     @ map op_id (filter (\<lambda>plan. op_status plan = Plan_active \<or> op_status plan = Plan_completed
          \<or> op_id plan = wr_source_plan_id form) plans)"

subsection \<open>Controls\<close>

datatype wear_page_kind = Wear_checking | Wear_account_unreadable wear_text | Wear_content

definition wear_page_of :: "wear_state \<Rightarrow> wear_page_kind" where
  "wear_page_of s =
     (if isPending (wv_user s) \<or> session_lost (wv_user s) then Wear_checking
      else if isError (wv_user s) then Wear_account_unreadable (wearErrorMessage (q_error (wv_user s)))
      else Wear_content)"

definition listed_events :: "wear_state \<Rightarrow> wear_event list" where
  "listed_events s =
     (if isPending (wv_events s) \<or> isError (wv_events s) then [] else all_items (wv_events s))"

definition wear_form_pending :: "wear_state \<Rightarrow> bool" where
  "wear_form_pending s \<longleftrightarrow> wv_pending s \<or> wr_time_zone (wv_form s) = []"

definition cleared_event :: "wear_event \<Rightarrow> bool" where
  "cleared_event event = list_ex (\<lambda>item. si_content item = None) (we_items event)"

datatype wear_action =
    Wear_timer
  | Wear_queries_changed "user query" "wardrobe_item list_query" "outfit_plan list_query"
      "wear_event list_query" "wear_statistics query"
  | Open_editor | Close_editor
  | Set_wear_date jstring | Set_completeness completeness | Set_source source_kind
  | Select_plan jstring | Set_wear_context jstring
  | Toggle_item wardrobe_item | Confirm_worn jstring bool | Set_laundry jstring bool
  | Remove_missing_worn jstring
  | Save_wear | Confirm_duplicates | Dismiss_duplicates | Cancel_wear | Reload_wear
  | Edit_event wear_event | Ask_delete wear_event | Close_delete | Run_delete
  | Retry_wear query_key | Load_more_wear query_key

definition wear_retry_shown :: "wear_state \<Rightarrow> query_key \<Rightarrow> bool" where
  "wear_retry_shown s key \<longleftrightarrow>
     (case key of
        Current_user_key \<Rightarrow> (case wear_page_of s of Wear_account_unreadable _ \<Rightarrow> True | _ \<Rightarrow> False)
      | Wardrobe_key \<Rightarrow> wear_page_of s = Wear_content \<and> isError (wv_wardrobe s) \<and> \<not> session_lost (wv_wardrobe s)
      | Plans_key \<Rightarrow> wear_page_of s = Wear_content \<and> isError (wv_plans s) \<and> \<not> session_lost (wv_plans s)
      | Wear_events_key \<Rightarrow> wear_page_of s = Wear_content \<and> isError (wv_events s)
          \<and> \<not> session_lost (wv_events s)
      | Statistics_key \<Rightarrow> wear_page_of s = Wear_content \<and> q_data (wv_user s) \<noteq> None
          \<and> isError (wv_stats s))"

text \<open>The buttons that fetch a further page: two in the form, one under the list.\<close>

definition wear_more_shown :: "wear_state \<Rightarrow> query_key \<Rightarrow> bool" where
  "wear_more_shown s key \<longleftrightarrow>
     wear_page_of s = Wear_content \<and>
     (case key of
        Wardrobe_key \<Rightarrow>
          wv_editor_open s \<and> hasNextPage (wv_wardrobe s) \<and> \<not> wear_form_pending s
          \<and> \<not> loading_items (wv_wardrobe s)
      | Plans_key \<Rightarrow>
          wv_editor_open s \<and> wr_source_kind (wv_form s) \<noteq> Unplanned \<and> hasNextPage (wv_plans s)
          \<and> \<not> wear_form_pending s \<and> \<not> loading_items (wv_plans s)
      | Wear_events_key \<Rightarrow>
          listed_events s \<noteq> [] \<and> hasNextPage (wv_events s) \<and> \<not> q_fetching_next (wv_events s)
      | _ \<Rightarrow> False)"

text \<open>The change an input of the form makes, where the input is shown and enabled.\<close>

definition wear_form_event :: "wear_state \<Rightarrow> wear_action \<Rightarrow> wear_form option" where
  "wear_form_event s ev =
     (let form = wv_form s;
          shown = (\<not> loading_items (wv_wardrobe s));
          row = (\<lambda>i. List.find (\<lambda>item. wi_id item = i) (wv_items s))
      in case ev of
        Set_wear_date v \<Rightarrow> Some (form\<lparr>wr_local_date := v\<rparr>)
      | Set_completeness c \<Rightarrow> Some (form\<lparr>wr_completeness := c\<rparr>)
      | Set_source k \<Rightarrow> Some (wear_set_source form k)
      | Select_plan i \<Rightarrow>
          if wr_source_kind form \<noteq> Unplanned \<and> \<not> loading_items (wv_plans s)
             \<and> i \<in> set (plan_options form (wv_plan_items s))
          then Some (selectPlan_form s i) else None
      | Set_wear_context v \<Rightarrow> Some (form\<lparr>wr_context_summary := v\<rparr>)
      | Toggle_item item \<Rightarrow>
          if shown \<and> item \<in> set (wv_items s) \<and> \<not> wear_item_disabled form item
          then Some (wear_toggleItem form item (\<not> wear_selected form (wi_id item))) else None
      | Confirm_worn i checked \<Rightarrow>
          if shown \<and> wear_selected form i
             \<and> list_ex (\<lambda>item. wi_id item = i \<and> wi_availability item \<noteq> Wearable) (wv_items s)
          then Some (wear_confirm_unavailable form i checked) else None
      | Set_laundry i checked \<Rightarrow>
          if shown \<and> wear_selected form i \<and> row i \<noteq> None
          then Some (wear_set_laundry form i checked) else None
      | Remove_missing_worn i \<Rightarrow>
          if i \<in> os_item_id ` set (wear_missing form (wv_items s))
          then Some (wear_remove_missing form i) else None
      | _ \<Rightarrow> None)"

definition wear_dispatch ::
  "jstring option \<Rightarrow> wear_state \<Rightarrow> wear_action \<Rightarrow> (wear_state, unit) prog option" where
  "wear_dispatch initialPlanID s ev =
     (case ev of
        Wear_timer \<Rightarrow> if wv_timer s then Some (wear_mount initialPlanID) else None
      | Wear_queries_changed u w p v st \<Rightarrow>
          Some (Update (\<lambda>t. t\<lparr>wv_user := u, wv_wardrobe := w, wv_plans := p, wv_events := v, wv_stats := st\<rparr>)
            (wear_session_effect
              (s\<lparr>wv_user := u, wv_wardrobe := w, wv_plans := p, wv_events := v, wv_stats := st\<rparr>)))
      | Retry_wear key \<Rightarrow> if wear_retry_shown s key then Some (refetch key) else None
      | Load_more_wear key \<Rightarrow> if wear_more_shown s key then Some (fetchNextPage key) else None
      | Close_delete \<Rightarrow>
          if wv_confirm_delete s = None then None
          else Some (set_state (\<lambda>t. t\<lparr>wv_confirm_delete := None\<rparr>))
      | Run_delete \<Rightarrow> if wv_confirm_delete s \<noteq> None then Some (wear_remove_event s) else None
      | Open_editor \<Rightarrow>
          if (q_data (wv_user s) \<noteq> None \<and> \<not> wv_pending s)
             \<or> (wear_page_of s = Wear_content \<and> \<not> wv_editor_open s)
          then Some (set_state (\<lambda>t. t\<lparr>wv_editor_open := True\<rparr>)) else None
      | _ \<Rightarrow>
          if wear_page_of s \<noteq> Wear_content then None
          else
            (case ev of
               Confirm_duplicates \<Rightarrow>
                 (case wv_duplicate s of
                    Some candidates \<Rightarrow>
                      if wv_pending s then None else Some (wear_saveEvent candidates s)
                  | None \<Rightarrow> None)
             | Dismiss_duplicates \<Rightarrow>
                 if wv_duplicate s = None \<or> wv_pending s then None
                 else Some (set_state (\<lambda>t. t\<lparr>wv_duplicate := None\<rparr>))
             | Edit_event event \<Rightarrow>
                 if event \<in> set (listed_events s) \<and> \<not> wv_pending s \<and> \<not> cleared_event event
                 then Some (wear_selectEdit event) else None
             | Ask_delete event \<Rightarrow>
                 if event \<in> set (listed_events s) \<and> \<not> wv_pending s
                 then Some (set_state (\<lambda>t. t\<lparr>wv_confirm_delete := Some event\<rparr>)) else None
             | _ \<Rightarrow>
                 if \<not> wv_editor_open s then None
                 else
                   (case ev of
                      Close_editor \<Rightarrow>
                        if wv_pending s then None
                        else Some (set_state (\<lambda>t. t\<lparr>wv_editor_open := False\<rparr>))
                    | Save_wear \<Rightarrow>
                        if wear_form_pending s \<or> loading_items (wv_wardrobe s) \<or> loading_items (wv_plans s)
                        then None else Some (wear_saveEvent [] s)
                    | Cancel_wear \<Rightarrow>
                        if wv_editing s = None \<or> wear_form_pending s then None else Some wear_cancelEdit
                    | Reload_wear \<Rightarrow>
                        if wv_editing s = None \<or> wear_form_pending s then None
                        else Some (wear_reloadEditing s)
                    | _ \<Rightarrow>
                        if wear_form_pending s then None
                        else map_option wear_changeForm (wear_form_event s ev))))"

subsection \<open>The contract of the page\<close>

definition wear_fields_ok :: "'z wear_fields_scheme \<Rightarrow> bool" where
  "wear_fields_ok f \<longleftrightarrow>
     iso_shape (wf_local_date f) \<and> calendar_date (iso_fields (wf_local_date f))
     \<and> wf_time_zone f \<noteq> [] \<and> length (wf_items f) \<in> {1..20}
     \<and> distinct (map os_item_id (wf_items f)) \<and> summary_ok (wf_context_summary f)
     \<and> (wf_source_kind f = Unplanned \<longleftrightarrow> wf_source_plan_id f = None)
     \<and> (wf_source_kind f \<noteq> Unplanned \<longrightarrow>
          (\<exists>r. wf_source_plan_revision f = Some r \<and> r \<noteq> 0))
     \<and> length (wf_duplicate_confirmations f) \<le> 50"

definition wear_policy :: "effect \<Rightarrow> bool" where
  "wear_policy x =
     (case x of
        Issued (Call c) \<Rightarrow>
          (case c of
             CreateWearEvent b \<Rightarrow> wear_fields_ok b
           | UpdateWearEvent _ b \<Rightarrow> wear_fields_ok b
           | GetWearEvent _ \<Rightarrow> True
           | DeleteWearEvent _ _ \<Rightarrow> True
           | GetOutfitPlan _ \<Rightarrow> True
           | _ \<Rightarrow> False)
      | Replace_route r \<Rightarrow> r = To_login
      | _ \<Rightarrow> True)"

definition wear_exclusive :: "wear_action \<Rightarrow> bool" where
  "wear_exclusive ev \<longleftrightarrow>
     (case ev of Save_wear \<Rightarrow> True | Confirm_duplicates \<Rightarrow> True | Reload_wear \<Rightarrow> True
      | Run_delete \<Rightarrow> True | _ \<Rightarrow> False)"

text \<open>The candidates shown are never none and never more than fifty.\<close>

definition wear_inv :: "wear_state \<Rightarrow> bool" where
  "wear_inv s \<longleftrightarrow> (\<forall>cs. wv_duplicate s = Some cs \<longrightarrow> 1 \<le> length cs \<and> length cs \<le> 50)"

definition wear_stable :: "wear_state \<Rightarrow> wear_state \<Rightarrow> bool" where
  "wear_stable u t \<longleftrightarrow> wv_editing t = wv_editing u \<and> wv_create_id t = wv_create_id u"

lemma wear_body_simps [simp]:
  "cw_id (create_wear_body i f) = i"
  "uw_expected_revision (update_wear_body f r) = r"
  "wear_fields_ok (create_wear_body i f) = wear_fields_ok f"
  "wear_fields_ok (update_wear_body f r) = wear_fields_ok f"
  "wf_duplicate_confirmations (create_wear_body i f) = wf_duplicate_confirmations f"
  "wf_duplicate_confirmations (update_wear_body f r) = wf_duplicate_confirmations f"
  "wf_items (create_wear_body i f) = wf_items f"
  "wf_items (update_wear_body f r) = wf_items f"
  by (simp_all add: create_wear_body_def update_wear_body_def record_spread wear_fields_ok_def)

lemma wear_validation_None:
  "wear_validation e s = Inr None \<longleftrightarrow>
     wearFormError e (wv_form s) = Inr None
     \<and> (\<forall>entry\<in>set (wr_items (wv_form s)). \<not> item_stale (wv_items s) entry
          \<and> (not_wearable (wv_items s) (os_item_id entry) \<longrightarrow>
              os_item_id entry \<in> set (wr_confirmed_unavailable_ids (wv_form s))))
     \<and> (wr_source_kind (wv_form s) \<noteq> Unplanned \<longrightarrow> wv_editing s = None \<longrightarrow>
          (\<exists>plan\<in>set (wv_plan_items s). op_id plan = wr_source_plan_id (wv_form s)))
     \<and> followedPlanError (wv_form s)
         (List.find (\<lambda>plan. op_id plan = wr_source_plan_id (wv_form s)) (wv_plan_items s)) = None"
  by (auto simp: wear_validation_def Let_def list_ex_iff split: sum.split)

lemma wear_save_fields_ok:
  assumes "wear_validation e s = Inr None" and "length cs \<le> 50"
  shows "wear_fields_ok (wear_save_fields s cs)"
proof -
  from assms have "wearFormError e (wv_form s) = Inr None"
    by (simp add: wear_validation_None)
  then show ?thesis
    using assms(2)
    by (auto simp: wear_form_accepted_iff local_date_ok_iff wear_fields_ok_def wear_save_fields_def
        summary_ok_def summary_bad_def form_defs no_revision_def Let_def split: option.split if_splits)
qed

abbreviation wear_own :: "wear_state contract" where
  "wear_own \<equiv> own_contract wear_policy wear_inv wv_pending (\<lambda>_ _. True) wear_stable"

abbreviation wear_done :: "'a \<Rightarrow> wear_state \<Rightarrow> wear_state \<Rightarrow> bool" where
  "wear_done \<equiv> (\<lambda>_ _ t. wear_inv t \<and> \<not> wv_pending t)"

lemma wear_inv_None [simp]: "wv_duplicate s = None \<Longrightarrow> wear_inv s"
  by (simp add: wear_inv_def)

lemma wear_inv_same: "wv_duplicate t = wv_duplicate s \<Longrightarrow> wear_inv t = wear_inv s"
  by (simp add: wear_inv_def)

lemma wear_showError_wp:
  assumes "\<And>t. wear_inv t \<Longrightarrow> wv_pending t = wv_pending s \<Longrightarrow> Q () u t" and "wear_inv s"
  shows "wp wear_own (wear_showError cause) Q E u s"
  using assms duplicateCandidates_length [of cause]
  by (auto simp: view_defs hook_defs wear_policy_def wear_inv_def split: option.split)

lemma wear_save_wp:
  assumes "\<not> wv_pending s" and "length cs \<le> 50" and "wear_inv s"
  shows "wp wear_own (wear_saveEvent cs s) wear_done wear_done s s"
  using assms wear_save_fields_ok [OF _ assms(2)]
  by (auto simp: wear_saveEvent_def wear_not_pending_def wear_policy_def hook_defs Let_def wear_inv_def
      intro!: wear_showError_wp split: option.split sum.split)

lemma wear_reload_wp:
  "\<not> wv_pending s \<Longrightarrow> wear_inv s \<Longrightarrow> wp wear_own (wear_reloadEditing s) wear_done wear_done s s"
  by (auto simp: wear_reloadEditing_def wear_not_pending_def wear_policy_def hook_defs wear_inv_def
      intro!: wear_showError_wp split: option.split)

lemma wear_delete_wp:
  "\<not> wv_pending s \<Longrightarrow> wear_inv s \<Longrightarrow> wp wear_own (wear_remove_event s) wear_done wear_done s s"
  by (auto simp: wear_remove_event_def wear_cancelEdit_def wear_not_pending_def wear_policy_def
      hook_defs wear_inv_def intro!: wear_showError_wp split: option.split)

interpretation wear: exclusive_view "wear_dispatch i" "wear_init i" wv_pending wear_exclusive
  "\<lambda>s. \<not> wv_pending s" wear_inv "\<lambda>_ _. True" wear_stable wear_policy for i
proof
  fix s ev p
  assume D: "wear_dispatch i s ev = Some p"
  show "runs_own wear_policy wear_inv wv_pending (\<lambda>_ _. True) wear_stable (\<lambda>s. \<not> wv_pending s) s p"
    if ev: "wear_exclusive ev" and I: "wear_inv s" and idle: "\<not> wv_pending s"
  proof -
    consider cs where "p = wear_saveEvent cs s" "length cs \<le> 50" | "p = wear_reloadEditing s"
      | "p = wear_remove_event s"
      using D ev I
      by (fastforce simp: wear_dispatch_def wear_exclusive_def wear_inv_def
          split: wear_action.splits if_splits option.splits)
    then show ?thesis
      unfolding contract_defs
      using wear_save_wp [OF idle _ I] wear_reload_wp [OF idle I] wear_delete_wp [OF idle I]
      by cases simp_all
  qed
  show "p = Return ()" if "wear_exclusive ev" "wv_pending s"
    using D that
    by (auto simp: wear_dispatch_def wear_exclusive_def wear_form_pending_def wear_remove_event_def
        split: wear_action.splits if_splits option.splits)
  show "runs_shared wear_policy wear_inv wv_pending (\<lambda>_ _. True) wear_stable (\<lambda>s. \<not> wv_pending s) s p"
    if "\<not> wear_exclusive ev" "wear_inv s"
    using D that
    by (auto simp: wear_dispatch_def wear_exclusive_def wear_policy_def contract_defs wear_stable_def
        wear_form_pending_def view_defs hook_defs wear_inv_def
        split: wear_action.splits if_splits option.splits)
qed (auto simp: wear_init_def wear_stable_def)

end
