(* ===== verification/Wear_Properties.thy ===== *)
theory Wear_Properties
  imports Wear_View Demo_Data
begin

text \<open>
  What the page of actual wear guarantees: the first segment of a save in closed form, the
  confirmation of duplicates, the consequences of the page's contract for every reachable
  configuration, and two defects of the flow that starts from a plan.
\<close>

subsection \<open>The first segment of a save\<close>

definition new_wear_id :: "env \<Rightarrow> wear_state \<Rightarrow> jstring" where
  "new_wear_id e s = (case wv_create_id s of Some i \<Rightarrow> i | None \<Rightarrow> env_uuid e)"

definition wear_save_call :: "env \<Rightarrow> wear_state \<Rightarrow> wear_candidate list \<Rightarrow> api_call" where
  "wear_save_call e s cs =
     (case wv_editing s of
        Some event \<Rightarrow> UpdateWearEvent (we_id event)
          (update_wear_body (wear_save_fields s cs) (we_revision event))
      | None \<Rightarrow> CreateWearEvent (create_wear_body (new_wear_id e s) (wear_save_fields s cs)))"

lemma run_wear_invalid:
  "\<not> wv_pending s \<Longrightarrow> wear_validation e s = Inr (Some x) \<Longrightarrow>
     run e (wear_saveEvent cs s) s = (s\<lparr>wv_form_error := Some x\<rparr>, [], Return ())"
  "\<not> wv_pending s \<Longrightarrow> wear_validation e s = Inl y \<Longrightarrow> run e (wear_saveEvent cs s) s = (s, [], Throw y)"
  by (simp_all add: wear_saveEvent_def)

lemma wear_validation_cases:
  obtains (threw) x where "wear_validation e s = Inl x" | (failed) x where "wear_validation e s = Inr (Some x)"
  | (passed) "wear_validation e s = Inr None"
  by (cases "wear_validation e s") auto

lemma run_wear_valid:
  assumes "\<not> wv_pending s" and "wear_validation e s = Inr None"
  shows "\<exists>k. run e (wear_saveEvent cs s) s =
       (s\<lparr>wv_form_error := None, wv_pending := True, wv_error := None, wv_duplicate := None,
          wv_create_id := (if wv_editing s = None then Some (new_wear_id e s) else wv_create_id s)\<rparr>,
        [Issued (Call (wear_save_call e s cs))], Await (Call (wear_save_call e s cs)) k)
     \<and> (\<forall>cause. k (Inl cause) = finally_do (wear_showError cause) wear_not_pending)"
  using assms
  by (cases "wv_editing s")
     (simp_all add: wear_saveEvent_def wear_save_call_def new_wear_id_def prog_simps Let_def)

lemma wear_save_dispatched:
  "wear_dispatch i s Save_wear = Some p \<Longrightarrow> p = wear_saveEvent [] s \<and> \<not> wv_pending s"
  "wear_dispatch i s Confirm_duplicates = Some p \<Longrightarrow>
     \<exists>cs. wv_duplicate s = Some cs \<and> p = wear_saveEvent cs s \<and> \<not> wv_pending s"
  by (auto simp: wear_dispatch_def wear_form_pending_def split: if_splits option.splits)

lemma wear_save_issues:
  assumes "\<not> wv_pending s" and "run e (wear_saveEvent cs s) s = (s', out, q)"
    and "Issued (Call c) \<in> set out"
  shows "wear_validation e s = Inr None \<and> c = wear_save_call e s cs"
proof (cases e s rule: wear_validation_cases)
  case passed
  with run_wear_valid [OF assms(1) passed, of cs] assms(2,3) show ?thesis by auto
qed (use run_wear_invalid [OF assms(1)] assms(2,3) in auto)

lemma itemByID_wear: "itemByID items i = Some item \<Longrightarrow> item \<in> set items \<and> wi_id item = i"
  by (auto simp: itemByID_def dest!: js_map_by_idD)

subsection \<open>An example run\<close>

definition demo_wear_form :: wear_form where
  "demo_wear_form = (emptyWearForm demo_env)\<lparr>wr_items := [\<lparr>os_item_id = js ''i1'', os_revision = 3\<rparr>]\<rparr>"

definition demo_wear :: wear_state where
  "demo_wear = (wear_init None)\<lparr>wv_user := loaded demo_user,
     wv_wardrobe := loaded_list [demo_item, demo_trousers], wv_plans := loaded_list [demo_plan],
     wv_events := loaded_list [demo_event], wv_timer := False, wv_editor_open := True,
     wv_form := demo_wear_form\<rparr>"

lemma demo_wear_sel [simp]:
  "wv_editing demo_wear = None" "wv_create_id demo_wear = None" "wv_form demo_wear = demo_wear_form"
  "wv_items demo_wear = [demo_item, demo_trousers]" "\<not> wv_pending demo_wear"
  by (simp_all add: demo_wear_def wear_init_def wv_items_def)

lemma demo_wear_reached: "reach (wear_dispatch None) (wear_init None) (demo_wear, [], [])"
proof -
  let ?D = "wear_dispatch None"
  let ?s1 = "(wear_init None)\<lparr>wv_timer := False, wv_form := emptyWearForm demo_env\<rparr>"
  let ?s2 = "?s1\<lparr>wv_user := loaded demo_user, wv_wardrobe := loaded_list [demo_item, demo_trousers],
     wv_plans := loaded_list [demo_plan], wv_events := loaded_list [demo_event]\<rparr>"
  have "reach ?D (wear_init None) (?s1, [], [] @ [])"
    by (rule reach_sync [OF reach.start, of _ _ Wear_timer _ demo_env])
       (simp add: wear_dispatch_def wear_init_def wear_mount_def has_plan_def)+
  then have "reach ?D (wear_init None) (?s2, [], ([] @ []) @ [])"
    by (rule reach_sync [of _ _ _ _ _ "Wear_queries_changed (loaded demo_user)
          (loaded_list [demo_item, demo_trousers]) (loaded_list [demo_plan]) (loaded_list [demo_event]) no_query" _ demo_env])
       (simp add: wear_dispatch_def wear_session_effect_def wear_init_def)+
  then have "reach ?D (wear_init None) (?s2\<lparr>wv_editor_open := True\<rparr>, [], (([] @ []) @ []) @ [])"
    by (rule reach_sync [of _ _ _ _ _ Open_editor _ demo_env])
       (simp add: wear_dispatch_def wear_init_def)+
  then have "reach ?D (wear_init None) (demo_wear, [], ((([] @ []) @ []) @ []) @ [])"
    by (rule reach_sync [of _ _ _ _ _ "Toggle_item demo_item" _ demo_env])
       (simp add: wear_dispatch_def wear_init_def wear_page_of_def wear_form_pending_def emptyWearForm_def
         demo_zone wear_form_event_def wv_items_def wear_item_disabled_def wear_selected_def
         wear_changeForm_def demo_wear_def demo_wear_form_def wear_toggleItem_def Let_def demo_item_def)+
  then show ?thesis by simp
qed

lemma demo_wear_valid: "wear_validation demo_env demo_wear = Inr None"
  by (simp add: wear_validation_None wear_form_accepted_iff demo_wear_form_def emptyWearForm_def
      demo_today demo_device_today demo_zone demo_known demo_date_ok [simplified] summary_bad_def item_stale_def itemByID_def js_map_def
      not_wearable_def demo_item_def demo_trousers_def no_revision_def Let_def followedPlanError_def
      split: option.split)

lemma demo_wear_save: "wear_dispatch None demo_wear Save_wear = Some (wear_saveEvent [] demo_wear)"
  by (simp add: wear_dispatch_def demo_wear_def wear_init_def wear_page_of_def wear_form_pending_def
      demo_wear_form_def emptyWearForm_def demo_zone Let_def)

lemma demo_wear_call:
  "wear_save_call demo_env demo_wear cs = CreateWearEvent (create_wear_body (js ''n1'') (wear_save_fields demo_wear cs))"
  by (simp add: wear_save_call_def new_wear_id_def) (simp add: demo_env_def)

lemma demo_wear_saving:
  "\<exists>s1 k. run demo_env (wear_saveEvent [] demo_wear) demo_wear
     = (s1, [Issued (Call (wear_save_call demo_env demo_wear []))],
        Await (Call (wear_save_call demo_env demo_wear [])) k)
   \<and> wv_pending s1
   \<and> reach (wear_dispatch None) (wear_init None)
       (s1, [(Save_wear, Await (Call (wear_save_call demo_env demo_wear [])) k)],
        [Issued (Call (wear_save_call demo_env demo_wear []))])"
proof -
  from run_wear_valid [OF _ demo_wear_valid, of "[]"] obtain s1 k where
    r: "run demo_env (wear_saveEvent [] demo_wear) demo_wear
     = (s1, [Issued (Call (wear_save_call demo_env demo_wear []))],
        Await (Call (wear_save_call demo_env demo_wear [])) k)"
    and "wv_pending s1" by auto
  then show ?thesis
    using reach_start_await [OF demo_wear_reached demo_wear_save r] by auto
qed

subsection \<open>Properties\<close>

text \<open>
  C1. In every reachable configuration of the wear page, every request that creates or corrects
  an actual record names a calendar date and a time zone, lists 1 to 20 distinct garments, names
  a source plan with a revision exactly when it is not an unplanned record, has a valid
  summary, and confirms at most 50 duplicates.
\<close>

theorem wear_sends_checked:
  assumes "reach (wear_dispatch i) (wear_init i) (s, ts, tr)"
  shows "(Issued (Call (CreateWearEvent b)) \<in> set tr \<longrightarrow> wear_fields_ok b)
    \<and> (Issued (Call (UpdateWearEvent j u)) \<in> set tr \<longrightarrow> wear_fields_ok u)"
  using wear.reach_effects [OF assms, of "Issued (Call (CreateWearEvent b))"]
    wear.reach_effects [OF assms, of "Issued (Call (UpdateWearEvent j u))"]
  by (auto simp: wear_policy_def)

theorem wear_sends_checked_witness:
  "\<exists>s ts tr b. reach (wear_dispatch None) (wear_init None) (s, ts, tr)
     \<and> Issued (Call (CreateWearEvent b)) \<in> set tr \<and> wear_fields_ok b"
proof -
  obtain s1 ts tr where r: "reach (wear_dispatch None) (wear_init None) (s1, ts, tr)"
    and tr: "tr = [Issued (Call (wear_save_call demo_env demo_wear []))]"
    using demo_wear_saving by blast
  from wear_sends_checked [OF r] r show ?thesis
    unfolding tr demo_wear_call by (meson list.set_intros(1))
qed

text \<open>
  C4. Saving, confirming duplicates, reloading and deleting exclude each other: the number of
  them in flight is one while the page is pending and zero otherwise; and the page never shows
  an empty list of duplicates, nor more than 50.
\<close>

theorem wear_one_operation:
  assumes "reach (wear_dispatch i) (wear_init i) (s, ts, tr)"
  shows "length (filter (\<lambda>(ev, q). wear_exclusive ev) ts) = (if wv_pending s then 1 else 0)
    \<and> (\<forall>cs. wv_duplicate s = Some cs \<longrightarrow> 1 \<le> length cs \<and> length cs \<le> 50)"
  using wear.reach_exclusive [OF assms] wear.reach_invariant [OF assms]
  by (auto simp: wear_inv_def)

theorem wear_one_operation_witness:
  "\<exists>s ts tr. reach (wear_dispatch None) (wear_init None) (s, ts, tr) \<and> wv_pending s
     \<and> length (filter (\<lambda>(ev, q). wear_exclusive ev) ts) = 1"
proof -
  obtain s1 ts tr where "wv_pending s1" and
    r: "reach (wear_dispatch None) (wear_init None) (s1, ts, tr)"
    using demo_wear_saving by blast
  with wear_one_operation [OF r] show ?thesis by auto
qed

text \<open>
  C12. A save that sends anything has passed every check: each of its garments is loaded at the
  revision sent and confirmed if it is not wearable now, and a record that follows a loaded plan
  lists exactly the garments of that plan, none of them cleared. The duplicates confirmed are
  none for the submission of the form, and exactly those shown for the confirmation.
\<close>

theorem wear_save_sends_confirmed:
  assumes "ev = Save_wear \<and> cs = [] \<or> ev = Confirm_duplicates \<and> wv_duplicate s = Some cs"
    and "wear_dispatch i s ev = Some p" and "run e p s = (s', out, q)"
    and "Issued (Call c) \<in> set out"
    and "c = CreateWearEvent b \<and> f = wear_fields.truncate b
      \<or> c = UpdateWearEvent j u \<and> f = wear_fields.truncate u"
  shows "wf_duplicate_confirmations f = cs \<and> wf_items f = wr_items (wv_form s)
    \<and> (\<forall>sel\<in>set (wf_items f). \<exists>item\<in>set (wv_items s). wi_id item = os_item_id sel
          \<and> wi_revision item = os_revision sel
          \<and> (wi_availability item \<noteq> Wearable \<longrightarrow> os_item_id sel \<in> set (wf_confirmed_unavailable_ids f)))
    \<and> (wf_source_kind f = Followed_plan \<longrightarrow>
        (\<forall>plan. List.find (\<lambda>plan. op_id plan = wr_source_plan_id (wv_form s)) (wv_plan_items s) = Some plan \<longrightarrow>
          (\<forall>item\<in>set (op_items plan). si_content item \<noteq> None)
          \<and> mset (map os_item_id (wf_items f)) = mset (map os_item_id (kept_selections (op_items plan)))))"
proof -
  have p: "p = wear_saveEvent cs s" "\<not> wv_pending s"
    using assms(1,2) wear_save_dispatched [of i s p] by auto
  from wear_save_issues [OF p(2)] assms(3,4) p(1)
  have valid: "wear_validation e s = Inr None" and c: "c = wear_save_call e s cs" by auto
  have f: "f = wear_save_fields s cs"
    using c assms(5)
    by (auto simp: wear_save_call_def create_wear_body_def update_wear_body_def record_spread wear_fields.defs
        split: option.splits)
  have items: "wf_items f = wr_items (wv_form s)" "wf_duplicate_confirmations f = cs"
    "wf_source_kind f = wr_source_kind (wv_form s)"
    by (simp_all add: f wear_save_fields_def form_defs Let_def)
  have "\<exists>item\<in>set (wv_items s). wi_id item = os_item_id sel \<and> wi_revision item = os_revision sel
      \<and> (wi_availability item \<noteq> Wearable \<longrightarrow> os_item_id sel \<in> set (wf_confirmed_unavailable_ids f))"
    if "sel \<in> set (wr_items (wv_form s))" for sel
  proof -
    from valid that obtain item where item: "itemByID (wv_items s) (os_item_id sel) = Some item"
      and "wi_revision item = os_revision sel"
      and "not_wearable (wv_items s) (os_item_id sel) \<longrightarrow>
        os_item_id sel \<in> set (wr_confirmed_unavailable_ids (wv_form s))"
      by (auto simp: wear_validation_None item_stale_def)
    moreover from this have "wi_availability item \<noteq> Wearable \<longrightarrow>
        os_item_id sel \<in> set (wf_confirmed_unavailable_ids f)"
      by (auto simp: f wear_save_fields_def form_defs Let_def not_wearable_def)
    ultimately show ?thesis using itemByID_wear [OF item] by blast
  qed
  moreover have "\<forall>plan. List.find (\<lambda>plan. op_id plan = wr_source_plan_id (wv_form s)) (wv_plan_items s) = Some plan
      \<longrightarrow> followedPlanError (wv_form s) (Some plan) = None"
    using valid by (auto simp: wear_validation_None)
  ultimately show ?thesis
    using items by (auto simp: followed_plan_accepted_iff)
qed

theorem wear_save_sends_confirmed_witness:
  "\<exists>item\<in>set (wv_items demo_wear). wi_id item = js ''i1'' \<and> wi_revision item = 3"
proof -
  let ?b = "create_wear_body (js ''n1'') (wear_save_fields demo_wear [])"
  obtain s1 k where r: "run demo_env (wear_saveEvent [] demo_wear) demo_wear
     = (s1, [Issued (Call (CreateWearEvent ?b))], Await (Call (CreateWearEvent ?b)) k)"
    using demo_wear_saving unfolding demo_wear_call by blast
  have "wf_items (wear_fields.truncate ?b) = [\<lparr>os_item_id = js ''i1'', os_revision = 3\<rparr>]"
    by (simp add: create_wear_body_def record_spread wear_fields.defs wear_save_fields_def form_defs
        demo_wear_form_def Let_def)
  moreover have "\<forall>sel\<in>set (wf_items (wear_fields.truncate ?b)). \<exists>item\<in>set (wv_items demo_wear).
      wi_id item = os_item_id sel \<and> wi_revision item = os_revision sel"
    using wear_save_sends_confirmed [OF _ demo_wear_save r, of "[]" "CreateWearEvent ?b" ?b] by auto
  ultimately show ?thesis by simp
qed

text \<open>
  C14. When the server answers a save with similar records of the day, exactly those are shown,
  without an error, and the page is free again; confirming them then, with the form and the
  lists unchanged, repeats the same request with exactly those confirmations.
\<close>

theorem wear_duplicates_confirmed:
  assumes "\<not> wv_pending s" and "run e (wear_saveEvent cs0 s) s = (s1, out, Await c k)"
    and "wear_stable s1 t" and "duplicateCandidates cause = Some cs"
    and "run e1 (k (Inl cause)) t = (t', out', q)"
  shows "q = Return () \<and> out' = [] \<and> \<not> wv_pending t' \<and> wv_duplicate t' = Some cs \<and> wv_error t' = None
    \<and> (wv_form t' = wv_form s \<and> wv_wardrobe t' = wv_wardrobe s \<and> wear_page_of t' = Wear_content
        \<and> wear_validation e2 t' = Inr None \<longrightarrow>
        wear_dispatch i t' Confirm_duplicates = Some (wear_saveEvent cs t')
        \<and> fst (snd (run e2 (wear_saveEvent cs t') t')) = [Issued (Call (wear_save_call e s cs))])"
proof -
  have valid: "wear_validation e s = Inr None"
    using run_wear_invalid [OF assms(1)] assms(2) by (cases e s rule: wear_validation_cases) auto
  from run_wear_valid [OF assms(1) valid, of cs0] assms(2)
  have s1: "s1 = s\<lparr>wv_form_error := None, wv_pending := True, wv_error := None, wv_duplicate := None,
      wv_create_id := (if wv_editing s = None then Some (new_wear_id e s) else wv_create_id s)\<rparr>"
    and k: "k (Inl cause) = finally_do (wear_showError cause) wear_not_pending"
    by auto
  have t': "t' = t\<lparr>wv_duplicate := Some cs, wv_error := None, wv_pending := False\<rparr>" "q = Return ()" "out' = []"
    using assms(4,5) duplicateCandidates_status [OF assms(4)]
    by (simp_all add: k wear_showError_def wear_not_pending_def prog_simps)
  have t: "wv_editing t' = wv_editing s"
    "wv_create_id t' = (if wv_editing s = None then Some (new_wear_id e s) else wv_create_id s)"
    using assms(3) by (simp_all add: wear_stable_def s1 t'(1))
  have "fst (snd (run e2 (wear_saveEvent cs t') t')) = [Issued (Call (wear_save_call e s cs))]"
    if "wv_form t' = wv_form s" "wv_wardrobe t' = wv_wardrobe s" "wear_validation e2 t' = Inr None"
  proof -
    have "wear_save_call e2 t' cs = wear_save_call e s cs"
      using that(1,2) t
      by (simp add: wear_save_call_def wear_save_fields_def new_wear_id_def wv_items_def split: option.split)
    moreover have "\<not> wv_pending t'" by (simp add: t'(1))
    ultimately show ?thesis using run_wear_valid [of t' e2 cs] that(3) by auto
  qed
  moreover have "wear_dispatch i t' Confirm_duplicates = Some (wear_saveEvent cs t')"
    if "wear_page_of t' = Wear_content"
    using that by (simp add: wear_dispatch_def t'(1))
  ultimately show ?thesis using t' by simp
qed

definition demo_conflict :: jsval where
  "demo_conflict = http_error 409 (JObj [(''duplicate_candidates'',
     JArr [JObj [(''id'', JStr (js ''w1'')), (''revision'', JNum 5)]])])"

lemma demo_conflict_candidates: "duplicateCandidates demo_conflict = Some [\<lparr>wc_id = js ''w1'', wc_revision = 5\<rparr>]"
  by (simp add: demo_conflict_def duplicateCandidates_def candidate_of_def js_prop_def http_error_def
      accountStatus_def)

theorem wear_duplicates_confirmed_witness:
  "\<exists>s1 c k t'. run demo_env (wear_saveEvent [] demo_wear) demo_wear = (s1, [Issued c], Await c k)
     \<and> run demo_env (k (Inl demo_conflict)) s1 = (t', [], Return ())
     \<and> wv_duplicate t' = Some [\<lparr>wc_id = js ''w1'', wc_revision = 5\<rparr>]"
proof -
  let ?c = "Call (wear_save_call demo_env demo_wear [])"
  obtain s1 k where r: "run demo_env (wear_saveEvent [] demo_wear) demo_wear = (s1, [Issued ?c], Await ?c k)"
    using demo_wear_saving by blast
  obtain t' out' q where r': "run demo_env (k (Inl demo_conflict)) s1 = (t', out', q)"
    by (rule prod_cases3)
  have "wear_stable s1 s1" by (simp add: wear_stable_def)
  from wear_duplicates_confirmed [OF _ r this demo_conflict_candidates r'] r r' show ?thesis
    by auto
qed

subsection \<open>Starting from a plan\<close>

lemma kept_selection_of:
  assumes "entry \<in> set (kept_selections items)"
  shows "\<exists>x\<in>set items. \<exists>d. si_content x = Some d
     \<and> entry = \<lparr>os_item_id = ic_item_id d, os_revision = ic_item_revision d\<rparr>"
proof -
  from assms obtain x where "x \<in> set items" and
    "entry \<in> set (case si_content x of
       Some d \<Rightarrow> [\<lparr>os_item_id = ic_item_id d, os_revision = ic_item_revision d\<rparr>] | None \<Rightarrow> [])"
    by (auto simp: kept_selections_def)
  then show ?thesis by (cases "si_content x") auto
qed

text \<open>
  C37. A form that was started from the address of a plan takes the revisions of the plan's
  snapshot. When a garment of the plan has another revision by now, the form fails the check as stale,
  although nothing else is wrong with it: choosing the very same plan in the form, with its garments
  loaded and wearable, makes a form that passes the whole check.
\<close>

theorem wear_link_takes_snapshot_revisions:
  assumes "wv_form s = plan_wear_form e plan" and "wearFormError e (plan_wear_form e plan) = Inr None"
    and "List.find (\<lambda>p. op_id p = op_id plan) (wv_plan_items s) = Some plan"
    and "\<And>entry. entry \<in> set (op_items plan) \<Longrightarrow> \<exists>c item. si_content entry = Some c
      \<and> itemByID (wv_items s) (ic_item_id c) = Some item \<and> wi_availability item = Wearable"
    and "Some c \<in> si_content ` set (op_items plan)"
    and "itemByID (wv_items s) (ic_item_id c) = Some item" and "wi_revision item \<noteq> ic_item_revision c"
    and "run e (wear_changeForm (selectPlan_form s (op_id plan))) s = (t, out, q)"
  shows "wear_validation e s = Inr (Some Wear_items_stale) \<and> wear_validation e t = Inr None"
proof
  let ?bad = "\<lparr>os_item_id = ic_item_id c, os_revision = ic_item_revision c\<rparr>"
  have "?bad \<in> set (kept_selections (op_items plan))"
    using assms(5) by (force simp: kept_selections_def)
  moreover have "item_stale (wv_items s) ?bad"
    using assms(6,7) by (simp add: item_stale_def)
  ultimately have "list_ex (item_stale (wv_items s)) (wr_items (wv_form s))"
    by (auto simp: assms(1) plan_wear_form_def list_ex_iff)
  then show "wear_validation e s = Inr (Some Wear_items_stale)"
    using assms(1,2) by (simp add: wear_validation_def)
next
  let ?fresh = "\<lambda>entry. entry\<lparr>os_revision := (case itemByID (wv_items s) (os_item_id entry) of
      Some item \<Rightarrow> wi_revision item | None \<Rightarrow> os_revision entry)\<rparr>"
  have form: "selectPlan_form s (op_id plan)
      = (plan_wear_form e plan)\<lparr>wr_items := map ?fresh (kept_selections (op_items plan))\<rparr>"
    using assms(1,3) by (simp add: selectPlan_form_def plan_wear_form_def form_defs Let_def)
  have t: "wv_form t = selectPlan_form s (op_id plan)" "wv_items t = wv_items s"
    "wv_plan_items t = wv_plan_items s"
    using assms(8) by (auto simp: wear_changeForm_def wv_items_def wv_plan_items_def)
  have ids [simp]: "os_item_id \<circ> ?fresh = os_item_id" by (simp add: fun_eq_iff)
  have "wearFormError e (selectPlan_form s (op_id plan)) = Inr None"
    using assms(2) by (simp add: form wear_form_accepted_iff plan_wear_form_def)
  moreover have "\<not> item_stale (wv_items s) (?fresh entry) \<and> \<not> not_wearable (wv_items s) (os_item_id entry)"
    if "entry \<in> set (kept_selections (op_items plan))" for entry
  proof -
    from kept_selection_of [OF that] obtain x d where "x \<in> set (op_items plan)" "si_content x = Some d"
      and "entry = \<lparr>os_item_id = ic_item_id d, os_revision = ic_item_revision d\<rparr>" by blast
    with assms(4) [of x] show ?thesis by (auto simp: item_stale_def not_wearable_def)
  qed
  moreover have "followedPlanError (selectPlan_form s (op_id plan)) (Some plan) = None"
    unfolding followed_plan_accepted_iff form using assms(4) by (fastforce simp: plan_wear_form_def)
  moreover have "\<exists>p\<in>set (wv_plan_items s). op_id p = op_id plan"
    using assms(3) by (auto simp: find_Some_iff)
  ultimately show "wear_validation e t = Inr None"
    using assms(3) by (auto simp: wear_validation_None t) (auto simp: form plan_wear_form_def)
qed

theorem wear_link_takes_snapshot_revisions_witness:
  "\<exists>s t. wv_form s = plan_wear_form demo_env demo_plan \<and> wear_validation demo_env s = Inr (Some Wear_items_stale)
     \<and> run demo_env (wear_changeForm (selectPlan_form s (op_id demo_plan))) s = (t, [], Return ())
     \<and> wear_validation demo_env t = Inr None"
proof -
  let ?item = "demo_item\<lparr>wi_revision := 8\<rparr>"
  let ?s = "demo_wear\<lparr>wv_wardrobe := loaded_list [?item], wv_form := plan_wear_form demo_env demo_plan\<rparr>"
  obtain t where r: "run demo_env (wear_changeForm (selectPlan_form ?s (op_id demo_plan))) ?s = (t, [], Return ())"
    by (simp add: wear_changeForm_def)
  have form: "wv_form ?s = plan_wear_form demo_env demo_plan"
    "wearFormError demo_env (plan_wear_form demo_env demo_plan) = Inr None"
    by (simp_all add: wear_form_accepted_iff plan_wear_form_def demo_plan_def demo_today demo_known demo_content_def
        demo_date_ok [simplified] kept_selections_def summary_bad_def no_revision_def or_empty_def
        emptyWearForm_def Let_def)
  have plan: "List.find (\<lambda>p. op_id p = op_id demo_plan) (wv_plan_items ?s) = Some demo_plan"
    by (simp add: wv_plan_items_def demo_wear_def wear_init_def)
  have item: "itemByID (wv_items ?s) (ic_item_id demo_content) = Some ?item" "wi_availability ?item = Wearable"
    by (simp_all add: wv_items_def itemByID_def js_map_def demo_item_def demo_content_def)
  have "si_content entry = Some demo_content" if "entry \<in> set (op_items demo_plan)" for entry
    using that by (simp add: demo_plan_def)
  then have all: "\<exists>c item. si_content entry = Some c \<and> itemByID (wv_items ?s) (ic_item_id c) = Some item
      \<and> wi_availability item = Wearable" if "entry \<in> set (op_items demo_plan)" for entry
    using item that by blast
  have c: "Some demo_content \<in> si_content ` set (op_items demo_plan)" "wi_revision ?item \<noteq> ic_item_revision demo_content"
    by (simp_all add: demo_plan_def demo_content_def)
  from wear_link_takes_snapshot_revisions [OF form plan all c(1) item(1) c(2) r] form(1) r show ?thesis by blast
qed

definition late_state :: wear_state where
  "late_state = demo_wear\<lparr>wv_plans := loaded_list [], wv_editing := Some demo_event,
     wv_linked_plan := Some demo_plan, wv_form := plan_wear_form demo_env demo_plan\<rparr>"

lemma late_sel [simp]:
  "\<not> wv_pending late_state" "wv_editing late_state = Some demo_event"
  "wv_form late_state = plan_wear_form demo_env demo_plan" "wv_items late_state = [demo_item, demo_trousers]"
  "wv_plan_items late_state = [demo_plan]"
  by (simp_all add: late_state_def wv_items_def wv_plan_items_def) (simp_all add: demo_wear_def wear_init_def)

lemma late_valid: "wear_validation demo_env late_state = Inr None"
  by (simp add: wear_validation_None wear_form_accepted_iff followed_plan_accepted_iff plan_wear_form_def
      demo_plan_def demo_today demo_known demo_content_def demo_date_ok [simplified] kept_selections_def summary_bad_def
      no_revision_def or_empty_def item_stale_def itemByID_def js_map_def not_wearable_def demo_item_def
      demo_trousers_def emptyWearForm_def Let_def)

text \<open>The plan is requested, another record is chosen for correction, and then the plan arrives.\<close>

definition late_mounted :: wear_state where
  "late_mounted = (wear_init (Some (js ''p1'')))\<lparr>wv_timer := False\<rparr>"

definition late_loaded :: wear_state where
  "late_loaded = late_mounted\<lparr>wv_user := loaded demo_user,
     wv_wardrobe := loaded_list [demo_item, demo_trousers], wv_plans := loaded_list [],
     wv_events := loaded_list [demo_event]\<rparr>"

definition late_editing :: wear_state where
  "late_editing = late_loaded\<lparr>wv_editing := Some demo_event, wv_form := wearFormFromResponse demo_event\<rparr>"

lemmas late_defs = late_mounted_def late_loaded_def late_editing_def

lemma late_mount:
  "\<exists>k. run demo_env (wear_mount (Some (js ''p1''))) (wear_init (Some (js ''p1'')))
      = (late_mounted, [Issued (Call (GetOutfitPlan (js ''p1'')))], Await (Call (GetOutfitPlan (js ''p1''))) k)
    \<and> run demo_env (k (Inr (R_plan demo_plan))) late_editing = (late_state, [], Return ())"
  by (simp add: wear_mount_def has_plan_def prog_simps plan_get_def late_defs late_state_def demo_wear_def
      wear_init_def)

lemma late_reached:
  "reach (wear_dispatch (Some (js ''p1''))) (wear_init (Some (js ''p1'')))
     (late_state, [], [Issued (Call (GetOutfitPlan (js ''p1'')))])"
proof -
  let ?i = "Some (js ''p1'')"
  let ?D = "wear_dispatch ?i"
  let ?get = "Call (GetOutfitPlan (js ''p1''))"
  obtain k where mount: "run demo_env (wear_mount ?i) (wear_init ?i) = (late_mounted, [Issued ?get], Await ?get k)"
    and arrive: "run demo_env (k (Inr (R_plan demo_plan))) late_editing = (late_state, [], Return ())"
    using late_mount by blast
  let ?ts = "[(Wear_timer, Await ?get k)]"
  have "reach ?D (wear_init ?i) (late_mounted, [] @ ?ts, [] @ [Issued ?get])"
    by (rule reach_start_await [OF reach.start _ mount]) (simp add: wear_dispatch_def wear_init_def)
  then have "reach ?D (wear_init ?i) (late_loaded, [] @ ?ts, ([] @ [Issued ?get]) @ [])"
    by (rule reach_sync [of _ _ _ _ _ "Wear_queries_changed (loaded demo_user)
          (loaded_list [demo_item, demo_trousers]) (loaded_list []) (loaded_list [demo_event]) no_query" _ demo_env])
       (simp add: wear_dispatch_def wear_session_effect_def late_defs wear_init_def)+
  then have "reach ?D (wear_init ?i) (late_editing, [] @ ?ts, (([] @ [Issued ?get]) @ []) @ [])"
    by (rule reach_sync [of _ _ _ _ _ "Edit_event demo_event" _ demo_env])
       (simp add: late_defs wear_dispatch_def wear_init_def wear_page_of_def listed_events_def cleared_event_def
         demo_event_def wear_selectEdit_def has_plan_def)+
  then have "reach ?D (wear_init ?i) (late_editing, [(Wear_timer, Await ?get k)], [Issued ?get])"
    by simp
  from reach_settle [OF this arrive] show ?thesis by simp
qed

text \<open>
  C38. The plan of the address may arrive while a record is being corrected. Whatever record that is
  and whatever its form holds, the form of the plan replaces it, while the page goes on correcting that
  record: a save that passes the check then overwrites the record with the date, the relation and the
  garments of the plan. So in the run of the example, where a person has done nothing but ask for the
  correction.
\<close>

theorem wear_plan_arrives_during_correction:
  assumes "wear_dispatch i s Wear_timer = Some p" and "run e p s = (s1, out, Await c k)"
    and "wv_editing t = Some w" and "run e1 (k (Inr (R_plan plan))) t = (t', out', q)"
  shows "wv_editing t' = Some w \<and> wv_form t' = plan_wear_form e1 plan
    \<and> (\<not> wv_pending t' \<and> wear_validation e2 t' = Inr None \<longrightarrow>
        (\<exists>b. fst (snd (run e2 (wear_saveEvent [] t') t')) = [Issued (Call (UpdateWearEvent (we_id w) b))]
           \<and> uw_expected_revision b = we_revision w \<and> wf_local_date b = op_local_date plan
           \<and> wf_source_kind b = Followed_plan \<and> wf_source_plan_id b = or_undefined (op_id plan)
           \<and> wf_items b = kept_selections (op_items plan)))"
proof -
  have "p = wear_mount i" using assms(1) by (auto simp: wear_dispatch_def split: if_splits)
  then have "k (Inr (R_plan plan)) = Update (\<lambda>t. t\<lparr>wv_linked_plan := Some plan\<rparr>)
      (Read (\<lambda>e _. set_state (\<lambda>t. t\<lparr>wv_form := plan_wear_form e plan\<rparr>)))"
    using assms(2) by (auto simp: wear_mount_def prog_simps plan_get_def split: if_splits)
  with assms(3,4) have t': "wv_editing t' = Some w" "wv_form t' = plan_wear_form e1 plan" by auto
  let ?b = "update_wear_body (wear_save_fields t' []) (we_revision w)"
  have "fst (snd (run e2 (wear_saveEvent [] t') t')) = [Issued (Call (UpdateWearEvent (we_id w) ?b))]"
    if "\<not> wv_pending t'" "wear_validation e2 t' = Inr None"
    using run_wear_valid [OF that, of "[]"] t'(1) by (auto simp: wear_save_call_def)
  moreover have "wf_local_date ?b = op_local_date plan" "wf_source_kind ?b = Followed_plan"
    "wf_source_plan_id ?b = or_undefined (op_id plan)" "wf_items ?b = kept_selections (op_items plan)"
    by (simp_all add: update_wear_body_def record_spread wear_save_fields_def form_defs plan_wear_form_def t'(2) Let_def)
  ultimately show ?thesis using t' by (intro conjI impI exI [of _ ?b]) simp_all
qed

theorem wear_plan_arrives_during_correction_witness:
  "reach (wear_dispatch (Some (js ''p1''))) (wear_init (Some (js ''p1'')))
     (late_state, [], [Issued (Call (GetOutfitPlan (js ''p1'')))])
   \<and> wv_editing late_state = Some demo_event \<and> we_source_plan_id demo_event = None
   \<and> (\<exists>b. fst (snd (run demo_env (wear_saveEvent [] late_state) late_state))
          = [Issued (Call (UpdateWearEvent (we_id demo_event) b))]
        \<and> wf_items b = kept_selections (op_items demo_plan))"
proof -
  obtain k where k: "run demo_env (wear_mount (Some (js ''p1''))) (wear_init (Some (js ''p1'')))
      = (late_mounted, [Issued (Call (GetOutfitPlan (js ''p1'')))], Await (Call (GetOutfitPlan (js ''p1''))) k)"
    "run demo_env (k (Inr (R_plan demo_plan))) late_editing = (late_state, [], Return ())"
    using late_mount by blast
  have d: "wear_dispatch (Some (js ''p1'')) (wear_init (Some (js ''p1''))) Wear_timer
      = Some (wear_mount (Some (js ''p1'')))"
    by (simp add: wear_dispatch_def wear_init_def)
  have "wv_editing late_editing = Some demo_event" by (simp add: late_editing_def)
  from wear_plan_arrives_during_correction [OF d k(1) this k(2), of demo_env] late_valid
  have "\<exists>b. fst (snd (run demo_env (wear_saveEvent [] late_state) late_state))
      = [Issued (Call (UpdateWearEvent (we_id demo_event) b))] \<and> wf_items b = kept_selections (op_items demo_plan)"
    by auto
  then show ?thesis using late_reached by (simp add: demo_event_def)
qed

end
