(* ===== verification/Handler_End.thy ===== *)
theory Handler_End
  imports Async_Prog
begin

text \<open>
  Handlers come to an end. \<open>waits p n\<close> bounds the responses that a program awaits on every path,
  \<open>handled p\<close> says that no path ends in an exception that nobody catches, \<open>handled_later p\<close> that none
  does once it has awaited something. The locale
  \<open>settling_view\<close> extends \<open>exclusive_view\<close> by such a bound for every handler of a page; inside it,
  a page that is busy stops being so once its handler has been answered that often, whatever the
  answers are.
\<close>

subsection \<open>Bounded waiting, and no unhandled rejection\<close>

primrec waits :: "('s, 'a) prog \<Rightarrow> nat \<Rightarrow> bool" where
  "waits (Return a) = (\<lambda>n. True)"
| "waits (Throw x) = (\<lambda>n. True)"
| "waits (Update f p) = (\<lambda>n. waits p n)"
| "waits (Read g) = (\<lambda>n. \<forall>e s. waits (g e s) n)"
| "waits (Emit x p) = (\<lambda>n. waits p n)"
| "waits (Await c k) = (\<lambda>n. case n of 0 \<Rightarrow> False | Suc m \<Rightarrow> \<forall>r. waits (k r) m)"

text \<open>
  \<open>handled_later p\<close>: an exception can leave \<open>p\<close> only before it has awaited anything.
\<close>

primrec handled :: "('s, 'a) prog \<Rightarrow> bool" where
  "handled (Return a) = True"
| "handled (Throw x) = False"
| "handled (Update f p) = handled p"
| "handled (Read g) = (\<forall>e s. handled (g e s))"
| "handled (Emit x p) = handled p"
| "handled (Await c k) = (\<forall>r. handled (k r))"

primrec handled_later :: "('s, 'a) prog \<Rightarrow> bool" where
  "handled_later (Return a) = True"
| "handled_later (Throw x) = True"
| "handled_later (Update f p) = handled_later p"
| "handled_later (Read g) = (\<forall>e s. handled_later (g e s))"
| "handled_later (Emit x p) = handled_later p"
| "handled_later (Await c k) = (\<forall>r. handled (k r))"

lemma handled_is_later: "handled p \<Longrightarrow> handled_later p"
  by (induction p rule: prog_induct) auto

lemma waits_numeral [simp]: "waits (Await c k) (numeral v) = (\<forall>r. waits (k r) (pred_numeral v))"
  by (simp add: numeral_eq_Suc)

lemma waits_mono: "waits p m \<Longrightarrow> m \<le> n \<Longrightarrow> waits p n"
proof (induction p arbitrary: m n rule: prog_induct)
  case (Await c k)
  then obtain l where m: "m = Suc l" by (cases m) auto
  with Await.prems(2) obtain h where n: "n = Suc h" "l \<le> h" by (cases n) auto
  show ?case using Await.IH [OF _ n(2)] Await.prems(1) by (simp add: m n(1))
qed (auto, blast)

lemma waits_bind: "waits p m \<Longrightarrow> (\<And>a. waits (f a) n) \<Longrightarrow> waits (bind p f) (m + n)"
proof (induction p arbitrary: m rule: prog_induct)
  case (Return a)
  then show ?case using waits_mono [of "f a" n "m + n"] by simp
next
  case (Await c k)
  then show ?case by (cases m) auto
qed auto

lemma waits_catch: "waits p m \<Longrightarrow> (\<And>x. waits (h x) n) \<Longrightarrow> waits (catch p h) (m + n)"
proof (induction p arbitrary: m rule: prog_induct)
  case (Throw x)
  then show ?case using waits_mono [of "h x" n "m + n"] by simp
next
  case (Await c k)
  then show ?case by (cases m) auto
qed auto

lemma waits_finally: "waits p m \<Longrightarrow> waits f n \<Longrightarrow> waits (finally_do p f) (m + n)"
proof (induction p arbitrary: m rule: prog_induct)
  case (Return a)
  then show ?case using waits_bind [of f n "\<lambda>_. Return a" 0] waits_mono [of _ n "m + n"] by simp
next
  case (Throw x)
  then show ?case using waits_bind [of f n "\<lambda>_. Throw x" 0] waits_mono [of _ n "m + n"] by simp
next
  case (Await c k)
  then show ?case by (cases m) auto
qed auto

lemma handled_bind: "handled p \<Longrightarrow> (\<And>a. handled (f a)) \<Longrightarrow> handled (bind p f)"
  by (induction p rule: prog_induct) auto

lemma handled_catch: "(\<And>x. handled (h x)) \<Longrightarrow> handled (catch p h)"
  by (induction p rule: prog_induct) auto

lemma handled_finally: "handled p \<Longrightarrow> handled f \<Longrightarrow> handled (finally_do p f)"
  by (induction p rule: prog_induct) (auto intro: handled_bind)

lemma run_waits: "run e p s = (s', out, q) \<Longrightarrow> waits p n \<Longrightarrow> waits q n"
  by (induction p arbitrary: s out rule: prog_induct) (auto split: prod.splits)

lemma run_handled: "run e p s = (s', out, q) \<Longrightarrow> handled p \<Longrightarrow> handled q"
  by (induction p arbitrary: s out rule: prog_induct) (auto split: prod.splits)

lemma run_handled_later: "run e p s = (s', out, q) \<Longrightarrow> handled_later p \<Longrightarrow> handled_later q"
  by (induction p arbitrary: s out rule: prog_induct) (auto split: prod.splits)

text \<open>Composing segments that run to their end.\<close>

lemma run_bind_return:
  "run e p s = (s', out, Return a) \<Longrightarrow>
     run e (bind p f) s = (case run e (f a) s' of (s'', out', q) \<Rightarrow> (s'', out @ out', q))"
  by (induction p arbitrary: s out rule: prog_induct) (auto split: prod.splits)

lemma run_catch_return: "run e p s = (s', out, Return a) \<Longrightarrow> run e (catch p h) s = (s', out, Return a)"
  by (induction p arbitrary: s out rule: prog_induct) (auto split: prod.splits)

lemma run_finally_return:
  "run e p s = (s', out, Return a) \<Longrightarrow>
     run e (finally_do p f) s = (case run e (bind f (\<lambda>_. Return a)) s' of (s'', out', q) \<Rightarrow> (s'', out @ out', q))"
  by (induction p arbitrary: s out rule: prog_induct) (auto split: prod.splits)

subsection \<open>Answering a handler\<close>

text \<open>
  \<open>answer rs n (s, q)\<close>: the handler that waits in \<open>q\<close> gets up to \<open>n\<close> answers, taken from \<open>rs\<close>, each with
  the environment at that moment; no other handler runs in between.
\<close>

primrec answer ::
  "(nat \<Rightarrow> env \<times> outcome) \<Rightarrow> nat \<Rightarrow> ('s, unit) prog \<Rightarrow> 's \<Rightarrow> 's \<times> effect list \<times> ('s, unit) prog" where
  "answer rs 0 q s = (s, [], q)"
| "answer rs (Suc n) q s =
     (case q of
        Await c k \<Rightarrow>
          let (s', out, q') = run (fst (rs n)) (k (snd (rs n))) s;
              (s'', out', q'') = answer rs n q' s'
          in (s'', out @ out', q'')
      | _ \<Rightarrow> (s, [], q))"

lemma run_rest: "run e p s = (s', out, q) \<Longrightarrow> (\<exists>a. q = Return a) \<or> (\<exists>x. q = Throw x) \<or> (\<exists>c k. q = Await c k)"
  by (induction p arbitrary: s out rule: prog_induct) (auto split: prod.splits)

lemma answer_settles:
  assumes "reach D s0 (s, ts1 @ (ev, q) # ts2, tr)" and "waits q n" and "handled q" and "q = Await c k"
  shows "\<exists>s' out. answer rs n q s = (s', out, Return ()) \<and> reach D s0 (s', ts1 @ ts2, tr @ out)"
  using assms
proof (induction n arbitrary: q c k s ts1 ts2 tr)
  case (Suc n)
  obtain s1 out1 q1 where r: "run (fst (rs n)) (k (snd (rs n))) s = (s1, out1, q1)" by (rule prod_cases3)
  have w: "waits q1 n" and h: "handled q1"
    using Suc.prems(2-4) run_waits [OF r, of n] run_handled [OF r] by auto
  have c: "reach D s0 (s1, park ev q1 (ts1 @ ts2), tr @ out1)"
    using reach_resume [OF Suc.prems(1) [unfolded Suc.prems(4)] r] .
  from run_rest [OF r] h consider (ret) "q1 = Return ()" | (aw) c1 k1 where "q1 = Await c1 k1" by auto
  then show ?case
  proof cases
    case ret
    then show ?thesis using c r Suc.prems(4) by (cases n) (auto simp: park_def)
  next
    case aw
    with c have "reach D s0 (s1, (ts1 @ ts2) @ (ev, q1) # [], tr @ out1)" by (simp add: park_def)
    from Suc.IH [OF this w h aw] obtain s' out where
      "answer rs n q1 s1 = (s', out, Return ())" "reach D s0 (s', ts1 @ ts2, (tr @ out1) @ out)" by auto
    then show ?thesis using r Suc.prems(4) by auto
  qed
qed simp

subsection \<open>Views that settle\<close>

locale settling_view = exclusive_view D s0 busy excl ends I R S G
  for D :: "'s \<Rightarrow> 'ev \<Rightarrow> ('s, unit) prog option"
    and s0 :: 's and busy :: "'s \<Rightarrow> bool" and excl :: "'ev \<Rightarrow> bool" and ends :: "'s \<Rightarrow> bool"
    and I :: "'s \<Rightarrow> bool" and R :: "'s \<Rightarrow> 's \<Rightarrow> bool" and S :: "'s \<Rightarrow> 's \<Rightarrow> bool"
    and G :: "effect \<Rightarrow> bool" +
  fixes n :: nat
  assumes finishes: "D s ev = Some p \<Longrightarrow> excl ev \<Longrightarrow> waits p n \<and> handled_later p"
begin

definition finishing :: "'ev \<times> ('s, unit) prog \<Rightarrow> bool" where
  "finishing t \<longleftrightarrow> (excl (fst t) \<longrightarrow> waits (snd t) n \<and> handled_later (snd t)) \<and> (\<exists>c k. snd t = Await c k)"

lemma finishing_park:
  assumes "\<forall>t\<in>set ts. finishing t" and "excl ev \<Longrightarrow> waits p n \<and> handled_later p" and "run e p s = (s', out, q)"
  shows "\<forall>t\<in>set (park ev q ts). finishing t"
  using assms(1,2) run_waits [OF assms(3), of n] run_handled_later [OF assms(3)]
  by (cases q) (simp_all add: park_def finishing_def)

lemma finishing_resumed:
  assumes "finishing (ev, Await c k)" and "excl ev"
  shows "waits (k r) n \<and> handled_later (k r)"
proof -
  have w: "waits (Await c k) n" "handled (k r)" using assms by (simp_all add: finishing_def)
  obtain m where m: "n = Suc m" "waits (k r) m" using w(1) by (cases n) auto
  then have "waits (k r) n" using waits_mono by fastforce
  with handled_is_later [OF w(2)] show ?thesis by simp
qed

end

sublocale settling_view \<subseteq> tasks: config_invariant D s0 "\<lambda>c. \<forall>t\<in>set (fst (snd c)). finishing t"
proof
  fix s ts ev p e s' out q and tr :: "effect list"
  assume "\<forall>t\<in>set (fst (snd (s, ts, tr))). finishing t" and D: "D s ev = Some p" and r: "run e p s = (s', out, q)"
  then show "\<forall>t\<in>set (fst (snd (s', park ev q ts, tr @ out))). finishing t"
    using finishing_park [OF _ finishes [OF D] r, of ts] by simp
next
  fix s ts1 ev c k ts2 e r s' out q and tr :: "effect list"
  assume "\<forall>t\<in>set (fst (snd (s, ts1 @ (ev, Await c k) # ts2, tr))). finishing t"
    and r: "run e (k r) s = (s', out, q)"
  then have "\<forall>t\<in>set (ts1 @ ts2). finishing t" "finishing (ev, Await c k)" by auto
  from finishing_park [OF this(1) finishing_resumed [OF this(2)] r]
  show "\<forall>t\<in>set (fst (snd (s', park ev q (ts1 @ ts2), tr @ out))). finishing t" by simp
qed simp

context settling_view
begin

lemma settles:
  assumes "reach D s0 (s, ts, tr)" and "\<not> ends s"
  shows "\<exists>ev q ts1 ts2. ts = ts1 @ (ev, q) # ts2 \<and> excl ev \<and>
    (\<forall>rs. \<exists>s' out. answer rs n q s = (s', out, Return ()) \<and> ends s'
       \<and> reach D s0 (s', ts1 @ ts2, tr @ out))"
proof -
  from reach_exclusive [OF assms(1)] assms(2)
  have one: "length (filter (\<lambda>(ev, q). excl ev) ts) = 1" by auto
  then have "filter (\<lambda>(ev, q). excl ev) ts \<noteq> []" by auto
  then obtain t where t: "t \<in> set ts" "excl (fst t)" by (auto simp: filter_empty_conv)
  obtain ev q where e: "t = (ev, q)" by (cases t)
  from t(1) obtain ts1 ts2 where ts: "ts = ts1 @ (ev, q) # ts2" unfolding e by (meson split_list)
  from tasks.reach_holds [OF assms(1)] t e
  obtain c k where q: "waits q n" "handled q" "q = Await c k" by (auto simp: finishing_def)
  have none: "length (filter (\<lambda>(ev, q). excl ev) (ts1 @ ts2)) = 0" using one t(2) by (simp add: ts e)
  have "\<exists>s' out. answer rs n q s = (s', out, Return ()) \<and> ends s'
      \<and> reach D s0 (s', ts1 @ ts2, tr @ out)" for rs
  proof -
    from answer_settles [OF assms(1) [unfolded ts] q] obtain s' out where
      a: "answer rs n q s = (s', out, Return ())" "reach D s0 (s', ts1 @ ts2, tr @ out)" by blast
    from reach_exclusive [OF a(2)] none have "ends s'" by simp
    with a show ?thesis by blast
  qed
  with ts t(2) e show ?thesis by auto
qed

end

end
