(* ===== verification/Wardrobe_View.thy ===== *)
theory Wardrobe_View
  imports Query_Hooks Wardrobe_Lib Wear_Event_Lib
begin

text \<open>
  The wardrobe page, \<^verbatim>\<open>components/wardrobe/wardrobe-view.tsx\<close>, with the form of an item
  (\<^verbatim>\<open>wardrobe-item-form.tsx\<close>) and the photo editor (\<^verbatim>\<open>wardrobe-photo-editor.tsx\<close>): the state of
  the three components, every handler, and which control is shown and enabled in which state.

  The photo editor is a child of the form with state of its own. It is mounted anew when the
  editor is opened or another item is edited; \<^verbatim>\<open>wd_instance\<close> counts the mounts, and what an
  earlier instance still sets after an await has no effect on its successor.
\<close>

subsection \<open>State\<close>

datatype photo_mode = Remove_mode | Crop_mode | Restore_mode
datatype photo_status = No_status | Running photo_mode | Finished photo_mode bool
datatype photo_editor_text = Photo_choice_invalid | Photo_failed wardrobe_text

record photo_editor =
  pe_error :: "photo_editor_text option"
  pe_status :: photo_status
  pe_busy :: bool
  pe_crop :: crop_insets

datatype wardrobe_pending = W_save | W_impact | W_delete | W_reload | W_photo

record delete_draft =
  dd_item :: wardrobe_item
  dd_impact :: deletion_impact
  dd_policy :: history_policy

record wardrobe_state =
  wd_user :: "user query"
  wd_wardrobe :: "wardrobe_item list_query"
  wd_stats :: "wear_statistics query"
  wd_category :: "category option"
  wd_search :: jstring
  wd_availability :: "availability option"
  wd_editor_open :: bool
  wd_create_id :: "jstring option"
  wd_form :: wardrobe_form
  wd_editing :: "wardrobe_item option"
  wd_deletion :: "delete_draft option"
  wd_pending :: "wardrobe_pending option"
  wd_impact_item :: "jstring option"
  wd_name_error :: "name_text option"
  wd_error :: "wardrobe_text option"
  wd_deleted :: bool
  wd_photo :: photo_editor
  wd_instance :: nat

definition fresh_editor :: photo_editor where
  "fresh_editor = \<lparr>pe_error = None, pe_status = No_status, pe_busy = False, pe_crop = emptyCrop\<rparr>"

definition wardrobe_init :: wardrobe_state where
  "wardrobe_init =
     \<lparr>wd_user = no_query, wd_wardrobe = no_list_query, wd_stats = no_query, wd_category = None,
      wd_search = [], wd_availability = None, wd_editor_open = False, wd_create_id = None,
      wd_form = emptyWardrobeForm, wd_editing = None, wd_deletion = None, wd_pending = None,
      wd_impact_item = None, wd_name_error = None, wd_error = None, wd_deleted = False,
      wd_photo = fresh_editor, wd_instance = 0\<rparr>"

definition wd_items :: "wardrobe_state \<Rightarrow> wardrobe_item list" where
  "wd_items s = all_items (wd_wardrobe s)"

subsection \<open>Mounting and previews\<close>

definition remount :: "wardrobe_state \<Rightarrow> wardrobe_state" where
  "remount t = t\<lparr>wd_photo := fresh_editor, wd_instance := Suc (wd_instance t)\<rparr>"

text \<open>The \<^verbatim>\<open>key\<close> of the form: another key mounts it anew.\<close>

definition editor_key :: "wardrobe_item option \<Rightarrow> jstring" where
  "editor_key editing = (case editing of None \<Rightarrow> js ''new'' | Some item \<Rightarrow> wi_id item)"

definition set_editing :: "wardrobe_item option \<Rightarrow> wardrobe_state \<Rightarrow> wardrobe_state" where
  "set_editing editing t =
     (let t' = t\<lparr>wd_editing := editing\<rparr> in
      if editor_key editing \<noteq> editor_key (wd_editing t) \<and> wd_editor_open t then remount t' else t')"

definition in_editor ::
  "nat \<Rightarrow> (photo_editor \<Rightarrow> photo_editor) \<Rightarrow> wardrobe_state \<Rightarrow> wardrobe_state" where
  "in_editor inst f t = (if wd_instance t = inst then t\<lparr>wd_photo := f (wd_photo t)\<rparr> else t)"

definition is_blob :: "jstring \<Rightarrow> bool" where
  "is_blob url = starts_with url (js ''blob:'')"

text \<open>The clean-up of the preview effects: a blob URL that is no longer shown is revoked.\<close>

definition revoke_replaced ::
  "jstring option \<Rightarrow> jstring option \<Rightarrow> (wardrobe_state, unit) prog \<Rightarrow> (wardrobe_state, unit) prog" where
  "revoke_replaced before after p =
     (case before of
        None \<Rightarrow> p
      | Some preview \<Rightarrow>
          if after \<noteq> Some preview \<and> is_blob preview
          then Emit (Revoke_url preview) p else p)"

definition wd_set_form :: "(wardrobe_form \<Rightarrow> wardrobe_form) \<Rightarrow> (wardrobe_state, unit) prog" where
  "wd_set_form f =
     Read (\<lambda>_ t.
       let new = f (wd_form t) in
       Update (\<lambda>t. t\<lparr>wd_form := new\<rparr>)
         (revoke_replaced (fm_photo_preview (wd_form t)) (fm_photo_preview new)
           (revoke_replaced (fm_original_photo_preview (wd_form t)) (fm_original_photo_preview new)
             (Return ()))))"

subsection \<open>Errors and sessions\<close>

definition leave_wardrobe :: "(wardrobe_state, unit) prog" where
  "leave_wardrobe = bind account_clear_current (\<lambda>_. Emit (Replace_route To_login) (Return ()))"

definition wardrobe_session_effect :: "wardrobe_state \<Rightarrow> (wardrobe_state, unit) prog" where
  "wardrobe_session_effect s =
     (if session_lost (wd_user s) \<or> session_lost (wd_wardrobe s) then leave_wardrobe else Return ())"

definition showActionError :: "jsval \<Rightarrow> (wardrobe_state, unit) prog" where
  "showActionError cause =
     (if accountStatus cause = Some 401 then leave_wardrobe
      else set_state (\<lambda>t. t\<lparr>wd_error := Some (wardrobeErrorMessage cause)\<rparr>))"

definition wd_not_pending :: "(wardrobe_state, unit) prog" where
  "wd_not_pending = set_state (\<lambda>t. t\<lparr>wd_pending := None\<rparr>)"

subsection \<open>Editing\<close>

definition wd_cancelEdit :: "(wardrobe_state, unit) prog" where
  "wd_cancelEdit =
     Update (set_editing None)
       (bind (wd_set_form (\<lambda>_. emptyWardrobeForm)) (\<lambda>_.
          set_state (\<lambda>t. t\<lparr>wd_name_error := None, wd_error := None, wd_create_id := None\<rparr>)))"

definition wd_selectEdit :: "wardrobe_item \<Rightarrow> (wardrobe_state, unit) prog" where
  "wd_selectEdit item =
     Update (\<lambda>t. if wd_editor_open t then t else remount (t\<lparr>wd_editor_open := True\<rparr>))
       (Update (set_editing (Some item))
         (bind (wd_set_form (\<lambda>_. wardrobeFormFromItem item)) (\<lambda>_.
            set_state (\<lambda>t. t\<lparr>wd_name_error := None, wd_error := None\<rparr>))))"

definition wd_reloadEditing :: "wardrobe_state \<Rightarrow> (wardrobe_state, unit) prog" where
  "wd_reloadEditing s =
     (case wd_editing s of
        None \<Rightarrow> Return ()
      | Some editing \<Rightarrow>
          if wd_pending s \<noteq> None then Return ()
          else
            Update (\<lambda>t. t\<lparr>wd_pending := Some W_reload, wd_error := None\<rparr>)
              (finally_do
                (catch
                  (bind (wardrobe_get (wi_id editing)) (\<lambda>item.
                     Update (set_editing (Some item))
                       (bind (wd_set_form (\<lambda>_. wardrobeFormFromItem item)) (\<lambda>_.
                          Update (\<lambda>t. t\<lparr>wd_name_error := None\<rparr>) (refetch Wardrobe_key)))))
                  showActionError)
                wd_not_pending))"

subsection \<open>Saving\<close>

text \<open>
  The photo part of \<^verbatim>\<open>save\<close>: the original is uploaded unless it is stored already, the shown
  photo unless it is the original; the form keeps the identifiers for a retry.
\<close>

definition upload_photos ::
  "wardrobe_form \<Rightarrow> (wardrobe_state, jstring option \<times> jstring option) prog" where
  "upload_photos form =
     (case fm_photo_file form of
        None \<Rightarrow> Return (fm_photo_media_id form, fm_original_photo_media_id form)
      | Some file \<Rightarrow>
          let original = (case fm_photo_original_file form of Some f \<Rightarrow> f | None \<Rightarrow> file) in
          bind (case fm_original_photo_media_id form of
                  Some i \<Rightarrow> Return i
                | None \<Rightarrow> upload_photo original)
            (\<lambda>originalPhotoMediaID.
              bind (if file_key file = file_key original then Return originalPhotoMediaID
                    else upload_photo file)
                (\<lambda>photoMediaID.
                  bind (wd_set_form (\<lambda>_. form\<lparr>fm_photo_media_id := Some photoMediaID,
                          fm_original_photo_media_id := Some originalPhotoMediaID\<rparr>))
                    (\<lambda>_. Return (Some photoMediaID, Some originalPhotoMediaID)))))"

definition item_body :: "wardrobe_form \<Rightarrow> jstring option \<Rightarrow> jstring option \<Rightarrow> item_fields" where
  "item_body form photoMediaID originalPhotoMediaID =
     \<lparr>if_name = trim (fm_name form), if_sample_image = fm_sample_image form,
      if_photo_media_id = photoMediaID, if_original_photo_media_id = originalPhotoMediaID,
      if_category = fm_category form, if_availability = fm_availability form,
      if_attributes = fm_attributes form\<rparr>"

definition create_item_body :: "jstring \<Rightarrow> item_fields \<Rightarrow> create_item" where
  "create_item_body i body = item_fields.extend body (create_item.fields i From_wardrobe)"

definition update_item_body :: "item_fields \<Rightarrow> int \<Rightarrow> update_item" where
  "update_item_body body revision = item_fields.extend body (update_item.fields revision)"

definition store_item ::
  "wardrobe_item option \<Rightarrow> item_fields \<Rightarrow> (wardrobe_state, unit) prog" where
  "store_item edited body =
     (case edited of
        Some editing \<Rightarrow>
          bind (wardrobe_update (wi_id editing) (update_item_body body (wi_revision editing)))
            (\<lambda>updated. Update (set_editing (Some updated))
               (bind (wd_set_form (\<lambda>_. wardrobeFormFromItem updated)) (\<lambda>_.
                  Emit (Toast Toast_item_updated) (Return ()))))
      | None \<Rightarrow>
          Read (\<lambda>e t.
            let i = (case wd_create_id t of Some i \<Rightarrow> i | None \<Rightarrow> env_uuid e) in
            Update (\<lambda>t. t\<lparr>wd_create_id := Some i\<rparr>)
              (bind (wardrobe_create (create_item_body i body)) (\<lambda>_.
                 Update (\<lambda>t. t\<lparr>wd_create_id := None\<rparr>)
                   (bind (wd_set_form (\<lambda>_. emptyWardrobeForm)) (\<lambda>_.
                      Emit (Toast Toast_item_created) (Return ())))))))"

definition wd_save :: "wardrobe_state \<Rightarrow> (wardrobe_state, unit) prog" where
  "wd_save s =
     (if wd_pending s \<noteq> None then Return ()
      else
        let form = wd_form s; validation = wardrobeNameError (fm_name form) in
        Update (\<lambda>t. t\<lparr>wd_name_error := validation\<rparr>)
          (if validation \<noteq> None then Return ()
           else
             Update (\<lambda>t. t\<lparr>wd_pending := Some W_save, wd_error := None\<rparr>)
               (finally_do
                 (catch
                   (bind (upload_photos form) (\<lambda>(photoMediaID, originalPhotoMediaID).
                      store_item (wd_editing s) (item_body form photoMediaID originalPhotoMediaID)))
                   showActionError)
                 wd_not_pending)))"

subsection \<open>Deleting\<close>

definition wd_inspectDelete :: "wardrobe_item \<Rightarrow> wardrobe_state \<Rightarrow> (wardrobe_state, unit) prog" where
  "wd_inspectDelete item s =
     (if wd_pending s \<noteq> None then Return ()
      else
        Update (\<lambda>t. t\<lparr>wd_pending := Some W_impact, wd_impact_item := Some (wi_id item),
            wd_error := None\<rparr>)
          (finally_do
            (catch
              (bind (wardrobe_impact (wi_id item)) (\<lambda>impact.
                 set_state (\<lambda>t. t\<lparr>wd_deletion := Some
                   \<lparr>dd_item = item, dd_impact = impact, dd_policy = Redact_snapshots\<rparr>\<rparr>)))
              showActionError)
            (set_state (\<lambda>t. t\<lparr>wd_pending := None, wd_impact_item := None\<rparr>))))"

definition wd_remove :: "wardrobe_state \<Rightarrow> (wardrobe_state, unit) prog" where
  "wd_remove s =
     (case wd_deletion s of
        None \<Rightarrow> Return ()
      | Some draft \<Rightarrow>
          if wd_pending s \<noteq> None then Return ()
          else
            Update (\<lambda>t. t\<lparr>wd_pending := Some W_delete, wd_error := None\<rparr>)
              (finally_do
                (catch
                  (bind (wardrobe_remove (wi_id (dd_item draft)) (wi_revision (dd_item draft))
                      (di_expected_impact (dd_impact draft)) (dd_policy draft))
                    (\<lambda>_. bind (if map_option wi_id (wd_editing s) = Some (wi_id (dd_item draft))
                              then wd_cancelEdit else Return ())
                       (\<lambda>_. set_state (\<lambda>t. t\<lparr>wd_deleted := True\<rparr>))))
                  (\<lambda>cause. bind (showActionError cause) (\<lambda>_. refetch Wardrobe_key)))
                (set_state (\<lambda>t. t\<lparr>wd_deletion := None, wd_pending := None\<rparr>))))"

subsection \<open>The samples\<close>

text \<open>The suffix of the name, the word for sample in full-width parentheses.\<close>

definition sample_suffix :: jstring where
  "sample_suffix = [0xFF08, 0x793A, 0x4F8B, 0xFF09]"

definition sample_body :: "garment_sample \<Rightarrow> create_item" where
  "sample_body sample =
     create_item_body (js (gs_id sample))
       \<lparr>if_name = gs_name sample @ sample_suffix, if_sample_image = Some (js (gs_key sample)),
        if_photo_media_id = None, if_original_photo_media_id = None,
        if_category = gs_category sample, if_availability = Wearable,
        if_attributes = no_attributes\<rparr>"

definition sample_present :: "wardrobe_item list \<Rightarrow> garment_sample \<Rightarrow> bool" where
  "sample_present items sample = list_ex (\<lambda>item. wi_id item = js (gs_id sample)) items"

primrec create_samples :: "wardrobe_item list \<Rightarrow> garment_sample list \<Rightarrow> (wardrobe_state, unit) prog" where
  "create_samples items [] = Return ()"
| "create_samples items (sample # samples) =
     (if sample_present items sample then create_samples items samples
      else bind (wardrobe_create (sample_body sample)) (\<lambda>_. create_samples items samples))"

definition wd_addSamples :: "wardrobe_state \<Rightarrow> (wardrobe_state, unit) prog" where
  "wd_addSamples s =
     (if wd_pending s \<noteq> None \<or> isPending (wd_wardrobe s) \<or> hasNextPage (wd_wardrobe s) then Return ()
      else
        Update (\<lambda>t. t\<lparr>wd_pending := Some W_save, wd_error := None\<rparr>)
          (finally_do
            (catch
              (bind (create_samples (wd_items s) garmentSamples) (\<lambda>_.
                 Emit (Toast Toast_samples_added) (Return ())))
              showActionError)
            wd_not_pending))"

subsection \<open>The photo editor\<close>

text \<open>\<^verbatim>\<open>!!id\<close>\<close>

definition set_id :: "jstring option \<Rightarrow> bool" where
  "set_id i \<longleftrightarrow> i \<noteq> None \<and> i \<noteq> Some []"

definition hasSource :: "wardrobe_form \<Rightarrow> bool" where
  "hasSource form \<longleftrightarrow> fm_photo_file form \<noteq> None \<or> set_id (fm_photo_media_id form)"

definition originalID :: "wardrobe_form \<Rightarrow> jstring option" where
  "originalID form = coalesce (fm_original_photo_media_id form) (fm_photo_media_id form)"

text \<open>Whether the original is shown beside the photo.\<close>

definition photo_changed :: "wardrobe_form \<Rightarrow> bool" where
  "photo_changed form \<longleftrightarrow>
     (case fm_photo_file form of
        Some file \<Rightarrow> map_option file_key (fm_photo_original_file form) \<noteq> Some (file_key file)
      | None \<Rightarrow> False)
     \<or> (set_id (fm_photo_media_id form) \<and> set_id (originalID form)
        \<and> fm_photo_media_id form \<noteq> originalID form)"

definition processed ::
  "photo_mode \<Rightarrow> js_file \<Rightarrow> js_file \<Rightarrow> crop_insets \<Rightarrow> (wardrobe_state, js_file) prog" where
  "processed mode original current crop =
     (case mode of
        Restore_mode \<Rightarrow> Return original
      | Remove_mode \<Rightarrow> bind (await_as (Image_op (Remove_background current)) as_file) (\<lambda>(f, _). Return f)
      | Crop_mode \<Rightarrow> bind (await_as (Image_op (Crop_photo current crop)) as_file) (\<lambda>(f, _). Return f))"

definition photo_process :: "photo_mode \<Rightarrow> wardrobe_state \<Rightarrow> (wardrobe_state, unit) prog" where
  "photo_process mode s =
     (let form = wd_form s; inst = wd_instance s in
      if wd_pending s \<noteq> None \<or> pe_busy (wd_photo s) then Return ()
      else
        Update (in_editor inst (\<lambda>p. p\<lparr>pe_busy := True\<rparr>))
          (Update (\<lambda>t. t\<lparr>wd_pending := Some W_photo\<rparr>)
            (Update (in_editor inst (\<lambda>p. p\<lparr>pe_error := None, pe_status := Running mode\<rparr>))
              (finally_do
                (catch
                  (bind (case fm_photo_original_file form of
                           Some f \<Rightarrow> Return (f, False)
                         | None \<Rightarrow> read_photo (js_template (originalID form)) True)
                    (\<lambda>(original, legacy).
                      bind (case fm_photo_file form of
                              Some f \<Rightarrow> Return f
                            | None \<Rightarrow>
                                if fm_photo_media_id form = originalID form then Return original
                                else bind (read_photo (js_template (fm_photo_media_id form)) False)
                                  (\<lambda>(f, _). Return f))
                        (\<lambda>current.
                          bind (await Load_module Return) (\<lambda>_.
                            bind (processed mode original current (pe_crop (wd_photo s))) (\<lambda>result.
                              Read (\<lambda>e _.
                                bind (wd_set_form (\<lambda>f. f\<lparr>fm_photo_original_file := Some original,
                                        fm_photo_file := Some result,
                                        fm_photo_preview := Some (env_object_url e 0)\<rparr>))
                                  (\<lambda>_. set_state (in_editor inst (\<lambda>p. p\<lparr>pe_crop := emptyCrop,
                                     pe_status := Finished mode legacy\<rparr>)))))))))
                  (\<lambda>cause. set_state (in_editor inst (\<lambda>p. p\<lparr>pe_status := No_status,
                     pe_error := Some (Photo_failed (wardrobeErrorMessage cause))\<rparr>))))
                (Update (in_editor inst (\<lambda>p. p\<lparr>pe_busy := False\<rparr>)) wd_not_pending)))))"

definition photo_choose :: "js_file \<Rightarrow> (wardrobe_state, unit) prog" where
  "photo_choose file =
     Update (\<lambda>t. t\<lparr>wd_photo := (wd_photo t)\<lparr>pe_error := None, pe_status := No_status,
         pe_crop := emptyCrop\<rparr>\<rparr>)
       (if file_type file \<notin> set [js ''image/jpeg'', js ''image/png'', js ''image/webp'']
           \<or> file_size file > 12 * 1024 * 1024 \<or> file_size file = 0
        then set_state (\<lambda>t. t\<lparr>wd_photo := (wd_photo t)\<lparr>pe_error := Some Photo_choice_invalid\<rparr>\<rparr>)
        else Read (\<lambda>e _. wd_set_form (\<lambda>f. f\<lparr>fm_photo_file := Some file,
               fm_photo_original_file := Some file,
               fm_photo_preview := Some (env_object_url e 0),
               fm_original_photo_preview := Some (env_object_url e 1),
               fm_photo_media_id := None, fm_original_photo_media_id := None\<rparr>)))"

declare leave_wardrobe_def [view_defs] wardrobe_session_effect_def [view_defs]
  showActionError_def [view_defs] wd_not_pending_def [view_defs] wd_cancelEdit_def [view_defs]
  wd_selectEdit_def [view_defs] wd_reloadEditing_def [view_defs] upload_photos_def [view_defs] store_item_def [view_defs]
  wd_save_def [view_defs] wd_inspectDelete_def [view_defs] wd_remove_def [view_defs]
  wd_addSamples_def [view_defs] processed_def [view_defs] photo_process_def [view_defs]
  photo_choose_def [view_defs]

subsection \<open>Controls\<close>

text \<open>The list; \<open>lower\<close> is the platform's \<^verbatim>\<open>toLocaleLowerCase\<close>, \<^verbatim>\<open>None\<close> the choice of all.\<close>

definition wd_filtered :: "(jstring \<Rightarrow> jstring) \<Rightarrow> wardrobe_state \<Rightarrow> wardrobe_item list" where
  "wd_filtered lower s =
     filter (\<lambda>item.
        (case wd_category s of None \<Rightarrow> True | Some c \<Rightarrow> wi_category item = c)
        \<and> (case wd_availability s of None \<Rightarrow> True | Some a \<Rightarrow> wi_availability item = a)
        \<and> js_includes (lower (wi_name item)) (lower (trim (wd_search s)))) (wd_items s)"

text \<open>The count shown at an item, where the statistics are there: \<^verbatim>\<open>uses.get(item.id) ?? 0\<close>.\<close>

definition wd_uses :: "wardrobe_state \<Rightarrow> jstring \<Rightarrow> int option" where
  "wd_uses s i =
     (if isPending (wd_stats s) \<or> isError (wd_stats s) then None
      else
        let entries = (case q_data (wd_stats s) of None \<Rightarrow> [] | Some st \<Rightarrow> ws_item_uses st) in
        Some (case js_map (map (\<lambda>entry. (wu_item_id entry, wu_count entry)) entries) i of
           None \<Rightarrow> 0 | Some n \<Rightarrow> n))"

datatype wardrobe_page_kind = W_checking | W_account_unreadable wardrobe_text | W_content

definition wardrobe_page_of :: "wardrobe_state \<Rightarrow> wardrobe_page_kind" where
  "wardrobe_page_of s =
     (if isPending (wd_user s) \<or> session_lost (wd_user s) then W_checking
      else if isError (wd_user s)
      then W_account_unreadable (wardrobeErrorMessage (q_error (wd_user s)))
      else W_content)"

text \<open>While the page shows no content its form is unmounted, and with it the photo editor.\<close>

definition unmount_form :: "wardrobe_state \<Rightarrow> wardrobe_state" where
  "unmount_form t = (if wardrobe_page_of t = W_content then t else remount t)"

definition listed_items :: "(jstring \<Rightarrow> jstring) \<Rightarrow> wardrobe_state \<Rightarrow> wardrobe_item list" where
  "listed_items lower s =
     (if isPending (wd_wardrobe s) \<or> isError (wd_wardrobe s) then [] else wd_filtered lower s)"

definition samples_disabled :: "wardrobe_state \<Rightarrow> bool" where
  "samples_disabled s \<longleftrightarrow>
     wd_pending s \<noteq> None \<or> isPending (wd_wardrobe s) \<or> isError (wd_wardrobe s)
     \<or> hasNextPage (wd_wardrobe s) \<or> list_all (sample_present (wd_items s)) garmentSamples"

datatype crop_side = Crop_top | Crop_right | Crop_bottom | Crop_left

definition set_crop :: "crop_side \<Rightarrow> rat option \<Rightarrow> crop_insets \<Rightarrow> crop_insets" where
  "set_crop side v crop =
     (case side of
        Crop_top \<Rightarrow> crop\<lparr>ins_top := v\<rparr>
      | Crop_right \<Rightarrow> crop\<lparr>ins_right := v\<rparr>
      | Crop_bottom \<Rightarrow> crop\<lparr>ins_bottom := v\<rparr>
      | Crop_left \<Rightarrow> crop\<lparr>ins_left := v\<rparr>)"

datatype wardrobe_event =
    W_queries_changed "user query" "wardrobe_item list_query" "wear_statistics query"
  | W_retry query_key | W_load_more query_key
  | Toggle_editor | Add_samples
  | Filter_category "category option" | Filter_search jstring
  | Filter_availability "availability option"
  | Set_name jstring | Set_category category | Set_availability availability
  | Set_formality "formality option" | Set_warmth "warmth option"
  | Set_rain "suitability option" | Set_walking "suitability option"
  | Save_item | Cancel_item | Reload_item
  | Edit_item wardrobe_item | Inspect_delete wardrobe_item
  | Set_policy history_policy | Close_deletion | Confirm_deletion
  | Choose_file js_file | Process_photo photo_mode | Set_crop crop_side "rat option"
  | Set_sample "jstring option"

definition item_form_event :: "wardrobe_form \<Rightarrow> wardrobe_event \<Rightarrow> wardrobe_form option" where
  "item_form_event form ev =
     (case ev of
        Set_name v \<Rightarrow> Some (form\<lparr>fm_name := v\<rparr>)
      | Set_category c \<Rightarrow> Some (form\<lparr>fm_category := c\<rparr>)
      | Set_availability a \<Rightarrow> Some (form\<lparr>fm_availability := a\<rparr>)
      | Set_formality v \<Rightarrow> Some (form\<lparr>fm_attributes := (fm_attributes form)\<lparr>at_formality_band := v\<rparr>\<rparr>)
      | Set_warmth v \<Rightarrow> Some (form\<lparr>fm_attributes := (fm_attributes form)\<lparr>at_warmth_band := v\<rparr>\<rparr>)
      | Set_rain v \<Rightarrow> Some (form\<lparr>fm_attributes := (fm_attributes form)\<lparr>at_rain_use := v\<rparr>\<rparr>)
      | Set_walking v \<Rightarrow> Some (form\<lparr>fm_attributes := (fm_attributes form)\<lparr>at_walking_use := v\<rparr>\<rparr>)
      | Set_sample v \<Rightarrow>
          if \<not> hasSource form \<and> (v = None \<or> sampleImagePath v \<noteq> None)
          then Some (form\<lparr>fm_sample_image := v\<rparr>) else None
      | _ \<Rightarrow> None)"

text \<open>The button under the list that fetches a further page.\<close>

definition wd_more_shown :: "wardrobe_state \<Rightarrow> query_key \<Rightarrow> bool" where
  "wd_more_shown s key \<longleftrightarrow>
     wardrobe_page_of s = W_content \<and> key = Wardrobe_key
     \<and> \<not> isPending (wd_wardrobe s) \<and> \<not> isError (wd_wardrobe s) \<and> wd_items s \<noteq> []
     \<and> hasNextPage (wd_wardrobe s) \<and> \<not> q_fetching_next (wd_wardrobe s)"

definition wardrobe_dispatch ::
  "(jstring \<Rightarrow> jstring) \<Rightarrow> wardrobe_state \<Rightarrow> wardrobe_event \<Rightarrow> (wardrobe_state, unit) prog option" where
  "wardrobe_dispatch lower s ev =
     (case ev of
        W_queries_changed u w st \<Rightarrow>
          Some (Update (\<lambda>t. unmount_form (t\<lparr>wd_user := u, wd_wardrobe := w, wd_stats := st\<rparr>))
            (wardrobe_session_effect (s\<lparr>wd_user := u, wd_wardrobe := w, wd_stats := st\<rparr>)))
      | Close_deletion \<Rightarrow>
          if wd_deletion s = None then None
          else Some (set_state (\<lambda>t. t\<lparr>wd_deletion := None\<rparr>))
      | Set_policy policy \<Rightarrow>
          (case wd_deletion s of
             Some draft \<Rightarrow>
               if di_affected_plan_count (dd_impact draft) > 0
                  \<or> di_affected_wear_event_count (dd_impact draft) > 0
               then Some (set_state (\<lambda>t. t\<lparr>wd_deletion := Some (draft\<lparr>dd_policy := policy\<rparr>)\<rparr>))
               else None
           | None \<Rightarrow> None)
      | Confirm_deletion \<Rightarrow> if wd_deletion s \<noteq> None then Some (wd_remove s) else None
      | W_retry key \<Rightarrow>
          (case wardrobe_page_of s of
             W_account_unreadable _ \<Rightarrow> if key = Current_user_key then Some (refetch key) else None
           | W_content \<Rightarrow>
               if key = Wardrobe_key \<and> isError (wd_wardrobe s) \<and> \<not> session_lost (wd_wardrobe s)
                  \<or> key = Statistics_key \<and> q_data (wd_user s) \<noteq> None \<and> isError (wd_stats s)
               then Some (refetch key) else None
           | W_checking \<Rightarrow> None)
      | W_load_more key \<Rightarrow> if wd_more_shown s key then Some (fetchNextPage key) else None
      | _ \<Rightarrow>
          if wardrobe_page_of s \<noteq> W_content then None
          else
            (case ev of
               Toggle_editor \<Rightarrow>
                 Some (set_state (\<lambda>t. remount (t\<lparr>wd_editor_open := \<not> wd_editor_open s\<rparr>)))
             | Add_samples \<Rightarrow> if samples_disabled s then None else Some (wd_addSamples s)
             | Filter_category c \<Rightarrow> Some (set_state (\<lambda>t. t\<lparr>wd_category := c\<rparr>))
             | Filter_search v \<Rightarrow> Some (set_state (\<lambda>t. t\<lparr>wd_search := v\<rparr>))
             | Filter_availability a \<Rightarrow> Some (set_state (\<lambda>t. t\<lparr>wd_availability := a\<rparr>))
             | Edit_item item \<Rightarrow>
                 if item \<in> set (listed_items lower s) \<and> wd_pending s = None
                 then Some (wd_selectEdit item) else None
             | Inspect_delete item \<Rightarrow>
                 if item \<in> set (listed_items lower s) \<and> wd_pending s = None
                 then Some (wd_inspectDelete item s) else None
             | _ \<Rightarrow>
                 if \<not> wd_editor_open s \<or> wd_pending s \<noteq> None then None
                 else
                   (case ev of
                      Save_item \<Rightarrow> Some (wd_save s)
                    | Cancel_item \<Rightarrow> if wd_editing s = None then None else Some wd_cancelEdit
                    | Reload_item \<Rightarrow> if wd_editing s = None then None else Some (wd_reloadEditing s)
                    | Choose_file file \<Rightarrow>
                        if pe_busy (wd_photo s) then None else Some (photo_choose file)
                    | Process_photo mode \<Rightarrow>
                        if \<not> hasSource (wd_form s) \<or> pe_busy (wd_photo s)
                           \<or> (mode = Crop_mode \<and> pe_crop (wd_photo s) = emptyCrop)
                        then None else Some (photo_process mode s)
                    | Set_crop side v \<Rightarrow>
                        if \<not> hasSource (wd_form s) \<or> pe_busy (wd_photo s) then None
                        else Some (set_state (\<lambda>t. t\<lparr>wd_photo :=
                          (wd_photo t)\<lparr>pe_crop := set_crop side v (pe_crop (wd_photo t))\<rparr>\<rparr>))
                    | _ \<Rightarrow>
                        map_option (\<lambda>form. wd_set_form (\<lambda>_. form)) (item_form_event (wd_form s) ev))))"

subsection \<open>The contract of the page\<close>

definition item_body_ok :: "'z item_fields_scheme \<Rightarrow> bool" where
  "item_body_ok b \<longleftrightarrow>
     if_name b \<noteq> [] \<and> trim (if_name b) = if_name b \<and> char_count (if_name b) \<le> 80
     \<and> \<not> has_control (if_name b)"

definition wardrobe_policy :: "effect \<Rightarrow> bool" where
  "wardrobe_policy x =
     (case x of
        Issued (Call c) \<Rightarrow>
          (case c of
             CreateWardrobeItem b \<Rightarrow> item_body_ok b \<and> ci_source b = From_wardrobe
           | UpdateWardrobeItem _ b \<Rightarrow> item_body_ok b
           | GetWardrobeItem _ \<Rightarrow> True
           | GetWardrobeDeletionImpact _ \<Rightarrow> True
           | DeleteWardrobeItem _ _ _ _ \<Rightarrow> True
           | _ \<Rightarrow> False)
      | Replace_route r \<Rightarrow> r = To_login
      | Revoke_url u \<Rightarrow> is_blob u
      | _ \<Rightarrow> True)"

definition wardrobe_exclusive :: "wardrobe_event \<Rightarrow> bool" where
  "wardrobe_exclusive ev \<longleftrightarrow>
     (case ev of Save_item \<Rightarrow> True | Reload_item \<Rightarrow> True | Inspect_delete _ \<Rightarrow> True
      | Confirm_deletion \<Rightarrow> True | Add_samples \<Rightarrow> True | Process_photo _ \<Rightarrow> True | _ \<Rightarrow> False)"

text \<open>A chosen or processed photo never lacks its original.\<close>

definition wardrobe_inv :: "wardrobe_state \<Rightarrow> bool" where
  "wardrobe_inv s \<longleftrightarrow>
     (fm_photo_file (wd_form s) \<noteq> None \<longrightarrow> fm_photo_original_file (wd_form s) \<noteq> None)"

definition wardrobe_stable :: "wardrobe_state \<Rightarrow> wardrobe_state \<Rightarrow> bool" where
  "wardrobe_stable u t \<longleftrightarrow>
     wd_editing t = wd_editing u \<and> wd_create_id t = wd_create_id u \<and> wd_form t = wd_form u"

definition wardrobe_busy :: "wardrobe_state \<Rightarrow> bool" where
  "wardrobe_busy s \<longleftrightarrow> wd_pending s \<noteq> None"

abbreviation wardrobe_own :: "wardrobe_state contract" where
  "wardrobe_own \<equiv>
     own_contract wardrobe_policy wardrobe_inv wardrobe_busy (\<lambda>_ _. True) wardrobe_stable"

abbreviation wardrobe_done :: "'a \<Rightarrow> wardrobe_state \<Rightarrow> wardrobe_state \<Rightarrow> bool" where
  "wardrobe_done \<equiv> (\<lambda>_ _ t. wardrobe_inv t \<and> \<not> wardrobe_busy t)"

lemma revoke_replaced_wp [simp]:
  "(\<And>x. is_blob x \<Longrightarrow> admits C (Revoke_url x)) \<Longrightarrow>
     wp C (revoke_replaced a b p) Q E u s = wp C p Q E u s"
  by (auto simp: revoke_replaced_def split: option.split)

lemma policy_revoke [simp]: "wardrobe_policy (Revoke_url u) = is_blob u"
  by (simp add: wardrobe_policy_def)

lemma wd_set_form_own [simp]:
  "wp wardrobe_own (wd_set_form f) Q E u s = Q () u (s\<lparr>wd_form := f (wd_form s)\<rparr>)"
  by (simp add: wd_set_form_def Let_def)

lemma wd_set_form_shared [simp]:
  "wp (shared_contract wardrobe_policy wardrobe_inv b R S e) (wd_set_form f) Q E u s
     = Q () u (s\<lparr>wd_form := f (wd_form s)\<rparr>)"
  by (simp add: wd_set_form_def Let_def)

lemma set_editing_sel [simp]:
  "wd_form (set_editing ed t) = wd_form t" "wd_pending (set_editing ed t) = wd_pending t"
  "wd_editing (set_editing ed t) = ed" "wd_create_id (set_editing ed t) = wd_create_id t"
  "wd_form (remount t) = wd_form t" "wd_pending (remount t) = wd_pending t"
  "wd_editing (remount t) = wd_editing t" "wd_create_id (remount t) = wd_create_id t"
  "wd_form (in_editor n f t) = wd_form t" "wd_pending (in_editor n f t) = wd_pending t"
  "wd_editing (in_editor n f t) = wd_editing t" "wd_create_id (in_editor n f t) = wd_create_id t"
  by (simp_all add: set_editing_def remount_def in_editor_def Let_def)

lemma unmount_form_sel [simp]:
  "wd_form (unmount_form t) = wd_form t" "wd_pending (unmount_form t) = wd_pending t"
  "wd_editing (unmount_form t) = wd_editing t" "wd_create_id (unmount_form t) = wd_create_id t"
  by (simp_all add: unmount_form_def)

lemma item_body_simps [simp]:
  "item_body_ok (create_item_body i b) = item_body_ok b"
  "item_body_ok (update_item_body b r) = item_body_ok b"
  "ci_id (create_item_body i b) = i" "ci_source (create_item_body i b) = From_wardrobe"
  "ui_expected_revision (update_item_body b r) = r"
  "if_name (create_item_body i b) = if_name b" "if_name (update_item_body b r) = if_name b"
  "if_photo_media_id (create_item_body i b) = if_photo_media_id b"
  "if_photo_media_id (update_item_body b r) = if_photo_media_id b"
  by (simp_all add: create_item_body_def update_item_body_def record_spread item_body_ok_def)

lemma form_body_ok: "wardrobeNameError (fm_name form) = None \<Longrightarrow> item_body_ok (item_body form p q)"
  by (simp add: wardrobeNameError_def item_body_ok_def item_body_def Let_def split: if_splits)

lemma inv_forms [simp]:
  "fm_photo_file emptyWardrobeForm = None" "fm_photo_file (wardrobeFormFromItem item) = None"
  by (simp_all add: form_defs)

lemma showActionError_wp [simp]:
  "wp wardrobe_own (showActionError cause) Q E u s \<longleftrightarrow>
     Q () u (if accountStatus cause = Some 401 then s
             else s\<lparr>wd_error := Some (wardrobeErrorMessage cause)\<rparr>)"
  by (simp add: showActionError_def leave_wardrobe_def hook_defs wardrobe_policy_def)

lemma wd_reload_wp:
  "\<not> wardrobe_busy s \<Longrightarrow> wardrobe_inv s \<Longrightarrow>
     wp wardrobe_own (wd_reloadEditing s) wardrobe_done wardrobe_done s s"
  by (auto simp: wd_reloadEditing_def wd_not_pending_def hook_defs wardrobe_busy_def wardrobe_inv_def
      wardrobe_policy_def split: option.split)

lemma wd_inspect_wp:
  "\<not> wardrobe_busy s \<Longrightarrow> wardrobe_inv s \<Longrightarrow>
     wp wardrobe_own (wd_inspectDelete item s) wardrobe_done wardrobe_done s s"
  by (auto simp: wd_inspectDelete_def hook_defs wardrobe_busy_def wardrobe_inv_def wardrobe_policy_def)

lemma wd_remove_wp:
  "\<not> wardrobe_busy s \<Longrightarrow> wardrobe_inv s \<Longrightarrow>
     wp wardrobe_own (wd_remove s) wardrobe_done wardrobe_done s s"
  by (auto simp: wd_remove_def wd_cancelEdit_def hook_defs wardrobe_busy_def wardrobe_inv_def
      wardrobe_policy_def split: option.split)

lemma upload_photos_wp:
  assumes Q: "\<And>a u t. wardrobe_inv t \<Longrightarrow> wardrobe_busy t \<Longrightarrow> Q a u t"
    and E: "\<And>x u t. wardrobe_inv t \<Longrightarrow> wardrobe_busy t \<Longrightarrow> E x u t"
    and s: "wardrobe_inv s" "wardrobe_busy s" and form: "fm_photo_file form \<noteq> None \<longrightarrow> fm_photo_original_file form \<noteq> None"
  shows "wp wardrobe_own (upload_photos form) Q E u s"
proof -
  have set_ids: "Q (Some p, Some q) u (t\<lparr>wd_form := form\<lparr>fm_photo_media_id := Some p,
        fm_original_photo_media_id := Some q\<rparr>\<rparr>)"
    if "wardrobe_busy t" for p q u t
    using that form by (auto intro!: Q simp: wardrobe_inv_def wardrobe_busy_def)
  have upload: "wp wardrobe_own (upload_photo f) Q' E u t"
    if "\<And>i t. wardrobe_inv t \<Longrightarrow> wardrobe_busy t \<Longrightarrow> Q' i t t" "wardrobe_inv t" "wardrobe_busy t"
    for f Q' u t
    using that E by (auto simp: upload_photo_def wardrobe_policy_def)
  show ?thesis
    using s Q by (auto simp: upload_photos_def Let_def set_ids intro!: upload split: option.split)
qed

lemma store_item_wp:
  assumes "\<And>u t. wardrobe_inv t \<Longrightarrow> Q () u t" and "\<And>x u t. wardrobe_inv t \<Longrightarrow> E x u t"
    and "item_body_ok body" and "wardrobe_inv s" and "wardrobe_busy s"
  shows "wp wardrobe_own (store_item edited body) Q E u s"
  using assms
  by (auto simp: store_item_def hook_defs Let_def wardrobe_policy_def wardrobe_inv_def wardrobe_busy_def
      split: option.split)

lemma wd_save_wp:
  assumes "\<not> wardrobe_busy s" and "wardrobe_inv s"
  shows "wp wardrobe_own (wd_save s) wardrobe_done wardrobe_done s s"
  using assms form_body_ok [of "wd_form s"]
  by (auto simp: wd_save_def wd_not_pending_def Let_def wardrobe_busy_def wardrobe_inv_def
      intro!: upload_photos_wp store_item_wp)

lemma plain_name_ok:
  assumes "name \<noteq> []" and "length name \<le> 80"
    and "list_all (\<lambda>u. \<not> is_space u \<and> \<not> is_high u \<and> \<not> is_control (unat u)) name"
  shows "trim name = name \<and> char_count name \<le> 80 \<and> \<not> has_control name"
proof -
  have "trim name = name"
    using assms by (intro trim_id) (auto simp: list_all_iff)
  moreover have "char_count name = length name"
    using assms(3) by (intro char_count_no_high) (simp add: list_all_iff)
  ultimately show ?thesis
    using assms by (auto simp: has_control_units list_all_iff)
qed

lemma samples_ok: "list_all (\<lambda>sample. item_body_ok (sample_body sample)) garmentSamples"
proof -
  have "list_all (\<lambda>sample. gs_name sample @ sample_suffix \<noteq> [] \<and> length (gs_name sample @ sample_suffix) \<le> 80
      \<and> list_all (\<lambda>u. \<not> is_space u \<and> \<not> is_high u \<and> \<not> is_control (unat u)) (gs_name sample @ sample_suffix))
    garmentSamples"
    by (simp add: garmentSamples_def sample_suffix_def is_space_def is_high_def is_control_def)
  then show ?thesis
    using plain_name_ok
    by (auto simp: list_all_iff sample_body_def item_body_ok_def)
qed

lemma create_samples_wp:
  assumes "\<And>u t. wardrobe_inv t \<Longrightarrow> wardrobe_busy t \<Longrightarrow> Q () u t"
    and "\<And>x u t. wardrobe_inv t \<Longrightarrow> wardrobe_busy t \<Longrightarrow> E x u t"
    and "wardrobe_inv s" and "wardrobe_busy s"
    and "list_all (\<lambda>sample. item_body_ok (sample_body sample)) samples"
  shows "wp wardrobe_own (create_samples items samples) Q E u s"
  using assms(3-)
proof (induction samples arbitrary: u s)
  case (Cons sample samples)
  then show ?case
    using assms(1,2) by (auto simp: hook_defs wardrobe_policy_def sample_body_def)
qed (use assms(1) in simp)

lemma wd_samples_wp:
  assumes "\<not> wardrobe_busy s" and "wardrobe_inv s"
  shows "wp wardrobe_own (wd_addSamples s) wardrobe_done wardrobe_done s s"
  using assms samples_ok
  by (auto simp: wd_addSamples_def wd_not_pending_def wardrobe_busy_def wardrobe_inv_def
      wardrobe_policy_def intro!: create_samples_wp)

lemma wd_process_wp:
  assumes "\<not> wardrobe_busy s" and "wardrobe_inv s"
  shows "wp wardrobe_own (photo_process mode s) wardrobe_done wardrobe_done s s"
  using assms
  by (auto simp: photo_process_def processed_def read_photo_def wd_not_pending_def wardrobe_busy_def
      wardrobe_inv_def wardrobe_policy_def Let_def split: option.split photo_mode.split)

interpretation wardrobe: exclusive_view "wardrobe_dispatch lower" wardrobe_init wardrobe_busy
  wardrobe_exclusive "\<lambda>s. \<not> wardrobe_busy s" wardrobe_inv "\<lambda>_ _. True" wardrobe_stable
  wardrobe_policy for lower
proof
  fix s ev p
  assume D: "wardrobe_dispatch lower s ev = Some p"
  show "runs_own wardrobe_policy wardrobe_inv wardrobe_busy (\<lambda>_ _. True) wardrobe_stable
      (\<lambda>s. \<not> wardrobe_busy s) s p"
    if ev: "wardrobe_exclusive ev" and I: "wardrobe_inv s" and idle: "\<not> wardrobe_busy s"
  proof -
    consider "p = wd_save s" | "p = wd_reloadEditing s" | item where "p = wd_inspectDelete item s"
      | "p = wd_remove s" | "p = wd_addSamples s" | mode where "p = photo_process mode s"
      using D ev
      by (auto simp: wardrobe_dispatch_def wardrobe_exclusive_def split: wardrobe_event.splits if_splits)
    then show ?thesis
      unfolding contract_defs
      using wd_save_wp [OF idle I] wd_reload_wp [OF idle I] wd_inspect_wp [OF idle I]
        wd_remove_wp [OF idle I] wd_samples_wp [OF idle I] wd_process_wp [OF idle I]
      by cases simp_all
  qed
  show "p = Return ()" if "wardrobe_exclusive ev" "wardrobe_busy s"
    using D that
    by (auto simp: wardrobe_dispatch_def wardrobe_exclusive_def wardrobe_busy_def samples_disabled_def
        wd_remove_def split: wardrobe_event.splits if_splits option.splits)
  show "runs_shared wardrobe_policy wardrobe_inv wardrobe_busy (\<lambda>_ _. True) wardrobe_stable
      (\<lambda>s. \<not> wardrobe_busy s) s p"
    if "\<not> wardrobe_exclusive ev" "wardrobe_inv s"
    using D that
    by (auto simp: wardrobe_dispatch_def wardrobe_exclusive_def wardrobe_policy_def contract_defs
        wardrobe_stable_def wardrobe_busy_def wardrobe_inv_def item_form_event_def
        wardrobe_session_effect_def leave_wardrobe_def wd_cancelEdit_def wd_selectEdit_def
        photo_choose_def hook_defs
        split: wardrobe_event.splits if_splits option.splits wardrobe_page_kind.splits)
qed (auto simp: wardrobe_init_def wardrobe_stable_def wardrobe_busy_def wardrobe_inv_def form_defs)

end
