(* ===== verification/Wardrobe_Properties.thy ===== *)
theory Wardrobe_Properties
  imports Handler_End Wardrobe_View Demo_Data
begin

text \<open>
  What the wardrobe page guarantees: what a save uploads and stores, what a deletion sends, the
  consequences of the page's contract for every reachable configuration, and a defect of the
  sample garments.
\<close>

subsection \<open>The last step of a save\<close>

definition new_item_id :: "env \<Rightarrow> wardrobe_state \<Rightarrow> jstring" where
  "new_item_id e s = (case wd_create_id s of Some i \<Rightarrow> i | None \<Rightarrow> env_uuid e)"

definition store_call :: "env \<Rightarrow> wardrobe_state \<Rightarrow> item_fields \<Rightarrow> api_call" where
  "store_call e s body =
     (case wd_editing s of
        Some item \<Rightarrow> UpdateWardrobeItem (wi_id item) (update_item_body body (wi_revision item))
      | None \<Rightarrow> CreateWardrobeItem (create_item_body (new_item_id e s) body))"

text \<open>What a save asks for first: an upload that is still needed, or the stored item.\<close>

definition first_request :: "env \<Rightarrow> wardrobe_state \<Rightarrow> request" where
  "first_request e s =
     (let form = wd_form s in
      case fm_photo_file form of
        None \<Rightarrow> Call (store_call e s (item_body form (fm_photo_media_id form) (fm_original_photo_media_id form)))
      | Some file \<Rightarrow>
          let original = (case fm_photo_original_file form of Some f \<Rightarrow> f | None \<Rightarrow> file) in
          (case fm_original_photo_media_id form of
             None \<Rightarrow> Upload_photo original
           | Some i \<Rightarrow>
               if file_key file = file_key original
               then Call (store_call e s (item_body form (Some i) (Some i)))
               else Upload_photo file))"

text \<open>
  A save that passes the check waits for that request; if it fails, the error is shown. Writing
  the identifiers into the form shows no other preview, so nothing is revoked before.
\<close>

lemma run_wd_save:
  assumes "wd_pending s = None" and "wardrobeNameError (fm_name (wd_form s)) = None"
  shows "\<exists>s' k. run e (wd_save s) s = (s', [Issued (first_request e s)], Await (first_request e s) k)
    \<and> wd_pending s' = Some W_save \<and> wd_editing s' = wd_editing s
    \<and> (\<forall>cause. k (Inl cause) = finally_do (showActionError cause) wd_not_pending)"
proof (cases "fm_photo_file (wd_form s)")
  case None
  then show ?thesis
    using assms
    by (cases "wd_editing s")
       (simp_all add: wd_save_def upload_photos_def store_item_def first_request_def store_call_def
         new_item_id_def prog_simps Let_def)
next
  case (Some photo)
  define original where
    "original = (case fm_photo_original_file (wd_form s) of Some f \<Rightarrow> f | None \<Rightarrow> photo)"
  show ?thesis
  proof (cases "fm_original_photo_media_id (wd_form s)")
    case None
    then show ?thesis
      using assms Some
      by (simp add: wd_save_def upload_photos_def first_request_def original_def [symmetric] upload_photo_def
          prog_simps Let_def)
  next
    case (Some i)
    then show ?thesis
      using assms \<open>fm_photo_file (wd_form s) = Some photo\<close>
      by (cases "file_key photo = file_key original"; cases "wd_editing s")
         (simp_all add: wd_save_def upload_photos_def store_item_def first_request_def store_call_def
           original_def [symmetric] upload_photo_def new_item_id_def wd_set_form_def revoke_replaced_def
           prog_simps Let_def split: option.split)
  qed
qed

lemma run_wd_save_invalid:
  "wd_pending s = None \<Longrightarrow> wardrobeNameError (fm_name (wd_form s)) = Some x \<Longrightarrow>
     run e (wd_save s) s = (s\<lparr>wd_name_error := Some x\<rparr>, [], Return ())"
  by (simp add: wd_save_def)

subsection \<open>The sample garments\<close>

text \<open>The samples are created one after the other, from the first one that is not loaded.\<close>

lemma create_samples_first:
  "create_samples items samples =
     (case dropWhile (sample_present items) samples of
        [] \<Rightarrow> Return ()
      | sample # rest \<Rightarrow> bind (wardrobe_create (sample_body sample)) (\<lambda>_. create_samples items rest))"
  by (induction samples) simp_all

lemma samples_dispatched:
  assumes "wardrobe_dispatch lower s Add_samples = Some p"
  shows "p = wd_addSamples s \<and> wd_pending s = None \<and> \<not> isPending (wd_wardrobe s) \<and> \<not> hasNextPage (wd_wardrobe s)
    \<and> wardrobe_page_of s = W_content
    \<and> (\<exists>sample rest. dropWhile (sample_present (wd_items s)) garmentSamples = sample # rest)"
proof -
  have "\<not> samples_disabled s" "p = wd_addSamples s" "wardrobe_page_of s = W_content"
    using assms by (auto simp: wardrobe_dispatch_def split: if_splits)
  moreover from this have "dropWhile (sample_present (wd_items s)) garmentSamples \<noteq> []"
    by (simp add: samples_disabled_def dropWhile_eq_Nil_conv list_all_iff)
  ultimately show ?thesis
    by (cases "dropWhile (sample_present (wd_items s)) garmentSamples")
       (simp_all add: samples_disabled_def del: dropWhile_eq_Nil_conv)
qed

lemma run_samples:
  assumes "wd_pending s = None" and "\<not> isPending (wd_wardrobe s)" and "\<not> hasNextPage (wd_wardrobe s)"
    and "dropWhile (sample_present (wd_items s)) garmentSamples = sample # rest"
  shows "\<exists>k. run e (wd_addSamples s) s = (s\<lparr>wd_pending := Some W_save, wd_error := None\<rparr>,
      [Issued (Call (CreateWardrobeItem (sample_body sample)))],
      Await (Call (CreateWardrobeItem (sample_body sample))) k)
    \<and> (\<forall>cause. k (Inl cause) = finally_do (showActionError cause) wd_not_pending)"
  using assms
  by (simp add: wd_addSamples_def create_samples_first [of _ garmentSamples] prog_simps wardrobe_create_def)

subsection \<open>An example run\<close>

definition demo_item_form :: wardrobe_form where
  "demo_item_form = emptyWardrobeForm\<lparr>fm_name := js ''Coat''\<rparr>"

definition demo_wardrobe :: wardrobe_state where
  "demo_wardrobe = remount (wardrobe_init\<lparr>wd_user := loaded demo_user,
     wd_wardrobe := loaded_list [demo_item, demo_trousers],
     wd_stats := loaded \<lparr>ws_from = [], ws_to = [], ws_item_uses = [], ws_wear_days = 0, ws_wear_events = 0\<rparr>,
     wd_editor_open := True, wd_form := demo_item_form\<rparr>)"

abbreviation demo_page :: "wardrobe_state \<Rightarrow> wardrobe_event \<Rightarrow> (wardrobe_state, unit) prog option" where
  "demo_page \<equiv> wardrobe_dispatch (\<lambda>v. v)"

lemma demo_wardrobe_sel [simp]:
  "wd_pending demo_wardrobe = None" "wd_editing demo_wardrobe = None" "wd_create_id demo_wardrobe = None"
  "wd_form demo_wardrobe = demo_item_form" "wd_items demo_wardrobe = [demo_item, demo_trousers]"
  "wardrobe_page_of demo_wardrobe = W_content" "wd_editor_open demo_wardrobe"
  "wd_wardrobe demo_wardrobe = loaded_list [demo_item, demo_trousers]"
  by (simp_all add: demo_wardrobe_def remount_def wardrobe_init_def wd_items_def wardrobe_page_of_def)

lemma demo_wardrobe_reached: "reach demo_page wardrobe_init (demo_wardrobe, [], [])"
proof -
  let ?st = "loaded \<lparr>ws_from = [], ws_to = [], ws_item_uses = [], ws_wear_days = 0, ws_wear_events = 0\<rparr>"
  let ?s1 = "wardrobe_init\<lparr>wd_user := loaded demo_user, wd_wardrobe := loaded_list [demo_item, demo_trousers],
     wd_stats := ?st\<rparr>"
  let ?s2 = "remount (?s1\<lparr>wd_editor_open := True\<rparr>)"
  have "reach demo_page wardrobe_init (?s1, [], [] @ [])"
    by (rule reach_sync [OF reach.start, of _ _ "W_queries_changed (loaded demo_user)
          (loaded_list [demo_item, demo_trousers]) ?st" _ demo_env])
       (simp add: wardrobe_dispatch_def wardrobe_session_effect_def wardrobe_init_def unmount_form_def
         wardrobe_page_of_def)+
  then have "reach demo_page wardrobe_init (?s2, [], ([] @ []) @ [])"
    by (rule reach_sync [of _ _ _ _ _ Toggle_editor _ demo_env])
       (simp add: wardrobe_dispatch_def wardrobe_init_def wardrobe_page_of_def)+
  then have "reach demo_page wardrobe_init (demo_wardrobe, [], (([] @ []) @ []) @ [])"
    by (rule reach_sync [of _ _ _ _ _ "Set_name (js ''Coat'')" _ demo_env])
       (simp add: wardrobe_dispatch_def wardrobe_init_def wardrobe_page_of_def item_form_event_def
         wd_set_form_def revoke_replaced_def emptyWardrobeForm_def demo_wardrobe_def demo_item_form_def
         remount_def Let_def)+
  then show ?thesis by simp
qed

lemma demo_name: "wardrobeNameError (fm_name demo_item_form) = None" "trim (js ''Coat'') = js ''Coat''"
proof -
  show trim: "trim (js ''Coat'') = js ''Coat''" by (rule trim_id) (simp add: is_space_def)
  have "has_control (js ''Coat'') = False"
    by (simp add: has_control_units is_control_def)
  then show "wardrobeNameError (fm_name demo_item_form) = None"
    using trim char_count_le_length [of "js ''Coat''"]
    by (simp add: wardrobeNameError_def demo_item_form_def emptyWardrobeForm_def)
qed

lemma demo_store:
  "first_request demo_env demo_wardrobe
     = Call (CreateWardrobeItem (create_item_body (js ''n1'') (item_body demo_item_form None None)))"
  by (simp add: first_request_def store_call_def new_item_id_def demo_item_form_def emptyWardrobeForm_def Let_def)
     (simp add: demo_env_def)

lemma demo_wardrobe_saving:
  "\<exists>s1 k. run demo_env (wd_save demo_wardrobe) demo_wardrobe = (s1, [Issued (first_request demo_env demo_wardrobe)],
       Await (first_request demo_env demo_wardrobe) k)
   \<and> wd_pending s1 = Some W_save
   \<and> reach demo_page wardrobe_init (s1, [(Save_item, Await (first_request demo_env demo_wardrobe) k)],
       [Issued (first_request demo_env demo_wardrobe)])"
proof -
  have "wardrobeNameError (fm_name (wd_form demo_wardrobe)) = None" by (simp add: demo_name)
  from run_wd_save [OF _ this, of demo_env] obtain s1 k where
    r: "run demo_env (wd_save demo_wardrobe) demo_wardrobe = (s1, [Issued (first_request demo_env demo_wardrobe)],
       Await (first_request demo_env demo_wardrobe) k)" and "wd_pending s1 = Some W_save"
    by auto
  moreover have "demo_page demo_wardrobe Save_item = Some (wd_save demo_wardrobe)"
    by (simp add: wardrobe_dispatch_def)
  ultimately show ?thesis using reach_start_await [OF demo_wardrobe_reached _ r] by auto
qed

subsection \<open>Properties\<close>

text \<open>
  C3. In every reachable configuration of the wardrobe page, every request that creates or
  updates an item names it with a trimmed name of 1 to 80 code points without control
  characters, and every created item is one of the wardrobe.
\<close>

theorem wardrobe_sends_checked:
  assumes "reach (wardrobe_dispatch lower) wardrobe_init (s, ts, tr)"
  shows "(Issued (Call (CreateWardrobeItem b)) \<in> set tr \<longrightarrow> item_body_ok b \<and> ci_source b = From_wardrobe)
    \<and> (Issued (Call (UpdateWardrobeItem i u)) \<in> set tr \<longrightarrow> item_body_ok u)"
  using wardrobe.reach_effects [OF assms, of "Issued (Call (CreateWardrobeItem b))"]
    wardrobe.reach_effects [OF assms, of "Issued (Call (UpdateWardrobeItem i u))"]
  by (auto simp: wardrobe_policy_def)

theorem wardrobe_sends_checked_witness:
  "\<exists>s ts tr b. reach demo_page wardrobe_init (s, ts, tr) \<and> Issued (Call (CreateWardrobeItem b)) \<in> set tr
     \<and> item_body_ok b"
proof -
  obtain s1 ts where r: "reach demo_page wardrobe_init (s1, ts, [Issued (first_request demo_env demo_wardrobe)])"
    using demo_wardrobe_saving by blast
  from wardrobe_sends_checked [OF r] r show ?thesis
    unfolding demo_store by (meson list.set_intros(1))
qed

text \<open>
  C5. Saving, reloading, inspecting and confirming a deletion, adding the samples and processing
  a photo exclude each other: one of them is in flight while the page is pending, and none
  otherwise; and a chosen or processed photo is never without its original.
\<close>

theorem wardrobe_one_operation:
  assumes "reach (wardrobe_dispatch lower) wardrobe_init (s, ts, tr)"
  shows "length (filter (\<lambda>(ev, q). wardrobe_exclusive ev) ts) = (if wd_pending s = None then 0 else 1)
    \<and> (fm_photo_file (wd_form s) \<noteq> None \<longrightarrow> fm_photo_original_file (wd_form s) \<noteq> None)"
  using wardrobe.reach_exclusive [OF assms] wardrobe.reach_invariant [OF assms]
  by (auto simp: wardrobe_inv_def wardrobe_busy_def)

theorem wardrobe_one_operation_witness:
  "\<exists>s ts tr. reach demo_page wardrobe_init (s, ts, tr) \<and> wd_pending s = Some W_save
     \<and> length (filter (\<lambda>(ev, q). wardrobe_exclusive ev) ts) = 1"
proof -
  obtain s1 ts tr where "wd_pending s1 = Some W_save" and r: "reach demo_page wardrobe_init (s1, ts, tr)"
    using demo_wardrobe_saving by blast
  with wardrobe_one_operation [OF r] show ?thesis by auto
qed

text \<open>
  A save with an invalid name sends nothing. Any other asks for one thing first: the upload
  of the original photo if that has no identifier yet, the upload of the shown photo if it is
  another one, and otherwise the item itself, updated at the revision that is edited or created
  under the identifier kept for the creation, with the trimmed name and the stored photos.
\<close>

lemma wardrobe_save_first_segment:
  assumes "wardrobe_dispatch lower s Save_item = Some p" and "run e p s = (s', out, q)"
  shows "(case wardrobeNameError (fm_name (wd_form s)) of
      Some x \<Rightarrow> out = [] \<and> q = Return () \<and> wd_name_error s' = Some x
    | None \<Rightarrow> wd_pending s' = Some W_save \<and> out = [Issued (
        case fm_photo_file (wd_form s) of
          None \<Rightarrow> Call (store_call e s (item_body (wd_form s) (fm_photo_media_id (wd_form s))
            (fm_original_photo_media_id (wd_form s))))
        | Some photo \<Rightarrow>
            let original = (case fm_photo_original_file (wd_form s) of Some f \<Rightarrow> f | None \<Rightarrow> photo) in
            (case fm_original_photo_media_id (wd_form s) of
               None \<Rightarrow> Upload_photo original
             | Some i \<Rightarrow>
                 if file_key photo = file_key original
                 then Call (store_call e s (item_body (wd_form s) (Some i) (Some i)))
                 else Upload_photo photo))])"
proof -
  have p: "p = wd_save s" "wd_pending s = None"
    using assms(1) by (auto simp: wardrobe_dispatch_def split: if_splits)
  show ?thesis
  proof (cases "wardrobeNameError (fm_name (wd_form s))")
    case None
    from run_wd_save [OF p(2) None, of e] assms(2) p(1) None show ?thesis
      unfolding first_request_def Let_def by auto
  next
    case (Some x)
    with run_wd_save_invalid [OF p(2)] assms(2) p(1) show ?thesis by auto
  qed
qed

lemma wardrobe_save_first_segment_witness:
  "\<exists>s' q. run demo_env (wd_save demo_wardrobe) demo_wardrobe = (s',
     [Issued (Call (CreateWardrobeItem (create_item_body (js ''n1'') (item_body demo_item_form None None))))], q)
   \<and> wd_pending s' = Some W_save"
proof -
  have d: "demo_page demo_wardrobe Save_item = Some (wd_save demo_wardrobe)"
    by (simp add: wardrobe_dispatch_def)
  obtain s' out q where r: "run demo_env (wd_save demo_wardrobe) demo_wardrobe = (s', out, q)"
    by (rule prod_cases3)
  have "fm_photo_file demo_item_form = None" "fm_photo_media_id demo_item_form = None"
    "fm_original_photo_media_id demo_item_form = None" "env_uuid demo_env = js ''n1''"
    by (simp_all add: demo_item_form_def emptyWardrobeForm_def) (simp add: demo_env_def)
  with wardrobe_save_first_segment [OF d r] r show ?thesis
    by (simp add: demo_name store_call_def new_item_id_def)
qed

text \<open>An inspection waits for the impact and puts it in the dialog.\<close>

lemma run_inspect:
  assumes "wd_pending s = None"
  shows "\<exists>k. run e (wd_inspectDelete item s) s
      = (s\<lparr>wd_pending := Some W_impact, wd_impact_item := Some (wi_id item), wd_error := None\<rparr>, 
       [Issued (Call (GetWardrobeDeletionImpact (wi_id item)))], Await (Call (GetWardrobeDeletionImpact (wi_id item))) k)
    \<and> (\<forall>impact. k (Inr (R_impact impact)) = Update (\<lambda>t. t\<lparr>wd_deletion := Some
        \<lparr>dd_item = item, dd_impact = impact, dd_policy = Redact_snapshots\<rparr>\<rparr>)
      (set_state (\<lambda>t. t\<lparr>wd_pending := None, wd_impact_item := None\<rparr>)))"
  using assms(1) by (simp add: wd_inspectDelete_def prog_simps)

text \<open>A deletion waits for its one call; what each answer leads to.\<close>

definition deletion_over :: "(wardrobe_state, unit) prog" where
  "deletion_over = set_state (\<lambda>t. t\<lparr>wd_deletion := None, wd_pending := None\<rparr>)"

definition deletion_failed :: "jsval \<Rightarrow> (wardrobe_state, unit) prog" where
  "deletion_failed cause = finally_do (bind (showActionError cause) (\<lambda>_. refetch Wardrobe_key)) deletion_over"

definition item_gone :: "wardrobe_state \<Rightarrow> jstring \<Rightarrow> (wardrobe_state, unit) prog" where
  "item_gone s i =
     bind (if map_option wi_id (wd_editing s) = Some i then wd_cancelEdit else Return ())
       (\<lambda>_. set_state (\<lambda>t. t\<lparr>wd_deleted := True\<rparr>))"

lemma as_void_other: "y \<noteq> R_void \<Longrightarrow> as_void y = None"
  by (cases y) simp_all

lemma run_remove:
  assumes "wd_deletion u = Some draft" and "wd_pending u = None"
  defines "c \<equiv> Call (DeleteWardrobeItem (wi_id (dd_item draft)) (wi_revision (dd_item draft))
      (di_expected_impact (dd_impact draft)) (dd_policy draft))"
  shows "\<exists>k. run e (wd_remove u) u = (u\<lparr>wd_pending := Some W_delete, wd_error := None\<rparr>, [Issued c], Await c k)
    \<and> k (Inr R_void) = Await (Invalidate_queries [Wardrobe_key, Statistics_key])
        (\<lambda>_. finally_do (catch (item_gone u (wi_id (dd_item draft)))
          (\<lambda>cause. bind (showActionError cause) (\<lambda>_. refetch Wardrobe_key))) deletion_over)
    \<and> (\<forall>x. k (Inl x) = deletion_failed x)
    \<and> (\<forall>y. y \<noteq> R_void \<longrightarrow> k (Inr y) = deletion_failed JUndefined)"
  using assms(1,2)
  by (simp add: c_def wd_remove_def prog_simps as_void_other item_gone_def deletion_failed_def deletion_over_def
      refetch_def)

lemma run_revoke_replaced:
  "\<exists>out. run e (revoke_replaced a b (revoke_replaced c d (Return ()))) t = (t, out, Return ())"
  by (auto simp: revoke_replaced_def split: option.split)

lemma run_item_gone:
  "\<exists>t out. run e (item_gone u i) s = (t, out, Return ()) \<and> wd_deleted t"
  by (auto simp: item_gone_def wd_cancelEdit_def wd_set_form_def revoke_replaced_def Let_def prog_simps
      split: option.split)

lemma deletion_failed_ends:
  "\<exists>s' out. answer rs 2 (snd (snd (run d (deletion_failed x) v))) (fst (run d (deletion_failed x) v))
       = (s', out, Return ()) \<and> wd_deletion s' = None \<and> wd_pending s' = None \<and> wd_deleted s' = wd_deleted v
     \<and> (accountStatus x = Some 401 \<longrightarrow> Replace_route To_login \<in> set (fst (snd (run d (deletion_failed x) v))))
     \<and> (accountStatus x \<noteq> Some 401 \<longrightarrow> wd_error s' = Some (wardrobeErrorMessage x))
     \<and> Issued (Refetch_query Wardrobe_key) \<in> set (fst (snd (run d (deletion_failed x) v)))"
  by (auto simp: deletion_failed_def deletion_over_def showActionError_def leave_wardrobe_def refetch_def prog_simps eval_nat_numeral)

text \<open>
  C17. A deletion sends what was inspected. The inspection asks for the impact of deleting the item and
  ends with the answer in the dialog; confirming it, after any choice of what happens to the history,
  sends exactly one request: for that item and revision, with the impact of that answer and the chosen
  treatment. Whatever happens then, and whatever other handlers did to the state in the meantime, at
  the end the dialog is closed and the page is free: after a success the item is reported as deleted;
  after a failure it is not, the list is fetched again, and the failure is shown, or the login page
  when the session is lost.
\<close>

theorem wardrobe_deletion_sends_inspected:
  assumes "wardrobe_dispatch lower s (Inspect_delete item) = Some p" and "run e p s = (s1, out1, Await c k)"
    and "run e1 (k (Inr (R_impact impact))) t = (s2, out2, q)"
    and "wd_deletion u = map_option (\<lambda>draft. draft\<lparr>dd_policy := policy\<rparr>) (wd_deletion s2)"
    and "wd_pending u = None" and "wardrobe_dispatch lower u Confirm_deletion = Some p'"
    and "run e2 p' u = (s3, out3, q3)"
  shows "out1 = [Issued (Call (GetWardrobeDeletionImpact (wi_id item)))] \<and> q = Return () \<and> wd_pending s2 = None
    \<and> out3 = [Issued (Call (DeleteWardrobeItem (wi_id item) (wi_revision item) (di_expected_impact impact) policy))]
    \<and> (\<forall>rs v. \<exists>s' out. answer rs 3 q3 v = (s', out, Return ()) \<and> wd_deletion s' = None \<and> wd_pending s' = None
        \<and> (snd (rs 2) = Inr R_void \<longrightarrow> wd_deleted s')
        \<and> (\<forall>cause. snd (rs 2) = Inl cause \<longrightarrow>
             wd_deleted s' = wd_deleted v \<and> Issued (Refetch_query Wardrobe_key) \<in> set out
             \<and> (if accountStatus cause = Some 401 then Replace_route To_login \<in> set out
                else wd_error s' = Some (wardrobeErrorMessage cause))))"
proof -
  have p: "p = wd_inspectDelete item s" "wd_pending s = None" "p' = wd_remove u"
    using assms(1,6) by (auto simp: wardrobe_dispatch_def split: if_splits)
  have out1: "out1 = [Issued (Call (GetWardrobeDeletionImpact (wi_id item)))]"
    and k: "k (Inr (R_impact impact)) = Update (\<lambda>t. t\<lparr>wd_deletion := Some
        \<lparr>dd_item = item, dd_impact = impact, dd_policy = Redact_snapshots\<rparr>\<rparr>)
      (set_state (\<lambda>t. t\<lparr>wd_pending := None, wd_impact_item := None\<rparr>))"
    using run_inspect [OF p(2), of e item] assms(2) by (auto simp: p(1))
  then have s2: "q = Return ()" "wd_pending s2 = None"
    "wd_deletion s2 = Some \<lparr>dd_item = item, dd_impact = impact, dd_policy = Redact_snapshots\<rparr>"
    using assms(3) by auto
  let ?draft = "\<lparr>dd_item = item, dd_impact = impact, dd_policy = policy\<rparr>"
  have u: "wd_deletion u = Some ?draft" using assms(4) by (simp add: s2(3))
  have rem: "run e2 (wd_remove u) u = (s3, out3, q3)" using assms(7) by (simp only: p(3))
  from run_remove [OF u assms(5), of e2] rem obtain c3 k3 where q3: "q3 = Await c3 k3"
    and out3: "out3 = [Issued (Call (DeleteWardrobeItem (wi_id item) (wi_revision item) (di_expected_impact impact) policy))]"
    and ok: "k3 (Inr R_void) = Await (Invalidate_queries [Wardrobe_key, Statistics_key])
        (\<lambda>_. finally_do (catch (item_gone u (wi_id item))
          (\<lambda>cause. bind (showActionError cause) (\<lambda>_. refetch Wardrobe_key))) deletion_over)"
    and failed: "\<And>x. k3 (Inl x) = deletion_failed x" and odd: "\<And>y. y \<noteq> R_void \<Longrightarrow> k3 (Inr y) = deletion_failed JUndefined"
    by auto
  have "\<exists>s' out. answer rs 3 q3 v = (s', out, Return ()) \<and> wd_deletion s' = None \<and> wd_pending s' = None
        \<and> (snd (rs 2) = Inr R_void \<longrightarrow> wd_deleted s')
        \<and> (\<forall>cause. snd (rs 2) = Inl cause \<longrightarrow>
             wd_deleted s' = wd_deleted v \<and> Issued (Refetch_query Wardrobe_key) \<in> set out
             \<and> (if accountStatus cause = Some 401 then Replace_route To_login \<in> set out
                else wd_error s' = Some (wardrobeErrorMessage cause)))" for rs v
  proof -
    have step: "answer rs 3 q3 v = (case run (fst (rs 2)) (k3 (snd (rs 2))) v of (s', out, q') \<Rightarrow>
        case answer rs 2 q' s' of (s'', out', q'') \<Rightarrow> (s'', out @ out', q''))"
      by (simp add: q3 eval_nat_numeral)
    consider (removed) "snd (rs 2) = Inr R_void" | (other) y where "snd (rs 2) = Inr y" "y \<noteq> R_void"
      | (refused) x where "snd (rs 2) = Inl x" by (cases "snd (rs 2)") auto
    then show ?thesis
    proof cases
      case removed
      obtain t o1 where g: "run (fst (rs 1)) (item_gone u (wi_id item)) v = (t, o1, Return ())" "wd_deleted t"
        using run_item_gone by blast
      from run_finally_return [OF run_catch_return [OF g(1)], where f = deletion_over]
      have "answer rs 3 q3 v = (t\<lparr>wd_deletion := None, wd_pending := None\<rparr>,
          Issued (Invalidate_queries [Wardrobe_key, Statistics_key]) # o1, Return ())"
        unfolding step removed ok by (simp add: deletion_over_def numeral_2_eq_2)
      then show ?thesis using removed g(2) by simp
    next
      case other
      show ?thesis using deletion_failed_ends [of rs "fst (rs 2)" JUndefined v]
        by (simp add: step other odd case_prod_unfold) fastforce
    next
      case refused
      show ?thesis using deletion_failed_ends [of rs "fst (rs 2)" x v]
        by (simp add: step refused failed case_prod_unfold) fastforce
    qed
  qed
  with out1 s2 out3 show ?thesis by blast
qed

definition demo_impact :: deletion_impact where
  "demo_impact = \<lparr>di_affected_plan_count = 1, di_affected_wear_event_count = 0, di_expected_impact = js ''x''\<rparr>"

theorem wardrobe_deletion_sends_inspected_witness:
  "\<exists>s1 c k u s3 q3. run demo_env (wd_inspectDelete demo_item demo_wardrobe) demo_wardrobe = (s1, [Issued c], Await c k)
     \<and> run demo_env (wd_remove u) u
       = (s3, [Issued (Call (DeleteWardrobeItem (js ''i1'') 3 (js ''x'') Delete_affected_history))], q3)
     \<and> (\<exists>s' out. answer (\<lambda>_. (demo_env, Inl network_error)) 3 q3 s3 = (s', out, Return ())
          \<and> wd_deletion s' = None \<and> wd_pending s' = None \<and> wd_error s' = Some (wardrobeErrorMessage network_error))"
proof -
  let ?c = "Call (GetWardrobeDeletionImpact (wi_id demo_item))"
  from run_inspect [of demo_wardrobe demo_env demo_item] obtain s1 k where
    r1: "run demo_env (wd_inspectDelete demo_item demo_wardrobe) demo_wardrobe = (s1, [Issued ?c], Await ?c k)"
    and k: "k (Inr (R_impact demo_impact)) = Update (\<lambda>t. t\<lparr>wd_deletion := Some
        \<lparr>dd_item = demo_item, dd_impact = demo_impact, dd_policy = Redact_snapshots\<rparr>\<rparr>)
      (set_state (\<lambda>t. t\<lparr>wd_pending := None, wd_impact_item := None\<rparr>))" by auto
  obtain s2 where r2: "run demo_env (k (Inr (R_impact demo_impact))) s1 = (s2, [], Return ())"
    and s2: "wd_deletion s2 = Some \<lparr>dd_item = demo_item, dd_impact = demo_impact, dd_policy = Redact_snapshots\<rparr>"
    by (simp add: k)
  define u where "u = s2\<lparr>wd_pending := None,
      wd_deletion := map_option (\<lambda>draft. draft\<lparr>dd_policy := Delete_affected_history\<rparr>) (wd_deletion s2)\<rparr>"
  obtain s3 out3 q3 where r3: "run demo_env (wd_remove u) u = (s3, out3, q3)" by (rule prod_cases3)
  have d1: "wardrobe_dispatch id demo_wardrobe (Inspect_delete demo_item) = Some (wd_inspectDelete demo_item demo_wardrobe)"
    by (simp add: wardrobe_dispatch_def listed_items_def wd_filtered_def)
       (simp add: demo_wardrobe_def wardrobe_init_def remount_def trim_def)
  have u: "wd_deletion u = map_option (\<lambda>draft. draft\<lparr>dd_policy := Delete_affected_history\<rparr>) (wd_deletion s2)"
    "wd_pending u = None" by (simp_all add: u_def)
  have d2: "wardrobe_dispatch id u Confirm_deletion = Some (wd_remove u)"
    by (simp add: wardrobe_dispatch_def u(1) s2)
  note sent = wardrobe_deletion_sends_inspected [OF d1 r1 r2 u d2 r3]
  then have "out3 = [Issued (Call (DeleteWardrobeItem (js ''i1'') 3 (js ''x'') Delete_affected_history))]"
    by (simp add: demo_item_def demo_impact_def)
  moreover from sent have "\<exists>s' out. answer (\<lambda>_. (demo_env, Inl network_error)) 3 q3 s3 = (s', out, Return ())
      \<and> wd_deletion s' = None \<and> wd_pending s' = None \<and> wd_error s' = Some (wardrobeErrorMessage network_error)"
    by fastforce
  ultimately show ?thesis using r1 r3 by blast
qed

text \<open>
  C40. Adding the samples stops at the first failure: no later sample is asked for, and while the
  list is the same the next attempt begins with the same sample. The identifiers of the samples
  are fixed and the server keeps those of deleted items as used, so once an item made from a
  sample has been deleted, neither it nor any later sample can be added.
\<close>

theorem wardrobe_samples_stop_at_failure:
  assumes "wardrobe_dispatch lower s Add_samples = Some p" and "run e p s = (s1, out, Await c k)"
    and "accountStatus cause \<noteq> Some 401" and "run e' (k (Inl cause)) t = (t', out', q)"
  shows "\<exists>sample\<in>set garmentSamples. \<not> sample_present (wd_items s) sample
    \<and> out = [Issued (Call (CreateWardrobeItem (sample_body sample)))]
    \<and> q = Return () \<and> out' = [] \<and> wd_pending t' = None
    \<and> wd_error t' = Some (wardrobeErrorMessage cause)
    \<and> (wd_wardrobe t' = wd_wardrobe s \<and> wardrobe_page_of t' = W_content \<longrightarrow>
        (\<exists>p2. wardrobe_dispatch lower t' Add_samples = Some p2 \<and> fst (snd (run e' p2 t')) = out))"
proof -
  from samples_dispatched [OF assms(1)] obtain sample rest where
    p: "p = wd_addSamples s" "wd_pending s = None" "\<not> isPending (wd_wardrobe s)" "\<not> hasNextPage (wd_wardrobe s)"
    and d: "dropWhile (sample_present (wd_items s)) garmentSamples = sample # rest"
    by auto
  have "sample \<in> set garmentSamples" "\<not> sample_present (wd_items s) sample"
    using d unfolding dropWhile_eq_Cons_conv by (metis in_set_conv_decomp, simp)
  moreover from run_samples [OF p(2-4) d, of e] assms(2) p(1)
  have out: "out = [Issued (Call (CreateWardrobeItem (sample_body sample)))]"
    and k: "k (Inl cause) = finally_do (showActionError cause) wd_not_pending" by auto
  moreover have t': "t' = t\<lparr>wd_error := Some (wardrobeErrorMessage cause), wd_pending := None\<rparr>"
    "q = Return ()" "out' = []"
    using assms(3,4) by (simp_all add: k showActionError_def wd_not_pending_def prog_simps)
  moreover have "\<exists>p2. wardrobe_dispatch lower t' Add_samples = Some p2 \<and> fst (snd (run e' p2 t')) = out"
    if "wd_wardrobe t' = wd_wardrobe s" "wardrobe_page_of t' = W_content"
  proof -
    have "\<not> samples_disabled s" using assms(1) by (auto simp: wardrobe_dispatch_def split: if_splits)
    then have "wardrobe_dispatch lower t' Add_samples = Some (wd_addSamples t')"
      using that p(2) by (simp add: wardrobe_dispatch_def samples_disabled_def wd_items_def t'(1))
    moreover have "fst (snd (run e' (wd_addSamples t') t')) = out"
      using run_samples [of t' sample rest e'] that(1) p d out by (auto simp: wd_items_def t'(1))
    ultimately show ?thesis by blast
  qed
  ultimately show ?thesis by auto
qed

theorem wardrobe_samples_stop_at_failure_witness:
  "\<exists>s1 out c k t'. run demo_env (wd_addSamples demo_wardrobe) demo_wardrobe = (s1, out, Await c k)
     \<and> run demo_env (k (Inl (status_error 409))) s1 = (t', [], Return ()) \<and> wd_error t' = Some Item_conflict"
proof -
  have "\<not> list_all (sample_present [demo_item, demo_trousers]) garmentSamples"
    by (simp add: garmentSamples_def sample_present_def demo_item_def demo_trousers_def)
  then have d: "demo_page demo_wardrobe Add_samples = Some (wd_addSamples demo_wardrobe)"
    by (simp add: wardrobe_dispatch_def samples_disabled_def)
  from samples_dispatched [OF d] obtain sample rest where
    "dropWhile (sample_present (wd_items demo_wardrobe)) garmentSamples = sample # rest" by blast
  from run_samples [OF _ _ _ this, of demo_env] obtain s1 out c k where
    r: "run demo_env (wd_addSamples demo_wardrobe) demo_wardrobe = (s1, out, Await c k)" by auto
  obtain t' out' q where r': "run demo_env (k (Inl (status_error 409))) s1 = (t', out', q)"
    by (rule prod_cases3)
  have "accountStatus (status_error 409) = Some 409" by simp
  then have err: "wardrobeErrorMessage (status_error 409) = Item_conflict"
    by (simp add: wardrobeErrorMessage_def status_error_def http_error_def)
  have "accountStatus (status_error 409) \<noteq> Some 401" by simp
  from wardrobe_samples_stop_at_failure [OF d r this r']
  have "q = Return ()" "out' = []" "wd_error t' = Some Item_conflict"
    unfolding err by blast+
  with r r' show ?thesis by blast
qed

end
