(* ===== verification/Auth_View.thy ===== *)
theory Auth_View
  imports Query_Hooks Account_Lib Error_Messages
begin

text \<open>
  The login and registration form, \<^verbatim>\<open>components/account/auth-form.tsx\<close>: its state, the check
  before a submission, the submission, and the page that decides which of it is shown.
\<close>

datatype auth_mode = Login | Register

record auth_state =
  au_display_name :: jstring
  au_email :: jstring
  au_password :: jstring
  au_confirmation :: jstring
  au_field_errors :: registration_errors
  au_error :: "account_text option"
  au_pending :: bool
  au_user :: "user query"

definition auth_init :: auth_state where
  "auth_init =
     \<lparr>au_display_name = [], au_email = [], au_password = [], au_confirmation = [],
      au_field_errors = no_registration_errors, au_error = None, au_pending = False,
      au_user = no_query\<rparr>"

text \<open>
  The check: the registration library or the two tests of the login, then the browser's own
  test of the e-mail input (\<open>mismatch\<close>), which replaces the message of that field.
\<close>

definition auth_validation :: "auth_mode \<Rightarrow> bool \<Rightarrow> auth_state \<Rightarrow> registration_errors" where
  "auth_validation mode mismatch s =
     (let validation =
        (if mode = Register
         then registrationErrors
           \<lparr>re_display_name = au_display_name s, re_email = au_email s,
            re_password = au_password s, re_confirmation = au_confirmation s\<rparr>
         else no_registration_errors
           \<lparr>er_email := (if trim (au_email s) = [] then Some Email_missing else None),
            er_password := (if au_password s = [] then Some Password_missing else None)\<rparr>)
      in if mismatch then validation\<lparr>er_email := Some Email_type_invalid\<rparr> else validation)"

definition auth_request :: "auth_mode \<Rightarrow> auth_state \<Rightarrow> (auth_state, unit) prog" where
  "auth_request mode s =
     (if mode = Register
      then account_register
        \<lparr>rg_display_name = trim (au_display_name s), rg_email = trim (au_email s),
         rg_password = au_password s\<rparr>
      else account_login \<lparr>cs_email = trim (au_email s), cs_password = au_password s\<rparr>)"

definition forget_password :: "auth_state \<Rightarrow> auth_state" where
  "forget_password s = s\<lparr>au_password := [], au_confirmation := []\<rparr>"

definition auth_submit :: "auth_mode \<Rightarrow> bool \<Rightarrow> auth_state \<Rightarrow> (auth_state, unit) prog" where
  "auth_submit mode mismatch s =
     (if au_pending s then Return ()
      else
        let validation = auth_validation mode mismatch s in
        Update (\<lambda>t. t\<lparr>au_field_errors := validation\<rparr>)
          (if error_count validation > 0 then Return ()
           else
             Update (\<lambda>t. t\<lparr>au_pending := True\<rparr>)
               (Update (\<lambda>t. t\<lparr>au_error := None\<rparr>)
                 (finally_do
                   (catch
                     (bind (auth_request mode s) (\<lambda>_.
                        Update forget_password (Emit (Replace_route To_account) (Return ()))))
                     (\<lambda>cause.
                        Update forget_password
                          (bind
                            (if mode = Register \<and> accountStatus cause = Some 409
                             then set_state (\<lambda>t. t\<lparr>au_field_errors :=
                                    no_registration_errors\<lparr>er_email := Some Email_taken\<rparr>\<rparr>)
                             else Return ())
                            (\<lambda>_. set_state (\<lambda>t. t\<lparr>au_error := Some (accountErrorMessage cause)\<rparr>)))))
                   (set_state (\<lambda>t. t\<lparr>au_pending := False\<rparr>))))))"

text \<open>The effect on \<^verbatim>\<open>currentUser.data\<close>.\<close>

definition auth_redirect :: "auth_state \<Rightarrow> (auth_state, unit) prog" where
  "auth_redirect s =
     (if q_data (au_user s) \<noteq> None then Emit (Replace_route To_account) (Return ()) else Return ())"

datatype auth_page_kind = Checking_session | Session_check_failed account_text | Auth_form

definition auth_page :: "auth_state \<Rightarrow> auth_page_kind" where
  "auth_page s =
     (if isPending (au_user s) \<or> q_data (au_user s) \<noteq> None then Checking_session
      else if isError (au_user s) \<and> accountStatus (q_error (au_user s)) \<noteq> Some 401
      then Session_check_failed (accountErrorMessage (q_error (au_user s)))
      else Auth_form)"

datatype auth_event =
    Type_name jstring | Type_email jstring | Type_password jstring | Type_confirmation jstring
  | Submit_auth bool
  | Retry_session
  | User_query_changed "user query"

text \<open>
  The controls: inputs and the submission belong to the form, the retry to the failure
  notice; the inputs of the name and the confirmation to registration. A change of the query
  runs the effect.
\<close>

definition auth_dispatch :: "auth_mode \<Rightarrow> auth_state \<Rightarrow> auth_event \<Rightarrow> (auth_state, unit) prog option" where
  "auth_dispatch mode s ev =
     (case ev of
        Type_name v \<Rightarrow>
          if auth_page s = Auth_form \<and> mode = Register
          then Some (set_state (\<lambda>t. t\<lparr>au_display_name := v\<rparr>)) else None
      | Type_email v \<Rightarrow>
          if auth_page s = Auth_form then Some (set_state (\<lambda>t. t\<lparr>au_email := v\<rparr>)) else None
      | Type_password v \<Rightarrow>
          if auth_page s = Auth_form then Some (set_state (\<lambda>t. t\<lparr>au_password := v\<rparr>)) else None
      | Type_confirmation v \<Rightarrow>
          if auth_page s = Auth_form \<and> mode = Register
          then Some (set_state (\<lambda>t. t\<lparr>au_confirmation := v\<rparr>)) else None
      | Submit_auth mismatch \<Rightarrow>
          if auth_page s = Auth_form then Some (auth_submit mode mismatch s) else None
      | Retry_session \<Rightarrow>
          (case auth_page s of
             Session_check_failed _ \<Rightarrow> Some (refetch Current_user_key)
           | _ \<Rightarrow> None)
      | User_query_changed q \<Rightarrow>
          Some (Update (\<lambda>t. t\<lparr>au_user := q\<rparr>) (auth_redirect (s\<lparr>au_user := q\<rparr>))))"

declare auth_submit_def [view_defs] auth_request_def [view_defs] auth_redirect_def [view_defs]
  forget_password_def [view_defs]

subsection \<open>What is sent\<close>

definition name_valid :: "jstring \<Rightarrow> bool" where
  "name_valid name \<longleftrightarrow> name \<noteq> [] \<and> trim name = name \<and> char_count name \<le> 80"

text \<open>A registration is sent only with a valid name and password; an e-mail is never blank.\<close>

definition auth_policy :: "auth_mode \<Rightarrow> effect \<Rightarrow> bool" where
  "auth_policy mode x =
     (case x of
        Issued (Call (RegisterAccount b)) \<Rightarrow>
          mode = Register \<and> name_valid (rg_display_name b)
          \<and> rg_email b \<noteq> [] \<and> trim (rg_email b) = rg_email b \<and> passwordLengthValid (rg_password b)
      | Issued (Call (CreateSession b)) \<Rightarrow>
          mode = Login \<and> cs_email b \<noteq> [] \<and> trim (cs_email b) = cs_email b \<and> cs_password b \<noteq> []
      | Issued (Call _) \<Rightarrow> False
      | Replace_route r \<Rightarrow> r = To_account
      | _ \<Rightarrow> True)"

lemma validation_register:
  assumes "error_count (auth_validation Register m s) = 0"
  shows "name_valid (trim (au_display_name s)) \<and> trim (au_email s) \<noteq> []
    \<and> passwordLengthValid (au_password s) \<and> au_password s = au_confirmation s \<and> \<not> m"
proof -
  have "er_email (auth_validation Register m s) = None"
    using assms by (simp add: error_count_zero no_registration_errors_def)
  then have "\<not> m" by (auto simp: auth_validation_def Let_def)
  then show ?thesis
    using assms
    by (simp add: auth_validation_def error_count_zero registrationErrors_def Let_def name_valid_def
        no_registration_errors_def split: if_splits)
qed

lemma validation_login:
  assumes "error_count (auth_validation Login m s) = 0"
  shows "trim (au_email s) \<noteq> [] \<and> au_password s \<noteq> [] \<and> \<not> m"
  using assms
  by (auto simp: auth_validation_def error_count_zero Let_def no_registration_errors_def
      split: if_splits)

lemma auth_submit_wp:
  assumes "\<not> au_pending s"
  shows "wp (own_contract (auth_policy mode) (\<lambda>_. True) au_pending (\<lambda>_ _. True) (\<lambda>_ _. True))
    (auth_submit mode m s)
    (\<lambda>_ _ t. \<not> au_pending t \<and> (au_password t = [] \<and> au_confirmation t = []
       \<or> t = s\<lparr>au_field_errors := auth_validation mode m s\<rparr> \<and> error_count (au_field_errors t) > 0))
    (\<lambda>_ _ _. False) s s"
proof (cases mode)
  case Login
  then show ?thesis
    using assms validation_login [of m s]
    by (auto simp: view_defs hook_defs auth_policy_def Let_def)
next
  case Register
  then show ?thesis
    using assms validation_register [of m s]
    by (auto simp: view_defs hook_defs auth_policy_def Let_def)
qed

definition auth_exclusive :: "auth_event \<Rightarrow> bool" where
  "auth_exclusive ev = (case ev of Submit_auth _ \<Rightarrow> True | _ \<Rightarrow> False)"

interpretation auth: exclusive_view "auth_dispatch mode" auth_init au_pending auth_exclusive
  "\<lambda>s. \<not> au_pending s" "\<lambda>_. True" "\<lambda>_ _. True" "\<lambda>_ _. True" "auth_policy mode" for mode
proof
  fix s ev p
  assume D: "auth_dispatch mode s ev = Some p"
  show "runs_own (auth_policy mode) (\<lambda>_. True) au_pending (\<lambda>_ _. True) (\<lambda>_ _. True)
      (\<lambda>s. \<not> au_pending s) s p" if ev: "auth_exclusive ev" and idle: "\<not> au_pending s"
  proof -
    obtain m where p: "p = auth_submit mode m s"
      using D ev by (auto simp: auth_dispatch_def auth_exclusive_def split: auth_event.splits if_splits)
    show ?thesis
      unfolding p contract_defs by (rule wp_mono [OF auth_submit_wp [OF idle]]) auto
  qed
  show "p = Return ()" if "auth_exclusive ev" "au_pending s"
    using D that
    by (auto simp: auth_dispatch_def auth_exclusive_def auth_submit_def split: auth_event.splits if_splits)
  show "runs_shared (auth_policy mode) (\<lambda>_. True) au_pending (\<lambda>_ _. True) (\<lambda>_ _. True)
      (\<lambda>s. \<not> au_pending s) s p" if "\<not> auth_exclusive ev"
    using D that
    by (auto simp: auth_dispatch_def auth_exclusive_def auth_redirect_def auth_policy_def contract_defs
        split: auth_event.splits if_splits auth_page_kind.splits)
qed (simp_all add: auth_init_def)

end
