(* ===== verification/Js_Numbers.thy ===== *)
theory Js_Numbers
  imports Calendar_Dates
begin

text \<open>
  Integers as the template literals of the sources print them, for the key of the account
  draft (\<^verbatim>\<open>account-view.tsx\<close>) and the keys of the snapshot lists. The lemmas show that the
  printed form determines the number and that a key made of a text and a number determines
  both.
\<close>

definition digit_unit :: "nat \<Rightarrow> code_unit" where
  "digit_unit n = of_nat (0x30 + n)"

lemma digit_unit_digit:
  assumes "n < 10"
  shows "is_digit (digit_unit n)" and "digit_value (digit_unit n) = n"
proof -
  have "unat (of_nat k :: code_unit) = k" if "k < 65536" for k
    using that by (simp add: unat_of_nat take_bit_eq_mod)
  from this [of "0x30 + n"] have "unat (digit_unit n) = 0x30 + n"
    using assms unfolding digit_unit_def by simp
  then show "is_digit (digit_unit n)" "digit_value (digit_unit n) = n"
    using assms by (simp_all add: is_digit_unat digit_value_def)
qed

fun nat_digits :: "nat \<Rightarrow> jstring" where
  "nat_digits n = (if n < 10 then [digit_unit n]
     else nat_digits (n div 10) @ [digit_unit (n mod 10)])"

declare nat_digits.simps [simp del]

text \<open>\<^verbatim>\<open>String(n)\<close> for an integer.\<close>

definition js_of_int :: "int \<Rightarrow> jstring" where
  "js_of_int i = (if i < 0 then js ''-'' @ nat_digits (nat (- i)) else nat_digits (nat i))"

lemma nat_digits_all: "list_all is_digit (nat_digits n)"
proof (induction n rule: nat_digits.induct)
  case (1 n)
  then show ?case
    by (subst nat_digits.simps) (simp add: digit_unit_digit)
qed

lemma js_number_append: "js_number (us @ [u]) = 10 * js_number us + digit_value u"
proof -
  have "digits_value acc (us @ [u]) = 10 * digits_value acc us + digit_value u" for acc
    by (induction us arbitrary: acc) simp_all
  then show ?thesis by (simp add: js_number_def)
qed

lemma js_number_digits: "js_number (nat_digits n) = n"
proof (induction n rule: nat_digits.induct)
  case (1 n)
  show ?case
  proof (cases "n < 10")
    case True
    then have "nat_digits n = [digit_unit n]" by (simp add: nat_digits.simps)
    then show ?thesis using digit_unit_digit(2) [OF True] by (simp add: js_number_def)
  next
    case False
    then have "nat_digits n = nat_digits (n div 10) @ [digit_unit (n mod 10)]"
      by (subst nat_digits.simps) simp
    then show ?thesis
      using 1 False digit_unit_digit(2) [of "n mod 10"] by (simp add: js_number_append)
  qed
qed

lemma js_of_int_inj: "js_of_int i = js_of_int j \<longleftrightarrow> i = j"
proof
  assume eq: "js_of_int i = js_of_int j"
  have minus: "nat_digits m \<noteq> 0x2D # us" for m us
  proof
    assume "nat_digits m = 0x2D # us"
    with nat_digits_all [of m] show False by (simp add: is_digit_def)
  qed
  have inj: "nat_digits m = nat_digits n \<Longrightarrow> m = n" for m n
    by (metis js_number_digits)
  show "i = j"
    using eq minus minus [symmetric] by (auto simp: js_of_int_def dest!: inj split: if_splits)
qed simp

lemma js_of_int_no_colon: "0x3A \<notin> set (js_of_int i)"
proof -
  have "\<not> is_digit 0x3A" by (simp add: is_digit_def)
  then have "0x3A \<notin> set (nat_digits n)" for n
    using nat_digits_all [of n] by (auto simp: list_all_iff)
  then show ?thesis by (simp add: js_of_int_def)
qed

lemma split_last_unique:
  assumes "as @ c # bs = as' @ c # bs'" and "c \<notin> set bs" and "c \<notin> set bs'"
  shows "as = as' \<and> bs = bs'"
  using assms(1)
proof (induction as arbitrary: as')
  case Nil
  then show ?case using assms(2) by (cases as') auto
next
  case (Cons a as)
  then show ?case using assms(3) by (cases as') auto
qed

end
