(* ===== verification/Account_View.thy ===== *)
theory Account_View
  imports Query_Hooks Js_Numbers Account_Lib Error_Messages
begin

text \<open>
  The account page, \<^verbatim>\<open>components/account/account-view.tsx\<close>: the draft of the profile, saving,
  logging out, deleting the account, and what happens when the session has ended.
\<close>

subsection \<open>The key of a draft\<close>

definition userKey :: "user option \<Rightarrow> jstring" where
  "userKey user =
     (case user of None \<Rightarrow> [] | Some u \<Rightarrow> us_id u @ js '':'' @ js_of_int (us_revision u))"

text \<open>A draft's key names one revision of one account.\<close>

lemma userKey_inj:
  "userKey (Some u) = userKey (Some v) \<longleftrightarrow> us_id u = us_id v \<and> us_revision u = us_revision v"
proof
  assume "userKey (Some u) = userKey (Some v)"
  then have "us_id u @ 0x3A # js_of_int (us_revision u) = us_id v @ 0x3A # js_of_int (us_revision v)"
    by (simp add: userKey_def)
  from split_last_unique [OF this js_of_int_no_colon js_of_int_no_colon]
  show "us_id u = us_id v \<and> us_revision u = us_revision v" by (simp add: js_of_int_inj)
qed (simp add: userKey_def)

subsection \<open>State\<close>

record account_draft =
  dr_key :: jstring
  dr_display_name :: jstring
  dr_email :: jstring

datatype account_pending = Pending_update | Pending_logout | Pending_delete

record account_state =
  ac_query :: "user query"
  ac_draft :: "account_draft option"
  ac_pending :: "account_pending option"
  ac_error :: "account_text option"
  ac_name_error :: "registration_text option"
  ac_email_error :: "registration_text option"
  ac_deletion :: "account_deletion option"

definition account_init :: account_state where
  "account_init =
     \<lparr>ac_query = no_query, ac_draft = None, ac_pending = None, ac_error = None,
      ac_name_error = None, ac_email_error = None, ac_deletion = None\<rparr>"

definition ac_user :: "account_state \<Rightarrow> user option" where
  "ac_user s = q_data (ac_query s)"

definition current_draft :: "account_state \<Rightarrow> account_draft option" where
  "current_draft s =
     (case ac_draft s of
        None \<Rightarrow> None
      | Some d \<Rightarrow> if dr_key d = userKey (ac_user s) then Some d else None)"

definition shown_name :: "account_state \<Rightarrow> jstring" where
  "shown_name s =
     (case current_draft s of
        Some d \<Rightarrow> dr_display_name d
      | None \<Rightarrow> (case ac_user s of None \<Rightarrow> [] | Some u \<Rightarrow> us_display_name u))"

definition shown_email :: "account_state \<Rightarrow> jstring" where
  "shown_email s =
     (case current_draft s of
        Some d \<Rightarrow> dr_email d
      | None \<Rightarrow> (case ac_user s of None \<Rightarrow> [] | Some u \<Rightarrow> us_email u))"

subsection \<open>Handlers\<close>

definition leave_account :: "(account_state, unit) prog" where
  "leave_account = bind account_clear_current (\<lambda>_. Emit (Replace_route To_login) (Return ()))"

definition set_account_error :: "jsval \<Rightarrow> (account_state, unit) prog" where
  "set_account_error cause = set_state (\<lambda>t. t\<lparr>ac_error := Some (accountErrorMessage cause)\<rparr>)"

definition leave_or_report :: "jsval \<Rightarrow> (account_state, unit) prog" where
  "leave_or_report cause =
     (if accountStatus cause = Some 401 then leave_account else set_account_error cause)"

definition account_save :: "bool \<Rightarrow> account_state \<Rightarrow> (account_state, unit) prog" where
  "account_save mismatch s =
     (case ac_user s of
        None \<Rightarrow> Return ()
      | Some user \<Rightarrow>
          if ac_pending s \<noteq> None then Return ()
          else if trim (shown_name s) = [] \<or> 80 < char_count (trim (shown_name s))
          then set_state (\<lambda>t. t\<lparr>ac_name_error := Some Name_invalid\<rparr>)
          else if trim (shown_email s) = []
          then set_state (\<lambda>t. t\<lparr>ac_email_error := Some Email_missing\<rparr>)
          else if mismatch
          then set_state (\<lambda>t. t\<lparr>ac_email_error := Some Email_type_invalid\<rparr>)
          else
            Update (\<lambda>t. t\<lparr>ac_pending := Some Pending_update\<rparr>)
              (Update (\<lambda>t. t\<lparr>ac_error := None, ac_name_error := None, ac_email_error := None\<rparr>)
                (finally_do
                  (catch
                    (bind (account_update
                        \<lparr>uu_display_name = Some (trim (shown_name s)),
                         uu_email = Some (trim (shown_email s)),
                         uu_expected_revision = us_revision user\<rparr>)
                      (\<lambda>_. Emit (Toast Toast_profile_saved) (Return ())))
                    leave_or_report)
                  (set_state (\<lambda>t. t\<lparr>ac_pending := None\<rparr>)))))"

definition account_do_logout :: "account_state \<Rightarrow> (account_state, unit) prog" where
  "account_do_logout s =
     (if ac_pending s \<noteq> None then Return ()
      else
        Update (\<lambda>t. t\<lparr>ac_pending := Some Pending_logout, ac_error := None\<rparr>)
          (catch
            (bind account_logout (\<lambda>_. Emit (Replace_route To_login) (Return ())))
            (\<lambda>cause. bind (set_account_error cause) (\<lambda>_. set_state (\<lambda>t. t\<lparr>ac_pending := None\<rparr>)))))"

definition account_do_remove :: "account_state \<Rightarrow> (account_state, unit) prog" where
  "account_do_remove s =
     (if ac_pending s \<noteq> None then Return ()
      else
        Update (\<lambda>t. t\<lparr>ac_pending := Some Pending_delete, ac_error := None\<rparr>)
          (finally_do
            (catch
              (bind account_remove (\<lambda>receipt. set_state (\<lambda>t. t\<lparr>ac_deletion := Some receipt\<rparr>)))
              leave_or_report)
            (set_state (\<lambda>t. t\<lparr>ac_pending := None\<rparr>))))"

text \<open>The effect on the query's error and on \<^verbatim>\<open>deletion\<close>.\<close>

definition account_session_effect :: "account_state \<Rightarrow> (account_state, unit) prog" where
  "account_session_effect s =
     (if ac_deletion s = None \<and> session_lost (ac_query s)
      then leave_account else Return ())"

datatype account_page_kind =
    Deletion_accepted | Loading_account | Account_unreadable account_text | Account_controls
  | Nothing_shown

definition account_page :: "account_state \<Rightarrow> account_page_kind" where
  "account_page s =
     (if ac_deletion s \<noteq> None then Deletion_accepted
      else if isPending (ac_query s)
              \<or> session_lost (ac_query s)
      then Loading_account
      else if isError (ac_query s) then Account_unreadable (accountErrorMessage (q_error (ac_query s)))
      else if ac_user s \<noteq> None then Account_controls
      else Nothing_shown)"

datatype account_event =
    Type_account_name jstring | Type_account_email jstring
  | Save_account bool | Reload_account | Logout | Confirm_delete | Retry_account
  | Account_query_changed "user query"

text \<open>
  The controls. The buttons of logging out and reloading are disabled while an operation is
  pending; the confirmation of the deletion is in a dialog that may have been opened before,
  and its handler tests again.
\<close>

definition account_dispatch ::
  "account_state \<Rightarrow> account_event \<Rightarrow> (account_state, unit) prog option" where
  "account_dispatch s ev =
     (case ev of
        Account_query_changed q \<Rightarrow>
          Some (Update (\<lambda>t. t\<lparr>ac_query := q\<rparr>) (account_session_effect (s\<lparr>ac_query := q\<rparr>)))
      | Retry_account \<Rightarrow>
          (case account_page s of
             Account_unreadable _ \<Rightarrow> Some (refetch Current_user_key)
           | _ \<Rightarrow> None)
      | _ \<Rightarrow>
          if account_page s \<noteq> Account_controls then None
          else
            (case ev of
               Type_account_name v \<Rightarrow>
                 Some (set_state (\<lambda>t. t\<lparr>ac_draft := Some
                   \<lparr>dr_key = userKey (ac_user s), dr_display_name = v, dr_email = shown_email s\<rparr>\<rparr>))
             | Type_account_email v \<Rightarrow>
                 Some (set_state (\<lambda>t. t\<lparr>ac_draft := Some
                   \<lparr>dr_key = userKey (ac_user s), dr_display_name = shown_name s, dr_email = v\<rparr>\<rparr>))
             | Save_account mismatch \<Rightarrow> Some (account_save mismatch s)
             | Reload_account \<Rightarrow>
                 if ac_pending s \<noteq> None then None
                 else Some (Update (\<lambda>t. t\<lparr>ac_error := None, ac_name_error := None, ac_email_error := None\<rparr>)
                   (refetch Current_user_key))
             | Logout \<Rightarrow> if ac_pending s \<noteq> None then None else Some (account_do_logout s)
             | Confirm_delete \<Rightarrow> Some (account_do_remove s)
             | _ \<Rightarrow> None))"

declare account_save_def [view_defs] account_do_logout_def [view_defs] account_do_remove_def [view_defs]
  leave_account_def [view_defs] leave_or_report_def [view_defs] set_account_error_def [view_defs]
  account_session_effect_def [view_defs]

subsection \<open>The contract\<close>

definition account_policy :: "effect \<Rightarrow> bool" where
  "account_policy x =
     (case x of
        Issued (Call (UpdateCurrentUser b)) \<Rightarrow>
          (\<exists>n m. uu_display_name b = Some n \<and> n \<noteq> [] \<and> trim n = n \<and> char_count n \<le> 80
             \<and> uu_email b = Some m \<and> m \<noteq> [] \<and> trim m = m)
      | Issued (Call DeleteSession) \<Rightarrow> True
      | Issued (Call DeleteCurrentUser) \<Rightarrow> True
      | Issued (Call _) \<Rightarrow> False
      | Replace_route r \<Rightarrow> r = To_login
      | _ \<Rightarrow> True)"

definition account_exclusive :: "account_event \<Rightarrow> bool" where
  "account_exclusive ev \<longleftrightarrow>
     (case ev of Save_account _ \<Rightarrow> True | Logout \<Rightarrow> True | Confirm_delete \<Rightarrow> True | _ \<Rightarrow> False)"

text \<open>After a successful logout the flag stays set: the page is about to be left.\<close>

definition account_ends :: "account_state \<Rightarrow> bool" where
  "account_ends s \<longleftrightarrow> ac_pending s \<in> {None, Some Pending_logout}"

definition account_busy :: "account_state \<Rightarrow> bool" where
  "account_busy s \<longleftrightarrow> ac_pending s \<noteq> None"

abbreviation account_own :: "account_state contract" where
  "account_own \<equiv> own_contract account_policy (\<lambda>_. True) account_busy (\<lambda>_ _. True)
     (\<lambda>u t. ac_pending u = ac_pending t)"

lemma account_save_wp:
  assumes "\<not> account_busy s"
  shows "wp account_own (account_save m s) (\<lambda>_ _ t. ac_pending t = None) (\<lambda>_ _ _. False) s s"
  using assms
  by (auto simp: view_defs hook_defs account_policy_def account_busy_def split: option.split)

lemma account_logout_wp:
  assumes "\<not> account_busy s"
  shows "wp account_own (account_do_logout s) (\<lambda>_ _ t. account_ends t) (\<lambda>_ _ _. False) s s"
  using assms
  by (auto simp: view_defs hook_defs account_policy_def account_busy_def account_ends_def)

lemma account_remove_wp:
  assumes "\<not> account_busy s"
  shows "wp account_own (account_do_remove s) (\<lambda>_ _ t. ac_pending t = None) (\<lambda>_ _ _. False) s s"
  using assms
  by (auto simp: view_defs hook_defs account_policy_def account_busy_def)

interpretation account: exclusive_view account_dispatch account_init account_busy account_exclusive
  account_ends "\<lambda>_. True" "\<lambda>_ _. True" "\<lambda>u t. ac_pending u = ac_pending t" account_policy
proof
  fix s ev p
  assume D: "account_dispatch s ev = Some p"
  show "runs_own account_policy (\<lambda>_. True) account_busy (\<lambda>_ _. True)
      (\<lambda>u t. ac_pending u = ac_pending t) account_ends s p"
    if ev: "account_exclusive ev" and idle: "\<not> account_busy s"
  proof -
    consider m where "p = account_save m s" | "p = account_do_logout s" | "p = account_do_remove s"
      using D ev by (auto simp: account_dispatch_def account_exclusive_def split: account_event.splits if_splits)
    then show ?thesis
      unfolding contract_defs
      by cases (auto intro: wp_mono [OF account_save_wp [OF idle]] account_logout_wp [OF idle]
          wp_mono [OF account_remove_wp [OF idle]] wp_mono [OF account_logout_wp [OF idle]]
          simp: account_ends_def)
  qed
  show "p = Return ()" if "account_exclusive ev" "account_busy s"
    using D that
    by (auto simp: account_dispatch_def account_exclusive_def account_busy_def view_defs
        split: account_event.splits if_splits option.splits)
  show "runs_shared account_policy (\<lambda>_. True) account_busy (\<lambda>_ _. True)
      (\<lambda>u t. ac_pending u = ac_pending t) account_ends s p" if "\<not> account_exclusive ev"
    using D that
    by (auto simp: account_dispatch_def account_exclusive_def account_policy_def contract_defs
        account_busy_def account_ends_def view_defs hook_defs
        split: account_event.splits if_splits account_page_kind.splits)
qed (simp_all add: account_init_def account_ends_def)

end
