(* ===== verification/Account_Properties.thy ===== *)
theory Account_Properties
  imports Auth_View Account_View Demo_Data
begin

text \<open>
  What the login and registration form and the account page guarantee in every reachable
  configuration, and a message of the account page that outlives its cause.
\<close>

subsection \<open>Example runs\<close>

definition demo_auth :: auth_state where
  "demo_auth = auth_init\<lparr>au_user := \<lparr>q_status = Q_error (status_error 401), q_data = None\<rparr>,
     au_email := js ''a@b.c'', au_password := js ''secret''\<rparr>"

lemma demo_auth_reached: "reach (auth_dispatch Login) auth_init (demo_auth, [], [])"
proof -
  let ?q = "\<lparr>q_status = Q_error (status_error 401), q_data = None\<rparr> :: user query"
  let ?s1 = "auth_init\<lparr>au_user := ?q\<rparr>"
  let ?s2 = "?s1\<lparr>au_email := js ''a@b.c''\<rparr>"
  have "reach (auth_dispatch Login) auth_init (?s1, [], [] @ [])"
    by (rule reach_sync [OF reach.start, of _ _ "User_query_changed ?q" _ demo_env])
       (simp add: auth_dispatch_def auth_redirect_def auth_init_def)+
  then have "reach (auth_dispatch Login) auth_init (?s2, [], ([] @ []) @ [])"
    by (rule reach_sync [of _ _ _ _ _ "Type_email (js ''a@b.c'')" _ demo_env])
       (simp add: auth_dispatch_def auth_page_def isPending_def isError_def q_error_def auth_init_def)+
  then have "reach (auth_dispatch Login) auth_init (demo_auth, [], (([] @ []) @ []) @ [])"
    by (rule reach_sync [of _ _ _ _ _ "Type_password (js ''secret'')" _ demo_env])
       (simp add: auth_dispatch_def auth_page_def isPending_def isError_def q_error_def auth_init_def
         demo_auth_def)+
  then show ?thesis by simp
qed

definition demo_session :: session_request where
  "demo_session = \<lparr>cs_email = js ''a@b.c'', cs_password = js ''secret''\<rparr>"

lemma demo_login:
  "\<exists>s1 k. reach (auth_dispatch Login) auth_init
     (s1, [(Submit_auth False, Await (Call (CreateSession demo_session)) k)],
      [Issued (Call (CreateSession demo_session))]) \<and> au_pending s1"
proof -
  have trim: "trim (js ''a@b.c'') = js ''a@b.c''"
    by (rule trim_id) (simp add: is_space_def)
  have "auth_validation Login False demo_auth = no_registration_errors"
    using trim by (simp add: auth_validation_def demo_auth_def no_registration_errors_def Let_def)
  then have "error_count (auth_validation Login False demo_auth) = 0"
    by (simp add: error_count_zero)
  then have "\<exists>s1 k. run demo_env (auth_submit Login False demo_auth) demo_auth
      = (s1, [Issued (Call (CreateSession demo_session))], Await (Call (CreateSession demo_session)) k)
      \<and> au_pending s1"
    using trim
    by (simp add: auth_submit_def auth_request_def prog_simps account_login_def demo_session_def Let_def
        demo_auth_def auth_init_def)
  then obtain s1 k where
    r: "run demo_env (auth_submit Login False demo_auth) demo_auth
      = (s1, [Issued (Call (CreateSession demo_session))], Await (Call (CreateSession demo_session)) k)"
    and "au_pending s1" by blast
  moreover have "auth_dispatch Login demo_auth (Submit_auth False) = Some (auth_submit Login False demo_auth)"
    by (simp add: auth_dispatch_def auth_page_def demo_auth_def isPending_def isError_def q_error_def auth_init_def)
  ultimately show ?thesis
    using reach_start_await [OF demo_auth_reached _ r, of "Submit_auth False"] by auto
qed

definition demo_account :: account_state where
  "demo_account = account_init\<lparr>ac_query := loaded demo_user\<rparr>"

lemma demo_account_reached: "reach account_dispatch account_init (demo_account, [], [])"
proof -
  have "reach account_dispatch account_init (demo_account, [], [] @ [])"
    by (rule reach_sync [OF reach.start, of _ _ "Account_query_changed (loaded demo_user)" _ demo_env])
       (simp add: account_dispatch_def account_session_effect_def account_init_def demo_account_def)+
  then show ?thesis by simp
qed

lemma demo_delete:
  "\<exists>s1 k. reach account_dispatch account_init
     (s1, [(Confirm_delete, Await (Call DeleteCurrentUser) k)], [Issued (Call DeleteCurrentUser)])
   \<and> ac_pending s1 = Some Pending_delete"
proof -
  have "\<exists>s1 k. run demo_env (account_do_remove demo_account) demo_account
      = (s1, [Issued (Call DeleteCurrentUser)], Await (Call DeleteCurrentUser) k)
      \<and> ac_pending s1 = Some Pending_delete"
    by (simp add: account_do_remove_def prog_simps account_remove_def demo_account_def account_init_def)
  then obtain s1 k where
    r: "run demo_env (account_do_remove demo_account) demo_account
      = (s1, [Issued (Call DeleteCurrentUser)], Await (Call DeleteCurrentUser) k)"
    and "ac_pending s1 = Some Pending_delete" by blast
  moreover have "account_dispatch demo_account Confirm_delete = Some (account_do_remove demo_account)"
    by (simp add: account_dispatch_def account_page_def demo_account_def account_init_def ac_user_def)
  ultimately show ?thesis
    using reach_start_await [OF demo_account_reached _ r, of Confirm_delete] by auto
qed

subsection \<open>Properties\<close>

text \<open>
  At most one submission of the login or registration form is in flight: their number is
  one while the form is pending and zero otherwise, in every reachable configuration.
\<close>

lemma auth_one_submission:
  assumes "reach (auth_dispatch mode) auth_init (s, ts, tr)"
  shows "length (filter (\<lambda>(ev, q). auth_exclusive ev) ts) = (if au_pending s then 1 else 0)"
  using auth.reach_exclusive [OF assms] by auto

lemma auth_one_submission_witness:
  "\<exists>s ts tr. reach (auth_dispatch Login) auth_init (s, ts, tr) \<and> au_pending s
     \<and> length (filter (\<lambda>(ev, q). auth_exclusive ev) ts) = 1"
proof -
  obtain s1 ts tr where "au_pending s1" and r: "reach (auth_dispatch Login) auth_init (s1, ts, tr)"
    using demo_login by blast
  with auth_one_submission [OF r] show ?thesis by auto
qed

text \<open>
  C26. The form sends only what it has checked: in every reachable configuration, every
  registration sent has a trimmed name of 1 to 80 code points, a non-empty trimmed e-mail
  and a password of 12 to 72 UTF-8 bytes, every login has a non-empty e-mail and password, and
  nothing else is sent.
\<close>

theorem auth_sends_checked:
  assumes "reach (auth_dispatch mode) auth_init (s, ts, tr)" and "Issued (Call c) \<in> set tr"
  shows "(\<exists>b. c = RegisterAccount b \<and> mode = Register \<and> name_valid (rg_display_name b)
      \<and> rg_email b \<noteq> [] \<and> trim (rg_email b) = rg_email b
      \<and> 12 \<le> length (text_encode (rg_password b)) \<and> length (text_encode (rg_password b)) \<le> 72)
    \<or> (\<exists>b. c = CreateSession b \<and> mode = Login \<and> cs_email b \<noteq> [] \<and> cs_password b \<noteq> [])"
  using auth.reach_effects [OF assms]
  by (cases c) (auto simp: auth_policy_def passwordLengthValid_def Let_def)

theorem auth_sends_checked_witness:
  "\<exists>s ts tr. reach (auth_dispatch Login) auth_init (s, ts, tr)
     \<and> Issued (Call (CreateSession demo_session)) \<in> set tr \<and> cs_email demo_session \<noteq> []"
proof -
  obtain s1 ts tr where r: "reach (auth_dispatch Login) auth_init (s1, ts, tr)"
    and "tr = [Issued (Call (CreateSession demo_session))]"
    using demo_login by blast
  then have "Issued (Call (CreateSession demo_session)) \<in> set tr" by simp
  with auth_sends_checked [OF r this] r show ?thesis by auto
qed

text \<open>
  Whatever the outcome of a submission, its end leaves neither password in the form: after
  the first response the form is no longer pending and both password fields are empty.
\<close>

lemma auth_forgets_passwords:
  assumes "run e (auth_submit mode m s) s = (s1, out, Await c k)" and "run e' (k r) t = (t', out', q)"
  shows "q = Return () \<and> \<not> au_pending t' \<and> au_password t' = [] \<and> au_confirmation t' = []"
proof -
  have "\<not> au_pending s" "error_count (auth_validation mode m s) = 0"
    using assms(1) by (auto simp: auth_submit_def Let_def split: if_splits)
  then show ?thesis
    using assms
    by (cases mode; cases r)
       (auto simp: auth_submit_def auth_request_def prog_simps account_login_def account_register_def Let_def
         forget_password_def split: option.splits if_splits)
qed

lemma auth_forgets_passwords_witness:
  "\<exists>s1 c k t' q. run demo_env (auth_submit Login False demo_auth) demo_auth = (s1, [Issued c], Await c k)
     \<and> run demo_env (k (Inl network_error)) s1 = (t', [], q) \<and> au_password t' = []"
proof -
  have trim: "trim (js ''a@b.c'') = js ''a@b.c''"
    by (rule trim_id) (simp add: is_space_def)
  have "auth_validation Login False demo_auth = no_registration_errors"
    using trim by (simp add: auth_validation_def demo_auth_def no_registration_errors_def Let_def)
  then have "\<exists>s1 k. run demo_env (auth_submit Login False demo_auth) demo_auth
      = (s1, [Issued (Call (CreateSession demo_session))], Await (Call (CreateSession demo_session)) k)
      \<and> fst (snd (run demo_env (k (Inl network_error)) s1)) = []"
    using trim
    by (simp add: auth_submit_def auth_request_def prog_simps account_login_def demo_session_def Let_def
        demo_auth_def auth_init_def error_count_zero)
  then obtain s1 k where
    r: "run demo_env (auth_submit Login False demo_auth) demo_auth
      = (s1, [Issued (Call (CreateSession demo_session))], Await (Call (CreateSession demo_session)) k)"
    and out: "fst (snd (run demo_env (k (Inl network_error)) s1)) = []" by blast
  obtain t' out' q where r': "run demo_env (k (Inl network_error)) s1 = (t', out', q)"
    by (rule prod_cases3)
  from auth_forgets_passwords [OF r r'] r r' out show ?thesis by auto
qed

text \<open>
  On the account page, saving the profile, logging out and deleting the account exclude each
  other: while none is in flight the page is idle or has just logged out, and only one is in
  flight otherwise.
\<close>

lemma account_one_operation:
  assumes "reach account_dispatch account_init (s, ts, tr)"
  shows "length (filter (\<lambda>(ev, q). account_exclusive ev) ts) = 0
      \<and> ac_pending s \<in> {None, Some Pending_logout}
    \<or> length (filter (\<lambda>(ev, q). account_exclusive ev) ts) = 1 \<and> ac_pending s \<noteq> None"
  using account.reach_exclusive [OF assms] by (simp add: account_ends_def account_busy_def)

lemma account_one_operation_witness:
  "\<exists>s ts tr. reach account_dispatch account_init (s, ts, tr) \<and> ac_pending s = Some Pending_delete
     \<and> length (filter (\<lambda>(ev, q). account_exclusive ev) ts) = 1"
proof -
  obtain s1 ts tr where "ac_pending s1 = Some Pending_delete"
    and r: "reach account_dispatch account_init (s1, ts, tr)"
    using demo_delete by blast
  with account_one_operation [OF r] show ?thesis by auto
qed

text \<open>
  A draft of the profile is shown only for the very revision of the very account it was
  typed for: after the account has changed, the stored values are shown again.
\<close>

lemma account_draft_of_its_revision:
  assumes "ac_user s = Some u" and "ac_user t = Some v"
    and "ac_draft t = Some \<lparr>dr_key = userKey (ac_user s), dr_display_name = n, dr_email = m\<rparr>"
  shows "shown_name t = (if us_id u = us_id v \<and> us_revision u = us_revision v then n else us_display_name v)
    \<and> shown_email t = (if us_id u = us_id v \<and> us_revision u = us_revision v then m else us_email v)"
  using assms userKey_inj [of u v]
  by (auto simp: shown_name_def shown_email_def current_draft_def)

lemma account_draft_of_its_revision_witness:
  "shown_name (account_init\<lparr>ac_query := loaded (demo_user\<lparr>us_revision := 5\<rparr>),
      ac_draft := Some \<lparr>dr_key = userKey (Some demo_user), dr_display_name = js ''Bob'', dr_email = []\<rparr>\<rparr>)
    = js ''Ann''"
  using account_draft_of_its_revision [of demo_account demo_user
      "account_init\<lparr>ac_query := loaded (demo_user\<lparr>us_revision := 5\<rparr>),
        ac_draft := Some \<lparr>dr_key = userKey (ac_user demo_account), dr_display_name = js ''Bob'', dr_email = []\<rparr>\<rparr>"
      "demo_user\<lparr>us_revision := 5\<rparr>" "js ''Bob''" "[]"]
  by (simp add: ac_user_def demo_account_def demo_user_def)

text \<open>
  The message for the name outlives its cause: a submission whose name is valid but whose
  e-mail is missing sets the message of the e-mail and leaves that of the name as it was.
\<close>

lemma account_name_message_stays:
  assumes "ac_user s = Some u" and "ac_pending s = None" and "ac_name_error s = Some Name_invalid"
    and "name_valid (trim (shown_name s))" and "trim (shown_email s) = []"
  shows "run e (account_save mismatch s) s
    = (s\<lparr>ac_email_error := Some Email_missing\<rparr>, [], Return ())
    \<and> ac_name_error (s\<lparr>ac_email_error := Some Email_missing\<rparr>) = Some Name_invalid"
  using assms by (simp add: account_save_def name_valid_def)

lemma account_name_message_stays_witness:
  "\<exists>t. run demo_env (account_save False (demo_account\<lparr>ac_name_error := Some Name_invalid,
        ac_draft := Some \<lparr>dr_key = userKey (Some demo_user), dr_display_name = js ''Ann'', dr_email = []\<rparr>\<rparr>))
      (demo_account\<lparr>ac_name_error := Some Name_invalid,
        ac_draft := Some \<lparr>dr_key = userKey (Some demo_user), dr_display_name = js ''Ann'', dr_email = []\<rparr>\<rparr>)
      = (t, [], Return ()) \<and> ac_name_error t = Some Name_invalid \<and> ac_email_error t = Some Email_missing"
proof -
  let ?s = "demo_account\<lparr>ac_name_error := Some Name_invalid,
      ac_draft := Some \<lparr>dr_key = userKey (Some demo_user), dr_display_name = js ''Ann'', dr_email = []\<rparr>\<rparr>"
  have user: "ac_user ?s = Some demo_user" by (simp add: ac_user_def demo_account_def)
  then have shown: "shown_name ?s = js ''Ann''" "shown_email ?s = []"
    by (simp_all add: shown_name_def shown_email_def current_draft_def)
  have "trim (js ''Ann'') = js ''Ann''" by (rule trim_id) (simp add: is_space_def)
  then have "name_valid (trim (shown_name ?s))"
    using char_count_le_length [of "js ''Ann''"] unfolding shown name_valid_def by simp
  moreover have "ac_pending ?s = None" by (simp add: demo_account_def account_init_def)
  ultimately show ?thesis
    using account_name_message_stays [OF user, of demo_env False] shown(2) by simp
qed

end
