(* ===== verification/Image_Properties.thy ===== *)
theory Image_Properties
  imports Image_Processing
begin

text \<open>
  What the photo processing of the wardrobe guarantees, and the one size it does not keep from
  being empty.
\<close>

text \<open>
  C33. Cropping a decoded photo fails exactly when an inset is not a number from 0 to 45; an
  accepted crop lies inside the photo, is not empty, and is scaled down, never up, to at most
  2048 pixels on each side and at least one.
\<close>

theorem crop_inside_and_bounded:
  assumes "1 \<le> w" and "1 \<le> h"
  shows "(case cropBounds w h crop of
      Inl m \<Rightarrow> m = Crop_invalid
        \<and> list_ex inset_bad [ins_top crop, ins_right crop, ins_bottom crop, ins_left crop]
    | Inr bx \<Rightarrow>
        \<not> list_ex inset_bad [ins_top crop, ins_right crop, ins_bottom crop, ins_left crop]
        \<and> 0 \<le> bx_x bx \<and> bx_x bx + bx_width bx \<le> w \<and> 0 \<le> bx_y bx \<and> bx_y bx + bx_height bx \<le> h
        \<and> 1 \<le> fst (crop_size bx) \<and> fst (crop_size bx) \<le> min 2048 (bx_width bx)
        \<and> 1 \<le> snd (crop_size bx) \<and> snd (crop_size bx) \<le> min 2048 (bx_height bx))"
proof (cases "cropBounds w h crop")
  case (Inl m)
  with cropBounds_rejects [of w h crop m] show ?thesis by simp
next
  case (Inr bx)
  note inside = cropBounds_inside [OF Inr assms]
  obtain a b where size: "crop_size bx = (a, b)" by (cases "crop_size bx")
  from crop_size_bounds [OF _ _ size] inside
  have "1 \<le> a \<and> a \<le> 2048 \<and> a \<le> bx_width bx \<and> 1 \<le> b \<and> b \<le> 2048 \<and> b \<le> bx_height bx" by simp
  moreover have "\<not> list_ex inset_bad [ins_top crop, ins_right crop, ins_bottom crop, ins_left crop]"
    using cropBounds_rejects [of w h crop Crop_invalid] Inr by simp
  ultimately show ?thesis using inside Inr size by simp
qed

theorem crop_inside_and_bounded_witness:
  "cropBounds 4000 3000 \<lparr>ins_top = Some 45, ins_right = Some 0, ins_bottom = Some 10, ins_left = Some 5\<rparr>
     = Inr \<lparr>bx_x = 200, bx_y = 1350, bx_width = 3800, bx_height = 1350\<rparr>
   \<and> fst (crop_size \<lparr>bx_x = 200, bx_y = 1350, bx_width = 3800, bx_height = 1350\<rparr>) \<le> 2048"
proof -
  let ?crop = "\<lparr>ins_top = Some 45, ins_right = Some 0, ins_bottom = Some 10, ins_left = Some 5\<rparr>"
  have "cropBounds 4000 3000 ?crop = Inr \<lparr>bx_x = 200, bx_y = 1350, bx_width = 3800, bx_height = 1350\<rparr>"
    by (simp add: cropBounds_def inset_bad_def crop_offset_def crop_extent_def js_round_def floor_eq_iff)
  with crop_inside_and_bounded [of 4000 3000 ?crop] show ?thesis by simp
qed

text \<open>
  The input of the segmentation model: every one of the three channels of every pixel is
  normalised by the largest byte of the image, the mean and the deviation of its channel, in
  planes of the tensor, and no two of them share a cell.
\<close>

lemma tensor_normalised:
  assumes "i < n" and "c < 3"
  shows "tensor_data n pixels (c * n + i) =
      (of_nat (pixels (4 * i + c)) / of_nat (pixel_maximum n pixels) - channel_mean c) / channel_std c
    \<and> pixels (4 * i + c) \<le> pixel_maximum n pixels
    \<and> (\<forall>j<n. \<forall>d<3. c * n + i = d * n + j \<longrightarrow> c = d \<and> i = j)"
  using tensor_data_at [OF assms] pixel_maximum_bounds [of n pixels] assms plane_index [of i n _ c]
  by auto

lemma tensor_normalised_witness:
  "tensor_data 1 (\<lambda>k. if k = 1 then 200 else 100) (1 * 1 + 0) = (1 - 456 / 1000) / (224 / 1000)"
proof -
  have "pixel_maximum 1 (\<lambda>k. if k = 1 then 200 else 100) = 200"
    by (simp add: pixel_maximum_def numeral_eq_Suc upt_rec)
  with tensor_normalised [of 0 1 1 "\<lambda>k. if k = 1 then 200 else 100"] show ?thesis
    by (simp add: channel_mean_def channel_std_def)
qed

text \<open>
  C35. The mask: over the range of a prediction that is not flat, the alpha byte is from 0 to 255,
  0 at the least and 255 at the greatest value, and grows with the prediction.
\<close>

theorem mask_is_monotone_byte:
  assumes "0 < n" and "prediction_range n f = (Some lo, Some hi)" and "lo < hi" and "i < n" and "j < n"
  shows "lo \<le> f i \<and> f i \<le> hi
    \<and> 0 \<le> mask_image (Some lo) (Some hi) f i \<and> mask_image (Some lo) (Some hi) f i \<le> 255
    \<and> (f i = lo \<longrightarrow> mask_image (Some lo) (Some hi) f i = 0)
    \<and> (f i = hi \<longrightarrow> mask_image (Some lo) (Some hi) f i = 255)
    \<and> (f i \<le> f j \<longrightarrow> mask_image (Some lo) (Some hi) f i \<le> mask_image (Some lo) (Some hi) f j)"
  using prediction_range_bounds [OF assms(1), of f] assms mask_alpha_byte mask_alpha_mono [OF assms(3)]
    mask_alpha_ends [OF assms(3)]
  by (auto simp: mask_image_def)

theorem mask_is_monotone_byte_witness:
  "mask_image (Some 0) (Some 1) (\<lambda>i. of_nat i) 0 = 0 \<and> mask_image (Some 0) (Some 1) (\<lambda>i. of_nat i) 1 = 255"
proof -
  have "prediction_range 2 (\<lambda>i. of_nat i) = (Some 0, Some 1)"
    by (simp add: prediction_range_def numeral_eq_Suc min_inf_def max_inf_def)
  from mask_is_monotone_byte [OF _ this, of 0 0] mask_is_monotone_byte [OF _ this, of 1 1] show ?thesis
    by simp
qed

text \<open>
  C34. Trimming reports that there is no garment exactly when no pixel of the result is visible;
  otherwise the box lies in the image, is not empty, and holds every visible pixel.
\<close>

theorem trim_keeps_every_visible_pixel:
  assumes "0 \<le> w"
  shows "(case trim_box w h (trim_scan w h alpha) of
      Inl m \<Rightarrow> m = No_garment_found \<and> visible w h alpha = {}
    | Inr bx \<Rightarrow> visible w h alpha \<noteq> {}
        \<and> 0 \<le> bx_x bx \<and> 1 \<le> bx_width bx \<and> bx_x bx + bx_width bx \<le> w
        \<and> 0 \<le> bx_y bx \<and> 1 \<le> bx_height bx \<and> bx_y bx + bx_height bx \<le> h
        \<and> (\<forall>(x, y)\<in>visible w h alpha. bx_x bx \<le> x \<and> x < bx_x bx + bx_width bx
            \<and> bx_y bx \<le> y \<and> y < bx_y bx + bx_height bx))"
proof (cases "trim_box w h (trim_scan w h alpha)")
  case (Inl m)
  with trim_box_none [OF assms, of h alpha m] show ?thesis by simp
next
  case (Inr bx)
  with trim_box_holds_visible [OF Inr assms] trim_box_none [OF assms, of h alpha No_garment_found]
  show ?thesis by simp
qed

theorem trim_keeps_every_visible_pixel_witness:
  "trim_box 3 2 (trim_scan 3 2 (\<lambda>x y. if x = 1 then 255 else 0))
     = Inr \<lparr>bx_x = 0, bx_y = 0, bx_width = 3, bx_height = 2\<rparr>
   \<and> visible 3 2 (\<lambda>x y. if x = 1 then 255 else 0) \<noteq> {}"
proof -
  let ?alpha = "\<lambda>x y :: int. if x = (1 :: int) then 255 else (0 :: int)"
  have "trim_box 3 2 (trim_scan 3 2 ?alpha) = Inr \<lparr>bx_x = 0, bx_y = 0, bx_width = 3, bx_height = 2\<rparr>"
    by (simp add: trim_box_def trim_scan_def trim_pixel_def upto.simps)
  with trim_keeps_every_visible_pixel [of 3 2 ?alpha] show ?thesis by auto
qed

text \<open>
  C36. Whatever the platform answers and wherever the work fails, removing the background gives back
  exactly what it has taken, each thing once: the decoded image as soon as there is one, also when it
  is too large to be processed; the input tensor; and the output tensors whenever the model has run,
  also when no outline or no garment is found, a canvas is missing or the result is too large. Cropping
  does the same. A photo that results has 1 to 2048 pixels on each side and at most 12 MB, and the
  session is kept unless its creation failed.
\<close>

theorem remove_background_releases:
  assumes "removeBackground world kept = (kept', taken, freed, result)"
    and "cropPhoto w crop = (taken_crop, freed_crop, result_crop)"
  shows "mset freed = mset taken \<and> distinct taken \<and> mset freed_crop = mset taken_crop
    \<and> (Decoded_image \<in> set taken \<longleftrightarrow>
         bg_import world = None \<and> (kept \<or> bg_create world = None) \<and> bg_bitmap world \<noteq> None)
    \<and> (Output_tensors \<in> set taken \<longleftrightarrow>
         bg_import world = None \<and> (kept \<or> bg_create world = None)
         \<and> (\<exists>m n. bg_bitmap world = Some (m, n) \<and> m * n \<le> 24000000)
         \<and> bg_canvas world 0 \<and> (\<exists>p. bg_run world (tensor_data mask_size (bg_pixels world)) = Inr p))
    \<and> (kept' \<longleftrightarrow> kept \<or> bg_import world = None \<and> bg_create world = None)
    \<and> (\<forall>png m n. result = Inr png \<and> bg_bitmap world = Some (m, n) \<and> 1 \<le> m \<and> 1 \<le> n \<longrightarrow>
         1 \<le> png_width png \<and> png_width png \<le> 2048 \<and> 1 \<le> png_height png \<and> png_height png \<le> 2048
         \<and> png_size png \<le> 12 * 1024 * 1024)"
proof (cases "bg_import world = None \<and> (if kept then None else bg_create world) = None")
  case False
  then have "kept' = (kept \<and> bg_import world \<noteq> None)" "taken = []" "freed = []" "isl result"
    "\<not> (bg_import world = None \<and> (kept \<or> bg_create world = None))"
    using assms(1) by (auto simp: removeBackground_def split: option.splits if_splits)
  then show ?thesis using crop_releases [OF assms(2)] by auto
next
  case True
  then have on: "bg_import world = None" "kept \<or> bg_create world = None" by (auto split: if_splits)
  show ?thesis
  proof (cases "bg_bitmap world" rule: bitmap_size_cases)
    case (sized m n)
    obtain held r where st: "segment_and_trim world (int m) (int n) = (held, r)"
      by (cases "segment_and_trim world (int m) (int n)")
    have out: "kept'" "taken = Decoded_image # held" "freed = bg_finally held" "r = result"
      using assms(1) True sized st by (simp_all add: removeBackground_def)
    have held: "held = (if bg_canvas world 0
      then Input_tensor # (if isl (bg_run world (tensor_data mask_size (bg_pixels world))) then [] else [Output_tensors])
      else [])" using segment_held [of world "int m" "int n"] st by simp
    have ran: "isl x \<longleftrightarrow> \<not> (\<exists>p. x = Inr p)" for x :: "jsval + (nat \<Rightarrow> rat)" by (cases x) auto
    have png: "1 \<le> png_width p \<and> png_width p \<le> 2048 \<and> 1 \<le> png_height p \<and> png_height p \<le> 2048
        \<and> png_size p \<le> 12582912" if "result = Inr p" "1 \<le> m" "1 \<le> n" for p
      by (rule segment_png) (use st out that in auto)
    show ?thesis
      using on sized(1,2) out png crop_releases [OF assms(2)] by (auto simp: held bg_finally_def ran)
  qed (use assms(1) on True crop_releases [OF assms(2)] in \<open>auto simp: removeBackground_def\<close>)
qed

text \<open>A photo without an outline: the model has run, and everything is given back all the same.\<close>

definition demo_world :: bg_world where
  "demo_world =
     \<lparr>bg_import = None, bg_create = None, bg_bitmap = Some (2, 2), bg_canvas = (\<lambda>_. True),
      bg_pixels = (\<lambda>_. 0), bg_run = (\<lambda>_. Inr (\<lambda>_. 0)), bg_alpha = (\<lambda>_ _ _. 0), bg_blob = None\<rparr>"

definition demo_crop_world :: crop_world where
  "demo_crop_world = \<lparr>crw_bitmap = Some (6000, 5000), crw_canvas = True, crw_blob = None\<rparr>"

theorem remove_background_releases_witness:
  "\<exists>taken freed. removeBackground demo_world False = (True, taken, freed, Inl (JPhotoError No_clear_outline))
     \<and> Output_tensors \<in> set taken \<and> mset freed = mset taken"
proof -
  let ?p = "\<lambda>_ :: nat. 0 :: rat"
  obtain lo hi where "prediction_range mask_size ?p = (Some lo, Some hi)" "lo = 0" "hi = 0"
    using prediction_range_bounds [of mask_size ?p] by (auto simp: mask_size_def)
  then have r: "removeBackground demo_world False = (True, [Decoded_image, Input_tensor, Output_tensors],
      [Input_tensor, Output_tensors, Decoded_image], Inl (JPhotoError No_clear_outline))"
    by (simp add: removeBackground_def demo_world_def bitmap_size_def segment_and_trim_def bg_finally_def)
  obtain t f x where c: "cropPhoto demo_crop_world emptyCrop = (t, f, x)" by (rule prod_cases3)
  show ?thesis using remove_background_releases [OF r c] unfolding r by simp
qed

text \<open>
  A photo more than 4096 times as wide as it is high, which the decoder admits, scales to a
  canvas without rows, so removing its background ends in the error of the canvas, shown as a
  failed connection; cropping keeps at least one row.
\<close>

lemma remove_background_of_a_line_fails:
  assumes "int w > 4096 * int h" and "1 \<le> h" and "bg_canvas world 0" and "bg_canvas world 1"
    and "bg_run world (tensor_data mask_size (bg_pixels world)) = Inr p"
    and "prediction_range mask_size p = (Some lo, Some hi)" and "hi - lo \<ge> 1 / 1000"
  shows "snd (segment_and_trim world (int w) (int h)) = Inl index_size_error
    \<and> snd (crop_size \<lparr>bx_x = 0, bx_y = 0, bx_width = int w, bx_height = int h\<rparr>) = 1"
proof -
  have w: "0 < (of_int (int w) :: rat)" "4096 * of_int (int h) < (of_int (int w) :: rat)"
    using assms(1,2) by (simp, metis of_int_less_iff of_int_mult of_int_numeral)
  have "max (int w) (int h) = int w" using assms(1) by simp
  then have "scale_ratio (int w) (int h) \<le> 2048 / of_int (int w)" by (simp add: scale_ratio_def)
  then have "of_int (int h) * scale_ratio (int w) (int h) \<le> of_int (int h) * (2048 / of_int (int w))"
    by (intro mult_left_mono) simp_all
  also have "\<dots> < 1 / 2"
    using w by (simp add: field_simps)
  finally have half: "of_int (int h) * scale_ratio (int w) (int h) < 1 / 2" .
  have "0 \<le> of_int (int h) * scale_ratio (int w) (int h)"
    by (simp add: scale_ratio_def)
  with half have "js_round (of_int (int h) * scale_ratio (int w) (int h)) = 0"
    unfolding js_round_def by linarith
  then obtain a where "result_size (int w) (int h) = (a, 0)"
    and "snd (crop_size \<lparr>bx_x = 0, bx_y = 0, bx_width = int w, bx_height = int h\<rparr>) = 1"
    by (simp add: result_size_def crop_size_def Let_def)
  then show ?thesis
    using assms(3-7) by (simp add: segment_and_trim_def)
qed

lemma remove_background_of_a_line_fails_witness:
  "snd (segment_and_trim (demo_world\<lparr>bg_run := \<lambda>_. Inr (\<lambda>i. if i = 0 then 1 else 0)\<rparr>) 10000 1)
     = Inl index_size_error"
proof -
  let ?p = "\<lambda>i :: nat. if i = 0 then 1 else (0 :: rat)"
  obtain lo hi where range: "prediction_range mask_size ?p = (Some lo, Some hi)"
    and all: "\<forall>i<mask_size. lo \<le> ?p i \<and> ?p i \<le> hi"
    using prediction_range_bounds [of mask_size ?p] by (auto simp: mask_size_def)
  have "1 < mask_size" "0 < mask_size" by (simp_all add: mask_size_def)
  with all have "lo \<le> ?p 1" and "?p 0 \<le> hi" by (blast, blast)
  then have "hi - lo \<ge> 1 / 1000" by simp
  then show ?thesis
    using remove_background_of_a_line_fails [of 1 10000
        "demo_world\<lparr>bg_run := \<lambda>_. Inr ?p\<rparr>" ?p lo hi] range
    by (simp add: demo_world_def)
qed

end
