(* ===== verification/Recommendation_View.thy ===== *)
theory Recommendation_View
  imports Query_Hooks Outfit_Plan_Lib Wardrobe_Lib
begin

text \<open>
  The recommendation page, \<^verbatim>\<open>components/recommendation/recommendation-view.tsx\<close>, and the choice
  of its scene, \<^verbatim>\<open>app/(site)/recommend/page.tsx\<close>: a person confirms constraints, asks for outfits
  of the own wardrobe, and saves any of them as a plan. Changing a constraint discards the
  result, and a version number makes the response to an outdated request have no effect.
\<close>

subsection \<open>Scenes and constraints\<close>

datatype extra = Rain | Walking | Packed_too

text \<open>\<^verbatim>\<open>scene && isSceneId(scene) ? scene : 'daily'\<close>\<close>

definition selected_scene :: "jstring option \<Rightarrow> jstring" where
  "selected_scene scene =
     (case scene of
        None \<Rightarrow> js ''daily''
      | Some i \<Rightarrow> if i \<noteq> [] \<and> isSceneId i then i else js ''daily'')"

definition sceneDefaults :: "jstring \<Rightarrow> formality option \<times> extra list" where
  "sceneDefaults i =
     (if i = js ''commute'' \<or> i = js ''date'' then (Some Smart_casual, [])
      else if i = js ''travel'' then (None, [Walking])
      else if i = js ''relax'' then (Some Casual, [])
      else (None, []))"

definition scene_of :: "jstring \<Rightarrow> scene" where
  "scene_of i =
     (case List.find (\<lambda>item. js (sc_id item) = i) scenes of
        Some item \<Rightarrow> item
      | None \<Rightarrow> hd scenes)"

subsection \<open>State\<close>

datatype recommend_text = Session_expired | Recommendation_failed account_text

record recommend_state =
  rv_user :: "user query"
  rv_formality :: "formality option"
  rv_warmth :: "warmth option"
  rv_extras :: "extra list"
  rv_pending :: bool
  rv_save_pending :: "jstring option"
  rv_error :: "recommend_text option"
  rv_save_error :: "plan_text option"
  rv_result :: "recommendation_response option"
  rv_submitted :: "recommendation_request option"
  rv_saved :: "jstring \<Rightarrow> jstring option"
  rv_plan_ids :: "jstring \<Rightarrow> jstring option"
  rv_version :: nat

definition recommend_init :: "jstring \<Rightarrow> recommend_state" where
  "recommend_init initialScene =
     \<lparr>rv_user = no_query, rv_formality = fst (sceneDefaults initialScene), rv_warmth = None,
      rv_extras = snd (sceneDefaults initialScene), rv_pending = False, rv_save_pending = None,
      rv_error = None, rv_save_error = None, rv_result = None, rv_submitted = None,
      rv_saved = Map.empty, rv_plan_ids = Map.empty, rv_version = 0\<rparr>"

text \<open>A text that is missing or empty is falsy.\<close>

definition truthy :: "jstring option \<Rightarrow> bool" where
  "truthy v \<longleftrightarrow> v \<noteq> None \<and> v \<noteq> Some []"

subsection \<open>Handlers\<close>

definition changeConstraints ::
  "(recommend_state \<Rightarrow> recommend_state) \<Rightarrow> (recommend_state, unit) prog" where
  "changeConstraints change =
     Update (\<lambda>t. t\<lparr>rv_version := rv_version t + 1\<rparr>)
       (Update change
         (set_state (\<lambda>t. t\<lparr>rv_pending := False, rv_result := None, rv_submitted := None,
            rv_error := None, rv_save_error := None, rv_saved := Map.empty,
            rv_plan_ids := Map.empty\<rparr>)))"

definition recommend_request :: "env \<Rightarrow> recommend_state \<Rightarrow> recommendation_request" where
  "recommend_request e s =
     (let timeZone = device_time_zone e in
      \<lparr>rr_local_date = device_today e, rr_time_zone = timeZone,
       rr_formality_band = rv_formality s, rr_warmth_band = rv_warmth s,
       rr_requires_rain_suitability = (Rain \<in> set (rv_extras s)),
       rr_requires_walking_suitability = (Walking \<in> set (rv_extras s)),
       rr_include_packed_items = (Packed_too \<in> set (rv_extras s))\<rparr>)"

definition recommend_error :: "jsval \<Rightarrow> recommend_text" where
  "recommend_error cause =
     (if accountStatus cause = Some 401 then Session_expired
      else Recommendation_failed (accountErrorMessage cause))"

text \<open>A statement that has an effect only while \<open>version\<close> is the current one.\<close>

definition if_current ::
  "nat \<Rightarrow> (recommend_state \<Rightarrow> recommend_state) \<Rightarrow> (recommend_state, unit) prog" where
  "if_current version f =
     Read (\<lambda>_ t. if rv_version t \<noteq> version then Return () else set_state f)"

definition rv_recommend :: "recommend_state \<Rightarrow> (recommend_state, unit) prog" where
  "rv_recommend s =
     (if q_data (rv_user s) = None \<or> rv_pending s then Return ()
      else Read (\<lambda>e t.
        let request = recommend_request e s; version = rv_version t + 1 in
        Update (\<lambda>t. t\<lparr>rv_pending := True, rv_version := version, rv_error := None,
            rv_save_error := None, rv_result := None\<rparr>)
          (finally_do
            (catch
              (bind (recommend request) (\<lambda>response.
                 if_current version (\<lambda>t. t\<lparr>rv_submitted := Some request, rv_result := Some response\<rparr>)))
              (\<lambda>cause. if_current version (\<lambda>t. t\<lparr>rv_error := Some (recommend_error cause)\<rparr>)))
            (if_current version (\<lambda>t. t\<lparr>rv_pending := False\<rparr>)))))"

definition candidate_body ::
  "jstring \<Rightarrow> recommendation_request \<Rightarrow> jstring \<Rightarrow> wardrobe_item list \<Rightarrow> create_plan" where
  "candidate_body initialScene submitted i items =
     plan_fields.extend
       \<lparr>pf_local_date = rr_local_date submitted, pf_time_zone = rr_time_zone submitted,
        pf_context_summary = Some (sc_label (scene_of initialScene)),
        pf_items = map (\<lambda>item. \<lparr>os_item_id = wi_id item, os_revision = wi_revision item\<rparr>) items,
        pf_confirmed_unavailable_ids = map wi_id (filter (\<lambda>item. wi_availability item = Packed) items)\<rparr>
       (create_plan.fields i)"

definition rv_savePlan ::
  "jstring \<Rightarrow> wardrobe_item list \<Rightarrow> jstring \<Rightarrow> recommend_state \<Rightarrow> (recommend_state, unit) prog" where
  "rv_savePlan initialScene items key s =
     (case rv_submitted s of
        None \<Rightarrow> Return ()
      | Some submitted \<Rightarrow>
          if truthy (rv_save_pending s) \<or> truthy (rv_saved s key) then Return ()
          else Read (\<lambda>e t.
            let i = (case rv_plan_ids t key of Some i \<Rightarrow> i | None \<Rightarrow> env_uuid e) in
            Update (\<lambda>t. t\<lparr>rv_plan_ids := (rv_plan_ids t)(key \<mapsto> i), rv_save_pending := Some key,
                rv_save_error := None\<rparr>)
              (finally_do
                (catch
                  (bind (plan_create (candidate_body initialScene submitted i items)) (\<lambda>plan.
                     Update (\<lambda>t. t\<lparr>rv_saved := (rv_saved t)(key \<mapsto> op_id plan),
                         rv_plan_ids := (rv_plan_ids t)(key := None)\<rparr>)
                       (Emit (Toast Toast_plan_from_recommendation) (Return ()))))
                  (\<lambda>cause. set_state (\<lambda>t. t\<lparr>rv_save_error := Some (planErrorMessage cause)\<rparr>)))
                (set_state (\<lambda>t. t\<lparr>rv_save_pending := None\<rparr>)))))"

declare changeConstraints_def [view_defs] if_current_def [view_defs] rv_recommend_def [view_defs]
  rv_savePlan_def [view_defs]

subsection \<open>Controls\<close>

datatype recommend_page_kind =
  Rv_checking | Rv_login | Rv_account_unreadable account_text | Rv_content

definition recommend_page :: "recommend_state \<Rightarrow> recommend_page_kind" where
  "recommend_page s =
     (if isPending (rv_user s) then Rv_checking
      else if session_lost (rv_user s) then Rv_login
      else if isError (rv_user s) then Rv_account_unreadable (accountErrorMessage (q_error (rv_user s)))
      else Rv_content)"

definition rv_candidates :: "recommend_state \<Rightarrow> recommendation_candidate list" where
  "rv_candidates s = (case rv_result s of None \<Rightarrow> [] | Some r \<Rightarrow> rp_candidates r)"

text \<open>\<^verbatim>\<open>items.map((item) => item.id).join(':')\<close>\<close>

fun join_ids :: "jstring list \<Rightarrow> jstring" where
  "join_ids [] = []"
| "join_ids [i] = i"
| "join_ids (i # is) = i @ js '':'' @ join_ids is"

definition candidate_key :: "recommendation_candidate \<Rightarrow> jstring" where
  "candidate_key candidate = join_ids (map wi_id (rc_items candidate))"

datatype recommend_event =
    Rv_user_changed "user query"
  | Rv_retry
  | Choose_formality "formality option" | Choose_warmth "warmth option" | Choose_extras "extra list"
  | Submit_constraints
  | Save_candidate recommendation_candidate

definition recommend_dispatch ::
  "jstring \<Rightarrow> recommend_state \<Rightarrow> recommend_event \<Rightarrow> (recommend_state, unit) prog option" where
  "recommend_dispatch initialScene s ev =
     (case ev of
        Rv_user_changed u \<Rightarrow> Some (set_state (\<lambda>t. t\<lparr>rv_user := u\<rparr>))
      | Rv_retry \<Rightarrow>
          (case recommend_page s of
             Rv_account_unreadable _ \<Rightarrow> Some (refetch Current_user_key)
           | _ \<Rightarrow> None)
      | _ \<Rightarrow>
          if recommend_page s \<noteq> Rv_content \<or> rv_save_pending s \<noteq> None then None
          else
            (case ev of
               Choose_formality v \<Rightarrow> Some (changeConstraints (\<lambda>t. t\<lparr>rv_formality := v\<rparr>))
             | Choose_warmth v \<Rightarrow> Some (changeConstraints (\<lambda>t. t\<lparr>rv_warmth := v\<rparr>))
             | Choose_extras v \<Rightarrow> Some (changeConstraints (\<lambda>t. t\<lparr>rv_extras := v\<rparr>))
             | Submit_constraints \<Rightarrow> if rv_pending s then None else Some (rv_recommend s)
             | Save_candidate candidate \<Rightarrow>
                 if candidate \<in> set (rv_candidates s) \<and> \<not> truthy (rv_saved s (candidate_key candidate))
                 then Some (rv_savePlan initialScene (rc_items candidate) (candidate_key candidate) s)
                 else None
             | _ \<Rightarrow> None))"

subsection \<open>The contract of the page\<close>

text \<open>The constraints on the page, as a request states them.\<close>

definition states_constraints :: "recommend_state \<Rightarrow> recommendation_request \<Rightarrow> bool" where
  "states_constraints s r \<longleftrightarrow>
     rr_formality_band r = rv_formality s \<and> rr_warmth_band r = rv_warmth s
     \<and> rr_requires_rain_suitability r = (Rain \<in> set (rv_extras s))
     \<and> rr_requires_walking_suitability r = (Walking \<in> set (rv_extras s))
     \<and> rr_include_packed_items r = (Packed_too \<in> set (rv_extras s))"

text \<open>
  What is shown was asked for under the constraints on the page: the invariant. While the
  version stays, so do the constraints: the relation that every handler keeps.
\<close>

definition recommend_inv :: "recommend_state \<Rightarrow> bool" where
  "recommend_inv s \<longleftrightarrow>
     (rv_result s \<noteq> None \<longrightarrow> rv_submitted s \<noteq> None)
     \<and> (\<forall>r. rv_submitted s = Some r \<longrightarrow> states_constraints s r \<and> rr_time_zone r \<noteq> [])"

definition recommend_rel :: "recommend_state \<Rightarrow> recommend_state \<Rightarrow> bool" where
  "recommend_rel s t \<longleftrightarrow>
     rv_version s \<le> rv_version t
     \<and> (rv_version s = rv_version t \<longrightarrow>
          rv_formality t = rv_formality s \<and> rv_warmth t = rv_warmth s \<and> rv_extras t = rv_extras s)"

definition candidate_plan_ok :: "jstring \<Rightarrow> create_plan \<Rightarrow> bool" where
  "candidate_plan_ok initialScene b \<longleftrightarrow>
     pf_time_zone b \<noteq> [] \<and> pf_context_summary b = Some (sc_label (scene_of initialScene))
     \<and> set (pf_confirmed_unavailable_ids b) \<subseteq> os_item_id ` set (pf_items b)"

definition recommend_policy :: "jstring \<Rightarrow> effect \<Rightarrow> bool" where
  "recommend_policy initialScene x =
     (case x of
        Issued (Call c) \<Rightarrow>
          (case c of
             RecommendWardrobeOutfits r \<Rightarrow> rr_time_zone r \<noteq> []
           | CreateOutfitPlan b \<Rightarrow> candidate_plan_ok initialScene b
           | _ \<Rightarrow> False)
      | Issued _ \<Rightarrow> True
      | Toast _ \<Rightarrow> True
      | _ \<Rightarrow> False)"

definition recommend_exclusive :: "recommend_event \<Rightarrow> bool" where
  "recommend_exclusive ev \<longleftrightarrow> (case ev of Save_candidate _ \<Rightarrow> True | _ \<Rightarrow> False)"

abbreviation rv_saving :: "recommend_state \<Rightarrow> bool" where
  "rv_saving s \<equiv> rv_save_pending s \<noteq> None"

text \<open>While a plan is saved the other handlers leave the saved plans and their identifiers.\<close>

definition recommend_stable :: "recommend_state \<Rightarrow> recommend_state \<Rightarrow> bool" where
  "recommend_stable u t \<longleftrightarrow> rv_saved t = rv_saved u \<and> rv_plan_ids t = rv_plan_ids u
     \<and> rv_save_error t = rv_save_error u"

lemma candidate_body_sel [simp]:
  "pf_time_zone (candidate_body sc r i items) = rr_time_zone r"
  "pf_local_date (candidate_body sc r i items) = rr_local_date r"
  "pf_context_summary (candidate_body sc r i items) = Some (sc_label (scene_of sc))"
  "pf_items (candidate_body sc r i items) =
     map (\<lambda>item. \<lparr>os_item_id = wi_id item, os_revision = wi_revision item\<rparr>) items"
  "pf_confirmed_unavailable_ids (candidate_body sc r i items) =
     map wi_id (filter (\<lambda>item. wi_availability item = Packed) items)"
  "cp_id (candidate_body sc r i items) = i"
  by (simp_all add: candidate_body_def plan_fields.defs create_plan.defs)

lemma candidate_body_ok: "rr_time_zone r \<noteq> [] \<Longrightarrow> candidate_plan_ok sc (candidate_body sc r i items)"
  by (force simp: candidate_plan_ok_def)

lemma recommend_request_ok [simp]:
  "states_constraints s (recommend_request e s)" "rr_time_zone (recommend_request e s) \<noteq> []"
  by (simp_all add: states_constraints_def recommend_request_def Let_def)

lemma wp_if_current [simp]:
  "wp C (if_current version f) Q E u s \<longleftrightarrow> Q () u (if rv_version s = version then f s else s)"
  by (simp add: if_current_def)

lemma same_constraints:
  "rv_formality t = rv_formality s \<Longrightarrow> rv_warmth t = rv_warmth s \<Longrightarrow> rv_extras t = rv_extras s \<Longrightarrow>
     states_constraints t r = states_constraints s r"
  by (simp add: states_constraints_def)


abbreviation rv_own :: "jstring \<Rightarrow> recommend_state contract" where
  "rv_own sc \<equiv> own_contract (recommend_policy sc) recommend_inv rv_saving recommend_rel recommend_stable"

abbreviation rv_shared :: "jstring \<Rightarrow> recommend_state contract" where
  "rv_shared sc \<equiv> shared_contract (recommend_policy sc) recommend_inv rv_saving recommend_rel
     recommend_stable (\<lambda>s. \<not> rv_saving s)"

lemma rv_savePlan_wp:
  assumes "recommend_inv s" and "\<not> rv_saving s"
  shows "wp (rv_own sc) (rv_savePlan sc items key s) (released recommend_inv recommend_rel (\<lambda>s. \<not> rv_saving s))
    (released recommend_inv recommend_rel (\<lambda>s. \<not> rv_saving s)) s s"
proof (cases "rv_submitted s")
  case None
  then show ?thesis using assms by (simp add: rv_savePlan_def released_def recommend_rel_def)
next
  case (Some r)
  then have "rr_time_zone r \<noteq> []" using assms(1) by (simp add: recommend_inv_def)
  note body = candidate_body_ok [OF this, of sc]
  have inv: "recommend_inv (t\<lparr>rv_plan_ids := p\<rparr>) = recommend_inv t"
    "recommend_inv (t\<lparr>rv_save_pending := k\<rparr>) = recommend_inv t"
    "recommend_inv (t\<lparr>rv_saved := f\<rparr>) = recommend_inv t"
    "recommend_inv (t\<lparr>rv_save_error := x\<rparr>) = recommend_inv t"
    "recommend_inv (t\<lparr>rv_plan_ids := p, rv_save_pending := k, rv_save_error := x\<rparr>) = recommend_inv t"
    "recommend_inv (t\<lparr>rv_saved := f, rv_plan_ids := p, rv_save_pending := k\<rparr>) = recommend_inv t"
    "recommend_inv (t\<lparr>rv_saved := f, rv_plan_ids := p\<rparr>) = recommend_inv t"
    "recommend_inv (t\<lparr>rv_save_error := x, rv_save_pending := k\<rparr>) = recommend_inv t" for t p k x f
    by (simp_all add: recommend_inv_def states_constraints_def)
  show ?thesis
    using assms body Some
    by (simp add: rv_savePlan_def hook_defs released_def Let_def recommend_policy_def inv recommend_rel_def)
qed

lemma rv_recommend_wp:
  assumes "recommend_inv s" and "\<not> rv_saving s"
  shows "wp (rv_shared sc) (rv_recommend s)
    (kept recommend_inv rv_saving recommend_rel recommend_stable (\<lambda>s. \<not> rv_saving s))
    (kept recommend_inv rv_saving recommend_rel recommend_stable (\<lambda>s. \<not> rv_saving s)) s s"
  using assms
  by (auto simp: rv_recommend_def hook_defs kept_def stable_def Let_def recommend_policy_def
      recommend_inv_def recommend_rel_def recommend_stable_def states_constraints_def recommend_request_def)

interpretation rec: exclusive_view "recommend_dispatch sc" "recommend_init sc" rv_saving
  recommend_exclusive "\<lambda>s. \<not> rv_saving s" recommend_inv recommend_rel recommend_stable "recommend_policy sc" for sc
proof
  show "recommend_inv (recommend_init sc) \<and> \<not> rv_saving (recommend_init sc)"
    by (simp add: recommend_init_def recommend_inv_def)
next
  fix s ev p
  assume D: "recommend_dispatch sc s ev = Some p"
  show "runs_own (recommend_policy sc) recommend_inv rv_saving recommend_rel recommend_stable
      (\<lambda>s. \<not> rv_saving s) s p"
    if "recommend_exclusive ev" "recommend_inv s" "\<not> rv_saving s"
  proof -
    from D that(1) obtain items key where "p = rv_savePlan sc items key s"
      by (auto simp: recommend_dispatch_def recommend_exclusive_def split: recommend_event.splits if_splits)
    with rv_savePlan_wp [OF that(2,3)] show ?thesis by (simp add: runs_own_def)
  qed
  show "p = Return ()" if "recommend_exclusive ev" "rv_saving s"
    using D that by (auto simp: recommend_dispatch_def recommend_exclusive_def split: recommend_event.splits)
  show "runs_shared (recommend_policy sc) recommend_inv rv_saving recommend_rel recommend_stable
      (\<lambda>s. \<not> rv_saving s) s p"
    if "\<not> recommend_exclusive ev" "recommend_inv s"
  proof (cases "ev = Submit_constraints")
    case True
    with D have "p = rv_recommend s" "\<not> rv_saving s"
      by (simp_all add: recommend_dispatch_def split: if_splits)
    with rv_recommend_wp that(2) show ?thesis by (simp add: runs_shared_def)
  next
    case False
    with D that show ?thesis
      by (auto simp: recommend_dispatch_def recommend_exclusive_def changeConstraints_def runs_shared_def kept_def
          stable_def recommend_inv_def recommend_rel_def recommend_stable_def states_constraints_def
          recommend_policy_def split: recommend_event.splits if_splits recommend_page_kind.splits)
  qed
qed (auto simp: recommend_rel_def recommend_stable_def)

end
