(* ===== verification/Recommendation_Properties.thy ===== *)
theory Recommendation_Properties
  imports Recommendation_View Demo_Data
begin

text \<open>The properties of the recommendation page, with an example run.\<close>

subsection \<open>The first segments\<close>

lemma run_recommend:
  assumes "q_data (rv_user s) \<noteq> None" and "\<not> rv_pending s"
  shows "\<exists>k. run e (rv_recommend s) s =
       (s\<lparr>rv_pending := True, rv_version := rv_version s + 1, rv_error := None, rv_save_error := None,
          rv_result := None\<rparr>,
        [Issued (Call (RecommendWardrobeOutfits (recommend_request e s)))],
        Await (Call (RecommendWardrobeOutfits (recommend_request e s))) k)
     \<and> (\<forall>r e' t. rv_version t \<noteq> rv_version s + 1 \<longrightarrow> run e' (k r) t = (t, [], Return ()))
     \<and> (\<forall>resp e' t. rv_version t = rv_version s + 1 \<longrightarrow>
          run e' (k (Inr (R_recommendation resp))) t
            = (t\<lparr>rv_submitted := Some (recommend_request e s), rv_result := Some resp, rv_pending := False\<rparr>,
               [], Return ()))"
  using assms
  by (auto simp: rv_recommend_def if_current_def prog_simps Let_def split: sum.split option.split)

lemma save_candidate_dispatched:
  assumes "recommend_dispatch sc s (Save_candidate cand) = Some p"
  shows "p = rv_savePlan sc (rc_items cand) (candidate_key cand) s \<and> rv_save_pending s = None
    \<and> \<not> truthy (rv_saved s (candidate_key cand))"
  using assms by (auto simp: recommend_dispatch_def split: if_splits)

definition candidate_call :: "jstring \<Rightarrow> env \<Rightarrow> recommend_state \<Rightarrow> recommendation_request \<Rightarrow>
    recommendation_candidate \<Rightarrow> api_call" where
  "candidate_call sc e s req cand = CreateOutfitPlan (candidate_body sc req
     (case rv_plan_ids s (candidate_key cand) of Some i \<Rightarrow> i | None \<Rightarrow> env_uuid e) (rc_items cand))"

lemma run_savePlan:
  assumes "rv_submitted s = Some req" and "rv_save_pending s = None"
    and "\<not> truthy (rv_saved s (candidate_key cand))"
  shows "\<exists>k. run e (rv_savePlan sc (rc_items cand) (candidate_key cand) s) s =
       (s\<lparr>rv_plan_ids := (rv_plan_ids s)(candidate_key cand \<mapsto>
            case rv_plan_ids s (candidate_key cand) of Some i \<Rightarrow> i | None \<Rightarrow> env_uuid e),
          rv_save_pending := Some (candidate_key cand), rv_save_error := None\<rparr>,
        [Issued (Call (candidate_call sc e s req cand))], Await (Call (candidate_call sc e s req cand)) k)
     \<and> (\<forall>cause e' t. run e' (k (Inl cause)) t
          = (t\<lparr>rv_save_error := Some (planErrorMessage cause), rv_save_pending := None\<rparr>, [], Return ()))"
  using assms by (simp add: rv_savePlan_def candidate_call_def prog_simps Let_def truthy_def)

subsection \<open>An example run\<close>

definition demo_candidate :: recommendation_candidate where
  "demo_candidate = \<lparr>rc_items = [demo_item, demo_trousers\<lparr>wi_availability := Packed\<rparr>], rc_reasons = [],
     rc_uncertainties = []\<rparr>"

definition demo_response :: recommendation_response where
  "demo_response = \<lparr>rp_candidates = [demo_candidate], rp_gap = None, rp_policy_version = []\<rparr>"

definition demo_constraints :: recommend_state where
  "demo_constraints = (recommend_init (js ''commute''))\<lparr>rv_user := loaded demo_user\<rparr>"

definition demo_asked :: recommend_state where
  "demo_asked = demo_constraints\<lparr>rv_pending := True, rv_version := rv_version demo_constraints + 1,
     rv_error := None, rv_save_error := None, rv_result := None\<rparr>"

definition demo_answered :: recommend_state where
  "demo_answered = demo_asked\<lparr>rv_submitted := Some (recommend_request demo_env demo_constraints),
     rv_result := Some demo_response, rv_pending := False\<rparr>"

abbreviation demo_rec :: "recommend_state \<Rightarrow> recommend_event \<Rightarrow> (recommend_state, unit) prog option" where
  "demo_rec \<equiv> recommend_dispatch (js ''commute'')"

lemma demo_constraints_sel [simp]:
  "rv_user demo_constraints = loaded demo_user" "\<not> rv_pending demo_constraints"
  "rv_save_pending demo_constraints = None" "rv_version demo_constraints = 0"
  "recommend_page demo_constraints = Rv_content" "rv_plan_ids demo_constraints = Map.empty"
  "rv_saved demo_constraints = Map.empty"
  by (simp_all add: demo_constraints_def recommend_init_def recommend_page_def)

lemma demo_answered_sel [simp]:
  "rv_submitted demo_answered = Some (recommend_request demo_env demo_constraints)"
  "rv_result demo_answered = Some demo_response" "rv_save_pending demo_answered = None"
  "rv_saved demo_answered = Map.empty" "rv_plan_ids demo_answered = Map.empty"
  "recommend_page demo_answered = Rv_content" "rv_candidates demo_answered = [demo_candidate]"
  by (simp_all add: demo_answered_def demo_asked_def rv_candidates_def demo_response_def recommend_page_def)

lemma demo_constraints_reached: "reach demo_rec (recommend_init (js ''commute'')) (demo_constraints, [], [])"
proof -
  have "reach demo_rec (recommend_init (js ''commute'')) (demo_constraints, [], [] @ [])"
    by (rule reach_sync [OF reach.start, of _ _ "Rv_user_changed (loaded demo_user)" _ demo_env])
       (simp add: recommend_dispatch_def demo_constraints_def)+
  then show ?thesis by simp
qed

lemma demo_may_ask: "q_data (rv_user demo_constraints) \<noteq> None" "\<not> rv_pending demo_constraints"
  by simp_all

lemmas demo_ask = run_recommend [OF demo_may_ask, of demo_env, folded demo_asked_def]

lemma demo_answered_reached:
  "reach demo_rec (recommend_init (js ''commute'')) (demo_answered, [],
     [Issued (Call (RecommendWardrobeOutfits (recommend_request demo_env demo_constraints)))])"
proof -
  let ?c = "Call (RecommendWardrobeOutfits (recommend_request demo_env demo_constraints))"
  from demo_ask obtain k where
    r: "run demo_env (rv_recommend demo_constraints) demo_constraints = (demo_asked, [Issued ?c], Await ?c k)"
    and "\<And>resp e' t. rv_version t = rv_version demo_constraints + 1 \<Longrightarrow>
      run e' (k (Inr (R_recommendation resp))) t
        = (t\<lparr>rv_submitted := Some (recommend_request demo_env demo_constraints), rv_result := Some resp,
            rv_pending := False\<rparr>, [], Return ())" by blast
  then have k: "run demo_env (k (Inr (R_recommendation demo_response))) demo_asked = (demo_answered, [], Return ())"
    by (simp add: demo_answered_def demo_asked_def)
  have "demo_rec demo_constraints Submit_constraints = Some (rv_recommend demo_constraints)"
    by (simp add: recommend_dispatch_def)
  from reach_start_await [where D = demo_rec, OF demo_constraints_reached this r] have
    "reach demo_rec (recommend_init (js ''commute'')) (demo_asked, [(Submit_constraints, Await ?c k)], [Issued ?c])"
    by simp
  from reach_settle [where D = demo_rec, OF this k] show ?thesis by simp
qed

lemma demo_saves: "demo_rec demo_answered (Save_candidate demo_candidate)
    = Some (rv_savePlan (js ''commute'') (rc_items demo_candidate) (candidate_key demo_candidate) demo_answered)"
  by (simp add: recommend_dispatch_def truthy_def)

subsection \<open>Properties\<close>

text \<open>
  C18. In every reachable configuration of the recommendation page, a result on the page was asked
  for under the very constraints on the page; every plan made from a recommendation has a time
  zone and the label of the scene, and confirms only garments that it lists; and at most one such
  plan is being saved.
\<close>

theorem recommendation_of_its_constraints:
  assumes "reach (recommend_dispatch sc) (recommend_init sc) (s, ts, tr)"
  shows "(rv_result s \<noteq> None \<longrightarrow> (\<exists>req. rv_submitted s = Some req \<and> states_constraints s req))
    \<and> (Issued (Call (CreateOutfitPlan b)) \<in> set tr \<longrightarrow> candidate_plan_ok sc b)
    \<and> length (filter (\<lambda>(ev, q). recommend_exclusive ev) ts) = (if rv_save_pending s = None then 0 else 1)"
  using rec.reach_invariant [OF assms] rec.reach_exclusive [OF assms]
    rec.reach_effects [OF assms, of "Issued (Call (CreateOutfitPlan b))"]
  by (auto simp: recommend_inv_def recommend_policy_def)

theorem recommendation_of_its_constraints_witness:
  "\<exists>s ts tr req. reach demo_rec (recommend_init (js ''commute'')) (s, ts, tr) \<and> rv_result s = Some demo_response
     \<and> rv_submitted s = Some req \<and> rr_formality_band req = Some Smart_casual \<and> states_constraints s req"
proof -
  have "rr_formality_band (recommend_request demo_env demo_constraints) = Some Smart_casual"
    by (simp add: recommend_request_def Let_def demo_constraints_def recommend_init_def sceneDefaults_def)
  then show ?thesis
    using recommendation_of_its_constraints [OF demo_answered_reached] demo_answered_reached by force
qed

text \<open>
  C19. Once any constraint has been changed, the response to a recommendation asked for before
  changes nothing and has no effect, whatever it is and whatever has happened in the meantime.
\<close>

theorem recommendation_outdated_dropped:
  assumes "recommend_dispatch sc s Submit_constraints = Some p" and "run e p s = (s1, out, Await c k)"
    and "ev = Choose_formality f \<or> ev = Choose_warmth w \<or> ev = Choose_extras x"
    and "recommend_dispatch sc s1 ev = Some p2" and "run e p2 s1 = (s2, out2, q2)"
    and "recommend_rel s2 t"
  shows "run e' (k r) t = (t, [], Return ()) \<and> \<not> rv_pending s2 \<and> rv_result s2 = None \<and> rv_submitted s2 = None"
proof -
  have p: "p = rv_recommend s" "\<not> rv_pending s"
    using assms(1) by (auto simp: recommend_dispatch_def split: if_splits)
  then have "q_data (rv_user s) \<noteq> None"
    using assms(2) by (cases "q_data (rv_user s) = None") (simp_all add: rv_recommend_def)
  from run_recommend [OF this p(2), of e] assms(2) p(1)
  have v: "rv_version s1 = rv_version s + 1"
    and k: "rv_version t \<noteq> rv_version s + 1 \<longrightarrow> run e' (k r) t = (t, [], Return ())" by auto
  obtain g where "p2 = changeConstraints g" and "\<And>t. rv_version (g t) = rv_version t"
    using assms(3,4) by (auto simp: recommend_dispatch_def split: if_splits)
  with assms(5) have s2: "rv_version s2 = rv_version s1 + 1" "\<not> rv_pending s2" "rv_result s2 = None"
    "rv_submitted s2 = None"
    by (auto simp: changeConstraints_def)
  with v assms(6) have "rv_version t \<noteq> rv_version s + 1" by (auto simp: recommend_rel_def)
  with k s2 show ?thesis by simp
qed

theorem recommendation_outdated_dropped_witness:
  "\<exists>s1 c k s2. run demo_env (rv_recommend demo_constraints) demo_constraints = (s1, [Issued c], Await c k)
     \<and> run demo_env (k (Inr (R_recommendation demo_response))) s2 = (s2, [], Return ())
     \<and> rv_formality s2 = Some Formal \<and> \<not> rv_pending s2"
proof -
  have p: "demo_rec demo_constraints Submit_constraints = Some (rv_recommend demo_constraints)"
    by (simp add: recommend_dispatch_def)
  from demo_ask obtain c k where
    r: "run demo_env (rv_recommend demo_constraints) demo_constraints = (demo_asked, [Issued c], Await c k)"
    by blast
  let ?p2 = "changeConstraints (\<lambda>t. t\<lparr>rv_formality := Some Formal\<rparr>)"
  have p2: "demo_rec demo_asked (Choose_formality (Some Formal)) = Some ?p2"
    by (simp add: recommend_dispatch_def demo_asked_def recommend_page_def)
  obtain s2 out2 q2 where r2: "run demo_env ?p2 demo_asked = (s2, out2, q2)" by (rule prod_cases3)
  have "rv_formality s2 = Some Formal" using r2 by (auto simp: changeConstraints_def)
  moreover have "recommend_rel s2 s2" by (simp add: recommend_rel_def)
  note recommendation_outdated_dropped [where sc = "js ''commute''" and f = "Some Formal"
      and r = "Inr (R_recommendation demo_response)" and e' = demo_env, OF p r _ p2 r2 this]
  ultimately show ?thesis using r by blast
qed

text \<open>
  Saving a recommended outfit sends its garments at the revisions shown, for the date and the
  time zone of the request it answers. A failure is shown, frees the page and keeps the identifier:
  saving the same outfit again sends the same request.
\<close>

lemma recommendation_save_repeats:
  assumes "recommend_dispatch sc s (Save_candidate cand) = Some p" and "run e p s = (s1, out, Await c k)"
    and "recommend_stable s1 t" and "run e' (k (Inl cause)) t = (t', out', q)"
  shows "\<exists>req b. rv_submitted s = Some req \<and> out = [Issued (Call (CreateOutfitPlan b))]
    \<and> pf_local_date b = rr_local_date req \<and> pf_time_zone b = rr_time_zone req
    \<and> pf_items b = map (\<lambda>item. \<lparr>os_item_id = wi_id item, os_revision = wi_revision item\<rparr>) (rc_items cand)
    \<and> q = Return () \<and> out' = [] \<and> rv_save_pending t' = None
    \<and> rv_save_error t' = Some (planErrorMessage cause)
    \<and> (rv_submitted t' = rv_submitted s \<longrightarrow>
        fst (snd (run e2 (rv_savePlan sc (rc_items cand) (candidate_key cand) t') t')) = out)"
proof -
  let ?key = "candidate_key cand"
  have p: "p = rv_savePlan sc (rc_items cand) ?key s" "rv_save_pending s = None" "\<not> truthy (rv_saved s ?key)"
    using save_candidate_dispatched [OF assms(1)] by simp_all
  obtain req where req: "rv_submitted s = Some req"
    using assms(2) p(1) by (cases "rv_submitted s") (auto simp: rv_savePlan_def)
  from run_savePlan [OF req p(2,3), of e sc] assms(2) p(1)
  have s1: "s1 = s\<lparr>rv_plan_ids := (rv_plan_ids s)(?key \<mapsto>
       case rv_plan_ids s ?key of Some i \<Rightarrow> i | None \<Rightarrow> env_uuid e), rv_save_pending := Some ?key, rv_save_error := None\<rparr>"
    and out: "out = [Issued (Call (candidate_call sc e s req cand))]"
    and "run e' (k (Inl cause)) t = (t\<lparr>rv_save_error := Some (planErrorMessage cause), rv_save_pending := None\<rparr>, [], Return ())"
    by auto
  with assms(4) have t': "t' = t\<lparr>rv_save_error := Some (planErrorMessage cause), rv_save_pending := None\<rparr>"
    "out' = []" "q = Return ()" by auto
  have "fst (snd (run e2 (rv_savePlan sc (rc_items cand) ?key t') t')) = out"
    if "rv_submitted t' = rv_submitted s"
  proof -
    have "rv_submitted t' = Some req" "rv_save_pending t' = None" "\<not> truthy (rv_saved t' ?key)"
      using that req p(3) assms(3) by (simp_all add: t'(1) s1 recommend_stable_def)
    from run_savePlan [OF this, of e2 sc] show ?thesis
      using assms(3) by (auto simp: out candidate_call_def t'(1) s1 recommend_stable_def)
  qed
  with req out t' show ?thesis by (simp add: candidate_call_def)
qed

lemma recommendation_save_repeats_witness:
  "\<exists>s1 c k t' b. run demo_env (rv_savePlan (js ''commute'') (rc_items demo_candidate) (candidate_key demo_candidate)
        demo_answered) demo_answered = (s1, [Issued (Call (CreateOutfitPlan b))], Await c k)
     \<and> run demo_env (k (Inl network_error)) s1 = (t', [], Return ())
     \<and> fst (snd (run demo_env (rv_savePlan (js ''commute'') (rc_items demo_candidate) (candidate_key demo_candidate)
          t') t')) = [Issued (Call (CreateOutfitPlan b))]"
proof -
  let ?p = "rv_savePlan (js ''commute'') (rc_items demo_candidate) (candidate_key demo_candidate)"
  have unsaved: "\<not> truthy (rv_saved demo_answered (candidate_key demo_candidate))" by (simp add: truthy_def)
  from run_savePlan [OF demo_answered_sel(1,3) unsaved, of demo_env "js ''commute''"] obtain s1 c k where
    r: "run demo_env (?p demo_answered) demo_answered = (s1, [Issued c], Await c k)"
    and k: "\<And>cause e' t. run e' (k (Inl cause)) t
      = (t\<lparr>rv_save_error := Some (planErrorMessage cause), rv_save_pending := None\<rparr>, [], Return ())"
    and s1: "rv_submitted s1 = rv_submitted demo_answered" by force
  let ?t = "s1\<lparr>rv_save_error := Some (planErrorMessage network_error), rv_save_pending := None\<rparr>"
  have "recommend_stable s1 s1" by (simp add: recommend_stable_def)
  from recommendation_save_repeats [where sc = "js ''commute''", OF demo_saves r this k [of demo_env network_error s1], of demo_env] s1
  obtain b where b: "c = Call (CreateOutfitPlan b)" "fst (snd (run demo_env (?p ?t) ?t)) = [Issued c]"
    by auto
  show ?thesis using r k [of demo_env network_error s1] b by blast
qed

end
