(* ===== verification/Photo_Upload.thy ===== *)
theory Photo_Upload
  imports Api_Client Js_Values
begin

text \<open>
  The upload of a photo, \<^verbatim>\<open>useWardrobePhotoUpload\<close> of \<^verbatim>\<open>hooks/wardrobe/use-wardrobe-photo.ts\<close>: the
  photo is decoded and measured, announced to the server, stored at the signed address, completed,
  and polled until it has been checked. What has been stored is remembered for each file, so a
  retry does not store it again.

  One call of \<^verbatim>\<open>upload\<close> is awaited by its caller before another begins, since the page that calls it
  has one operation at a time; \<^verbatim>\<open>upload_world\<close> holds what the platform, the storage and the server
  answer in one call, in the order the code asks, and the readings of the clock.
\<close>

subsection \<open>The answers of one call\<close>

record upload_world =
  up_bitmap :: "(nat \<times> nat) option"
  up_digest :: "jsval + nat list"
  up_create :: "jsval + media_upload"
  up_put :: "jsval + (jstring \<times> jstring) list"
  up_complete :: "jsval + media"
  up_get :: "nat \<Rightarrow> jsval + media"
  up_clock :: "nat \<Rightarrow> int"

datatype upload_effect =
    Up_call api_call
  | Up_put axios_config
  | Up_wait nat
  | Up_bitmap_closed

text \<open>
  \<^verbatim>\<open>setTimeout(resolve, 600)\<close> resolves no earlier than 600 milliseconds later, and the clock does not
  go back: reading \<open>n\<close> is the one after \<open>n\<close> waits.
\<close>

definition clock_ok :: "upload_world \<Rightarrow> bool" where
  "clock_ok w \<longleftrightarrow> (\<forall>n. up_clock w n + 600 \<le> up_clock w (Suc n))"

subsection \<open>The digest\<close>

definition hex_digit :: "nat \<Rightarrow> code_unit" where
  "hex_digit n = of_nat (if n < 10 then 0x30 + n else 0x61 + (n - 10))"

text \<open>\<^verbatim>\<open>byte.toString(16)\<close> and \<^verbatim>\<open>padStart(2, '0')\<close>\<close>

definition toString_16 :: "nat \<Rightarrow> jstring" where
  "toString_16 byte = (if byte < 16 then [hex_digit byte] else [hex_digit (byte div 16), hex_digit (byte mod 16)])"

definition padStart_2 :: "jstring \<Rightarrow> jstring" where
  "padStart_2 s = replicate (2 - length s) 0x30 @ s"

definition hex_digest :: "nat list \<Rightarrow> jstring" where
  "hex_digest bytes = concat (map (\<lambda>byte. padStart_2 (toString_16 byte)) bytes)"

subsection \<open>Storing\<close>

definition put_options :: "js_file \<Rightarrow> (jstring \<times> jstring) list \<Rightarrow> request_options" where
  "put_options jpeg headers = (plain PUT [])
     \<lparr>ro_data := B_file (file_key jpeg), ro_headers := headers, ro_with_credentials := Some False,
      ro_timeout := Some 30000, ro_on_headers := True\<rparr>"

text \<open>\<^verbatim>\<open>String(response['x-amz-version-id'] ?? '')\<close>\<close>

definition version_of :: "(jstring \<times> jstring) list \<Rightarrow> jstring" where
  "version_of headers =
     (case js_map headers (js ''x-amz-version-id'') of None \<Rightarrow> [] | Some v \<Rightarrow> v)"

definition upload_body :: "js_file \<Rightarrow> nat list \<Rightarrow> upload_request" where
  "upload_body jpeg bytes =
     \<lparr>ur_purpose = ''wardrobe_image'', ur_content_type = file_type jpeg, ur_byte_size = file_size jpeg,
      ur_sha256 = hex_digest bytes\<rparr>"

definition store_decoded ::
  "upload_world \<Rightarrow> js_file \<Rightarrow> nat \<Rightarrow> nat \<Rightarrow> upload_effect list \<times> (jsval + jstring \<times> jstring)" where
  "store_decoded w jpeg width height =
     (if width * height > 24000000 then ([], Inl (JPhotoError Photo_over_24_megapixels_upload))
      else
        (case up_digest w of
           Inl e \<Rightarrow> ([], Inl e)
         | Inr bytes \<Rightarrow>
             let create = Up_call (CreateMediaUpload (upload_body jpeg bytes)) in
             (case up_create w of
                Inl e \<Rightarrow> ([create], Inl e)
              | Inr upload \<Rightarrow>
                  let headers = filter (\<lambda>(k, v). k \<noteq> js ''Content-Length'') (mu_headers upload);
                      put = Up_put (request (mu_url upload) (put_options jpeg headers))
                  in
                  (case up_put w of
                     Inl e \<Rightarrow> ([create, put], Inl e)
                   | Inr response \<Rightarrow>
                       let version = version_of response in
                       ([create, put],
                        if version = [] then Inl (JPhotoError Storage_without_version)
                        else Inr (me_id (mu_media upload), version))))))"

definition store_photo ::
  "upload_world \<Rightarrow> js_file \<Rightarrow> upload_effect list \<times> (jsval + jstring \<times> jstring)" where
  "store_photo w file =
     (case up_bitmap w of
        None \<Rightarrow> ([], Inl (JPhotoError Photo_undecodable))
      | Some (width, height) \<Rightarrow>
          let (out, r) = store_decoded w file width height in (out @ [Up_bitmap_closed], r))"

subsection \<open>Polling\<close>

text \<open>The loop may run as long as the clock admits; that it ends is a theorem.\<close>

partial_function (option) poll_media ::
  "upload_world \<Rightarrow> int \<Rightarrow> jstring \<Rightarrow> nat \<Rightarrow> (upload_effect list \<times> (jsval + jstring)) option"
where
  "poll_media w deadline i n =
     (case up_get w n of
        Inl e \<Rightarrow> Some ([Up_call (GetMedia i)], Inl e)
      | Inr media \<Rightarrow>
          if me_status media = Media_ready then Some ([Up_call (GetMedia i)], Inr (me_id media))
          else if me_status media \<in> {Media_rejected, Media_deleting, Media_deleted}
          then Some ([Up_call (GetMedia i)], Inl (JPhotoError Photo_rejected))
          else if up_clock w (Suc n) < deadline
          then Option.bind (poll_media w deadline i (Suc n))
                 (\<lambda>(out, r). Some (Up_call (GetMedia i) # Up_wait 600 # out, r))
          else Some ([Up_call (GetMedia i), Up_wait 600], Inl (JPhotoError Photo_still_processing)))"

subsection \<open>The upload\<close>

text \<open>
  The attempts remember, for each file, the identifier and the version of what has been stored.
  Both are set together, so an entry is a pair; an entry with an empty identifier counts as none.
\<close>

type_synonym attempts = "nat \<Rightarrow> (jstring \<times> jstring) option"

definition finish_upload ::
  "upload_world \<Rightarrow> jstring \<Rightarrow> jstring \<Rightarrow> (upload_effect list \<times> (jsval + jstring)) option" where
  "finish_upload w i version =
     (case up_complete w of
        Inl e \<Rightarrow> Some ([Up_call (CompleteMediaUpload i version)], Inl e)
      | Inr _ \<Rightarrow>
          Option.bind (poll_media w (up_clock w 0 + 30000) i 0)
            (\<lambda>(out, r). Some (Up_call (CompleteMediaUpload i version) # out, r)))"

definition stored :: "attempts \<Rightarrow> js_file \<Rightarrow> (jstring \<times> jstring) option" where
  "stored attempts file =
     (case attempts (file_key file) of
        Some (i, version) \<Rightarrow> if i = [] then None else Some (i, version)
      | None \<Rightarrow> None)"

definition upload ::
  "upload_world \<Rightarrow> js_file \<Rightarrow> attempts \<Rightarrow> (attempts \<times> upload_effect list \<times> (jsval + jstring)) option" where
  "upload w file attempts =
     (case stored attempts file of
        Some (i, version) \<Rightarrow>
          Option.bind (finish_upload w i version) (\<lambda>(out, r). Some (attempts, out, r))
      | None \<Rightarrow>
          (case store_photo w file of
             (out, Inl e) \<Rightarrow> Some (attempts, out, Inl e)
           | (out, Inr (i, version)) \<Rightarrow>
               Option.bind (finish_upload w i version)
                 (\<lambda>(out', r). Some (attempts(file_key file \<mapsto> (i, version)), out @ out', r))))"

subsection \<open>The loop ends\<close>

definition polls :: "upload_effect list \<Rightarrow> nat" where
  "polls out = length (filter (\<lambda>x. \<exists>i. x = Up_call (GetMedia i)) out)"

lemma polls_simps [simp]:
  "polls [] = 0" "polls (Up_call (GetMedia i) # out) = Suc (polls out)" "polls (Up_wait n # out) = polls out"
  "polls (Up_call (CompleteMediaUpload i v) # out) = polls out"
  "polls (out @ out') = polls out + polls out'"
  by (simp_all add: polls_def)

lemma clock_waits: "clock_ok w \<Longrightarrow> up_clock w 0 + 600 * int n \<le> up_clock w n"
proof (induction n)
  case (Suc n)
  then have "up_clock w n + 600 \<le> up_clock w (Suc n)" by (simp add: clock_ok_def)
  with Suc show ?case by simp
qed simp

lemma poll_media_ends:
  assumes "clock_ok w" and "n < 50"
  shows "\<exists>out r. poll_media w (up_clock w 0 + 30000) i n = Some (out, r) \<and> polls out \<le> 50 - n"
  using assms(2)
proof (induction "50 - n" arbitrary: n)
  case (Suc k)
  show ?case
  proof (cases "up_clock w (Suc n) < up_clock w 0 + 30000")
    case True
    with clock_waits [OF assms(1), of "Suc n"] have "600 * int (Suc n) < 30000" by linarith
    then have "Suc n < 50" by simp
    moreover have "k = 50 - Suc n" using Suc(2) by simp
    ultimately obtain out r where
      "poll_media w (up_clock w 0 + 30000) i (Suc n) = Some (out, r)" "polls out \<le> 50 - Suc n"
      using Suc(1) by blast
    with True \<open>Suc n < 50\<close> show ?thesis
      by (subst poll_media.simps) (auto split: sum.split)
  next
    case False
    then show ?thesis
      using Suc.prems by (subst poll_media.simps) (auto split: sum.split)
  qed
qed simp

lemma finish_upload_ends:
  assumes "clock_ok w"
  shows "\<exists>out r. finish_upload w i v = Some (Up_call (CompleteMediaUpload i v) # out, r) \<and> polls out \<le> 50"
  using poll_media_ends [OF assms, of 0 i] by (auto simp: finish_upload_def split: sum.split)

lemma store_photo_polls: "polls (fst (store_photo w file)) = 0"
  by (auto simp: store_photo_def store_decoded_def polls_def Let_def split: option.split sum.split)

lemma hex_digest_length: "list_all (\<lambda>b. b < 256) bytes \<Longrightarrow> length (hex_digest bytes) = 2 * length bytes"
  by (induction bytes) (simp_all add: hex_digest_def padStart_2_def toString_16_def)

end
