(* ===== verification/Upload_Properties.thy ===== *)
theory Upload_Properties
  imports Photo_Upload
begin

text \<open>The properties of the upload of a photo.\<close>

lemma poll_media_effects:
  assumes "poll_media w d i n = Some y"
  shows "set (fst y) \<subseteq> {Up_call (GetMedia i), Up_wait 600}"
proof -
  have "i = j \<longrightarrow> set (fst y) \<subseteq> {Up_call (GetMedia j), Up_wait 600}" for j
    using assms
  proof (rule poll_media.raw_induct [rotated], goal_cases)
    case (1 poll w d i n y)
    then show ?case
      by (fastforce split: sum.splits if_splits simp: bind_eq_Some_conv)
  qed
  then show ?thesis by blast
qed

lemma finish_upload_effects:
  assumes "finish_upload w i v = Some (out, r)"
  shows "\<exists>rest. out = Up_call (CompleteMediaUpload i v) # rest \<and> set rest \<subseteq> {Up_call (GetMedia i), Up_wait 600}"
  using assms poll_media_effects
  by (force simp: finish_upload_def bind_eq_Some_conv split: sum.splits)

lemma store_photo_effects:
  assumes "store_photo w file = (out, r)"
  shows "(\<forall>cfg. Up_put cfg \<in> set out \<longrightarrow>
      (\<exists>upload. up_create w = Inr upload \<and> ac_url cfg = mu_url upload \<and> ac_method cfg = PUT
        \<and> \<not> ac_with_credentials cfg \<and> js ''Content-Length'' \<notin> fst ` set (ac_headers cfg)))
    \<and> (Up_bitmap_closed \<in> set out \<longleftrightarrow> up_bitmap w \<noteq> None)
    \<and> (\<forall>m n. up_bitmap w = Some (m, n) \<and> m * n > 24000000 \<longrightarrow> out = [Up_bitmap_closed])
    \<and> length (filter (\<lambda>x. \<exists>cfg. x = Up_put cfg) out) \<le> 1
    \<and> (\<forall>i v. r = Inr (i, v) \<longrightarrow> v \<noteq> [])"
  using assms
  by (auto simp: store_photo_def store_decoded_def Let_def request_def put_options_def plain_def
      split: option.splits sum.splits if_splits)

lemma upload_ends_aux:
  assumes "clock_ok w"
  shows "\<exists>attempts' out r. upload w file attempts = Some (attempts', out, r) \<and> polls out \<le> 50"
proof (cases "stored attempts file")
  case (Some a)
  obtain i v where a: "a = (i, v)" by (cases a)
  from finish_upload_ends [OF assms, of i v] obtain out r where
    "finish_upload w i v = Some (Up_call (CompleteMediaUpload i v) # out, r)" "polls out \<le> 50" by blast
  with Some a show ?thesis by (simp add: upload_def)
next
  case None
  obtain out0 r0 where st: "store_photo w file = (out0, r0)" by (cases "store_photo w file")
  then have no_polls: "polls out0 = 0" using store_photo_polls [of w "file"] by simp
  show ?thesis
  proof (cases r0)
    case (Inl e)
    with None st no_polls show ?thesis by (simp add: upload_def)
  next
    case (Inr a)
    obtain i v where a: "a = (i, v)" by (cases a)
    from finish_upload_ends [OF assms, of i v] obtain out r where
      "finish_upload w i v = Some (Up_call (CompleteMediaUpload i v) # out, r)" "polls out \<le> 50" by blast
    with None st no_polls Inr a show ?thesis by (simp add: upload_def)
  qed
qed

subsection \<open>Properties\<close>

text \<open>
  C20. An upload ends whatever the server answers, as long as a wait takes the time it is asked for:
  it gives an error or the identifier of a photo, after at most 50 polls.
\<close>

theorem upload_ends:
  assumes "clock_ok w"
  shows "\<exists>attempts' out r. upload w file attempts = Some (attempts', out, r) \<and> polls out \<le> 50"
  using upload_ends_aux [OF assms] .

definition slow_world :: upload_world where
  "slow_world =
     \<lparr>up_bitmap = Some (800, 600), up_digest = Inr [0, 255],
      up_create = Inr \<lparr>mu_media = \<lparr>me_id = js ''m1'', me_status = Media_pending_upload\<rparr>,
        mu_url = js ''https://s/x'', mu_headers = [(js ''Content-Length'', js ''9'')]\<rparr>,
      up_put = Inr [(js ''x-amz-version-id'', js ''v1'')],
      up_complete = Inr \<lparr>me_id = js ''m1'', me_status = Media_checking\<rparr>,
      up_get = (\<lambda>_. Inr \<lparr>me_id = js ''m1'', me_status = Media_checking\<rparr>),
      up_clock = (\<lambda>n. 600 * int n)\<rparr>"

definition demo_photo :: js_file where
  "demo_photo = \<lparr>file_key = 1, file_type = js ''image/png'', file_size = 9\<rparr>"

theorem upload_ends_witness:
  "\<exists>attempts' out r. upload slow_world demo_photo Map.empty = Some (attempts', out, r) \<and> polls out \<le> 50"
  by (rule upload_ends) (simp add: clock_ok_def slow_world_def)

text \<open>
  C21. A photo is stored once: when an upload has stored it and failed later for any reason, the next
  upload of the same file completes the version that is stored, and announces and stores nothing.
\<close>

theorem upload_retry_stores_nothing:
  assumes "stored attempts file = None" and "store_photo w file = (out0, Inr (i, v))" and "i \<noteq> []"
    and "upload w file attempts = Some (attempts1, out1, r1)"
    and "upload w2 file attempts1 = Some (attempts2, out2, r2)"
  shows "length (filter (\<lambda>x. \<exists>cfg. x = Up_put cfg) out1) \<le> 1 \<and> attempts2 = attempts1
    \<and> (\<exists>rest. out2 = Up_call (CompleteMediaUpload i v) # rest
        \<and> set rest \<subseteq> {Up_call (GetMedia i), Up_wait 600})"
proof -
  from assms(1,2,4) obtain out where fin: "finish_upload w i v = Some (out, r1)"
    and a1: "attempts1 = attempts(file_key file \<mapsto> (i, v))" "out1 = out0 @ out"
    by (auto simp: upload_def bind_eq_Some_conv)
  have "filter (\<lambda>x. \<exists>cfg. x = Up_put cfg) out = []"
    using finish_upload_effects [OF fin] by (auto simp: filter_empty_conv)
  moreover have "stored attempts1 file = Some (i, v)"
    using a1(1) assms(3) by (simp add: stored_def)
  ultimately show ?thesis
    using assms(5) a1 store_photo_effects [OF assms(2)] finish_upload_effects [of w2 i v]
    by (auto simp: upload_def bind_eq_Some_conv)
qed

abbreviation failing_world :: upload_world where
  "failing_world \<equiv> slow_world\<lparr>up_complete := Inl JNull\<rparr>"

theorem upload_retry_stores_nothing_witness:
  "\<exists>attempts1 out1 attempts2 rest r2. upload failing_world demo_photo Map.empty
       = Some (attempts1, out1, Inl JNull)
     \<and> upload slow_world demo_photo attempts1
       = Some (attempts2, Up_call (CompleteMediaUpload (js ''m1'') (js ''v1'')) # rest, r2)
     \<and> attempts2 = attempts1"
proof -
  have none: "stored Map.empty demo_photo = None" by (simp add: stored_def)
  obtain out0 where st: "store_photo failing_world demo_photo = (out0, Inr (js ''m1'', js ''v1''))"
    by (simp add: store_photo_def store_decoded_def Let_def slow_world_def version_of_def js_map_def)
  let ?a = "Map.empty(file_key demo_photo \<mapsto> (js ''m1'', js ''v1''))"
  have first: "upload failing_world demo_photo Map.empty
      = Some (?a, out0 @ [Up_call (CompleteMediaUpload (js ''m1'') (js ''v1''))], Inl JNull)"
    by (simp add: upload_def none st finish_upload_def)
  have "clock_ok slow_world" by (simp add: clock_ok_def slow_world_def)
  from upload_ends_aux [OF this] obtain a2 out2 r2 where
    second: "upload slow_world demo_photo ?a = Some (a2, out2, r2)" by blast
  have "js ''m1'' \<noteq> []" by simp
  from upload_retry_stores_nothing [OF none st this first second] first second show ?thesis by blast
qed

text \<open>
  What is stored goes to the signed address alone: the request carries no session cookie, only
  the signed headers without the length, and it is made only for a photo of at most 24 million
  pixels; the decoded image is closed on every path.
\<close>

lemma upload_put_is_bare:
  assumes "upload w file attempts = Some (attempts', out, r)" and "stored attempts file = None"
  shows "(\<forall>cfg. Up_put cfg \<in> set out \<longrightarrow>
      (\<exists>upload. up_create w = Inr upload \<and> ac_url cfg = mu_url upload
        \<and> \<not> ac_with_credentials cfg \<and> js ''Content-Length'' \<notin> fst ` set (ac_headers cfg))
      \<and> (\<exists>m n. up_bitmap w = Some (m, n) \<and> m * n \<le> 24000000))
    \<and> (Up_bitmap_closed \<in> set out \<longleftrightarrow> up_bitmap w \<noteq> None)"
proof -
  obtain out0 r0 where st: "store_photo w file = (out0, r0)" by (cases "store_photo w file")
  have "\<exists>rest. out = out0 @ rest \<and> (\<forall>x\<in>set rest. (\<forall>cfg. x \<noteq> Up_put cfg) \<and> x \<noteq> Up_bitmap_closed)"
    using assms st finish_upload_effects
    by (cases r0) (fastforce simp: upload_def bind_eq_Some_conv)+
  then obtain rest where out: "out = out0 @ rest"
    and rest: "\<And>x. x \<in> set rest \<Longrightarrow> (\<forall>cfg. x \<noteq> Up_put cfg) \<and> x \<noteq> Up_bitmap_closed" by blast
  have "Up_put cfg \<in> set out \<longleftrightarrow> Up_put cfg \<in> set out0" "Up_bitmap_closed \<in> set out \<longleftrightarrow> Up_bitmap_closed \<in> set out0" for cfg
    using rest by (auto simp: out)
  moreover have "\<exists>m n. up_bitmap w = Some (m, n) \<and> m * n \<le> 24000000" if "Up_put cfg \<in> set out0" for cfg
    using that store_photo_effects [OF st] st
    by (cases "up_bitmap w") (auto simp: store_photo_def not_less)
  ultimately show ?thesis using store_photo_effects [OF st] by auto
qed

lemma upload_put_is_bare_witness:
  "\<exists>attempts' out r. upload slow_world demo_photo Map.empty = Some (attempts', out, r)
     \<and> Up_bitmap_closed \<in> set out"
proof -
  have "clock_ok slow_world" by (simp add: clock_ok_def slow_world_def)
  from upload_ends_aux [OF this] obtain a out r where
    u: "upload slow_world demo_photo Map.empty = Some (a, out, r)" by blast
  have "stored Map.empty demo_photo = None" "up_bitmap slow_world \<noteq> None"
    by (simp_all add: stored_def slow_world_def)
  with upload_put_is_bare [OF u] u show ?thesis by blast
qed

end
