(* ===== verification/Json_Text.thy ===== *)
theory Json_Text
  imports Js_Strings
begin

text \<open>
  \<^verbatim>\<open>JSON.parse\<close> and the part of \<^verbatim>\<open>JSON.stringify\<close> that \<^verbatim>\<open>hooks/look/use-look-draft.ts\<close> uses, on
  strings of code units. A number keeps its spelling, because no reader of these values looks at
  one; an object keeps its members in the order of the text, and of two members with one name the
  later one counts.

  The parser has fuel, one unit for each value, element or member; \<open>json_parse\<close> gives it one more
  than twice the code units of the text, and \<open>parse_fuel\<close> shows that more changes nothing.
\<close>

datatype json =
    J_null
  | J_bool bool
  | J_number jstring
  | J_string jstring
  | J_array "json list"
  | J_object "(jstring \<times> json) list"

subsection \<open>Tokens\<close>

definition is_json_space :: "code_unit \<Rightarrow> bool" where
  "is_json_space u \<longleftrightarrow> u \<in> {0x9, 0xA, 0xD, 0x20}"

definition skip :: "jstring \<Rightarrow> jstring" where
  "skip s = dropWhile is_json_space s"

definition hex_value :: "code_unit \<Rightarrow> nat option" where
  "hex_value u =
     (if 0x30 \<le> u \<and> u \<le> 0x39 then Some (unat u - 0x30)
      else if 0x41 \<le> u \<and> u \<le> 0x46 then Some (unat u - 0x41 + 10)
      else if 0x61 \<le> u \<and> u \<le> 0x66 then Some (unat u - 0x61 + 10)
      else None)"

definition hex4 :: "code_unit \<Rightarrow> code_unit \<Rightarrow> code_unit \<Rightarrow> code_unit \<Rightarrow> code_unit option" where
  "hex4 a b c d =
     (case (hex_value a, hex_value b, hex_value c, hex_value d) of
        (Some i, Some j, Some k, Some l) \<Rightarrow> Some (of_nat (((i * 16 + j) * 16 + k) * 16 + l))
      | _ \<Rightarrow> None)"

text \<open>The character after a backslash, but for \<^verbatim>\<open>u\<close>.\<close>

definition escape_value :: "code_unit \<Rightarrow> code_unit option" where
  "escape_value u =
     map_of [(0x22, 0x22), (0x5C, 0x5C), (0x2F, 0x2F), (0x62, 0x8), (0x66, 0xC), (0x6E, 0xA),
       (0x72, 0xD), (0x74, 0x9)] u"

definition prepend :: "code_unit \<Rightarrow> (jstring \<times> jstring) option \<Rightarrow> (jstring \<times> jstring) option" where
  "prepend u r = map_option (\<lambda>(s, rest). (u # s, rest)) r"

text \<open>The rest of a string literal after its opening quote: its value and what follows.\<close>

fun string_rest :: "jstring \<Rightarrow> (jstring \<times> jstring) option" where
  "string_rest [] = None"
| "string_rest (u # us) =
     (if u = 0x22 then Some ([], us)
      else if u = 0x5C then
        (case us of
           [] \<Rightarrow> None
         | v # vs \<Rightarrow>
             if v = 0x75 then
               (case vs of
                  a # b # c # d # ws \<Rightarrow>
                    (case hex4 a b c d of Some x \<Rightarrow> prepend x (string_rest ws) | None \<Rightarrow> None)
                | _ \<Rightarrow> None)
             else (case escape_value v of Some x \<Rightarrow> prepend x (string_rest vs) | None \<Rightarrow> None))
      else if u < 0x20 then None
      else prepend u (string_rest us))"

text \<open>A number: its longest spelling at the front of the text.\<close>

definition digits :: "jstring \<Rightarrow> (jstring \<times> jstring) option" where
  "digits s =
     (let is_digit = (\<lambda>u. 0x30 \<le> u \<and> u \<le> (0x39 :: code_unit)); ds = takeWhile is_digit s in
      if ds = [] then None else Some (ds, dropWhile is_digit s))"

definition integer_part :: "jstring \<Rightarrow> (jstring \<times> jstring) option" where
  "integer_part s =
     (case s of u # us \<Rightarrow> if u = 0x30 then Some ([0x30], us) else digits s | [] \<Rightarrow> None)"

definition fraction_part :: "jstring \<Rightarrow> (jstring \<times> jstring) option" where
  "fraction_part s =
     (case s of
        u # us \<Rightarrow>
          if u = 0x2E then map_option (\<lambda>(ds, rest). (0x2E # ds, rest)) (digits us) else Some ([], s)
      | [] \<Rightarrow> Some ([], []))"

definition exponent_part :: "jstring \<Rightarrow> (jstring \<times> jstring) option" where
  "exponent_part s =
     (case s of
        u # us \<Rightarrow>
          if u = 0x65 \<or> u = 0x45 then
            (case us of
               v # vs \<Rightarrow>
                 if v = 0x2B \<or> v = 0x2D then map_option (\<lambda>(ds, rest). (u # v # ds, rest)) (digits vs)
                 else map_option (\<lambda>(ds, rest). (u # ds, rest)) (digits us)
             | [] \<Rightarrow> None)
          else Some ([], s)
      | [] \<Rightarrow> Some ([], []))"

definition number :: "jstring \<Rightarrow> (jstring \<times> jstring) option" where
  "number s =
     (let (sign, s1) = (case s of u # us \<Rightarrow> if u = 0x2D then ([0x2D], us) else ([], s) | [] \<Rightarrow> ([], s)) in
      Option.bind (integer_part s1) (\<lambda>(i, s2).
        Option.bind (fraction_part s2) (\<lambda>(f, s3).
          Option.bind (exponent_part s3) (\<lambda>(x, s4). Some (sign @ i @ f @ x, s4)))))"

text \<open>The text that follows a given word.\<close>

definition after_word :: "string \<Rightarrow> jstring \<Rightarrow> jstring option" where
  "after_word w s = (if take (length w) s = js w then Some (drop (length w) s) else None)"

subsection \<open>Values\<close>

text \<open>
  \<open>json_value\<close> reads a value after white space, \<open>json_elements\<close> the elements of an array and
  \<open>json_members\<close> the members of an object, each up to the closing bracket.
\<close>

fun json_value :: "nat \<Rightarrow> jstring \<Rightarrow> (json \<times> jstring) option"
  and json_elements :: "nat \<Rightarrow> jstring \<Rightarrow> (json list \<times> jstring) option"
  and json_members :: "nat \<Rightarrow> jstring \<Rightarrow> ((jstring \<times> json) list \<times> jstring) option"
where
  "json_value 0 s = None"
| "json_value (Suc n) s =
     (case skip s of
        [] \<Rightarrow> None
      | u # us \<Rightarrow>
          if u = 0x22 then map_option (\<lambda>(t, rest). (J_string t, rest)) (string_rest us)
          else if u = 0x7B then
            (case skip us of
               v # vs \<Rightarrow>
                 if v = 0x7D then Some (J_object [], vs)
                 else map_option (\<lambda>(ms, rest). (J_object ms, rest)) (json_members n (v # vs))
             | [] \<Rightarrow> None)
          else if u = 0x5B then
            (case skip us of
               v # vs \<Rightarrow>
                 if v = 0x5D then Some (J_array [], vs)
                 else map_option (\<lambda>(es, rest). (J_array es, rest)) (json_elements n (v # vs))
             | [] \<Rightarrow> None)
          else
            (case after_word ''null'' (u # us) of
               Some rest \<Rightarrow> Some (J_null, rest)
             | None \<Rightarrow>
                 (case after_word ''true'' (u # us) of
                    Some rest \<Rightarrow> Some (J_bool True, rest)
                  | None \<Rightarrow>
                      (case after_word ''false'' (u # us) of
                         Some rest \<Rightarrow> Some (J_bool False, rest)
                       | None \<Rightarrow> map_option (\<lambda>(d, rest). (J_number d, rest)) (number (u # us))))))"
| "json_elements 0 s = None"
| "json_elements (Suc n) s =
     (case json_value n s of
        None \<Rightarrow> None
      | Some (x, rest) \<Rightarrow>
          (case skip rest of
             u # us \<Rightarrow>
               if u = 0x5D then Some ([x], us)
               else if u = 0x2C then map_option (\<lambda>(xs, r). (x # xs, r)) (json_elements n us)
               else None
           | [] \<Rightarrow> None))"
| "json_members 0 s = None"
| "json_members (Suc n) s =
     (case skip s of
        u # us \<Rightarrow>
          if u \<noteq> 0x22 then None
          else
            (case string_rest us of
               None \<Rightarrow> None
             | Some (k, rest) \<Rightarrow>
                 (case skip rest of
                    c # cs \<Rightarrow>
                      if c \<noteq> 0x3A then None
                      else
                        (case json_value n cs of
                           None \<Rightarrow> None
                         | Some (x, rest2) \<Rightarrow>
                             (case skip rest2 of
                                v # vs \<Rightarrow>
                                  if v = 0x7D then Some ([(k, x)], vs)
                                  else if v = 0x2C
                                  then map_option (\<lambda>(ms, r). ((k, x) # ms, r)) (json_members n vs)
                                  else None
                              | [] \<Rightarrow> None))
                  | [] \<Rightarrow> None))
      | [] \<Rightarrow> None)"

definition json_parse :: "jstring \<Rightarrow> json option" where
  "json_parse s =
     (case json_value (2 * length s + 1) s of
        Some (x, rest) \<Rightarrow> if skip rest = [] then Some x else None
      | None \<Rightarrow> None)"

subsection \<open>Writing strings and objects of strings\<close>

definition hex_unit :: "nat \<Rightarrow> code_unit" where
  "hex_unit n = of_nat (if n < 10 then 0x30 + n else 0x61 + (n - 10))"

definition unicode_escape :: "code_unit \<Rightarrow> jstring" where
  "unicode_escape u =
     (let n = unat u in
      [0x5C, 0x75, hex_unit (n div 4096), hex_unit (n div 256 mod 16), hex_unit (n div 16 mod 16),
       hex_unit (n mod 16)])"

text \<open>One code unit that is not part of a surrogate pair.\<close>

definition quote_unit :: "code_unit \<Rightarrow> jstring" where
  "quote_unit u =
     (case map_of [(0x8, 0x62), (0x9, 0x74), (0xA, 0x6E), (0xC, 0x66), (0xD, 0x72), (0x22, 0x22), (0x5C, 0x5C)] u of
        Some v \<Rightarrow> [0x5C, v]
      | None \<Rightarrow> if u < 0x20 \<or> is_high u \<or> is_low u then unicode_escape u else [u])"

text \<open>Surrogate pairs are written as they are, lone surrogates escaped.\<close>

fun quote_chars :: "jstring \<Rightarrow> jstring" where
  "quote_chars [] = []"
| "quote_chars [u] = quote_unit u"
| "quote_chars (u # v # us) =
     (if is_high u \<and> is_low v then u # v # quote_chars us else quote_unit u @ quote_chars (v # us))"

definition json_quote :: "jstring \<Rightarrow> jstring" where
  "json_quote s = 0x22 # quote_chars s @ [0x22]"

text \<open>\<^verbatim>\<open>JSON.stringify\<close> of an object literal whose members are strings.\<close>

fun stringify_members :: "(jstring \<times> jstring) list \<Rightarrow> jstring" where
  "stringify_members [] = []"
| "stringify_members [(k, v)] = json_quote k @ [0x3A] @ json_quote v"
| "stringify_members ((k, v) # m # ms) =
     json_quote k @ [0x3A] @ json_quote v @ [0x2C] @ stringify_members (m # ms)"

definition json_stringify :: "(jstring \<times> jstring) list \<Rightarrow> jstring" where
  "json_stringify members = 0x7B # stringify_members members @ [0x7D]"


subsection \<open>Reading back what was written\<close>

lemma hex_value_unit: "n < 16 \<Longrightarrow> hex_value (hex_unit n) = Some n"
proof -
  have "\<forall>m\<in>set [0..<16]. hex_value (hex_unit m) = Some m"
    by (simp add: hex_value_def hex_unit_def upt_rec)
  moreover assume "n < 16"
  ultimately show ?thesis by simp
qed

lemma hex4_units:
  "hex4 (hex_unit (unat u div 4096)) (hex_unit (unat u div 256 mod 16)) (hex_unit (unat u div 16 mod 16))
     (hex_unit (unat u mod 16)) = Some (u :: code_unit)"
proof -
  have "unat u div 4096 < 16" using unat_unit_less [of u] by (simp add: less_mult_imp_div_less)
  moreover have "((n div 4096 * 16 + n div 256 mod 16) * 16 + n div 16 mod 16) * 16 + n mod 16 = n" for n :: nat
  proof -
    have "n div 256 = n div 16 div 16" "n div 4096 = n div 16 div 16 div 16"
      by (simp_all add: div_mult2_eq [symmetric])
    then show ?thesis by (simp only: div_mult_mod_eq)
  qed
  ultimately show ?thesis by (simp add: hex4_def hex_value_unit)
qed

lemma string_rest_unit:
  "string_rest (quote_unit u @ t) = prepend u (string_rest t)"
proof (cases "map_of [(0x8, 0x62), (0x9, 0x74), (0xA, 0x6E), (0xC, 0x66), (0xD, 0x72), (0x22, 0x22), (0x5C, 0x5C)] u
    :: code_unit option")
  case None
  then have plain: "u \<noteq> 0x22" "u \<noteq> 0x5C" by (auto split: if_splits)
  show ?thesis
  proof (cases "u < 0x20 \<or> is_high u \<or> is_low u")
    case True
    then have "quote_unit u = unicode_escape u" using None by (simp only: quote_unit_def option.case if_True)
    then show ?thesis by (simp add: unicode_escape_def Let_def hex4_units)
  next
    case False
    then have "quote_unit u = [u]" using None by (simp only: quote_unit_def option.case if_False)
    with plain False show ?thesis by simp
  qed
next
  case (Some v)
  then have "quote_unit u = [0x5C, v]" by (simp only: quote_unit_def option.case)
  moreover have "v \<noteq> 0x75 \<and> escape_value v = Some u"
    using Some by (auto simp: escape_value_def split: if_splits)
  ultimately show ?thesis by simp
qed

lemma string_rest_quote:
  "string_rest (quote_chars s @ 0x22 # rest) = Some (s, rest)"
proof (induction s rule: quote_chars.induct)
  case (2 u)
  then show ?case by (simp add: string_rest_unit prepend_def)
next
  case (3 u v us)
  show ?case
  proof (cases "is_high u \<and> is_low v")
    case True
    then have "u \<noteq> 0x22 \<and> u \<noteq> 0x5C \<and> \<not> u < 0x20" "v \<noteq> 0x22 \<and> v \<noteq> 0x5C \<and> \<not> v < 0x20"
      by (auto simp: is_high_unat is_low_unat word_less_nat_alt)
    with 3(1) True show ?thesis by (simp add: prepend_def)
  next
    case False
    then have "quote_chars (u # v # us) = quote_unit u @ quote_chars (v # us)"
      by (simp only: quote_chars.simps if_False)
    then show ?thesis
      using 3(2) [OF False] by (simp only: append_assoc string_rest_unit prepend_def option.map prod.case)
  qed
qed (simp add: prepend_def)

lemma skip_plain [simp]: "\<not> is_json_space u \<Longrightarrow> skip (u # us) = u # us" "skip [] = []"
  by (simp_all add: skip_def)

lemma json_value_string [simp]:
  "json_value (Suc n) (0x22 # quote_chars s @ 0x22 # rest) = Some (J_string s, rest)"
  by (simp add: is_json_space_def string_rest_quote)

lemma json_members_string:
  "json_members (Suc (Suc n)) (0x22 # quote_chars k @ 0x22 # 0x3A # 0x22 # quote_chars v @ 0x22 # u # rest)
     = (if u = 0x7D then Some ([(k, J_string v)], rest)
        else if u = 0x2C then map_option (\<lambda>(ms, r). ((k, J_string v) # ms, r)) (json_members (Suc n) rest)
        else json_members (Suc (Suc n)) (0x22 # quote_chars k @ 0x22 # 0x3A # 0x22 # quote_chars v @ 0x22 # u # rest))"
  by (simp add: is_json_space_def string_rest_quote)

lemma length_stringify: "ms \<noteq> [] \<Longrightarrow> 5 * length ms \<le> length (stringify_members ms)"
  by (induction ms rule: stringify_members.induct) (simp_all add: json_quote_def)

lemma json_members_stringify:
  assumes "ms \<noteq> []" and "length ms < n"
  shows "json_members n (stringify_members ms @ 0x7D # rest)
    = Some (map (\<lambda>(k, v). (k, J_string v)) ms, rest)"
  using assms
proof (induction ms arbitrary: n rule: stringify_members.induct)
  case (2 k v)
  then obtain m where "n = Suc (Suc m)" by (cases n; cases "n - 1") auto
  then show ?case by (simp add: json_quote_def json_members_string del: json_members.simps)
next
  case (3 k v m ms)
  then obtain l where l: "n = Suc (Suc l)" by (cases n; cases "n - 1") auto
  then have "json_members (Suc l) (stringify_members (m # ms) @ 0x7D # rest)
      = Some (map (\<lambda>(k, v). (k, J_string v)) (m # ms), rest)"
    using 3(1) [of "Suc l"] 3(3) by (simp del: json_members.simps)
  then show ?case by (simp add: l json_quote_def json_members_string del: json_members.simps)
qed simp

lemma parse_stringify:
  assumes "ms \<noteq> []"
  shows "json_parse (json_stringify ms) = Some (J_object (map (\<lambda>(k, v). (k, J_string v)) ms))"
proof -
  let ?t = "stringify_members ms @ [0x7D]"
  obtain k v ms' where ms: "ms = (k, v) # ms'" using assms by (cases ms) auto
  obtain t where t: "?t = 0x22 # t"
    using ms by (cases ms') (auto simp: json_quote_def)
  have "length ms < 2 * length ?t + 2"
    using length_stringify [OF assms] by simp
  then have "json_members (2 * length ?t + 2) ?t = Some (map (\<lambda>(k, v). (k, J_string v)) ms, [])"
    using json_members_stringify [OF assms, of _ "[]"] by blast
  then have "json_value (Suc (2 * length ?t + 2)) (0x7B # ?t)
      = Some (J_object (map (\<lambda>(k, v). (k, J_string v)) ms), [])"
    unfolding t by (simp add: is_json_space_def del: json_members.simps)
  moreover have "json_stringify ms = 0x7B # ?t" "2 * length (0x7B # ?t) + 1 = Suc (2 * length ?t + 2)"
    by (simp_all add: json_stringify_def)
  ultimately show ?thesis by (simp only: json_parse_def) simp
qed

subsection \<open>The fuel is enough\<close>

lemma length_skip: "length (skip s) \<le> length s"
  by (simp add: skip_def length_dropWhile_le)

lemma skip_Cons_less: "skip s = u # us \<Longrightarrow> length us < length s"
  using length_skip [of s] by simp

lemma string_rest_shorter: "string_rest s = Some (t, r) \<Longrightarrow> length r < length s"
proof (induction s arbitrary: t r rule: string_rest.induct)
  case (2 u us)
  then show ?case
    by (auto simp: prepend_def split: if_splits list.splits option.splits)
       (fastforce dest: less_trans)+
qed simp


lemma digits_shorter: "digits s = Some (ds, r) \<Longrightarrow> length r < length s"
proof -
  assume "digits s = Some (ds, r)"
  then have "takeWhile (\<lambda>u. 0x30 \<le> u \<and> u \<le> 0x39) s \<noteq> []" "r = dropWhile (\<lambda>u. 0x30 \<le> u \<and> u \<le> 0x39) s"
    by (auto simp: digits_def Let_def split: if_splits)
  then show ?thesis by (cases s) (auto simp: le_imp_less_Suc length_dropWhile_le split: if_splits)
qed

lemma number_parts:
  "integer_part s = Some (i, r) \<Longrightarrow> length r < length s"
  "fraction_part s = Some (f, r) \<Longrightarrow> length r \<le> length s"
  "exponent_part s = Some (x, r) \<Longrightarrow> length r \<le> length s"
  by (auto simp: integer_part_def fraction_part_def exponent_part_def split: list.splits if_splits
      dest!: digits_shorter)

lemma number_shorter: "number s = Some (d, r) \<Longrightarrow> length r < length s"
  by (auto simp: number_def Let_def bind_eq_Some_conv split: list.splits if_splits dest!: number_parts)

lemma after_word_shorter: "w \<noteq> [] \<Longrightarrow> after_word w s = Some r \<Longrightarrow> length r < length s"
  by (cases s) (auto simp: after_word_def js_def split: if_splits)

lemma json_shorter:
  "json_value n s = Some (x, r) \<Longrightarrow> length r < length s"
  "json_elements n s = Some (xs, r) \<Longrightarrow> length r < length s"
  "json_members n s = Some (ms, r) \<Longrightarrow> length r < length s"
proof (induction n s and n s and n s arbitrary: x r and xs r and ms r
    rule: json_value_json_elements_json_members.induct)
  case (2 n s)
  obtain u us where sk: "skip s = u # us" using 2(3) by (cases "skip s") auto
  have us: "Suc (length us) \<le> length s" using length_skip [of s] sk by simp
  have words: "length r < length s" if "after_word w (u # us) = Some r" "w \<noteq> []" for w
    using after_word_shorter [OF that(2,1)] us by simp
  have inner: "length r < length s" if "skip us = v # vs" "length r < Suc (length vs)" for v vs
    using skip_Cons_less [OF that(1)] that(2) us by simp
  have members: "length r < length s"
    if "skip us = v # vs" "u = 0x7B" "v \<noteq> 0x7D" "json_members n (v # vs) = Some (ms, r)" for v vs ms
    using 2(1) [OF sk _ _ that(1)] that by (intro inner [OF that(1)]) simp
  have elements: "length r < length s"
    if "skip us = v # vs" "u = 0x5B" "v \<noteq> 0x5D" "json_elements n (v # vs) = Some (es, r)" for v vs es
    using 2(2) [OF sk _ _ _ that(1)] that by (intro inner [OF that(1)]) simp
  show ?case
    using 2(3) us
    by (auto simp: sk split: list.splits if_splits option.splits
        dest: string_rest_shorter number_shorter words intro: inner members elements)
next
  case (4 n s)
  from 4(3) obtain y rest u us where v: "json_value n s = Some (y, rest)" and sk: "skip rest = u # us"
    by (auto split: option.splits list.splits)
  have "length us < length s" using 4(1) [OF v] skip_Cons_less [OF sk] by simp
  with 4(2) [OF v _ sk] 4(3) show ?case
    by (fastforce simp: v sk split: if_splits)
next
  case (6 n s)
  from 6(3) obtain us k rest cs where sk: "skip s = 0x22 # us" "string_rest us = Some (k, rest)" "skip rest = 0x3A # cs"
    by (auto split: option.splits list.splits if_splits)
  moreover from this 6(3) obtain y rest2 v vs where v: "json_value n cs = Some (y, rest2)" "skip rest2 = v # vs"
    by (auto split: option.splits list.splits)
  ultimately have "length vs < length s"
    using 6(1) [OF sk(1) _ sk(2) _ sk(3) _ v(1)] skip_Cons_less [OF sk(1)] skip_Cons_less [OF sk(3)]
      skip_Cons_less [OF v(2)] string_rest_shorter [OF sk(2)] by simp
  with 6 sk v show ?case by (fastforce split: if_splits)
qed simp_all


text \<open>More fuel than a text needs changes nothing, so the fuel of \<open>json_parse\<close> never decides.\<close>

lemma parse_fuel:
  "2 * length s + 1 \<le> n \<Longrightarrow> n \<le> m \<Longrightarrow> json_value m s = json_value n s"
  "2 * length s + 2 \<le> n \<Longrightarrow> n \<le> m \<Longrightarrow> json_elements m s = json_elements n s"
  "2 * length s + 2 \<le> n \<Longrightarrow> n \<le> m \<Longrightarrow> json_members m s = json_members n s"
proof (induction n s and n s and n s arbitrary: m and m and m
    rule: json_value_json_elements_json_members.induct)
  case (2 n s)
  from 2(4) obtain l where m: "m = Suc l" "n \<le> l" by (cases m) auto
  show ?case
  proof (cases "skip s")
    case (Cons u us)
    have len: "2 * length (v # vs) + 2 \<le> n" if "skip us = v # vs" for v vs
      using skip_Cons_less [OF Cons] skip_Cons_less [OF that] 2(3) by simp
    have "json_members l (v # vs) = json_members n (v # vs)" if "skip us = v # vs" "u = 0x7B" "v \<noteq> 0x7D" for v vs
      using 2(1) [OF Cons _ _ that(1) _ len [OF that(1)] m(2)] that by simp
    moreover have "json_elements l (v # vs) = json_elements n (v # vs)"
      if "skip us = v # vs" "u = 0x5B" "v \<noteq> 0x5D" for v vs
      using 2(2) [OF Cons _ _ _ that(1) _ len [OF that(1)] m(2)] that by simp
    ultimately show ?thesis by (simp add: m Cons split: list.split)
  qed (simp add: m)
next
  case (4 n s)
  from 4(4) obtain l where m: "m = Suc l" "n \<le> l" by (cases m) auto
  have v: "json_value l s = json_value n s" using 4(1) [of l] 4(3) m by simp
  show ?case
  proof (cases "json_value n s")
    case (Some a)
    obtain y rest where a: "a = (y, rest)" by (cases a)
    show ?thesis
    proof (cases "skip rest")
      case (Cons u us)
      have "2 * length us + 2 \<le> n"
        using json_shorter(1) [OF Some [unfolded a]] skip_Cons_less [OF Cons] 4(3) by simp
      then have "json_elements l us = json_elements n us" if "u = 0x2C"
        using 4(2) [OF Some a [symmetric] Cons _ _ _ m(2)] that by simp
      then show ?thesis by (simp add: m v Some a Cons)
    qed (simp add: m v Some a)
  qed (simp add: m v)
next
  case (6 n s)
  from 6(4) obtain l where m: "m = Suc l" "n \<le> l" by (cases m) auto
  show ?case
  proof (cases "\<exists>us k rest cs. skip s = 0x22 # us \<and> string_rest us = Some (k, rest) \<and> skip rest = 0x3A # cs")
    case True
    then obtain us k rest cs where
      sk: "skip s = 0x22 # us" "string_rest us = Some (k, rest)" "skip rest = 0x3A # cs" by blast
    have "2 * length cs + 2 \<le> n"
      using skip_Cons_less [OF sk(1)] string_rest_shorter [OF sk(2)] skip_Cons_less [OF sk(3)] 6(3) by simp
    then have v: "json_value l cs = json_value n cs"
      using 6(1) [OF sk(1) _ sk(2) _ sk(3) _ _ m(2)] by simp
    have "json_members l vs = json_members n vs"
      if some: "json_value n cs = Some (y, rest2)" "skip rest2 = 0x2C # vs" for y rest2 vs
      using 6(2) [OF sk(1) _ sk(2) _ sk(3) _ some(1) _ some(2) _ _ _ m(2)]
        json_shorter(1) [OF some(1)] skip_Cons_less [OF some(2)] \<open>2 * length cs + 2 \<le> n\<close> by simp
    then show ?thesis by (simp add: m sk v split: option.split list.split)
  next
    case False
    then have "json_members (Suc i) s = None" for i
      by (auto split: option.split list.split)
    then show ?thesis by (simp only: m)
  qed
qed simp_all

end
