(* ===== verification/Step_System.thy ===== *)
theory Step_System
  imports Prelude
begin

text \<open>
  Components whose handlers run to their end at once: an event either cannot happen in a state, or
  leads to the next state. \<open>step_reach\<close> are the reachable states, \<open>step_run\<close> executes a list of
  events, and the locale \<open>step_invariant\<close> turns a predicate that every step keeps into a fact about
  every reachable state.
\<close>

inductive step_reach :: "('ev \<Rightarrow> 's \<Rightarrow> 's option) \<Rightarrow> 's \<Rightarrow> 's \<Rightarrow> bool" for step s0 where
  start: "step_reach step s0 s0"
| step: "step_reach step s0 s \<Longrightarrow> step ev s = Some t \<Longrightarrow> step_reach step s0 t"

fun step_run :: "('ev \<Rightarrow> 's \<Rightarrow> 's option) \<Rightarrow> 'ev list \<Rightarrow> 's \<Rightarrow> 's option" where
  "step_run step [] s = Some s"
| "step_run step (ev # evs) s = Option.bind (step ev s) (step_run step evs)"

lemma run_reach: "step_run step evs s = Some t \<Longrightarrow> step_reach step s0 s \<Longrightarrow> step_reach step s0 t"
  by (induction evs arbitrary: s) (auto simp: bind_eq_Some_conv intro: step_reach.step)

lemma reach_iff_run: "step_reach step s0 t \<longleftrightarrow> (\<exists>evs. step_run step evs s0 = Some t)"
proof
  have snoc: "step_run step (evs @ [ev]) s = Option.bind (step_run step evs s) (step ev)" for evs ev s
    by (induction evs arbitrary: s) (auto split: bind_splits)
  assume "step_reach step s0 t"
  then show "\<exists>evs. step_run step evs s0 = Some t"
  proof induction
    case start
    have "step_run step [] s0 = Some s0" by simp
    then show ?case by blast
  next
    case (step s ev t)
    then show ?case by (metis snoc bind.bind_lunit)
  qed
qed (auto intro: run_reach step_reach.start)

locale step_invariant =
  fixes step :: "'ev \<Rightarrow> 's \<Rightarrow> 's option" and s0 :: 's and I :: "'s \<Rightarrow> bool"
  assumes initial: "I s0"
    and preserved: "I s \<Longrightarrow> step ev s = Some t \<Longrightarrow> I t"
begin

lemma reach_inv: "step_reach step s0 s \<Longrightarrow> I s"
  by (induction rule: step_reach.induct) (auto intro: initial preserved)

lemma run_inv: "step_run step evs s = Some t \<Longrightarrow> I s \<Longrightarrow> I t"
  by (induction evs arbitrary: s) (auto simp: bind_eq_Some_conv dest: preserved)

end

end
