(* ===== verification/Look_Draft.thy ===== *)
theory Look_Draft
  imports Json_Text Js_Values Step_System
begin

text \<open>
  The draft of a look in the browser's storage, \<^verbatim>\<open>hooks/look/use-look-draft.ts\<close>, the dialog that
  saves it, \<^verbatim>\<open>components/look/save-look-dialog.tsx\<close>, and the sample look made from it,
  \<^verbatim>\<open>lib/look/samples.ts\<close>. The storage may hold any text and may refuse any access; which accesses it
  refuses is part of an event.
\<close>

subsection \<open>The stored draft\<close>

record look_draft =
  ld_name :: jstring
  ld_scene :: jstring

text \<open>The entries of the current and of the previous key.\<close>

record storage =
  st_current :: "jstring option"
  st_legacy :: "jstring option"

text \<open>\<open>denied\<close>: the storage throws when it is read.\<close>

definition snapshot :: "bool \<Rightarrow> storage \<Rightarrow> jstring option" where
  "snapshot denied st =
     (if denied then None
      else case st_current st of Some raw \<Rightarrow> Some raw | None \<Rightarrow> st_legacy st)"

definition parseDraft :: "jstring option \<Rightarrow> look_draft option" where
  "parseDraft raw =
     (case raw of
        None \<Rightarrow> None
      | Some text \<Rightarrow>
          if text = [] then None
          else
            (case json_parse text of
               Some (J_object members) \<Rightarrow>
                 (case (js_map members (js ''name''), js_map members (js ''scene'')) of
                    (Some (J_string name), Some (J_string scene)) \<Rightarrow>
                      Some \<lparr>ld_name = js_slice 0 40 name, ld_scene = js_slice 0 60 scene\<rparr>
                  | _ \<Rightarrow> None)
             | _ \<Rightarrow> None))"

text \<open>
  \<^verbatim>\<open>save\<close>: \<open>None\<close> when the storage refuses the new entry, which throws; a refused removal of the
  previous entry is ignored.
\<close>

definition save_draft :: "bool \<Rightarrow> bool \<Rightarrow> jstring \<Rightarrow> jstring \<Rightarrow> storage \<Rightarrow> storage option" where
  "save_draft set_denied remove_denied name scene st =
     (if set_denied then None
      else
        (let st' = st\<lparr>st_current := Some (json_stringify [(js ''name'', name), (js ''scene'', scene)])\<rparr> in
         Some (if remove_denied then st' else st'\<lparr>st_legacy := None\<rparr>)))"

subsection \<open>The sample look\<close>

record look_image =
  li_src :: string
  li_alt :: jstring
  li_label :: jstring
  li_description :: jstring

definition look_before :: look_image where
  "look_before =
     \<lparr>li_src = ''/look-samples/original.png'',
      li_alt = [0x539F, 0x7A7F, 0x642D, 0xFF1A, 0x7C73, 0x767D, 0x9488, 0x7EC7, 0x4E0E, 0x70AD, 0x7070, 0x957F, 0x88E4],
      li_label = [0x539F, 0x7A7F, 0x642D],
      li_description = [0x7C73, 0x767D, 0x9488, 0x7EC7, 0x20, 0xB7, 0x20, 0x70AD, 0x7070, 0x957F, 0x88E4]\<rparr>"

definition look_after :: look_image where
  "look_after =
     \<lparr>li_src = ''/look-samples/result.png'',
      li_alt = [0x8BD5, 0x7A7F, 0x6548, 0x679C, 0xFF1A, 0x6D77, 0x519B, 0x84DD, 0x886C, 0x886B, 0x4E0E, 0x975B, 0x84DD,
        0x725B, 0x4ED4, 0x88E4],
      li_label = [0x8BD5, 0x7A7F, 0x6548, 0x679C],
      li_description = [0x6D77, 0x519B, 0x84DD, 0x886C, 0x886B, 0x20, 0xB7, 0x20, 0x975B, 0x84DD, 0x725B, 0x4ED4, 0x88E4]\<rparr>"

record look_summary = look_draft +
  ls_image :: look_image
  ls_href :: string
  ls_source_label :: jstring

definition sampleLookFromDraft :: "look_draft \<Rightarrow> look_summary" where
  "sampleLookFromDraft draft =
     look_draft.extend draft
       \<lparr>ls_image = look_after\<lparr>li_alt := ld_name draft @
          [0xFF0C, 0x5DF2, 0x6536, 0x85CF, 0x7684, 0x793A, 0x4F8B, 0x642D, 0x914D]\<rparr>,
        ls_href = ''/looks/sample'',
        ls_source_label = [0x672C, 0x5730, 0x793A, 0x4F8B]\<rparr>"

subsection \<open>The dialog\<close>

datatype look_text = Look_name_missing | Storage_refused

record look_dialog =
  lk_storage :: storage
  lk_open :: bool
  lk_name :: jstring
  lk_scene :: jstring
  lk_error :: "look_text option"
  lk_toasts :: nat

definition default_look_name :: jstring where
  "default_look_name = [0x84DD, 0x8C03, 0x65E5, 0x5E38]"

definition default_look_scene :: jstring where
  "default_look_scene = [0x65E5, 0x5E38, 0x20, 0xB7, 0x20, 0x901A, 0x52E4]"

definition look_init :: "storage \<Rightarrow> look_dialog" where
  "look_init st =
     \<lparr>lk_storage = st, lk_open = False, lk_name = default_look_name, lk_scene = default_look_scene,
      lk_error = None, lk_toasts = 0\<rparr>"

datatype look_event =
    Look_open_change bool bool
  | Set_look_name jstring
  | Set_look_scene jstring
  | Submit_look bool bool
  | Other_tab storage

definition look_open_change :: "bool \<Rightarrow> bool \<Rightarrow> look_dialog \<Rightarrow> look_dialog" where
  "look_open_change value denied s =
     (let s' = s\<lparr>lk_open := value, lk_error := None\<rparr> in
      case parseDraft (snapshot denied (lk_storage s)) of
        Some draft \<Rightarrow> if value then s'\<lparr>lk_name := ld_name draft, lk_scene := ld_scene draft\<rparr> else s'
      | None \<Rightarrow> s')"

definition look_submit :: "bool \<Rightarrow> bool \<Rightarrow> look_dialog \<Rightarrow> look_dialog" where
  "look_submit set_denied remove_denied s =
     (if trim (lk_name s) = [] then s\<lparr>lk_error := Some Look_name_missing\<rparr>
      else
        (case save_draft set_denied remove_denied (trim (lk_name s)) (trim (lk_scene s)) (lk_storage s) of
           Some st \<Rightarrow> s\<lparr>lk_storage := st, lk_open := False, lk_toasts := lk_toasts s + 1\<rparr>
         | None \<Rightarrow> s\<lparr>lk_error := Some Storage_refused\<rparr>))"

text \<open>
  One event, where its control is there: the trigger always, the form while the dialog is open. The
  browser keeps an input within its \<^verbatim>\<open>maxLength\<close>. Another tab may write anything at any time.
\<close>

definition look_step :: "look_event \<Rightarrow> look_dialog \<Rightarrow> look_dialog option" where
  "look_step ev s =
     (case ev of
        Look_open_change value denied \<Rightarrow> Some (look_open_change value denied s)
      | Set_look_name v \<Rightarrow>
          if lk_open s \<and> length v \<le> 40 then Some (s\<lparr>lk_name := v, lk_error := None\<rparr>) else None
      | Set_look_scene v \<Rightarrow>
          if lk_open s \<and> length v \<le> 60 then Some (s\<lparr>lk_scene := v\<rparr>) else None
      | Submit_look set_denied remove_denied \<Rightarrow>
          if lk_open s then Some (look_submit set_denied remove_denied s) else None
      | Other_tab st \<Rightarrow> Some (s\<lparr>lk_storage := st\<rparr>))"

abbreviation look_reach :: "storage \<Rightarrow> look_dialog \<Rightarrow> bool" where
  "look_reach st \<equiv> step_reach look_step (look_init st)"

subsection \<open>Reading back a saved draft\<close>

lemma parse_saved:
  assumes "save_draft set_denied remove_denied name scene st = Some st'"
  shows "parseDraft (snapshot False st') = Some \<lparr>ld_name = js_slice 0 40 name, ld_scene = js_slice 0 60 scene\<rparr>"
proof -
  let ?raw = "json_stringify [(js ''name'', name), (js ''scene'', scene)]"
  have "json_parse ?raw = Some (J_object [(js ''name'', J_string name), (js ''scene'', J_string scene)])"
    using parse_stringify [of "[(js ''name'', name), (js ''scene'', scene)]"]
    by (simp only: list.simps prod.case) simp
  moreover have "?raw \<noteq> []" by (simp add: json_stringify_def)
  moreover have "snapshot False st' = Some ?raw"
    using assms by (auto simp: save_draft_def snapshot_def Let_def split: if_splits)
  ultimately show ?thesis
    by (simp add: parseDraft_def js_map_def)
qed

lemma draft_bounds:
  "parseDraft raw = Some d \<Longrightarrow> length (ld_name d) \<le> 40 \<and> length (ld_scene d) \<le> 60"
  by (auto simp: parseDraft_def js_slice_def split: option.splits json.splits if_splits)

text \<open>What the inputs hold is never longer than a draft can be.\<close>

definition look_inv :: "look_dialog \<Rightarrow> bool" where
  "look_inv s \<longleftrightarrow> length (lk_name s) \<le> 40 \<and> length (lk_scene s) \<le> 60"

interpretation look: step_invariant look_step "look_init st" look_inv for st
proof
  show "look_inv (look_init st)"
    by (simp add: look_inv_def look_init_def default_look_name_def default_look_scene_def)
next
  fix s ev t
  assume "look_inv s" and "look_step ev s = Some t"
  then show "look_inv t"
    by (cases ev)
       (auto simp: look_inv_def look_step_def look_open_change_def look_submit_def Let_def
         split: if_splits option.splits dest: draft_bounds)
qed

end
