(* ===== verification/Look_Properties.thy ===== *)
theory Look_Properties
  imports Look_Draft
begin

text \<open>The properties of the saved look.\<close>

lemma trimmed_bounds:
  assumes "look_reach st s"
  shows "js_slice 0 40 (trim (lk_name s)) = trim (lk_name s)" "js_slice 0 60 (trim (lk_scene s)) = trim (lk_scene s)"
  using look.reach_inv [OF assms] length_trim [of "lk_name s"] length_trim [of "lk_scene s"]
  by (simp_all add: look_inv_def order_trans [of "length (trim (lk_name s))"] order_trans [of "length (trim (lk_scene s))"])

definition open_look :: look_dialog where
  "open_look = (look_init \<lparr>st_current = None, st_legacy = Some (js ''{'')\<rparr>)\<lparr>lk_open := True\<rparr>"

lemma open_look_reached: "look_reach \<lparr>st_current = None, st_legacy = Some (js ''{'')\<rparr> open_look"
proof (rule step_reach.step [OF step_reach.start])
  have "json_parse (js ''{'') = None" by (simp add: json_parse_def is_json_space_def numeral_3_eq_3)
  then show "look_step (Look_open_change True False) (look_init \<lparr>st_current = None, st_legacy = Some (js ''{'')\<rparr>)
      = Some open_look"
    by (simp add: look_step_def look_open_change_def open_look_def look_init_def snapshot_def parseDraft_def)
qed

lemma open_look_name: "trim (lk_name open_look) \<noteq> []"
  by (simp add: open_look_def look_init_def trim_eq_Nil_iff default_look_name_def is_space_def)

text \<open>
  C32. A saved look comes back as it was typed: whatever the storage held before and whichever key it
  used, after a save that the storage admits the draft is the trimmed name and the trimmed scene, no
  character lost, and opening the dialog again shows them.
\<close>

theorem look_saved_is_shown:
  assumes "look_reach st s" and "look_step (Submit_look False remove_denied) s = Some s'"
    and "trim (lk_name s) \<noteq> []"
  shows "\<not> lk_open s'
    \<and> parseDraft (snapshot False (lk_storage s')) = Some \<lparr>ld_name = trim (lk_name s), ld_scene = trim (lk_scene s)\<rparr>
    \<and> (\<exists>s2. look_step (Look_open_change True False) s' = Some s2
        \<and> lk_name s2 = trim (lk_name s) \<and> lk_scene s2 = trim (lk_scene s) \<and> lk_error s2 = None)"
proof -
  have s': "s' = look_submit False remove_denied s"
    using assms(2) by (simp add: look_step_def split: if_splits)
  obtain st' where sv: "save_draft False remove_denied (trim (lk_name s)) (trim (lk_scene s)) (lk_storage s) = Some st'"
    by (simp add: save_draft_def Let_def)
  have "parseDraft (snapshot False st') = Some \<lparr>ld_name = trim (lk_name s), ld_scene = trim (lk_scene s)\<rparr>"
    using parse_saved [OF sv] trimmed_bounds [OF assms(1)] by simp
  then show ?thesis
    using assms(3) sv by (simp add: s' look_submit_def look_step_def look_open_change_def Let_def)
qed

theorem look_saved_is_shown_witness:
  "\<exists>s'. look_step (Submit_look False True) open_look = Some s' \<and> \<not> lk_open s'
     \<and> parseDraft (snapshot False (lk_storage s'))
       = Some \<lparr>ld_name = trim default_look_name, ld_scene = trim default_look_scene\<rparr>"
proof -
  obtain s' where s': "look_step (Submit_look False True) open_look = Some s'"
    by (simp add: look_step_def open_look_def)
  have "lk_name open_look = default_look_name" "lk_scene open_look = default_look_scene"
    by (simp_all add: open_look_def look_init_def)
  with look_saved_is_shown [OF open_look_reached s' open_look_name] s' show ?thesis by simp
qed

text \<open>
  A draft that cannot be used is never an error of the page: whatever text the storage holds, the
  draft is none or one of at most 40 and 60 code units; and when the storage refuses to be written,
  the stored draft and what was typed stay, the dialog stays open, and it says so.
\<close>

lemma look_storage_trouble:
  assumes "look_step (Submit_look True remove_denied) s = Some s'" and "trim (lk_name s) \<noteq> []"
  shows "s' = s\<lparr>lk_error := Some Storage_refused\<rparr> \<and> lk_open s'
    \<and> (case parseDraft (snapshot denied (lk_storage s')) of
        None \<Rightarrow> True
      | Some d \<Rightarrow> \<not> denied \<and> length (ld_name d) \<le> 40 \<and> length (ld_scene d) \<le> 60)"
proof -
  have s': "s' = s\<lparr>lk_error := Some Storage_refused\<rparr>" "lk_open s"
    using assms by (auto simp: look_step_def look_submit_def save_draft_def split: if_splits)
  have "\<not> denied" if "parseDraft (snapshot denied (lk_storage s')) = Some d" for d
    using that by (auto simp: snapshot_def parseDraft_def split: if_splits)
  with s' draft_bounds [of "snapshot denied (lk_storage s')"] show ?thesis
    by (auto split: option.split)
qed

lemma look_storage_trouble_witness:
  "\<exists>s'. look_step (Submit_look True False) open_look = Some s' \<and> lk_open s' \<and> lk_error s' = Some Storage_refused"
proof -
  obtain s' where s': "look_step (Submit_look True False) open_look = Some s'"
    by (simp add: look_step_def open_look_def)
  from look_storage_trouble [OF s' open_look_name, of False] have "lk_open s'" "lk_error s' = Some Storage_refused" by auto
  with s' show ?thesis by blast
qed

end
