(* ===== verification/Fitting_Room_View.thy ===== *)
theory Fitting_Room_View
  imports Account_Lib Wardrobe_Lib Step_System
begin

text \<open>
  The fitting room, \<^verbatim>\<open>components/fitting-room/fitting-room-view.tsx\<close>, with the dialog for a photo of
  one's own (\<^verbatim>\<open>components/person/person-photo-dialog.tsx\<close>) and the picker of garments
  (\<^verbatim>\<open>components/wardrobe/garment-picker.tsx\<close>, \<^verbatim>\<open>garment-options.tsx\<close>).

  The state has the browser's registry of object URLs: \<open>fr_live\<close> are the URLs that have been created
  and not revoked, \<open>fr_next\<close> is the next one. A photo that is being decoded is an entry of
  \<open>fr_decoding\<close>, with the request number its closure compares. An open dialog or sheet is modal, as
  those of the component library are: the controls behind it do not react.
\<close>

subsection \<open>State\<close>

datatype room_view = Room | Result

datatype person_dialog_text = Photo_refused person_photo_text | Photo_not_decodable

text \<open>A call of \<^verbatim>\<open>choosePhoto\<close> that waits for \<^verbatim>\<open>image.decode()\<close>.\<close>

record decoding =
  dc_instance :: nat
  dc_request :: nat
  dc_url :: nat
  dc_file :: js_file

record room_state =
  fr_unavailable :: bool
  fr_view :: room_view
  fr_selected :: garment_option
  fr_photo :: "nat option"
  pd_open :: bool
  pd_file :: "js_file option"
  pd_preview :: "nat option"
  pd_error :: "person_dialog_text option"
  pd_checking :: bool
  pd_instance :: nat
  pd_sequences :: "nat \<Rightarrow> nat"
  pk_choosing :: bool
  pk_query :: jstring
  pk_show_all :: bool
  fr_decoding :: "decoding list"
  fr_live :: "nat set"
  fr_next :: nat

definition room_init :: room_state where
  "room_init =
     \<lparr>fr_unavailable = False, fr_view = Room, fr_selected = hd fittingRoomGarments, fr_photo = None,
      pd_open = False, pd_file = None, pd_preview = None, pd_error = None, pd_checking = False,
      pd_instance = 0, pd_sequences = (\<lambda>_. 0), pk_choosing = False, pk_query = [],
      pk_show_all = False, fr_decoding = [], fr_live = {}, fr_next = 0\<rparr>"

subsection \<open>Object URLs\<close>

definition revoke :: "nat option \<Rightarrow> room_state \<Rightarrow> room_state" where
  "revoke url s = (case url of None \<Rightarrow> s | Some u \<Rightarrow> s\<lparr>fr_live := fr_live s - {u}\<rparr>)"

text \<open>The clean-ups of the two effects: the URL that is no longer shown is revoked.\<close>

definition set_preview :: "nat option \<Rightarrow> room_state \<Rightarrow> room_state" where
  "set_preview url s =
     (if url = pd_preview s then s else (revoke (pd_preview s) s)\<lparr>pd_preview := url\<rparr>)"

definition set_photo :: "nat option \<Rightarrow> room_state \<Rightarrow> room_state" where
  "set_photo url s =
     (if url = fr_photo s then s else (revoke (fr_photo s) s)\<lparr>fr_photo := url\<rparr>)"

definition create_url :: "room_state \<Rightarrow> nat \<times> room_state" where
  "create_url s =
     (fr_next s, s\<lparr>fr_live := insert (fr_next s) (fr_live s), fr_next := Suc (fr_next s)\<rparr>)"

subsection \<open>The photo dialog\<close>

definition sequence :: "room_state \<Rightarrow> nat" where
  "sequence s = pd_sequences s (pd_instance s)"

definition next_sequence :: "room_state \<Rightarrow> room_state" where
  "next_sequence s = s\<lparr>pd_sequences := (pd_sequences s)(pd_instance s := Suc (sequence s))\<rparr>"

text \<open>\<^verbatim>\<open>choosePhoto\<close> up to its await.\<close>

definition choosePhoto :: "js_file option \<Rightarrow> room_state \<Rightarrow> room_state" where
  "choosePhoto file s =
     (case file of
        None \<Rightarrow> s
      | Some f \<Rightarrow>
          let s1 = next_sequence s;
              message = map_option Photo_refused (photoValidationError (file_type f) (file_size f));
              s2 = (set_preview None (s1\<lparr>pd_file := None\<rparr>))\<lparr>pd_error := message\<rparr>
          in
          if message \<noteq> None then s2
          else
            let (url, s3) = create_url (s2\<lparr>pd_checking := True\<rparr>) in
            s3\<lparr>fr_decoding := fr_decoding s3 @
              [\<lparr>dc_instance = pd_instance s, dc_request = sequence s1, dc_url = url, dc_file = f\<rparr>]\<rparr>)"

text \<open>
  The rest of \<^verbatim>\<open>choosePhoto\<close>, when the photo has been decoded or could not be. The state of a dialog
  that has been unmounted in the meantime is not changed any more.
\<close>

definition is_current :: "room_state \<Rightarrow> decoding \<Rightarrow> bool" where
  "is_current s d \<longleftrightarrow> dc_request d = pd_sequences s (dc_instance d)"

definition in_dialog :: "decoding \<Rightarrow> (room_state \<Rightarrow> room_state) \<Rightarrow> room_state \<Rightarrow> room_state" where
  "in_dialog d f s = (if dc_instance d = pd_instance s then f s else s)"

definition decode_done :: "bool \<Rightarrow> decoding \<Rightarrow> room_state \<Rightarrow> room_state" where
  "decode_done ok d s =
     (let s1 =
        (if ok then
           (if \<not> is_current s d then revoke (Some (dc_url d)) s
            else in_dialog d (\<lambda>s. (set_preview (Some (dc_url d)) s)\<lparr>pd_file := Some (dc_file d)\<rparr>) s)
         else
           (let s0 = revoke (Some (dc_url d)) s in
            if is_current s0 d then in_dialog d (\<lambda>s. s\<lparr>pd_error := Some Photo_not_decodable\<rparr>) s0 else s0))
      in if is_current s1 d then in_dialog d (\<lambda>s. s\<lparr>pd_checking := False\<rparr>) s1 else s1)"

definition photo_dialog_change :: "bool \<Rightarrow> room_state \<Rightarrow> room_state" where
  "photo_dialog_change open s =
     (let s1 = s\<lparr>pd_open := open\<rparr> in
      if open then s1
      else (set_preview None ((next_sequence s1)\<lparr>pd_file := None\<rparr>))\<lparr>pd_error := None, pd_checking := False\<rparr>)"

subsection \<open>The room\<close>

text \<open>Leaving the room unmounts the dialog and the picker; coming back mounts them afresh.\<close>

definition fresh_room :: "room_state \<Rightarrow> room_state" where
  "fresh_room s =
     (set_preview None s)\<lparr>pd_open := False, pd_file := None, pd_error := None, pd_checking := False,
       pd_instance := Suc (pd_instance s), pk_choosing := False, pk_query := [], pk_show_all := False\<rparr>"

definition navigate :: "room_view \<Rightarrow> room_state \<Rightarrow> room_state" where
  "navigate next s =
     (if next = fr_view s then s
      else (if next = Result then fresh_room s else s)\<lparr>fr_view := next\<rparr>)"

definition reset_room :: "room_state \<Rightarrow> room_state" where
  "reset_room s = (set_photo None s)\<lparr>fr_selected := hd fittingRoomGarments\<rparr>"

text \<open>\<^verbatim>\<open>ownPhoto\<close> and what the button of the dialog does after it; the URL is made from the file.\<close>

definition ownPhoto :: "js_file \<Rightarrow> room_state \<Rightarrow> room_state" where
  "ownPhoto file s = (let (url, s1) = create_url s in navigate Room (set_photo (Some url) s1))"

definition use_photo :: "room_state \<Rightarrow> room_state" where
  "use_photo s =
     (case pd_file s of
        None \<Rightarrow> s
      | Some file \<Rightarrow> set_preview None ((ownPhoto file s)\<lparr>pd_open := False, pd_file := None\<rparr>))"

text \<open>The garments that stay as they are.\<close>

definition preserved_garments :: "garment_option \<Rightarrow> preserved_garment list" where
  "preserved_garments selected =
     [if go_category selected = Top then original_bottom else original_top, original_shoes]"

subsection \<open>The picker\<close>

datatype picker_category = All_categories | Only category

definition picker_category :: "room_state \<Rightarrow> picker_category" where
  "picker_category s = (if pk_show_all s then All_categories else Only (go_category (fr_selected s)))"

definition visibleItems :: "picker_category \<Rightarrow> jstring \<Rightarrow> garment_option list \<Rightarrow> garment_option list" where
  "visibleItems category query items =
     filter (\<lambda>item. (category = All_categories \<or> category = Only (go_category item))
       \<and> js_includes (pg_name item @ go_color item) (trim query)) items"

definition changeCategory :: "picker_category \<Rightarrow> room_state \<Rightarrow> room_state" where
  "changeCategory value s =
     (let s1 = s\<lparr>pk_show_all := (value = All_categories)\<rparr> in
      case List.find (\<lambda>item. Only (go_category item) = value) fittingRoomGarments of
        Some item \<Rightarrow> if Only (go_category (fr_selected s)) \<noteq> value then s1\<lparr>fr_selected := item\<rparr> else s1
      | None \<Rightarrow> s1)"

definition select_garment :: "string \<Rightarrow> room_state \<Rightarrow> room_state" where
  "select_garment i s =
     (case List.find (\<lambda>item. pg_id item = i) fittingRoomGarments of
        Some item \<Rightarrow> s\<lparr>fr_selected := item\<rparr>
      | None \<Rightarrow> s)"

definition picker_change :: "bool \<Rightarrow> room_state \<Rightarrow> room_state" where
  "picker_change open s = s\<lparr>pk_choosing := open, pk_show_all := open\<rparr>"

subsection \<open>Events\<close>

datatype room_event =
    Photo_dialog bool | Choose_photo "js_file option" | Decoded nat bool | Use_photo
  | To_view room_view | Reset_room
  | Try_on | Close_unavailable | Unavailable_to_result
  | Pick_category picker_category | Pick_item garment_option | Set_query jstring | Picker bool

definition modal :: "room_state \<Rightarrow> bool" where
  "modal s \<longleftrightarrow> pd_open s \<or> fr_unavailable s \<or> pk_choosing s"

text \<open>The categories of the group: that of all garments only in the sheet.\<close>

definition category_shown :: "room_state \<Rightarrow> picker_category \<Rightarrow> bool" where
  "category_shown s c \<longleftrightarrow> c = Only Top \<or> c = Only Bottom \<or> (c = All_categories \<and> pk_choosing s)"

definition room_step :: "room_event \<Rightarrow> room_state \<Rightarrow> room_state option" where
  "room_step ev s =
     (case ev of
        Decoded n ok \<Rightarrow>
          if n < length (fr_decoding s)
          then Some (decode_done ok (fr_decoding s ! n)
            (s\<lparr>fr_decoding := take n (fr_decoding s) @ drop (Suc n) (fr_decoding s)\<rparr>))
          else None
      | Close_unavailable \<Rightarrow> if fr_unavailable s then Some (s\<lparr>fr_unavailable := False\<rparr>) else None
      | Unavailable_to_result \<Rightarrow>
          if fr_unavailable s then Some (navigate Result (s\<lparr>fr_unavailable := False\<rparr>)) else None
      | To_view v \<Rightarrow> if modal s then None else Some (navigate v s)
      | _ \<Rightarrow>
          if fr_view s \<noteq> Room then None
          else
            (case ev of
               Photo_dialog open \<Rightarrow>
                 if open = pd_open s \<or> (open \<and> modal s) then None else Some (photo_dialog_change open s)
             | Choose_photo file \<Rightarrow> if pd_open s then Some (choosePhoto file s) else None
             | Use_photo \<Rightarrow>
                 if pd_open s \<and> pd_file s \<noteq> None \<and> \<not> pd_checking s then Some (use_photo s) else None
             | Reset_room \<Rightarrow> if modal s then None else Some (reset_room s)
             | Try_on \<Rightarrow> if modal s then None else Some (s\<lparr>fr_unavailable := True\<rparr>)
             | Picker open \<Rightarrow>
                 if open = pk_choosing s \<or> (open \<and> modal s) then None else Some (picker_change open s)
             | _ \<Rightarrow>
                 if pd_open s \<or> fr_unavailable s then None
                 else
                   (case ev of
                      Pick_category c \<Rightarrow> if category_shown s c then Some (changeCategory c s) else None
                    | Pick_item item \<Rightarrow>
                        if item \<in> set (visibleItems (picker_category s) (pk_query s) fittingRoomGarments)
                        then Some (select_garment (pg_id item) s) else None
                    | Set_query q \<Rightarrow> Some (s\<lparr>pk_query := q\<rparr>)
                    | _ \<Rightarrow> None)))"

abbreviation room_reach :: "room_state \<Rightarrow> bool" where
  "room_reach \<equiv> step_reach room_step room_init"

abbreviation room_run :: "room_event list \<Rightarrow> room_state \<Rightarrow> room_state option" where
  "room_run \<equiv> step_run room_step"

subsection \<open>The invariant\<close>

text \<open>
  The URLs the page owns: the preview of the dialog, the photo in the room, and those of the photos
  being decoded. They are the live ones, each once.
\<close>

definition opt_list :: "'a option \<Rightarrow> 'a list" where
  "opt_list x = (case x of None \<Rightarrow> [] | Some a \<Rightarrow> [a])"

definition owned :: "room_state \<Rightarrow> nat list" where
  "owned s = opt_list (pd_preview s) @ opt_list (fr_photo s) @ map dc_url (fr_decoding s)"

definition urls_ok :: "room_state \<Rightarrow> bool" where
  "urls_ok s \<longleftrightarrow> distinct (owned s) \<and> fr_live s = set (owned s) \<and> (\<forall>u\<in>fr_live s. u < fr_next s)"

text \<open>At most one call of \<^verbatim>\<open>choosePhoto\<close> is current, and the dialog shows that it is being checked.\<close>

definition entry_ok :: "room_state \<Rightarrow> decoding \<Rightarrow> bool" where
  "entry_ok s d \<longleftrightarrow>
     dc_instance d \<le> pd_instance s \<and> dc_request d \<le> pd_sequences s (dc_instance d)
     \<and> photoValidationError (file_type (dc_file d)) (file_size (dc_file d)) = None
     \<and> (is_current s d \<longrightarrow> dc_instance d = pd_instance s \<and> pd_checking s)"

definition queue_ok :: "room_state \<Rightarrow> bool" where
  "queue_ok s \<longleftrightarrow>
     distinct (map (\<lambda>d. (dc_instance d, dc_request d)) (fr_decoding s))
     \<and> (\<forall>d\<in>set (fr_decoding s). entry_ok s d)"

definition dialog_ok :: "room_state \<Rightarrow> bool" where
  "dialog_ok s \<longleftrightarrow>
     (pd_checking s \<longrightarrow> pd_open s) \<and> (pd_open s \<longrightarrow> fr_view s = Room \<and> \<not> fr_unavailable s)
     \<and> (\<forall>f. pd_file s = Some f \<longrightarrow> pd_preview s \<noteq> None
          \<and> photoValidationError (file_type f) (file_size f) = None)
     \<and> fr_selected s \<in> set fittingRoomGarments"

definition room_inv :: "room_state \<Rightarrow> bool" where
  "room_inv s \<longleftrightarrow> urls_ok s \<and> queue_ok s \<and> dialog_ok s"

lemma set_url_sel [simp]:
  "fr_photo (set_preview x s) = fr_photo s" "pd_preview (set_preview x s) = x"
  "fr_decoding (set_preview x s) = fr_decoding s" "fr_next (set_preview x s) = fr_next s"
  "pd_instance (set_preview x s) = pd_instance s" "pd_sequences (set_preview x s) = pd_sequences s"
  "pd_checking (set_preview x s) = pd_checking s" "pd_open (set_preview x s) = pd_open s"
  "pd_file (set_preview x s) = pd_file s" "fr_selected (set_preview x s) = fr_selected s"
  "fr_view (set_preview x s) = fr_view s" "fr_unavailable (set_preview x s) = fr_unavailable s"
  "fr_photo (set_photo x s) = x" "pd_preview (set_photo x s) = pd_preview s"
  "fr_decoding (set_photo x s) = fr_decoding s" "fr_next (set_photo x s) = fr_next s"
  "pd_instance (set_photo x s) = pd_instance s" "pd_sequences (set_photo x s) = pd_sequences s"
  "pd_checking (set_photo x s) = pd_checking s" "pd_open (set_photo x s) = pd_open s"
  "pd_file (set_photo x s) = pd_file s" "fr_selected (set_photo x s) = fr_selected s"
  "fr_view (set_photo x s) = fr_view s" "fr_unavailable (set_photo x s) = fr_unavailable s"
  by (simp_all add: set_preview_def set_photo_def revoke_def split: option.split)

lemma opt_list_simps [simp]: "opt_list None = []" "opt_list (Some a) = [a]"
  by (simp_all add: opt_list_def)

text \<open>The same with one more URL that nothing shows yet.\<close>

definition urls_with :: "nat \<Rightarrow> room_state \<Rightarrow> bool" where
  "urls_with u s \<longleftrightarrow>
     distinct (u # owned s) \<and> fr_live s = insert u (set (owned s)) \<and> (\<forall>v\<in>fr_live s. v < fr_next s)"

lemma urls_drop_preview [intro]: "urls_ok s \<Longrightarrow> urls_ok (set_preview None s)"
  by (cases "pd_preview s") (auto simp: urls_ok_def owned_def set_preview_def revoke_def)

lemma urls_drop_photo [intro]: "urls_ok s \<Longrightarrow> urls_ok (set_photo None s)"
  by (cases "fr_photo s") (auto simp: urls_ok_def owned_def set_photo_def revoke_def)

lemma urls_create: "urls_ok s \<Longrightarrow> create_url s = (u, t) \<Longrightarrow> urls_with u t"
  by (auto simp: urls_ok_def urls_with_def owned_def create_url_def less_Suc_eq)

lemma urls_with_photo: "urls_with u s \<Longrightarrow> urls_ok (set_photo (Some u) s)"
  by (cases "fr_photo s") (auto simp: urls_with_def urls_ok_def owned_def set_photo_def revoke_def)

lemma urls_with_preview: "urls_with u s \<Longrightarrow> urls_ok (set_preview (Some u) s)"
  by (cases "pd_preview s") (auto simp: urls_with_def urls_ok_def owned_def set_preview_def revoke_def)

lemma urls_with_revoked: "urls_with u s \<Longrightarrow> urls_ok (revoke (Some u) s)"
  by (auto simp: urls_with_def urls_ok_def owned_def revoke_def)

lemma urls_with_decoding:
  "urls_with (dc_url d) s \<Longrightarrow> urls_ok (s\<lparr>fr_decoding := fr_decoding s @ [d]\<rparr>)"
  by (auto simp: urls_with_def urls_ok_def owned_def)

lemma urls_taken:
  assumes "urls_ok s" and n: "n < length (fr_decoding s)"
  shows "urls_with (dc_url (fr_decoding s ! n))
    (s\<lparr>fr_decoding := take n (fr_decoding s) @ drop (Suc n) (fr_decoding s)\<rparr>)"
proof -
  define l d r where "l = take n (fr_decoding s)" and "d = fr_decoding s ! n"
    and "r = drop (Suc n) (fr_decoding s)"
  have "fr_decoding s = l @ d # r" using n by (simp add: l_def d_def r_def id_take_nth_drop)
  with assms show ?thesis
    unfolding l_def [symmetric] d_def [symmetric] r_def [symmetric]
    by (auto simp: urls_ok_def urls_with_def owned_def)
qed

lemma next_sequence_sel [simp]:
  "fr_decoding (next_sequence s) = fr_decoding s" "pd_instance (next_sequence s) = pd_instance s"
  "fr_live (next_sequence s) = fr_live s" "fr_next (next_sequence s) = fr_next s"
  "fr_photo (next_sequence s) = fr_photo s" "pd_preview (next_sequence s) = pd_preview s"
  "pd_open (next_sequence s) = pd_open s" "pd_file (next_sequence s) = pd_file s"
  "pd_checking (next_sequence s) = pd_checking s" "fr_view (next_sequence s) = fr_view s"
  "fr_unavailable (next_sequence s) = fr_unavailable s" "fr_selected (next_sequence s) = fr_selected s"
  by (simp_all add: next_sequence_def)

lemma urls_update [simp]:
  "urls_ok (s\<lparr>fr_unavailable := x0\<rparr>) = urls_ok s"
  "urls_ok (s\<lparr>fr_view := x1\<rparr>) = urls_ok s"
  "urls_ok (s\<lparr>fr_selected := x2\<rparr>) = urls_ok s"
  "urls_ok (s\<lparr>pd_open := x3\<rparr>) = urls_ok s"
  "urls_ok (s\<lparr>pd_file := x4\<rparr>) = urls_ok s"
  "urls_ok (s\<lparr>pd_error := x5\<rparr>) = urls_ok s"
  "urls_ok (s\<lparr>pd_checking := x6\<rparr>) = urls_ok s"
  "urls_ok (s\<lparr>pd_instance := x7\<rparr>) = urls_ok s"
  "urls_ok (s\<lparr>pd_sequences := x8\<rparr>) = urls_ok s"
  "urls_ok (s\<lparr>pk_choosing := x9\<rparr>) = urls_ok s"
  "urls_ok (s\<lparr>pk_query := x10\<rparr>) = urls_ok s"
  "urls_ok (s\<lparr>pk_show_all := x11\<rparr>) = urls_ok s"
  "urls_ok (next_sequence s) = urls_ok s"
  by (simp_all add: urls_ok_def owned_def next_sequence_def)

text \<open>The rest of the invariant does not read the URLs.\<close>

lemma entry_next_sequence:
  "entry_ok s d \<Longrightarrow> entry_ok (next_sequence s) d \<and> \<not> is_current (next_sequence s) d
     \<and> (dc_instance d = pd_instance s \<longrightarrow> dc_request d < sequence (next_sequence s))"
  by (cases "dc_instance d = pd_instance s")
     (auto simp: entry_ok_def next_sequence_def is_current_def sequence_def)

lemma entry_cong:
  "pd_instance t = pd_instance s \<Longrightarrow> pd_sequences t = pd_sequences s \<Longrightarrow>
     (pd_checking s \<Longrightarrow> is_current s d \<Longrightarrow> pd_checking t) \<Longrightarrow> entry_ok s d \<Longrightarrow> entry_ok t d"
  by (auto simp: entry_ok_def is_current_def)

lemma entry_idle:
  "pd_instance s \<le> pd_instance t \<Longrightarrow> pd_sequences t = pd_sequences s \<Longrightarrow> \<not> is_current s d \<Longrightarrow>
     entry_ok s d \<Longrightarrow> entry_ok t d"
  by (auto simp: entry_ok_def is_current_def)

lemma entry_no_check: "entry_ok s d \<Longrightarrow> \<not> pd_checking s \<Longrightarrow> \<not> is_current s d"
  by (auto simp: entry_ok_def)

lemma queue_cong:
  assumes "queue_ok s" and "fr_decoding t = fr_decoding s" and "pd_instance t = pd_instance s"
    and "pd_sequences t = pd_sequences s" and "pd_checking s \<Longrightarrow> pd_checking t"
  shows "queue_ok t"
  using assms by (auto simp: queue_ok_def intro: entry_cong)

lemma queue_update [simp]:
  "queue_ok (s\<lparr>fr_unavailable := x0\<rparr>) = queue_ok s"
  "queue_ok (s\<lparr>fr_view := x1\<rparr>) = queue_ok s"
  "queue_ok (s\<lparr>fr_selected := x2\<rparr>) = queue_ok s"
  "queue_ok (s\<lparr>fr_photo := x3\<rparr>) = queue_ok s"
  "queue_ok (s\<lparr>pd_open := x4\<rparr>) = queue_ok s"
  "queue_ok (s\<lparr>pd_file := x5\<rparr>) = queue_ok s"
  "queue_ok (s\<lparr>pd_error := x6\<rparr>) = queue_ok s"
  "queue_ok (s\<lparr>pd_preview := x7\<rparr>) = queue_ok s"
  "queue_ok (s\<lparr>pk_choosing := x8\<rparr>) = queue_ok s"
  "queue_ok (s\<lparr>pk_query := x9\<rparr>) = queue_ok s"
  "queue_ok (s\<lparr>pk_show_all := x10\<rparr>) = queue_ok s"
  "queue_ok (s\<lparr>fr_live := x11\<rparr>) = queue_ok s"
  "queue_ok (s\<lparr>fr_next := x12\<rparr>) = queue_ok s"
  "queue_ok (set_preview p s) = queue_ok s" "queue_ok (set_photo p s) = queue_ok s"
  by (simp_all add: queue_ok_def entry_ok_def is_current_def)

lemma queue_idle:
  assumes "queue_ok s" and "fr_decoding t = fr_decoding s" and "pd_instance s \<le> pd_instance t"
    and "pd_sequences t = pd_sequences s" and "\<not> pd_checking s"
  shows "queue_ok t"
  using assms by (simp add: queue_ok_def) (metis entry_idle entry_no_check)

lemma queue_next_sequence: "queue_ok s \<Longrightarrow> queue_ok (next_sequence s)"
  by (simp add: queue_ok_def entry_next_sequence)

lemma queue_checked:
  assumes "queue_ok s" and "\<And>d. d \<in> set (fr_decoding s) \<Longrightarrow> \<not> is_current s d"
    and "fr_decoding t = fr_decoding s" and "pd_instance t = pd_instance s" and "pd_sequences t = pd_sequences s"
  shows "queue_ok t"
  using assms by (simp add: queue_ok_def) (metis entry_idle order_refl)

lemma next_sequence_stale:
  "queue_ok s \<Longrightarrow> d \<in> set (fr_decoding (next_sequence s)) \<Longrightarrow> \<not> is_current (next_sequence s) d"
  using entry_next_sequence by (auto simp: queue_ok_def next_sequence_def)

lemma queue_append:
  assumes "queue_ok s" and "pd_checking s" and "dc_instance d = pd_instance s"
    and new: "\<And>e. e \<in> set (fr_decoding s) \<Longrightarrow> dc_instance e = pd_instance s \<Longrightarrow> dc_request e < dc_request d"
    and "dc_request d \<le> sequence s"
    and "photoValidationError (file_type (dc_file d)) (file_size (dc_file d)) = None"
  shows "queue_ok (s\<lparr>fr_decoding := fr_decoding s @ [d]\<rparr>)"
proof -
  have "entry_ok (s\<lparr>fr_decoding := ds\<rparr>) = entry_ok s" for ds
    by (simp add: entry_ok_def is_current_def fun_eq_iff)
  moreover have "entry_ok s d" using assms by (simp add: entry_ok_def sequence_def)
  moreover have "(dc_instance d, dc_request d) \<notin> (\<lambda>d. (dc_instance d, dc_request d)) ` set (fr_decoding s)"
    using new assms(3) by force
  ultimately show ?thesis using assms(1) by (simp add: queue_ok_def)
qed

text \<open>Taking an entry out of the queue: at most that entry was current.\<close>

lemma queue_taken:
  assumes "queue_ok s" and n: "n < length (fr_decoding s)"
    and t: "t = s\<lparr>fr_decoding := take n (fr_decoding s) @ drop (Suc n) (fr_decoding s)\<rparr>"
  shows "queue_ok t"
    and "is_current t (fr_decoding s ! n) \<Longrightarrow> d \<in> set (fr_decoding t) \<Longrightarrow> \<not> is_current t d"
    and "entry_ok t (fr_decoding s ! n)"
proof -
  define l e r where "l = take n (fr_decoding s)" and "e = fr_decoding s ! n"
    and "r = drop (Suc n) (fr_decoding s)"
  have s: "fr_decoding s = l @ e # r" using n by (simp add: l_def e_def r_def id_take_nth_drop)
  have t': "t = s\<lparr>fr_decoding := l @ r\<rparr>" by (simp add: t l_def r_def)
  have ok: "entry_ok t = entry_ok s" and cur: "is_current t = is_current s"
    by (auto simp: t' entry_ok_def is_current_def fun_eq_iff)
  have q: "distinct (map (\<lambda>d. (dc_instance d, dc_request d)) (l @ e # r))" "\<forall>d\<in>set (l @ e # r). entry_ok s d"
    using assms(1) s by (simp_all add: queue_ok_def)
  show "queue_ok t" using q by (simp add: queue_ok_def ok) (simp add: t')
  show "entry_ok t (fr_decoding s ! n)" unfolding e_def [symmetric] ok using q(2) by simp
  assume "is_current t (fr_decoding s ! n)" and "d \<in> set (fr_decoding t)"
  then have c: "is_current s e" and d: "d \<in> set l \<union> set r" by (simp_all add: cur e_def) (simp add: t')
  show "\<not> is_current t d"
  proof
    assume "is_current t d"
    then have "dc_instance d = dc_instance e \<and> dc_request d = dc_request e"
      using c d q(2) by (auto simp: cur entry_ok_def is_current_def)
    then show False using d q(1) by (auto simp: image_iff)
  qed
qed

subsection \<open>Every operation keeps the invariant\<close>

lemma dialog_choose:
  assumes inv: "room_inv s" and o: "pd_open s"
  shows "room_inv (choosePhoto w s)"
proof (cases w)
  case None
  with inv show ?thesis by (simp add: choosePhoto_def)
next
  case (Some f)
  define msg where "msg = map_option Photo_refused (photoValidationError (file_type f) (file_size f))"
  define s1 where "s1 = next_sequence s"
  define s2 where "s2 = (set_preview None (s1\<lparr>pd_file := None\<rparr>))\<lparr>pd_error := msg\<rparr>"
  have u1: "urls_ok (s1\<lparr>pd_file := None\<rparr>)"
    using inv by (simp add: s1_def room_inv_def)
  have u2: "urls_ok s2"
    using urls_drop_preview [OF u1] by (simp add: s2_def)
  have q1: "queue_ok s1" and stale: "\<And>d. d \<in> set (fr_decoding s1) \<Longrightarrow> \<not> is_current s1 d"
    using inv next_sequence_stale by (auto simp: s1_def room_inv_def intro: queue_next_sequence)
  have q2: "queue_ok s2" using q1 by (simp add: s2_def)
  have d: "dialog_ok s2" "pd_open s2" using inv o by (simp_all add: room_inv_def dialog_ok_def s2_def s1_def)
  show ?thesis
  proof (cases msg)
    case m: None
    obtain u s3 where c: "create_url (s2\<lparr>pd_checking := True\<rparr>) = (u, s3)" by force
    define e where "e = \<lparr>dc_instance = pd_instance s, dc_request = sequence s1, dc_url = u, dc_file = f\<rparr>"
    have r: "choosePhoto w s = s3\<lparr>fr_decoding := fr_decoding s3 @ [e]\<rparr>"
      using Some c m by (simp add: choosePhoto_def e_def s1_def s2_def msg_def [symmetric] Let_def)
    have "urls_ok (s2\<lparr>pd_checking := True\<rparr>)" using u2 by simp
    from urls_create [OF this c] have U: "urls_ok (choosePhoto w s)"
      unfolding r by (intro urls_with_decoding) (simp add: e_def)
    have s3: "fr_decoding s3 = fr_decoding s" "pd_instance s3 = pd_instance s"
      "pd_sequences s3 = pd_sequences s1" "pd_checking s3" "pd_open s3" "pd_file s3 = None"
      "fr_view s3 = fr_view s2" "fr_unavailable s3 = fr_unavailable s2" "fr_selected s3 = fr_selected s2"
      using c o by (auto simp: create_url_def s2_def s1_def)
    have q3: "queue_ok s3" by (rule queue_checked [OF q1 stale]) (simp_all add: s3 s1_def)
    have new: "dc_request d < sequence s1"
      if "d \<in> set (fr_decoding s)" "dc_instance d = pd_instance s" for d
      using inv entry_next_sequence that by (auto simp: s1_def room_inv_def queue_ok_def)
    have v: "photoValidationError (file_type f) (file_size f) = None" using m by (simp add: msg_def)
    have Q: "queue_ok (choosePhoto w s)" unfolding r
      by (rule queue_append) (use q3 s3 new v in \<open>simp_all add: e_def sequence_def s1_def\<close>)
    have "dialog_ok (choosePhoto w s)" unfolding r using d s3 by (simp add: dialog_ok_def)
    with U Q show ?thesis by (simp add: room_inv_def)
  next
    case (Some a)
    with \<open>w = Some f\<close> have "choosePhoto w s = s2"
      by (simp add: choosePhoto_def s2_def s1_def msg_def [symmetric] Let_def)
    with u2 q2 d show ?thesis by (simp add: room_inv_def)
  qed
qed

lemma photo_dialog_change_inv:
  assumes inv: "room_inv s" and "open \<noteq> pd_open s" and "open \<Longrightarrow> \<not> fr_unavailable s \<and> fr_view s = Room"
  shows "room_inv (photo_dialog_change open s)"
proof (cases "open")
  case True
  with assms have r: "photo_dialog_change open s = s\<lparr>pd_open := True\<rparr>" "\<not> fr_unavailable s" "fr_view s = Room"
    by (simp_all add: photo_dialog_change_def)
  moreover have "queue_ok (s\<lparr>pd_open := True\<rparr>)" using inv by (simp add: room_inv_def)
  ultimately show ?thesis using inv by (simp add: room_inv_def) (simp add: dialog_ok_def)
next
  case False
  define s1 where "s1 = (next_sequence (s\<lparr>pd_open := False\<rparr>))\<lparr>pd_file := None\<rparr>"
  have r: "photo_dialog_change open s = (set_preview None s1)\<lparr>pd_error := None, pd_checking := False\<rparr>"
    using False by (simp add: photo_dialog_change_def s1_def)
  have "urls_ok s1" using inv by (simp add: s1_def room_inv_def urls_ok_def owned_def)
  then have u: "urls_ok (photo_dialog_change open s)"
    unfolding r using urls_drop_preview by simp
  have "queue_ok (s\<lparr>pd_open := False\<rparr>)" using inv by (simp add: room_inv_def)
  then have q: "queue_ok (next_sequence (s\<lparr>pd_open := False\<rparr>))"
    and st: "\<And>d. d \<in> set (fr_decoding (next_sequence (s\<lparr>pd_open := False\<rparr>))) \<Longrightarrow>
      \<not> is_current (next_sequence (s\<lparr>pd_open := False\<rparr>)) d"
    by (rule queue_next_sequence, rule next_sequence_stale)
  have "queue_ok (photo_dialog_change open s)"
    unfolding r by (rule queue_checked [OF q st]) (simp_all add: s1_def)
  with u inv show ?thesis by (simp add: room_inv_def r) (simp add: dialog_ok_def s1_def)
qed

lemma choose_refused:
  assumes "photoValidationError (file_type f) (file_size f) = Some msg" and "t = choosePhoto (Some f) s"
  shows "pd_error t = Some (Photo_refused msg)" "pd_file t = None" "pd_preview t = None"
    "pd_checking t = pd_checking s" "fr_decoding t = fr_decoding s" "pd_instance t = pd_instance s"
    "pd_sequences t = (pd_sequences s)(pd_instance s := Suc (sequence s))"
    "pd_open t = pd_open s" "fr_view t = fr_view s"
  using assms by (simp_all add: choosePhoto_def Let_def) (simp add: next_sequence_def)

lemma choose_accepted:
  assumes "photoValidationError (file_type f) (file_size f) = None" and "t = choosePhoto (Some f) s"
  shows "pd_error t = None" "pd_file t = None" "pd_preview t = None" "pd_checking t"
    "fr_decoding t = fr_decoding s @
       [\<lparr>dc_instance = pd_instance s, dc_request = Suc (sequence s), dc_url = fr_next s, dc_file = f\<rparr>]"
    "pd_instance t = pd_instance s" "pd_sequences t = (pd_sequences s)(pd_instance s := Suc (sequence s))"
    "pd_open t = pd_open s" "fr_view t = fr_view s"
  using assms
  by (simp_all add: choosePhoto_def create_url_def Let_def) (simp_all add: next_sequence_def sequence_def)

lemma decode_stale: "\<not> is_current s d \<Longrightarrow> decode_done ok d s = revoke (Some (dc_url d)) s"
  by (simp add: decode_done_def is_current_def revoke_def Let_def)

lemma decode_done_cases:
  assumes "entry_ok s d"
  shows "decode_done ok d s =
    (if \<not> is_current s d then revoke (Some (dc_url d)) s
     else if ok then (set_preview (Some (dc_url d)) s)\<lparr>pd_file := Some (dc_file d), pd_checking := False\<rparr>
     else (revoke (Some (dc_url d)) s)\<lparr>pd_error := Some Photo_not_decodable, pd_checking := False\<rparr>)"
  using assms
  by (auto simp: decode_done_def in_dialog_def is_current_def entry_ok_def revoke_def Let_def)

lemma revoke_sel [simp]:
  "fr_decoding (revoke u s) = fr_decoding s" "pd_instance (revoke u s) = pd_instance s"
  "pd_sequences (revoke u s) = pd_sequences s" "queue_ok (revoke u s) = queue_ok s"
  "dialog_ok (revoke u s) = dialog_ok s"
  by (simp_all add: revoke_def dialog_ok_def split: option.split)

lemma decode_done_inv:
  assumes inv: "room_inv s" and n: "n < length (fr_decoding s)"
    and t: "t = s\<lparr>fr_decoding := take n (fr_decoding s) @ drop (Suc n) (fr_decoding s)\<rparr>"
  shows "room_inv (decode_done ok (fr_decoding s ! n) t)"
proof -
  define d where "d = fr_decoding s ! n"
  have u: "urls_with (dc_url d) t" using inv n urls_taken by (simp add: room_inv_def t d_def)
  have q: "queue_ok t" and e: "entry_ok t d"
    and o: "\<And>x. is_current t d \<Longrightarrow> x \<in> set (fr_decoding t) \<Longrightarrow> \<not> is_current t x"
    using queue_taken [OF _ n t] inv by (auto simp: room_inv_def d_def)
  have g: "dialog_ok t" using inv by (simp add: room_inv_def dialog_ok_def t)
  consider "\<not> is_current t d" | "is_current t d" "ok" | "is_current t d" "\<not> ok" by blast
  then have "room_inv (decode_done ok d t)"
  proof cases
    case 1
    then show ?thesis using u q g e by (simp add: decode_done_cases room_inv_def urls_with_revoked)
  next
    case 2
    have "queue_ok ((set_preview (Some (dc_url d)) t)\<lparr>pd_file := Some (dc_file d), pd_checking := False\<rparr>)"
      by (rule queue_checked [OF q o [OF 2(1)]]) simp_all
    moreover have "dialog_ok ((set_preview (Some (dc_url d)) t)\<lparr>pd_file := Some (dc_file d), pd_checking := False\<rparr>)"
      using g e by (simp add: dialog_ok_def entry_ok_def)
    ultimately show ?thesis using u e 2 by (simp add: decode_done_cases room_inv_def urls_with_preview)
  next
    case 3
    have "queue_ok ((revoke (Some (dc_url d)) t)\<lparr>pd_error := Some Photo_not_decodable, pd_checking := False\<rparr>)"
      by (rule queue_checked [OF q o [OF 3(1)]]) simp_all
    moreover have "dialog_ok ((revoke (Some (dc_url d)) t)\<lparr>pd_error := Some Photo_not_decodable, pd_checking := False\<rparr>)"
      using g by (simp add: dialog_ok_def revoke_def)
    ultimately show ?thesis using u e 3 by (simp add: decode_done_cases room_inv_def urls_with_revoked)
  qed
  then show ?thesis by (simp add: d_def)
qed

lemma navigate_inv:
  assumes inv: "room_inv s" and c: "\<not> pd_open s"
  shows "room_inv (navigate next s)"
proof -
  have i: "\<not> pd_checking s" using inv c by (simp add: room_inv_def dialog_ok_def)
  have "queue_ok (fresh_room s)"
    by (rule queue_idle [of s]) (use inv i in \<open>simp_all add: room_inv_def fresh_room_def\<close>)
  moreover have "urls_ok (fresh_room s)" using inv by (auto simp: room_inv_def fresh_room_def)
  moreover have "dialog_ok (fresh_room s\<lparr>fr_view := v\<rparr>)" for v
    using inv by (simp add: room_inv_def dialog_ok_def fresh_room_def)
  moreover have "dialog_ok (s\<lparr>fr_view := v\<rparr>)" for v
    using inv c i by (simp add: room_inv_def dialog_ok_def)
  ultimately show ?thesis using inv by (simp add: navigate_def room_inv_def)
qed

lemma select_in:
  assumes "room_inv s"
  shows "room_inv (changeCategory c s)" and "room_inv (select_garment i s)" and "room_inv (reset_room s)"
  using assms urls_drop_photo
  by (auto simp: room_inv_def dialog_ok_def changeCategory_def select_garment_def reset_room_def
      fittingRoomGarments_def Let_def split: option.split dest!: find_SomeD)

lemma use_photo_eq:
  assumes "fr_view s = Room" and "pd_file s = Some f" and "create_url s = (u, s1)"
  shows "use_photo s = set_preview None ((set_photo (Some u) s1)\<lparr>pd_open := False, pd_file := None\<rparr>)"
proof -
  have "fr_view s1 = Room" using assms by (auto simp: create_url_def)
  with assms show ?thesis by (simp add: use_photo_def ownPhoto_def navigate_def)
qed

lemma use_photo_inv:
  assumes inv: "room_inv s" and "pd_open s" and f: "pd_file s = Some f" and c: "\<not> pd_checking s"
  shows "room_inv (use_photo s)"
proof -
  obtain u s1 where u: "create_url s = (u, s1)" by force
  have v: "fr_view s = Room" using assms by (simp add: room_inv_def dialog_ok_def)
  have s1: "s1 = s\<lparr>fr_live := insert (fr_next s) (fr_live s), fr_next := Suc (fr_next s)\<rparr>"
    using u by (auto simp: create_url_def)
  have "urls_ok (set_photo (Some u) s1)"
    using inv u by (auto simp: room_inv_def intro: urls_with_photo urls_create)
  moreover have "queue_ok s1" using inv by (simp add: room_inv_def s1)
  moreover have "dialog_ok (set_preview None ((set_photo (Some u) s1)\<lparr>pd_open := False, pd_file := None\<rparr>))"
    using inv c by (simp add: room_inv_def dialog_ok_def s1)
  ultimately show ?thesis
    unfolding use_photo_eq [OF v f u] room_inv_def by (simp add: urls_drop_preview)
qed

lemma room_inv_update:
  "room_inv s \<Longrightarrow> room_inv (s\<lparr>pk_query := x\<rparr>)"
  "room_inv s \<Longrightarrow> room_inv (picker_change b s)"
  "room_inv s \<Longrightarrow> room_inv (s\<lparr>fr_unavailable := False\<rparr>)"
  "room_inv s \<Longrightarrow> \<not> pd_open s \<Longrightarrow> room_inv (s\<lparr>fr_unavailable := True\<rparr>)"
  by (simp_all add: room_inv_def dialog_ok_def picker_change_def)

lemma room_step_inv:
  assumes inv: "room_inv s" and st: "room_step ev s = Some t"
  shows "room_inv t"
proof (cases ev)
  case (Decoded n ok)
  with st show ?thesis
    by (auto simp: room_step_def split: if_splits intro: decode_done_inv [OF inv _ refl])
next
  case Use_photo
  with st show ?thesis by (auto simp: room_step_def split: if_splits intro: use_photo_inv [OF inv])
next
  case (Choose_photo f)
  with st show ?thesis by (auto simp: room_step_def split: if_splits intro: dialog_choose [OF inv])
next
  case (Photo_dialog b)
  with st show ?thesis
    by (auto simp: room_step_def modal_def split: if_splits intro!: photo_dialog_change_inv [OF inv])
next
  case (To_view v)
  with st show ?thesis
    by (cases v; cases "fr_view s")
       (auto simp: room_step_def modal_def split: if_splits intro: navigate_inv [OF inv])
next
  case Unavailable_to_result
  with st have u: "fr_unavailable s" and t: "t = navigate Result (s\<lparr>fr_unavailable := False\<rparr>)"
    by (auto simp: room_step_def split: if_splits)
  have "room_inv (s\<lparr>fr_unavailable := False\<rparr>)" using inv by (rule room_inv_update)
  then show ?thesis unfolding t
    by (rule navigate_inv) (use inv u in \<open>auto simp: room_inv_def dialog_ok_def\<close>)
qed (use st in \<open>auto simp: room_step_def modal_def split: if_splits
       intro: room_inv_update [OF inv] select_in [OF inv]\<close>)

interpretation room: step_invariant room_step room_init room_inv
proof
  show "room_inv room_init"
    by (simp add: room_inv_def urls_ok_def owned_def queue_ok_def dialog_ok_def room_init_def
        fittingRoomGarments_def)
qed (rule room_step_inv)

end
