(* ===== verification/Fitting_Room_Properties.thy ===== *)
theory Fitting_Room_Properties
  imports Fitting_Room_View
begin

text \<open>
  Properties of the fitting room: object URLs are neither leaked nor used after they are revoked,
  only the photo that was chosen last is ever shown, and a photo that is refused while another one
  is being checked leaves the dialog checking.
\<close>

subsection \<open>Examples\<close>

text \<open>A photograph of 2 MB, and a text file.\<close>

definition photo_file :: js_file where
  "photo_file = \<lparr>file_key = 1, file_type = js ''image/png'', file_size = 2000000\<rparr>"

definition text_file :: js_file where
  "text_file = \<lparr>file_key = 2, file_type = js ''text/plain'', file_size = 10\<rparr>"

lemma files_checked:
  "photoValidationError (file_type photo_file) (file_size photo_file) = None"
  "photoValidationError (file_type text_file) (file_size text_file) \<noteq> None"
  by (simp_all add: photoValidationError_def photo_file_def text_file_def js_def)

subsection \<open>Object URLs\<close>

text \<open>
  C28. The live object URLs of the page are at every moment those of the preview in the dialog, of the
  photo in the room and of the photos that are still being decoded, each owned once: none leaks,
  none is shown after it was revoked. A photo the dialog offers to use has been decoded, is shown,
  and passes the check of its type and size.
\<close>

theorem room_urls_owned:
  assumes "room_reach s"
  shows "fr_live s = set (opt_list (pd_preview s)) \<union> set (opt_list (fr_photo s)) \<union> dc_url ` set (fr_decoding s)
    \<and> distinct (opt_list (pd_preview s) @ opt_list (fr_photo s) @ map dc_url (fr_decoding s))
    \<and> (case pd_file s of
        None \<Rightarrow> True
      | Some f \<Rightarrow> pd_preview s \<noteq> None \<and> photoValidationError (file_type f) (file_size f) = None)"
  using room.reach_inv [OF assms]
  by (auto simp: room_inv_def urls_ok_def owned_def dialog_ok_def split: option.split)

definition after_use :: room_state where
  "after_use =
     (case room_run [Photo_dialog True, Choose_photo (Some photo_file), Decoded 0 True, Use_photo] room_init of
        Some s \<Rightarrow> s | None \<Rightarrow> room_init)"

lemma after_use_run:
  "room_run [Photo_dialog True, Choose_photo (Some photo_file), Decoded 0 True, Use_photo] room_init = Some after_use"
  "fr_photo after_use = Some 1" "pd_preview after_use = None" "fr_decoding after_use = []"
  using files_checked(1)
  by (simp_all add: after_use_def room_step_def room_init_def modal_def photo_dialog_change_def choosePhoto_def
      create_url_def next_sequence_def sequence_def set_preview_def revoke_def decode_done_def is_current_def
      in_dialog_def use_photo_def ownPhoto_def navigate_def set_photo_def)

lemma after_use_reach: "room_reach after_use"
  using run_reach [OF after_use_run(1) step_reach.start] .

theorem room_urls_owned_witness: "fr_live after_use = {1} \<and> fr_photo after_use = Some 1"
  using room_urls_owned [OF after_use_reach] by (simp add: after_use_run)

subsection \<open>The last choice\<close>

text \<open>
  C29. Only the last choice counts, however long the photos take to decode: when a photo has been
  decoded, or could not be, and it is not the one of the last call of choosePhoto, the dialog does
  not change and its URL is revoked. When it is, the dialog is still open and stops checking; it
  shows the photo and offers it, or shows that it cannot be read and offers what it offered before,
  with its URL revoked.
\<close>

theorem photo_last_choice:
  assumes "room_reach s" and "room_step (Decoded n ok) s = Some t" and "d = fr_decoding s ! n"
  shows "if \<not> is_current s d
    then pd_preview t = pd_preview s \<and> pd_file t = pd_file s \<and> pd_error t = pd_error s
      \<and> pd_checking t = pd_checking s \<and> dc_url d \<notin> fr_live t
    else pd_open s \<and> pd_open t \<and> pd_checking s \<and> \<not> pd_checking t
      \<and> (if ok then pd_preview t = Some (dc_url d) \<and> pd_file t = Some (dc_file d) \<and> dc_url d \<in> fr_live t
         else pd_error t = Some Photo_not_decodable \<and> pd_file t = pd_file s \<and> dc_url d \<notin> fr_live t)"
proof -
  have inv: "room_inv s" using assms(1) by (rule room.reach_inv)
  have n: "n < length (fr_decoding s)" and t: "t = decode_done ok d
      (s\<lparr>fr_decoding := take n (fr_decoding s) @ drop (Suc n) (fr_decoding s)\<rparr>)" (is "_ = decode_done ok d ?s")
    using assms by (auto simp: room_step_def split: if_splits)
  have e: "entry_ok ?s d" using queue_taken(3) [OF _ n refl] inv by (simp add: room_inv_def assms(3))
  have c: "is_current ?s d = is_current s d" by (simp add: is_current_def)
  have w: "urls_with (dc_url d) ?s" using urls_taken n inv by (simp add: room_inv_def assms(3))
  have u: "dc_url d \<in> fr_live ?s" using w by (simp add: urls_with_def)
  have p: "pd_preview ?s \<noteq> Some (dc_url d)"
    using w by (auto simp: urls_with_def owned_def)
  have k: "is_current s d \<Longrightarrow> pd_checking s" using e c by (simp add: entry_ok_def)
  then have o: "is_current s d \<Longrightarrow> pd_open s" using inv by (simp add: room_inv_def dialog_ok_def)
  show ?thesis
    unfolding t decode_done_cases [OF e] c using k o u p
    by (auto simp: revoke_def set_preview_def split: option.split)
qed

text \<open>Two photos are chosen; the second is decoded first, and then the first.\<close>

definition two_photos :: room_state where
  "two_photos =
     (case room_run [Photo_dialog True, Choose_photo (Some photo_file),
         Choose_photo (Some (photo_file\<lparr>file_key := 3\<rparr>)), Decoded 1 True] room_init of
        Some s \<Rightarrow> s | None \<Rightarrow> room_init)"

lemma two_photos_run:
  "room_run [Photo_dialog True, Choose_photo (Some photo_file),
     Choose_photo (Some (photo_file\<lparr>file_key := 3\<rparr>)), Decoded 1 True] room_init = Some two_photos"
  "fr_decoding two_photos = [\<lparr>dc_instance = 0, dc_request = 1, dc_url = 0, dc_file = photo_file\<rparr>]"
  "pd_sequences two_photos 0 = 2" "pd_preview two_photos = Some 1"
  using files_checked(1)
  by (simp_all add: two_photos_def room_step_def room_init_def modal_def photo_dialog_change_def choosePhoto_def
      create_url_def next_sequence_def sequence_def set_preview_def revoke_def decode_done_def is_current_def
      in_dialog_def)

theorem photo_last_choice_witness:
  "\<exists>t. room_step (Decoded 0 True) two_photos = Some t \<and> pd_preview t = Some 1 \<and> 0 \<notin> fr_live t"
proof -
  have r: "room_reach two_photos" using run_reach [OF two_photos_run(1) step_reach.start] .
  obtain t where t: "room_step (Decoded 0 True) two_photos = Some t"
    by (simp add: room_step_def two_photos_run)
  have "\<not> is_current two_photos (fr_decoding two_photos ! 0)"
    by (simp add: is_current_def two_photos_run)
  with photo_last_choice [OF r t refl] t show ?thesis by (simp add: two_photos_run)
qed

subsection \<open>A refused photo while another one is checked\<close>

text \<open>
  A file that is refused while a photo is being decoded leaves the dialog checking: the photo's
  decoding, of an earlier call, does not clear the flag, nothing is being decoded any more, the
  refusal is shown and the label of the button stays that of a running check. Choosing a readable
  photo clears it.
\<close>

lemma photo_refused_while_checking:
  assumes "pd_open s" and "fr_view s = Room" and "fr_decoding s = []"
    and "photoValidationError (file_type f) (file_size f) = None"
    and "photoValidationError (file_type g) (file_size g) = Some msg"
  shows "\<exists>t t'. room_run [Choose_photo (Some f), Choose_photo (Some g), Decoded 0 ok] s = Some t
    \<and> pd_checking t \<and> fr_decoding t = [] \<and> pd_file t = None \<and> pd_error t = Some (Photo_refused msg)
    \<and> room_run [Choose_photo (Some f), Decoded 0 True] t = Some t' \<and> \<not> pd_checking t' \<and> pd_file t' = Some f"
proof -
  define t1 where "t1 = choosePhoto (Some f) s"
  define t2 where "t2 = choosePhoto (Some g) t1"
  note c1 = choose_accepted [OF assms(4) t1_def] and c2 = choose_refused [OF assms(5) t2_def]
  define d where "d = fr_decoding t2 ! 0"
  have d: "fr_decoding t2 = [d]" "dc_instance d = pd_instance s" "dc_request d = Suc (sequence s)"
    using assms(3) by (simp_all add: d_def c1 c2)
  define t where "t = revoke (Some (dc_url d)) (t2\<lparr>fr_decoding := []\<rparr>)"
  have "\<not> is_current (t2\<lparr>fr_decoding := []\<rparr>) d" using d by (simp add: is_current_def c1 c2 sequence_def)
  then have r: "room_run [Choose_photo (Some f), Choose_photo (Some g), Decoded 0 ok] s = Some t"
    using assms(1,2) d by (simp add: room_step_def t1_def [symmetric] t2_def [symmetric] c1 c2 decode_stale t_def)
  have t: "pd_checking t" "fr_decoding t = []" "pd_file t = None" "pd_error t = Some (Photo_refused msg)"
    "pd_open t" "fr_view t = Room"
    using assms(1,2) by (simp_all add: t_def revoke_def c1 c2)
  define t3 where "t3 = choosePhoto (Some f) t"
  note c3 = choose_accepted [OF assms(4) t3_def]
  define e where "e = fr_decoding t3 ! 0"
  have e: "fr_decoding t3 = [e]" "e = \<lparr>dc_instance = pd_instance t, dc_request = Suc (sequence t), dc_url = fr_next t, dc_file = f\<rparr>"
    using t by (simp_all add: e_def c3)
  define t' where "t' = decode_done True e (t3\<lparr>fr_decoding := []\<rparr>)"
  have "room_run [Choose_photo (Some f), Decoded 0 True] t = Some t'"
    using t e(1) by (simp add: room_step_def t3_def [symmetric] t'_def c3)
  moreover have "\<not> pd_checking t' \<and> pd_file t' = Some f"
    by (simp add: t'_def decode_done_def is_current_def in_dialog_def e(2) c3)
  ultimately show ?thesis using r t by blast
qed

lemma photo_refused_while_checking_witness:
  "\<exists>t. room_run [Choose_photo (Some photo_file), Choose_photo (Some text_file), Decoded 0 True]
      (photo_dialog_change True room_init) = Some t \<and> pd_checking t \<and> fr_decoding t = []"
proof -
  have "pd_open (photo_dialog_change True room_init)" "fr_view (photo_dialog_change True room_init) = Room"
    "fr_decoding (photo_dialog_change True room_init) = []"
    by (simp_all add: photo_dialog_change_def room_init_def)
  from photo_refused_while_checking [OF this files_checked(1), of text_file] files_checked(2)
  show ?thesis by blast
qed

subsection \<open>The look in the room\<close>

text \<open>
  Whatever is picked, searched or filtered, the garment to try on and the garments that are kept
  make up one top, one bottom and one pair of shoes, each once: the garment on offer never replaces
  one of another kind. Of the garments to pick from, an empty search in the current category always
  shows the selected one.
\<close>

lemma room_look_complete:
  assumes "room_reach s"
  shows "{pg_category_label (fr_selected s)} \<union> set (map pg_category_label (preserved_garments (fr_selected s)))
      = {top_label, bottom_label, pg_category_label original_shoes}
    \<and> length (preserved_garments (fr_selected s)) = 2
    \<and> fr_selected s \<in> set (visibleItems (picker_category s) [] fittingRoomGarments)"
proof -
  have sel: "fr_selected s \<in> set fittingRoomGarments"
    using room.reach_inv [OF assms] by (simp add: room_inv_def dialog_ok_def)
  have "trim [] = []" by code_simp
  with sel show ?thesis
    by (auto simp: fittingRoomGarments_def preserved_garments_def original_top_def original_bottom_def
        visibleItems_def picker_category_def)
qed

lemma room_look_complete_witness:
  "{pg_category_label (fr_selected after_use)} \<union> set (map pg_category_label (preserved_garments (fr_selected after_use)))
      = {top_label, bottom_label, pg_category_label original_shoes}"
  using room_look_complete [OF after_use_reach] by blast

end
