(* ===== verification/Page_Liveness.thy ===== *)
theory Page_Liveness
  imports Handler_End Plan_View Wear_View Wardrobe_View Account_View Auth_View Recommendation_View
begin

text \<open>
  No page is stuck. For each page the longest path of responses of a handler that makes the page busy,
  and the fact that it does not end in an exception that nobody catches once the page is busy. (A form
  whose time zone the formatter does not know makes the check before a save throw; the page is then not
  made busy.)
\<close>

subsection \<open>The plan page\<close>

lemma plan_handlers_end:
  "waits (plan_save s) 3 \<and> handled_later (plan_save s)"
  "waits (plan_reloadEditing s) 3 \<and> handled (plan_reloadEditing s)"
  "waits (plan_runAction s) 3 \<and> handled (plan_runAction s)"
  "waits (plan_do_restore plan s) 3 \<and> handled (plan_do_restore plan s)"
  by (auto simp: view_defs prog_simps Let_def split: option.split sum.split plan_action.split)

lemma wear_handlers_end:
  "waits (wear_saveEvent cs s) 3 \<and> handled_later (wear_saveEvent cs s)"
  "waits (wear_reloadEditing s) 3 \<and> handled (wear_reloadEditing s)"
  "waits (wear_remove_event s) 3 \<and> handled (wear_remove_event s)"
  by (auto simp: view_defs prog_simps Let_def split: option.split sum.split)

lemma account_handlers_end:
  "waits (account_save m s) 3 \<and> handled (account_save m s)"
  "waits (account_do_logout s) 3 \<and> handled (account_do_logout s)"
  "waits (account_do_remove s) 3 \<and> handled (account_do_remove s)"
  by (auto simp: view_defs prog_simps Let_def split: option.split sum.split)

lemma auth_handlers_end: "waits (auth_submit mode m s) 3 \<and> handled (auth_submit mode m s)"
  by (auto simp: view_defs prog_simps Let_def auth_request_def split: option.split sum.split)

lemma recommend_handlers_end:
  "waits (rv_savePlan sc items key s) 3 \<and> handled (rv_savePlan sc items key s)"
  by (auto simp: view_defs prog_simps Let_def split: option.split sum.split)

subsection \<open>The wardrobe page\<close>

text \<open>Revoking a replaced URL is one effect, or none, and does not change what follows.\<close>

lemma revoke_replaced_prog [simp]:
  "bind (revoke_replaced b a p) f = revoke_replaced b a (bind p f)"
  "catch (revoke_replaced b a p) h = revoke_replaced b a (catch p h)"
  "finally_do (revoke_replaced b a p) g = revoke_replaced b a (finally_do p g)"
  "waits (revoke_replaced b a p) n = waits p n"
  "handled (revoke_replaced b a p) = handled p"
  by (simp_all add: revoke_replaced_def split: option.split)

text \<open>The five samples are created one after the other: two responses for each.\<close>

lemma waits_samples: "waits (create_samples items samples) (2 * length samples)"
proof (induction samples)
  case (Cons sample samples)
  have "waits (wardrobe_create (sample_body sample)) 2"
    by (auto simp: view_defs prog_simps split: option.split sum.split)
  from waits_bind [OF this Cons.IH] show ?case
    using waits_mono [OF Cons.IH, of "2 * length (sample # samples)"] by simp
qed simp

lemma handled_wd_not_pending: "handled wd_not_pending" "handled (showActionError cause)"
  by (simp_all add: view_defs prog_simps)

lemma wd_samples_end: "waits (wd_addSamples s) 10 \<and> handled (wd_addSamples s)"
proof -
  have "waits (create_samples (wd_items s) garmentSamples) 10"
    using waits_samples [of "wd_items s" garmentSamples] by (simp add: garmentSamples_def)
  then have "waits (bind (create_samples (wd_items s) garmentSamples)
      (\<lambda>_. Emit (Toast Toast_samples_added) (Return ()))) (10 + 0)"
    by (rule waits_bind) simp
  then have "waits (catch (bind (create_samples (wd_items s) garmentSamples)
      (\<lambda>_. Emit (Toast Toast_samples_added) (Return ()))) showActionError) ((10 + 0) + 0)"
    by (rule waits_catch) (simp add: view_defs prog_simps)
  then have "waits (finally_do (catch (bind (create_samples (wd_items s) garmentSamples)
      (\<lambda>_. Emit (Toast Toast_samples_added) (Return ()))) showActionError) wd_not_pending) ((10 + 0) + 0 + 0)"
    by (rule waits_finally) (simp add: view_defs)
  then show ?thesis
    by (auto simp: wd_addSamples_def intro!: handled_finally handled_catch handled_wd_not_pending)
qed

lemma waits_upload: "waits (upload_photo f) 1"
  by (simp add: prog_simps split: option.split sum.split)

lemma waits_upload_photos: "waits (upload_photos form) 2"
proof (cases "fm_photo_file form")
  case (Some f)
  define original where "original = (case fm_photo_original_file form of Some g \<Rightarrow> g | None \<Rightarrow> f)"
  have "waits (wd_set_form g) 0" for g by (simp add: wd_set_form_def Let_def)
  then have last: "waits (bind (wd_set_form g) (\<lambda>_. Return a)) (0 + 0)" for g and a :: "jstring option \<times> jstring option"
    by (rule waits_bind) simp
  have up: "waits (if c then Return j else upload_photo f) 1"
    "waits (case m of Some i \<Rightarrow> Return i | None \<Rightarrow> upload_photo original) 1" for c j m
    by (simp_all add: waits_upload [unfolded One_nat_def] split: option.split)
  show ?thesis
    unfolding upload_photos_def Some option.case Let_def original_def [symmetric]
    using waits_bind [OF up(2) waits_bind [OF up(1) last]] by (simp add: numeral_2_eq_2)
qed (simp add: upload_photos_def)

lemma waits_store_item: "waits (store_item edited body) 2"
  by (auto simp: store_item_def prog_simps wd_set_form_def Let_def split: option.split sum.split)

lemma wd_save_end: "waits (wd_save s) 10 \<and> handled (wd_save s)"
proof -
  have show_error: "waits (showActionError x) 0" for x by (simp add: view_defs prog_simps)
  have "waits (finally_do (catch (bind (upload_photos form) (\<lambda>(a, b). store_item edited (body a b)))
      showActionError) wd_not_pending) (2 + 2 + 0 + 0)" for form edited body
    by (intro waits_finally waits_catch waits_bind waits_upload_photos)
      (auto simp: waits_store_item show_error wd_not_pending_def)
  then have "waits (finally_do (catch (bind (upload_photos form) (\<lambda>(a, b). store_item edited (body a b)))
      showActionError) wd_not_pending) 10" for form edited body
    by (rule waits_mono) simp
  then show ?thesis
    by (auto simp: wd_save_def Let_def intro!: handled_finally handled_catch handled_wd_not_pending)
qed

lemma wardrobe_handlers_end:
  "waits (wd_reloadEditing s) 10 \<and> handled (wd_reloadEditing s)"
  "waits (wd_inspectDelete item s) 10 \<and> handled (wd_inspectDelete item s)"
  "waits (wd_remove s) 10 \<and> handled (wd_remove s)"
  by (auto simp: view_defs prog_simps wd_set_form_def Let_def split: option.split sum.split)

lemma photo_process_end: "waits (photo_process mode s) 10 \<and> handled (photo_process mode s)"
  by (auto simp: view_defs prog_simps wd_set_form_def Let_def split: option.split sum.split photo_mode.split)

subsection \<open>Every page settles\<close>

interpretation plans_settle: settling_view "plan_dispatch lower" plan_init pv_pending plan_exclusive
  "\<lambda>s. \<not> pv_pending s" "\<lambda>_. True" "\<lambda>_ _. True" plan_stable plan_policy 3 for lower
proof
  fix s ev p
  assume "plan_dispatch lower s ev = Some p" "plan_exclusive ev"
  then consider "p = plan_save s" | "p = plan_reloadEditing s" | "p = plan_runAction s"
    | plan where "p = plan_do_restore plan s"
    by (auto simp: plan_dispatch_def plan_exclusive_def split: plan_event.splits if_splits)
  then show "waits p 3 \<and> handled_later p" using plan_handlers_end by cases (simp_all add: handled_is_later)
qed

interpretation wear_settles: settling_view "wear_dispatch i" "wear_init i" wv_pending wear_exclusive
  "\<lambda>s. \<not> wv_pending s" wear_inv "\<lambda>_ _. True" wear_stable wear_policy 3 for i
proof
  fix s ev p
  assume "wear_dispatch i s ev = Some p" "wear_exclusive ev"
  then consider cs where "p = wear_saveEvent cs s" | "p = wear_reloadEditing s" | "p = wear_remove_event s"
    by (fastforce simp: wear_dispatch_def wear_exclusive_def split: wear_action.splits if_splits option.splits)
  then show "waits p 3 \<and> handled_later p" using wear_handlers_end by cases (simp_all add: handled_is_later)
qed

interpretation wardrobe_settles: settling_view "wardrobe_dispatch lower" wardrobe_init wardrobe_busy
  wardrobe_exclusive "\<lambda>s. \<not> wardrobe_busy s" wardrobe_inv "\<lambda>_ _. True" wardrobe_stable
  wardrobe_policy 10 for lower
proof
  fix s ev p
  assume "wardrobe_dispatch lower s ev = Some p" "wardrobe_exclusive ev"
  then consider "p = wd_save s" | "p = wd_reloadEditing s" | item where "p = wd_inspectDelete item s"
    | "p = wd_remove s" | "p = wd_addSamples s" | mode where "p = photo_process mode s"
    by (auto simp: wardrobe_dispatch_def wardrobe_exclusive_def split: wardrobe_event.splits if_splits)
  then show "waits p 10 \<and> handled_later p"
    using wardrobe_handlers_end wd_save_end wd_samples_end photo_process_end
    by cases (simp_all add: handled_is_later)
qed

interpretation account_settles: settling_view account_dispatch account_init account_busy account_exclusive
  account_ends "\<lambda>_. True" "\<lambda>_ _. True" "\<lambda>u t. ac_pending u = ac_pending t" account_policy 3
proof
  fix s ev p
  assume "account_dispatch s ev = Some p" "account_exclusive ev"
  then consider m where "p = account_save m s" | "p = account_do_logout s" | "p = account_do_remove s"
    by (auto simp: account_dispatch_def account_exclusive_def split: account_event.splits if_splits)
  then show "waits p 3 \<and> handled_later p" using account_handlers_end by cases (simp_all add: handled_is_later)
qed

interpretation auth_settles: settling_view "auth_dispatch mode" auth_init au_pending auth_exclusive
  "\<lambda>s. \<not> au_pending s" "\<lambda>_. True" "\<lambda>_ _. True" "\<lambda>_ _. True" "auth_policy mode" 3 for mode
proof
  fix s ev p
  assume "auth_dispatch mode s ev = Some p" "auth_exclusive ev"
  then obtain m where "p = auth_submit mode m s"
    by (auto simp: auth_dispatch_def auth_exclusive_def split: auth_event.splits if_splits)
  then show "waits p 3 \<and> handled_later p" using auth_handlers_end by (simp add: handled_is_later)
qed

interpretation rec_settles: settling_view "recommend_dispatch sc" "recommend_init sc" rv_saving
  recommend_exclusive "\<lambda>s. \<not> rv_saving s" recommend_inv recommend_rel recommend_stable "recommend_policy sc" 3
  for sc
proof
  fix s ev p
  assume "recommend_dispatch sc s ev = Some p" "recommend_exclusive ev"
  then obtain items key where "p = rv_savePlan sc items key s"
    by (auto simp: recommend_dispatch_def recommend_exclusive_def split: recommend_event.splits if_splits)
  then show "waits p 3 \<and> handled_later p" using recommend_handlers_end by (simp add: handled_is_later)
qed

end
