(* ===== verification/Liveness_Properties.thy ===== *)
theory Liveness_Properties
  imports Page_Liveness Wear_Properties Wardrobe_Properties
begin

text \<open>The pages of actual records and of the wardrobe never stay busy.\<close>

text \<open>
  C10. The page of actual records never stays pending: in every reachable configuration that is
  pending there is a handler whose requests, answered three times in any way at all, successes or
  failures, bring it to its end without an uncaught exception; the page is then not pending, and
  that configuration is reachable too.
\<close>

theorem wear_page_settles:
  assumes "reach (wear_dispatch i) (wear_init i) (s, ts, tr)" and "wv_pending s"
  shows "\<exists>ev q ts1 ts2. ts = ts1 @ (ev, q) # ts2 \<and> wear_exclusive ev \<and>
    (\<forall>rs. \<exists>s' out. answer rs 3 q s = (s', out, Return ()) \<and> \<not> wv_pending s'
       \<and> reach (wear_dispatch i) (wear_init i) (s', ts1 @ ts2, tr @ out))"
  by (rule wear_settles.settles [OF assms(1)]) (simp add: assms(2))

theorem wear_page_settles_witness:
  "\<exists>s ts tr ev q s' out. reach (wear_dispatch None) (wear_init None) (s, ts, tr) \<and> wv_pending s
     \<and> (ev, q) \<in> set ts \<and> wear_exclusive ev
     \<and> answer (\<lambda>_. (demo_env, Inl JNull)) 3 q s = (s', out, Return ()) \<and> \<not> wv_pending s'"
proof -
  obtain s ts tr where p: "wv_pending s"
    and r: "reach (wear_dispatch None) (wear_init None) (s, ts, tr)"
    using demo_wear_saving by blast
  from wear_page_settles [OF r p] obtain ev q ts1 ts2 where e: "ts = ts1 @ (ev, q) # ts2" "wear_exclusive ev"
    and a: "\<forall>rs. \<exists>s' out. answer rs 3 q s = (s', out, Return ()) \<and> \<not> wv_pending s'
       \<and> reach (wear_dispatch None) (wear_init None) (s', ts1 @ ts2, tr @ out)" by blast
  from a obtain s' out where
    "answer (\<lambda>_. (demo_env, Inl JNull)) 3 q s = (s', out, Return ())" "\<not> wv_pending s'" by blast
  moreover have "(ev, q) \<in> set ts" by (simp add: e)
  ultimately show ?thesis using r p e(2) by blast
qed

text \<open>
  C11. Nor does the wardrobe page, whose longest operation adds the five samples one after the other:
  ten answers of any kind end the operation that it waits for, be it a save with its uploads, a
  deletion, or the processing of a photo.
\<close>

theorem wardrobe_page_settles:
  assumes "reach (wardrobe_dispatch lower) wardrobe_init (s, ts, tr)" and "wd_pending s \<noteq> None"
  shows "\<exists>ev q ts1 ts2. ts = ts1 @ (ev, q) # ts2 \<and> wardrobe_exclusive ev \<and>
    (\<forall>rs. \<exists>s' out. answer rs 10 q s = (s', out, Return ()) \<and> wd_pending s' = None
       \<and> reach (wardrobe_dispatch lower) wardrobe_init (s', ts1 @ ts2, tr @ out))"
  using wardrobe_settles.settles [OF assms(1)] assms(2) by (simp add: wardrobe_busy_def)

theorem wardrobe_page_settles_witness:
  "\<exists>s ts tr ev q s' out. reach demo_page wardrobe_init (s, ts, tr) \<and> wd_pending s = Some W_save
     \<and> (ev, q) \<in> set ts
     \<and> answer (\<lambda>_. (demo_env, Inl JNull)) 10 q s = (s', out, Return ()) \<and> wd_pending s' = None"
proof -
  obtain s ts tr where p: "wd_pending s = Some W_save" and r: "reach demo_page wardrobe_init (s, ts, tr)"
    using demo_wardrobe_saving by blast
  from p have "wd_pending s \<noteq> None" by simp
  from wardrobe_page_settles [OF r this] obtain ev q ts1 ts2 where e: "ts = ts1 @ (ev, q) # ts2"
    and a: "\<forall>rs. \<exists>s' out. answer rs 10 q s = (s', out, Return ()) \<and> wd_pending s' = None
       \<and> reach demo_page wardrobe_init (s', ts1 @ ts2, tr @ out)" by blast
  from a obtain s' out where
    "answer (\<lambda>_. (demo_env, Inl JNull)) 10 q s = (s', out, Return ())" "wd_pending s' = None" by blast
  moreover have "(ev, q) \<in> set ts" by (simp add: e)
  ultimately show ?thesis using r p by blast
qed

end
