(* ===== verification/Outfit_Refinement.thy ===== *)
theory Outfit_Refinement
  imports Plan_View Demo_Data
begin

text \<open>
  What the flat-lay editor promises, without lists and without its table of conflicts: an outfit gives
  for each category the garment that is worn, a garment covers certain parts of the body (\<open>covers\<close>), and wearing
  one takes off whatever covers a part that it covers too. The selections of the form implement it.
\<close>

subsection \<open>The abstract outfit\<close>

type_synonym outfit = "category \<Rightarrow> selection option"

definition outfit_of :: "wardrobe_item list \<Rightarrow> selection list \<Rightarrow> outfit" where
  "outfit_of wardrobe sel c = List.find (\<lambda>a. sel_category wardrobe a = Some c) sel"

definition wear_garment :: "category \<Rightarrow> selection \<Rightarrow> outfit \<Rightarrow> outfit" where
  "wear_garment c a outfit = (\<lambda>d. if d = c then Some a else if covers d \<inter> covers c \<noteq> {} then None else outfit d)"

definition take_off :: "category \<Rightarrow> outfit \<Rightarrow> outfit" where
  "take_off c outfit = outfit(c := None)"

lemma find_append: "List.find P (xs @ ys) = (case List.find P xs of None \<Rightarrow> List.find P ys | Some x \<Rightarrow> Some x)"
  by (induction xs) auto

lemma find_filter:
  "(\<And>x. x \<in> set xs \<Longrightarrow> P x \<Longrightarrow> Q x) \<Longrightarrow> List.find P (filter Q xs) = List.find P xs"
  by (induction xs) auto

lemma outfit_replace:
  assumes "distinct (map wi_id w)" and "item \<in> set w"
  shows "outfit_of w (replaceGarment sel item w) =
    wear_garment (wi_category item) \<lparr>os_item_id = wi_id item, os_revision = wi_revision item\<rparr> (outfit_of w sel)"
proof
  fix d
  let ?c = "wi_category item" and ?a = "\<lparr>os_item_id = wi_id item, os_revision = wi_revision item\<rparr>"
  let ?keep = "\<lambda>a. case sel_category w a of None \<Rightarrow> True | Some c \<Rightarrow> c \<notin> conflict_set ?c"
  let ?is = "\<lambda>a. sel_category w a = Some d"
  have a: "sel_category w ?a = Some ?c" using assms by (rule sel_category_item)
  show "outfit_of w (replaceGarment sel item w) d = wear_garment ?c ?a (outfit_of w sel) d"
  proof (cases "d \<in> conflict_set ?c")
    case True
    then have "List.find ?is (filter ?keep sel) = None" by (auto simp: find_None_iff)
    then show ?thesis using True a
      by (auto simp: outfit_of_def replaceGarment_eq wear_garment_def find_append conflict_covers)
  next
    case False
    then have "d \<noteq> ?c" by auto
    moreover have "List.find ?is (filter ?keep sel) = List.find ?is sel"
      using False by (intro find_filter) simp
    ultimately show ?thesis using False a
      by (simp add: outfit_of_def replaceGarment_eq wear_garment_def find_append split: option.split
          flip: conflict_covers)
  qed
qed

subsection \<open>The refinement\<close>

text \<open>
  C25. The list of selections implements the outfit. Choosing a garment of the wardrobe wears it in its
  category and takes off exactly what covers a part of the body that it covers: what was worn in its
  category, a one-piece for a top or a bottom, a top and a bottom for a one-piece. Removing the garment that is worn in a category
  of a compatible selection takes it off and nothing else.
\<close>

theorem flatlay_refines_outfit:
  assumes "distinct (map wi_id items)" and "item \<in> set items" and "compatible items (pl_items form)"
    and "outfit_of items (pl_items form) c = Some a"
  shows "outfit_of items (pl_items (choose_garment form item items)) =
      wear_garment (wi_category item) \<lparr>os_item_id = wi_id item, os_revision = wi_revision item\<rparr>
        (outfit_of items (pl_items form))
    \<and> outfit_of items (pl_items (remove_garment form (os_item_id a))) =
      take_off c (outfit_of items (pl_items form))"
proof -
  let ?sel = "pl_items form"
  have a: "sel_category items a = Some c" "a \<in> set ?sel"
    using assms(4) by (auto simp: outfit_of_def find_Some_iff)
  have same: "sel_category items b = Some c" if "os_item_id b = os_item_id a" for b
    using a(1) that by (simp add: sel_category_def)
  have one: "b = a" if "b \<in> set sel" "a \<in> set sel" "sel_category items b = Some c" "compatible items sel" for b sel
    using that a(1) by (induction sel) (auto simp: list_all_iff conflicting_table)
  have "outfit_of items (filter (\<lambda>b. os_item_id b \<noteq> os_item_id a) ?sel) d = take_off c (outfit_of items ?sel) d" for d
  proof (cases "d = c")
    case True
    then show ?thesis using one [OF _ a(2) _ assms(3)]
      by (auto simp: outfit_of_def take_off_def find_None_iff)
  next
    case False
    then show ?thesis using same
      by (auto simp: outfit_of_def take_off_def intro!: find_filter)
  qed
  then show ?thesis
    using outfit_replace [OF assms(1,2)]
    by (auto simp: choose_garment_def remove_garment_def Let_def)
qed

text \<open>A shirt is worn; a dress is put on instead.\<close>

definition demo_dress :: wardrobe_item where
  "demo_dress = demo_item\<lparr>wi_id := js ''i3'', wi_category := One_piece, wi_revision := 1\<rparr>"

definition shirt_form :: plan_form where
  "shirt_form = (emptyPlanForm demo_env)\<lparr>pl_items := [\<lparr>os_item_id = js ''i1'', os_revision = 3\<rparr>]\<rparr>"

theorem flatlay_refines_outfit_witness:
  "outfit_of [demo_item, demo_dress] (pl_items (choose_garment shirt_form demo_dress [demo_item, demo_dress])) Top = None
     \<and> outfit_of [demo_item, demo_dress] (pl_items (remove_garment shirt_form (js ''i1''))) Top = None"
proof -
  let ?w = "[demo_item, demo_dress]"
  have w: "distinct (map wi_id ?w)" "demo_dress \<in> set ?w" by (simp_all add: demo_item_def demo_dress_def)
  have c: "compatible ?w (pl_items shirt_form)" by (simp add: shirt_form_def)
  have o: "outfit_of ?w (pl_items shirt_form) Top = Some \<lparr>os_item_id = js ''i1'', os_revision = 3\<rparr>"
    by (simp add: outfit_of_def shirt_form_def sel_category_def js_map_def demo_item_def demo_dress_def)
  show ?thesis
    using flatlay_refines_outfit [OF w c o]
    by (simp add: wear_garment_def take_off_def demo_dress_def)
qed

end
