(* ===== verification/Form_Properties.thy ===== *)
theory Form_Properties
  imports Js_Numbers Wear_View Account_Lib Demo_Data
begin

text \<open>
  The checks of the forms against what they are for, stated with dates instead of strings: which
  dates, texts and garments the plan form and the form of an actual record accept, and which error
  responses the duplicates of a record are read from.
\<close>

subsection \<open>Dates as they are written\<close>

fun pad_digits :: "nat \<Rightarrow> nat \<Rightarrow> jstring" where
  "pad_digits 0 n = []"
| "pad_digits (Suc k) n = pad_digits k (n div 10) @ [digit_unit (n mod 10)]"

fun iso_text :: "date \<Rightarrow> jstring" where
  "iso_text (Date y m d) = pad_digits 4 y @ [0x2D] @ pad_digits 2 m @ [0x2D] @ pad_digits 2 d"

lemma pad_digits_shape [simp]: "length (pad_digits k n) = k" "list_all is_digit (pad_digits k n)"
  by (induction k arbitrary: n) (simp_all add: digit_unit_digit)

lemma pad_digits_number: "js_number (pad_digits k n) = n mod 10 ^ k"
proof (induction k arbitrary: n)
  case 0
  then show ?case by (simp add: js_number_def)
next
  case (Suc k)
  have "n mod 10 ^ Suc k = 10 * (n div 10 mod 10 ^ k) + n mod 10"
    by (simp add: mod_mult2_eq)
  then show ?case using Suc by (simp add: js_number_append digit_unit_digit)
qed

lemma digit_unit_value: "is_digit u \<Longrightarrow> digit_unit (digit_value u) = u"
  using digit_unit_digit digit_value_inj digit_value_less by metis

lemma pad_digits_value: "list_all is_digit us \<Longrightarrow> pad_digits (length us) (js_number us) = us"
proof (induction us rule: rev_induct)
  case (snoc u us)
  then have "digit_value u < 10" by (simp add: digit_value_less)
  with snoc show ?case by (simp add: js_number_append digit_unit_value)
qed simp

lemma iso_text_fields:
  assumes "calendar_date d" and "year_of d \<le> 9999"
  shows "iso_shape (iso_text d)" and "iso_fields (iso_text d) = d"
proof -
  obtain y m n where d: "d = Date y m n" by (cases d)
  have "n \<le> 31" using assms(1) order_trans [of n "days_in_month y m" 31] by (simp add: d days_in_month_def split: if_splits)
  then have "y < 10000" "m < 100" "n < 100" using assms by (simp_all add: d)
  with iso_shape_build [of "pad_digits 4 y" "pad_digits 2 m" "pad_digits 2 n"]
  show "iso_shape (iso_text d)" "iso_fields (iso_text d) = d"
    by (simp_all add: d pad_digits_number)
qed

lemma iso_fields_text:
  assumes "iso_shape s"
  shows "iso_text (iso_fields s) = s" and "year_of (iso_fields s) \<le> 9999"
proof -
  have digits: "list_all is_digit (js_slice 0 4 s)" "list_all is_digit (js_slice 5 7 s)"
    "list_all is_digit (js_slice 8 10 s)"
    using assms by (simp_all add: iso_shape_def)
  have lengths: "length (js_slice 0 4 s) = 4" "length (js_slice 5 7 s) = 2" "length (js_slice 8 10 s) = 2"
    using assms by (simp_all add: iso_shape_def js_slice_def)
  show "iso_text (iso_fields s) = s"
    using iso_shape_split [OF assms] digits [THEN pad_digits_value] lengths
    by (simp add: iso_fields_def)
  show "year_of (iso_fields s) \<le> 9999"
    using digits_value_bound [OF digits(1)] lengths(1) by (simp add: iso_fields_def js_number_def)
qed

text \<open>A date passes the test of the forms exactly if it is the text of a date of the calendar.\<close>

lemma local_date_text:
  "local_date_ok s \<longleftrightarrow> (\<exists>d. calendar_date d \<and> year_of d \<le> 9999 \<and> s = iso_text d)"
  using iso_fields_text iso_text_fields by (metis local_date_ok_iff)

definition today_of :: "env \<Rightarrow> jstring \<Rightarrow> date" where
  "today_of e tz = iso_fields (formatted_date e tz)"

lemma today_le_iff:
  assumes "env_ok e" and "calendar_date d" and "year_of d \<le> 9999" and "zone_known e tz"
  shows "formatted_date e tz \<le> iso_text d \<longleftrightarrow> today_of e tz \<le> d"
    and "iso_text d \<le> formatted_date e tz \<longleftrightarrow> d \<le> today_of e tz"
proof -
  have "iso_shape (formatted_date e tz)" using today_ok [OF assms(1,4)] by (simp add: local_date_ok_iff)
  then show "formatted_date e tz \<le> iso_text d \<longleftrightarrow> today_of e tz \<le> d"
    "iso_text d \<le> formatted_date e tz \<longleftrightarrow> d \<le> today_of e tz"
    using iso_order iso_text_fields [OF assms(2,3)] by (simp_all add: today_of_def flip: not_less)
qed

subsection \<open>Properties\<close>

text \<open>
  The plan form is accepted exactly if its date is the text of a date of the calendar that is not
  before today in the time zone of the form, or is the date of the plan being edited; the formatter knows
  the time zone; there are 1 to 20 garments; and the trimmed summary has at most 120 code points and no control
  character. Comparing the texts, as the code does, is comparing the dates.
\<close>

lemma plan_form_accepts:
  assumes "env_ok e"
  shows "planFormError e form original = Inr None \<longleftrightarrow>
    (\<exists>d. pl_local_date form = iso_text d \<and> calendar_date d \<and> year_of d \<le> 9999
       \<and> (today_of e (pl_time_zone form) \<le> d \<or> original = Some (iso_text d)))
    \<and> pl_time_zone form \<noteq> [] \<and> zone_known e (pl_time_zone form) \<and> 1 \<le> length (pl_items form) \<and> length (pl_items form) \<le> 20
    \<and> char_count (trim (pl_context_summary form)) \<le> 120 \<and> \<not> has_control (trim (pl_context_summary form))"
  unfolding plan_form_accepted_iff local_date_text summary_bad_def
  using today_le_iff [OF assms] by auto

definition accepted_plan :: plan_form where
  "accepted_plan = (emptyPlanForm demo_env)\<lparr>pl_local_date := iso_text (Date 2026 12 31),
     pl_items := [\<lparr>os_item_id = js ''i1'', os_revision = 3\<rparr>]\<rparr>"

lemma demo_today_of: "today_of demo_env (js ''UTC'') = Date 2026 1 15"
  by (simp add: today_of_def demo_today iso_fields_def js_slice_def js_number_def digit_value_def)

lemma plan_form_accepts_witness: "planFormError demo_env accepted_plan None = Inr None"
proof -
  have "calendar_date (Date 2026 12 31)" "Date 2026 1 15 \<le> Date 2026 12 31"
    by (simp_all add: days_in_month_def less_eq_date_def)
  then have "\<exists>d. pl_local_date accepted_plan = iso_text d \<and> calendar_date d \<and> year_of d \<le> 9999
      \<and> (today_of demo_env (js ''UTC'') \<le> d \<or> None = Some (iso_text d))"
    unfolding demo_today_of by (intro exI [of _ "Date 2026 12 31"]) (simp add: accepted_plan_def)
  then show ?thesis
    using plan_form_accepts [OF demo_env_ok, of accepted_plan None]
    by (simp add: accepted_plan_def emptyPlanForm_def Let_def demo_zone demo_known trim_def has_control_def)
qed

text \<open>
  C6. The form of an actual record is accepted exactly if its date is the text of a date of the
  calendar, the formatter knows its time zone, the date is not after today there; there are 1 to
  20 garments, none of them twice; it names a plan and its revision exactly if it says that it follows
  or changes one; and the trimmed summary is short and free of control characters. The check throws
  exactly if the date is one of the calendar and the formatter does not know the time zone, whatever
  else the form holds; a save then ends with that exception, changes nothing and sends nothing.
\<close>

theorem wear_form_accepts:
  assumes "env_ok e"
  shows "(wearFormError e form = Inr None \<longleftrightarrow>
      (\<exists>d. wr_local_date form = iso_text d \<and> calendar_date d \<and> year_of d \<le> 9999
         \<and> d \<le> today_of e (wr_time_zone form))
      \<and> wr_time_zone form \<noteq> [] \<and> zone_known e (wr_time_zone form)
      \<and> 1 \<le> length (wr_items form) \<and> length (wr_items form) \<le> 20
      \<and> distinct (map os_item_id (wr_items form))
      \<and> (if wr_source_kind form = Unplanned
         then wr_source_plan_id form = [] \<and> no_revision (wr_source_plan_revision form)
         else wr_source_plan_id form \<noteq> [] \<and> \<not> no_revision (wr_source_plan_revision form))
      \<and> char_count (trim (wr_context_summary form)) \<le> 120 \<and> \<not> has_control (trim (wr_context_summary form)))
    \<and> (wearFormError e form = Inl x \<longleftrightarrow>
      (\<exists>d. wr_local_date form = iso_text d \<and> calendar_date d \<and> year_of d \<le> 9999)
      \<and> wr_time_zone form \<noteq> [] \<and> \<not> zone_known e (wr_time_zone form) \<and> x = range_error (wr_time_zone form))
    \<and> (wv_form s = form \<and> \<not> wv_pending s \<and> wearFormError e form = Inl x \<longrightarrow>
      run e (wear_saveEvent cs s) s = (s, [], Throw x))"
proof (intro conjI)
  show "wv_form s = form \<and> \<not> wv_pending s \<and> wearFormError e form = Inl x \<longrightarrow>
      run e (wear_saveEvent cs s) s = (s, [], Throw x)"
    by (auto simp: wear_saveEvent_def wear_validation_def)
  show "wearFormError e form = Inl x \<longleftrightarrow>
      (\<exists>d. wr_local_date form = iso_text d \<and> calendar_date d \<and> year_of d \<le> 9999)
      \<and> wr_time_zone form \<noteq> [] \<and> \<not> zone_known e (wr_time_zone form) \<and> x = range_error (wr_time_zone form)"
    using local_date_text [of "wr_local_date form"] by (auto simp: wearFormError_def todayInTimeZone_def)
qed (unfold wear_form_accepted_iff local_date_text summary_bad_def, use today_le_iff [OF assms] in auto)

definition accepted_wear :: wear_form where
  "accepted_wear = (emptyWearForm demo_env)\<lparr>wr_local_date := iso_text (Date 2025 12 31),
     wr_items := [\<lparr>os_item_id = js ''i1'', os_revision = 3\<rparr>]\<rparr>"

text \<open>An accepted record, and one of a time zone that the formatter does not know.\<close>

theorem wear_form_accepts_witness:
  "wearFormError demo_env accepted_wear = Inr None
   \<and> wearFormError demo_env (accepted_wear\<lparr>wr_time_zone := js ''Mars/X''\<rparr>) = Inl (range_error (js ''Mars/X''))"
proof -
  have cal: "calendar_date (Date 2025 12 31)" "Date 2025 12 31 \<le> Date 2026 1 15"
    by (simp_all add: days_in_month_def less_eq_date_def)
  then have d: "\<exists>d. wr_local_date accepted_wear = iso_text d \<and> calendar_date d \<and> year_of d \<le> 9999
      \<and> d \<le> today_of demo_env (js ''UTC'')"
    unfolding demo_today_of by (intro exI [of _ "Date 2025 12 31"]) (simp add: accepted_wear_def)
  then have "wearFormError demo_env accepted_wear = Inr None"
    using wear_form_accepts [OF demo_env_ok, of accepted_wear]
    by (simp add: accepted_wear_def emptyWearForm_def Let_def demo_zone demo_known trim_def has_control_def
        no_revision_def)
  moreover have "\<exists>d. wr_local_date (accepted_wear\<lparr>wr_time_zone := js ''Mars/X''\<rparr>) = iso_text d
      \<and> calendar_date d \<and> year_of d \<le> 9999"
    using d by auto
  ultimately show ?thesis
    using wear_form_accepts [OF demo_env_ok, of "accepted_wear\<lparr>wr_time_zone := js ''Mars/X''\<rparr>"
        "range_error (js ''Mars/X'')"]
    by (simp add: demo_known)
qed

text \<open>
  C13. The duplicates are read from an error of unknown type without trusting any part of it: they are
  those of an answer 409 whose body has a list of 1 to 50 entries, each an object with a string \<open>id\<close> and
  a number \<open>revision\<close>, in the order of the list and with nothing else of the entries; any other value
  at all, of whatever shape, gives none.
\<close>

theorem duplicates_typed:
  "duplicateCandidates error = Some candidates \<longleftrightarrow>
     accountStatus error = Some 409 \<and>
     (\<exists>response body entries. prop_in error ''response'' = Some response \<and> prop_in response ''data'' = Some body
        \<and> prop_in body ''duplicate_candidates'' = Some (JArr entries)
        \<and> 1 \<le> length entries \<and> length entries \<le> 50
        \<and> list_all2 (\<lambda>entry c. prop_in entry ''id'' = Some (JStr (wc_id c))
            \<and> prop_in entry ''revision'' = Some (JNum (wc_revision c))) entries candidates)"
proof -
  have "map candidate_of entries = map Some candidates \<longleftrightarrow>
      list_all2 (\<lambda>entry c. candidate_of entry = Some c) entries candidates" for entries
    by (auto simp: list_eq_iff_nth_eq list_all2_conv_all_nth)
  then show ?thesis by (auto simp: duplicateCandidates_Some_iff candidate_of_Some_iff)
qed

end
