(* ===== verification/Screen.thy ===== *)
theory Screen
  imports Wardrobe_Lib Image_Processing
begin

text \<open>
  What a component of the client returns: the tree of the elements on the screen, without their
  layout. A component theory gives its function from the state to such a tree; \<open>produced\<close> reads off
  the events its controls can raise, so that it can be compared with the dispatch of the page.

  A text is a sequence of pieces: a literal, named here by a translation, a value of the state, a
  number, or an error of the component's type \<open>'e\<close>. \<open>'ev\<close> are the events of the page. A control
  carries its caption and whether it is disabled; an element that the source renders under a
  condition is present under that condition.
\<close>

datatype 'e piece = T string | V jstring | N int | E 'e

type_synonym 'e caption = "'e piece list"

datatype ('e, 'ev) widget =
    Text "'e caption"
  | Status "'e caption"
  | Notice "'e caption" "('e, 'ev) widget list"
  | Picture jstring "jstring option"
  | Link "'e caption" jstring
  | Button "'e caption" bool 'ev
  | Toggle "'e caption" bool bool 'ev
  | Inert "'e caption" bool
  | Submit "'e caption" bool "bool \<Rightarrow> 'ev"
  | Input "'e caption" jstring bool "jstring \<Rightarrow> 'ev"
  | Limited "'e caption" nat jstring bool "jstring \<Rightarrow> 'ev"
  | Slide "'e caption" nat nat nat "nat \<Rightarrow> 'ev"
  | Number "'e caption" "rat option" bool "rat option \<Rightarrow> 'ev"
  | Check "'e caption" bool bool "bool \<Rightarrow> 'ev"
  | Upload "'e caption" bool "js_file \<Rightarrow> 'ev"
  | Select "'e caption" bool "(bool \<times> 'e caption \<times> 'ev) list"
  | Group "('e, 'ev) widget list"

text \<open>
  What a person does to a control. A form whose \<^verbatim>\<open>type="email"\<close> input the browser may find
  malformed is submitted with that finding; an input with a \<^verbatim>\<open>maxLength\<close> takes no longer text, a
  slider no value outside its bounds. An inert control, like the trigger of a dialog that
  keeps its own state or the chosen item of a group, raises no event of the page.
\<close>

datatype act =
    Press | Submit_form bool | Type_in jstring | Type_number "rat option" | Tick bool
  | Put_file js_file | Slide_to nat

definition unless :: "bool \<Rightarrow> 'a \<Rightarrow> 'a list" where
  "unless disabled x = (if disabled then [] else [x])"

text \<open>\<^verbatim>\<open>{condition && (element)}\<close>\<close>

definition only_if :: "bool \<Rightarrow> ('e, 'ev) widget list \<Rightarrow> ('e, 'ev) widget list" where
  "only_if b ws = (if b then ws else [])"

fun produced :: "act \<Rightarrow> ('e, 'ev) widget \<Rightarrow> 'ev list" where
  "produced a (Notice t ws) = concat (map (produced a) ws)"
| "produced a (Group ws) = concat (map (produced a) ws)"
| "produced a (Button t disabled ev) = (case a of Press \<Rightarrow> unless disabled ev | _ \<Rightarrow> [])"
| "produced a (Toggle t pressed disabled ev) = (case a of Press \<Rightarrow> unless disabled ev | _ \<Rightarrow> [])"
| "produced a (Submit t disabled f) = (case a of Submit_form b \<Rightarrow> unless disabled (f b) | _ \<Rightarrow> [])"
| "produced a (Input t v disabled f) = (case a of Type_in w \<Rightarrow> unless disabled (f w) | _ \<Rightarrow> [])"
| "produced a (Limited t n v disabled f) =
     (case a of Type_in w \<Rightarrow> unless (disabled \<or> n < length w) (f w) | _ \<Rightarrow> [])"
| "produced a (Slide t lo hi v f) = (case a of Slide_to w \<Rightarrow> unless (w < lo \<or> hi < w) (f w) | _ \<Rightarrow> [])"
| "produced a (Number t v disabled f) = (case a of Type_number w \<Rightarrow> unless disabled (f w) | _ \<Rightarrow> [])"
| "produced a (Check t checked disabled f) = (case a of Tick b \<Rightarrow> unless disabled (f b) | _ \<Rightarrow> [])"
| "produced a (Upload t disabled f) = (case a of Put_file photo \<Rightarrow> unless disabled (f photo) | _ \<Rightarrow> [])"
| "produced a (Select t disabled opts) =
     (case a of Press \<Rightarrow> if disabled then [] else map (\<lambda>(chosen, t, ev). ev) opts | _ \<Rightarrow> [])"
| "produced a _ = []"

text \<open>The events that the controls of a tree, or of a list of trees, can raise.\<close>

definition raises :: "('e, 'ev) widget \<Rightarrow> 'ev \<Rightarrow> bool" where
  "raises w ev \<longleftrightarrow> (\<exists>a. ev \<in> set (produced a w))"

definition any_raises :: "('e, 'ev) widget list \<Rightarrow> 'ev \<Rightarrow> bool" where
  "any_raises ws ev \<longleftrightarrow> (\<exists>w\<in>set ws. raises w ev)"

lemma unless_iff [simp]: "x \<in> set (unless d y) \<longleftrightarrow> \<not> d \<and> x = y"
  by (simp add: unless_def)

lemma any_raises_simps [simp]:
  "\<not> any_raises [] ev"
  "any_raises (w # ws) ev \<longleftrightarrow> raises w ev \<or> any_raises ws ev"
  "any_raises (ws @ vs) ev \<longleftrightarrow> any_raises ws ev \<or> any_raises vs ev"
  "any_raises (only_if b ws) ev \<longleftrightarrow> b \<and> any_raises ws ev"
  "any_raises (if b then ws else vs) ev \<longleftrightarrow> (if b then any_raises ws ev else any_raises vs ev)"
  by (auto simp: any_raises_def only_if_def)

lemma any_raises_map [simp]: "any_raises (map f xs) ev \<longleftrightarrow> (\<exists>x\<in>set xs. raises (f x) ev)"
  by (simp add: any_raises_def)

lemma any_raises_concat [simp]: "any_raises (concat wss) ev \<longleftrightarrow> (\<exists>ws\<in>set wss. any_raises ws ev)"
  by (auto simp: any_raises_def)

lemma raises_list: "(\<exists>a. \<exists>w\<in>set ws. ev \<in> set (produced a w)) \<longleftrightarrow> any_raises ws ev"
  by (auto simp: any_raises_def raises_def)

text \<open>A control with a value: some action \<open>A x\<close> raises the event for \<open>x\<close>, no other action any.\<close>

lemma raises_valueI:
  assumes "\<And>a y. y \<in> set (produced a w) \<Longrightarrow> \<not> d \<and> (\<exists>x. y = f x)"
    and "\<And>x. \<not> d \<Longrightarrow> f x \<in> set (produced (A x) w)"
  shows "raises w ev \<longleftrightarrow> \<not> d \<and> (\<exists>x. ev = f x)"
  using assms by (auto simp: raises_def)

lemma raises_pressI:
  assumes "\<And>a. a = Press \<or> produced a w = []" and "\<And>y. y \<in> set (produced Press w) \<longleftrightarrow> P y"
  shows "raises w ev \<longleftrightarrow> P ev"
  unfolding raises_def using assms by (metis empty_iff empty_set)

lemma raises_plain [simp]:
  "\<not> raises (Text t) ev" "\<not> raises (Status t) ev" "\<not> raises (Picture n src) ev"
  "\<not> raises (Link t href) ev" "\<not> raises (Inert t d) ev"
  by (simp_all add: raises_def)

lemma raises_nested [simp]:
  "raises (Notice t ws) ev \<longleftrightarrow> any_raises ws ev" "raises (Group ws) ev \<longleftrightarrow> any_raises ws ev"
  by (simp_all add: raises_def raises_list)

lemma only_press: "(case a of Press \<Rightarrow> x | _ \<Rightarrow> []) = (if a = Press then x else [])"
  by (cases a) simp_all

lemma raises_Button [simp]: "raises (Button t d x) ev \<longleftrightarrow> \<not> d \<and> ev = x"
  by (rule raises_pressI) (simp_all only: produced.simps only_press, auto)

lemma raises_Toggle [simp]: "raises (Toggle t p d x) ev \<longleftrightarrow> \<not> d \<and> ev = x"
  by (rule raises_pressI) (simp_all only: produced.simps only_press, auto)

lemma raises_Select [simp]: "raises (Select t d opts) ev \<longleftrightarrow> \<not> d \<and> (\<exists>(chosen, t, x)\<in>set opts. ev = x)"
proof (rule raises_pressI)
  show "a = Press \<or> produced a (Select t d opts) = []" for a
    by (simp only: produced.simps only_press) simp
  show "y \<in> set (produced Press (Select t d opts)) \<longleftrightarrow> \<not> d \<and> (\<exists>(chosen, t, x)\<in>set opts. y = x)" for y
    by (cases d) force+
qed

lemma raises_Select_map [simp]:
  "raises (Select t d (map (\<lambda>x. (c x, l x, f x)) xs)) ev \<longleftrightarrow> \<not> d \<and> (\<exists>x\<in>set xs. ev = f x)"
  by auto

declare raises_Select [simp del]

lemma raises_Submit [simp]: "raises (Submit t d f) ev \<longleftrightarrow> \<not> d \<and> (\<exists>b. ev = f b)"
  by (rule raises_valueI [where A = Submit_form]) (auto split: act.splits)

lemma raises_Input [simp]: "raises (Input t v d f) ev \<longleftrightarrow> \<not> d \<and> (\<exists>w. ev = f w)"
  by (rule raises_valueI [where A = Type_in]) (auto split: act.splits)

lemma raises_Number [simp]: "raises (Number t v d f) ev \<longleftrightarrow> \<not> d \<and> (\<exists>w. ev = f w)"
  by (rule raises_valueI [where A = Type_number]) (auto split: act.splits)

lemma raises_boundedI:
  assumes "\<And>a y. y \<in> set (produced a w) \<Longrightarrow> \<exists>x. P x \<and> y = f x"
    and "\<And>x. P x \<Longrightarrow> f x \<in> set (produced (A x) w)"
  shows "raises w ev \<longleftrightarrow> (\<exists>x. P x \<and> ev = f x)"
  using assms unfolding raises_def by metis

lemma raises_Limited [simp]: "raises (Limited t n v d f) ev \<longleftrightarrow> \<not> d \<and> (\<exists>w. length w \<le> n \<and> ev = f w)"
proof -
  have "raises (Limited t n v d f) ev \<longleftrightarrow> (\<exists>w. (\<not> d \<and> length w \<le> n) \<and> ev = f w)"
    by (rule raises_boundedI [where A = Type_in]) (auto simp: not_less split: act.splits)
  then show ?thesis by simp
qed

lemma raises_Slide [simp]: "raises (Slide t lo hi v f) ev \<longleftrightarrow> (\<exists>w. lo \<le> w \<and> w \<le> hi \<and> ev = f w)"
proof -
  have "raises (Slide t lo hi v f) ev \<longleftrightarrow> (\<exists>w. (lo \<le> w \<and> w \<le> hi) \<and> ev = f w)"
    by (rule raises_boundedI [where A = Slide_to]) (auto simp: not_less split: act.splits)
  then show ?thesis by simp
qed

lemma raises_Check [simp]: "raises (Check t c d f) ev \<longleftrightarrow> \<not> d \<and> (\<exists>b. ev = f b)"
  by (rule raises_valueI [where A = Tick]) (auto split: act.splits)

lemma raises_Upload [simp]: "raises (Upload t d f) ev \<longleftrightarrow> \<not> d \<and> (\<exists>photo. ev = f photo)"
  by (rule raises_valueI [where A = Put_file]) (auto split: act.splits)

lemma raises_if [simp]: "raises (if b then w else v) ev \<longleftrightarrow> (if b then raises w ev else raises v ev)"
  by simp

text \<open>A value that may be absent or empty, as a condition.\<close>

definition has_text :: "jstring option \<Rightarrow> bool" where
  "has_text v \<longleftrightarrow> v \<noteq> None \<and> v \<noteq> Some []"

text \<open>The keys of \<^verbatim>\<open>categoryLabels\<close> and \<^verbatim>\<open>availabilityLabels\<close>, in their order.\<close>

definition all_categories :: "category list" where
  "all_categories = [Top, Bottom, One_piece, Outerwear, Shoes, Bag, Accessory]"

definition all_availabilities :: "availability list" where
  "all_availabilities = [Wearable, Laundry, Lent_out, Packed]"

lemma all_keys [simp]: "c \<in> set all_categories" "a \<in> set all_availabilities"
  by (cases c; simp add: all_categories_def) (cases a; simp add: all_availabilities_def)

text \<open>The picture of a garment: \<^verbatim>\<open>WardrobeItemImage\<close> for an item of the wardrobe.\<close>

definition item_picture :: "wardrobe_item \<Rightarrow> ('e, 'ev) widget" where
  "item_picture item =
     Picture (wi_name item) (image_src None (wi_photo_media_id item) (wi_sample_image item))"

lemma raises_item_picture [simp]: "\<not> raises (item_picture item) ev"
  by (simp add: item_picture_def)

end
