(* ===== verification/Plan_Screen.thy ===== *)
theory Plan_Screen
  imports Plan_View Screen
begin

text \<open>
  What the plan page shows: the form (\<^verbatim>\<open>outfit-plan-form.tsx\<close>), the flat-lay editor
  (\<^verbatim>\<open>outfit-flatlay-editor.tsx\<close>), the list and the confirmation of \<^verbatim>\<open>outfit-plan-view.tsx\<close>, each a
  function of the state. The events that the enabled controls raise are exactly the ones that
  \<open>plan_dispatch\<close> admits.
\<close>

type_synonym plan_widget = "(plan_text + plan_form_text, plan_event) widget"

definition status_label :: "plan_status \<Rightarrow> string" where
  "status_label st =
     (case st of Plan_active \<Rightarrow> ''to be confirmed'' | Plan_completed \<Rightarrow> ''worn''
      | Plan_not_worn \<Rightarrow> ''not worn'' | Plan_cancelled \<Rightarrow> ''cancelled'')"

definition action_label :: "plan_action \<Rightarrow> string" where
  "action_label action =
     (case action of Act_cancel \<Rightarrow> ''cancel plan'' | Act_not_worn \<Rightarrow> ''confirm not worn''
      | Act_delete \<Rightarrow> ''delete for ever'')"

subsection \<open>The flat-lay editor\<close>

definition preview_slot ::
  "wardrobe_item list \<Rightarrow> bool \<Rightarrow> category \<Rightarrow> plan_widget list" where
  "preview_slot selected pending slot =
     (let slotItems = filter (\<lambda>item. wi_category item = slot) selected in
      if slotItems \<noteq> []
      then concat (map (\<lambda>item.
             [item_picture item, Button [T ''remove'', V (wi_name item)] pending (Remove_garment (wi_id item)),
              Text [V (wi_name item)]]) slotItems)
      else [Button [T ''choose'', V (categoryLabels slot)] pending (Choose_category slot)])"

definition garment_choice ::
  "plan_form \<Rightarrow> wardrobe_item list \<Rightarrow> bool \<Rightarrow> wardrobe_item \<Rightarrow> plan_widget" where
  "garment_choice form items pending item =
     (let active = list_ex (\<lambda>entry. os_item_id entry = wi_id item) (pl_items form) in
      Group
       [Toggle [T ''choose'', V (wi_name item)] active (pending \<or> choice_disabled form item items)
          (Choose_garment item),
        item_picture item, Text [V (wi_name item)],
        Text ((if active then [T ''chosen''] else []) @ [V (availabilityLabels (wi_availability item))]
          @ (if has_text (wi_sample_image item) then [T ''sample picture''] else []))])"

definition flatlay_screen ::
  "(jstring \<Rightarrow> jstring) \<Rightarrow> category \<Rightarrow> jstring \<Rightarrow> plan_form \<Rightarrow> wardrobe_item list \<Rightarrow> bool
    \<Rightarrow> plan_widget list" where
  "flatlay_screen lower category search form items pending =
     (let selected = selected_items form items;
          filtered = filtered_items lower category search items
      in [Text [T ''this outfit, to be worn like this''], Text [T ''chosen'', N (int (length (pl_items form))), T ''pick a piece to replace its category'']]
         @ concat (map (preview_slot selected pending) (preview_slots selected))
         @ [Text [T ''flat preview; sample pictures are not altered'']]
         @ map (\<lambda>value. Toggle [V (categoryLabels value)] (category = value) pending (Choose_category value))
             all_categories
         @ [Input [T ''search pieces''] search pending Search]
         @ (if filtered = [] then [Text [T ''no matching garment in this category''], Link [T ''tidy the wardrobe''] (js ''/wardrobe'')]
            else map (garment_choice form items pending) filtered))"

subsection \<open>The form\<close>

definition unavailable_check :: "plan_form \<Rightarrow> bool \<Rightarrow> wardrobe_item \<Rightarrow> plan_widget" where
  "unavailable_check form pending item =
     Check [V (wi_name item), T ''is now'', V (availabilityLabels (wi_availability item)), T ''add it all the same'']
       (wi_id item \<in> set (pl_confirmed_unavailable_ids form)) pending
       (Confirm_unavailable (wi_id item))"

definition plan_items_field ::
  "(jstring \<Rightarrow> jstring) \<Rightarrow> category \<Rightarrow> jstring \<Rightarrow> plan_form \<Rightarrow> bool \<Rightarrow> wardrobe_item list \<Rightarrow> bool \<Rightarrow> bool
    \<Rightarrow> plan_widget list" where
  "plan_items_field lower category search form pending items itemsLoading hasMoreItems =
     (let missing = missing_selections form items in
      [Text [T ''choose real garments''], Text [T ''picking a piece replaces its category'']]
      @ (if itemsLoading then [Status [T ''reading the wardrobe'']]
         else if items = [] then [Text [T ''the wardrobe is empty''], Text [T ''add real garments first'']]
         else flatlay_screen lower category search form items pending)
      @ map (unavailable_check form pending) (unavailable_selected form items)
      @ only_if hasMoreItems [Button [T ''load more garments''] (pending \<or> itemsLoading) (Load_more Wardrobe_key)]
      @ only_if (missing \<noteq> [])
          (Text [N (int (length missing)), T ''chosen garments are not in the list'']
           # map (\<lambda>selection. Button [T ''remove unloaded garment'', V (js_slice 0 8 (os_item_id selection))] pending
               (Remove_missing (os_item_id selection))) missing))"

definition plan_form_foot :: "bool \<Rightarrow> bool \<Rightarrow> plan_form_text option \<Rightarrow> bool \<Rightarrow> plan_widget list" where
  "plan_form_foot editing pending error itemsLoading =
     (case error of None \<Rightarrow> [] | Some x \<Rightarrow> [Notice [E (Inr x)] []])
     @ [Button (if pending then [T ''saving''] else if editing then [T ''save changes''] else [T ''save plan''])
          (pending \<or> itemsLoading) Save_plan]
     @ only_if editing
         [Button [T ''cancel editing''] pending Cancel_edit, Button [T ''reload the plan''] pending Reload_editing]"

definition plan_form_screen ::
  "(jstring \<Rightarrow> jstring) \<Rightarrow> category \<Rightarrow> jstring \<Rightarrow> plan_form \<Rightarrow> bool \<Rightarrow> bool \<Rightarrow> plan_form_text option
    \<Rightarrow> wardrobe_item list \<Rightarrow> bool \<Rightarrow> bool \<Rightarrow> plan_widget list" where
  "plan_form_screen lower category search form editing pending error items itemsLoading hasMoreItems =
     [Text [T (if editing then ''adjust this outfit'' else ''match an outfit for today'')],
      Text [T ''a plan does not record wear''],
      Input [T ''local date''] (pl_local_date form) pending Set_date, Text [T ''time zone'', V (pl_time_zone form)],
      Input [T ''occasion (optional)''] (pl_context_summary form) pending Set_context]
     @ plan_items_field lower category search form pending items itemsLoading hasMoreItems
     @ plan_form_foot editing pending error itemsLoading"

lemmas plan_form_parts = plan_form_screen_def plan_items_field_def plan_form_foot_def

subsection \<open>An entry of the list\<close>

definition entry_pictures :: "wardrobe_item list \<Rightarrow> outfit_plan \<Rightarrow> plan_widget list" where
  "entry_pictures wardrobeItems plan =
     concat (map (\<lambda>entry.
       case si_content entry of
         None \<Rightarrow> []
       | Some content \<Rightarrow>
           (case List.find (\<lambda>item. wi_id item = ic_item_id content) wardrobeItems of
              None \<Rightarrow> []
            | Some live \<Rightarrow> [Picture (ic_name content)
                (image_src None (wi_photo_media_id live) (wi_sample_image live))])) (op_items plan))"

definition plan_entry ::
  "env \<Rightarrow> bool \<Rightarrow> wardrobe_item list \<Rightarrow> outfit_plan \<Rightarrow> plan_widget" where
  "plan_entry e pending wardrobeItems plan =
     (let due = plan_due e plan in
      Group
       ([Text [V (op_local_date plan)], Text [T (status_label (op_status plan))]]
        @ entry_pictures wardrobeItems plan
        @ (case op_context_summary plan of
             None \<Rightarrow> []
           | Some summary \<Rightarrow> only_if (summary \<noteq> []) [Text [V summary]])
        @ map (\<lambda>item. Text [case si_content item of None \<Rightarrow> T ''cleared snapshot''
             | Some content \<Rightarrow> V (ic_name content)]) (op_items plan)
        @ only_if (cleared_content plan) [Text [T ''contains cleared snapshots'']]
        @ only_if (op_status plan = Plan_active)
            (only_if due [Link [T ''confirm the wear''] (js ''/wear?plan='' @ op_id plan)]
             @ [Button [T ''edit''] (pending \<or> cleared_content plan) (Edit_plan plan),
                Button [T ''cancel plan''] pending (Ask_action e plan Act_cancel)]
             @ only_if due [Button [T ''confirm not worn''] pending (Ask_action e plan Act_not_worn)])
        @ only_if (op_status plan = Plan_not_worn) [Button [T ''restore plan''] pending (Restore_plan plan)]
        @ [Button [T ''delete''] pending (Ask_action e plan Act_delete)]))"

subsection \<open>The page\<close>

definition plan_list_screen :: "env \<Rightarrow> plan_state \<Rightarrow> plan_widget list" where
  "plan_list_screen e s =
     [Text [T ''plans''], Text [T ''by local date; a plan does not count as wear'']]
     @ only_if (isError (pv_wardrobe s) \<and> accountStatus (q_error (pv_wardrobe s)) \<noteq> Some 401)
         [Notice [T ''the wardrobe cannot be read'']
           [Text [E (Inl (planErrorMessage (q_error (pv_wardrobe s))))],
            Button [T ''retry''] False (Retry_query Wardrobe_key)]]
     @ (if isPending (pv_plans s)
           \<or> (isError (pv_plans s) \<and> accountStatus (q_error (pv_plans s)) = Some 401)
        then [Status [T ''reading the plans'']]
        else if isError (pv_plans s)
        then [Notice [T ''the plans cannot be read'']
               [Text [E (Inl (planErrorMessage (q_error (pv_plans s))))],
                Button [T ''retry''] False (Retry_query Plans_key)]]
        else if all_items (pv_plans s) = [] then [Text [T ''no plans yet''], Text [T ''choose an outfit from the wardrobe'']]
        else map (plan_entry e (pv_pending s) (pv_items s)) (all_items (pv_plans s))
          @ only_if (hasNextPage (pv_plans s))
              [Button (if q_fetching_next (pv_plans s) then [T ''loading''] else [T ''load more plans''])
                (q_fetching_next (pv_plans s)) (Load_more Plans_key)])"

definition plan_confirmation_screen :: "plan_state \<Rightarrow> plan_widget list" where
  "plan_confirmation_screen s =
     (case pv_confirmation s of
        None \<Rightarrow> []
      | Some (plan, action) \<Rightarrow>
          [Text [T (action_label action), T ''?''], Text [T (if action = Act_delete then ''deletes this plan for ever; wear records stay''
             else if action = Act_not_worn then ''marks the plan as not worn; it can be restored''
             else ''the plan becomes read-only; no wear is recorded'')], Button [T ''keep the plan''] False Close_confirmation,
           Button [T ''confirm''] False Run_action])"

definition plan_content_screen :: "env \<Rightarrow> (jstring \<Rightarrow> jstring) \<Rightarrow> plan_state \<Rightarrow> plan_widget list" where
  "plan_content_screen e lower s =
     only_if (pv_deleted s) [Notice [T ''deleted''] [Text [T ''the plan has been deleted'']]]
     @ (case pv_error s of None \<Rightarrow> [] | Some x \<Rightarrow> [Notice [T ''not done''] [Text [E (Inl x)]]])
     @ plan_form_screen lower (pv_category s) (pv_search s) (pv_form s) (pv_editing s \<noteq> None)
         (pv_pending s \<or> pl_time_zone (pv_form s) = []) (pv_form_error s) (pv_items s)
         (isPending (pv_wardrobe s) \<or> q_fetching_next (pv_wardrobe s)) (hasNextPage (pv_wardrobe s))
     @ plan_list_screen e s"

text \<open>
  A plan of the list that is active and whose time zone the formatter does not know makes the
  rendering throw: nothing of the page remains, and the page for errors of the site takes its place.
\<close>

definition plan_throws :: "env \<Rightarrow> plan_state \<Rightarrow> bool" where
  "plan_throws e s \<longleftrightarrow>
     plan_page s = Plan_content
     \<and> list_ex (\<lambda>plan. op_status plan = Plan_active \<and> isl (todayInTimeZone e (op_time_zone plan))) (listed_plans s)"

definition plan_screen :: "env \<Rightarrow> (jstring \<Rightarrow> jstring) \<Rightarrow> plan_state \<Rightarrow> plan_widget" where
  "plan_screen e lower s =
     (if plan_throws e s then Group [] else Group
      ([Text [T ''plan''], Text [T ''outfits and plans''], Text [T ''choose an outfit and save it for a date'']]
       @ (if isPending (pv_user s)
             \<or> (isError (pv_user s) \<and> accountStatus (q_error (pv_user s)) = Some 401)
          then [Status [T ''checking the session'']]
          else if isError (pv_user s)
          then [Notice [T ''the account cannot be read'']
                 [Text [E (Inl (planErrorMessage (q_error (pv_user s))))],
                  Button [T ''retry''] False (Retry_query Current_user_key)]]
          else plan_content_screen e lower s)
       @ plan_confirmation_screen s))"

subsection \<open>The events of the controls\<close>

lemma raises_preview_slot:
  "any_raises (preview_slot selected pending slot) ev \<longleftrightarrow>
     \<not> pending \<and>
     (if filter (\<lambda>item. wi_category item = slot) selected = [] then ev = Choose_category slot
      else \<exists>item\<in>set selected. wi_category item = slot \<and> ev = Remove_garment (wi_id item))"
  by (auto simp: preview_slot_def Let_def)

lemma raises_garment_choice:
  "raises (garment_choice form items pending item) ev \<longleftrightarrow>
     \<not> pending \<and> \<not> choice_disabled form item items \<and> ev = Choose_garment item"
  by (auto simp: garment_choice_def Let_def)

lemma raises_flatlay:
  "any_raises (flatlay_screen lower category search form items pending) ev \<longleftrightarrow>
     \<not> pending \<and>
     ((\<exists>c. ev = Choose_category c) \<or> (\<exists>v. ev = Search v)
      \<or> (\<exists>item\<in>set (selected_items form items).
            wi_category item \<in> set (preview_slots (selected_items form items))
            \<and> ev = Remove_garment (wi_id item))
      \<or> (\<exists>item\<in>set (filtered_items lower category search items).
            \<not> choice_disabled form item items \<and> ev = Choose_garment item))"
  by (auto simp: flatlay_screen_def Let_def raises_preview_slot raises_garment_choice filter_empty_conv
      split: if_splits) metis+

lemma raises_plan_form:
  "any_raises (plan_form_screen lower category search form editing pending error items loading further) ev
     \<longleftrightarrow>
     \<not> pending \<and>
     ((\<exists>v. ev = Set_date v) \<or> (\<exists>v. ev = Set_context v)
      \<or> \<not> loading \<and> items \<noteq> []
          \<and> any_raises (flatlay_screen lower category search form items pending) ev
      \<or> (\<exists>item\<in>set (unavailable_selected form items). \<exists>b. ev = Confirm_unavailable (wi_id item) b)
      \<or> further \<and> \<not> loading \<and> ev = Load_more Wardrobe_key
      \<or> (\<exists>selection\<in>set (missing_selections form items). ev = Remove_missing (os_item_id selection))
      \<or> \<not> loading \<and> ev = Save_plan
      \<or> editing \<and> (ev = Cancel_edit \<or> ev = Reload_editing))"
  by (auto simp: plan_form_parts Let_def unavailable_check_def raises_flatlay split: option.splits)

lemma raises_entry_pictures [simp]: "\<not> any_raises (entry_pictures items plan) ev"
  by (auto simp: entry_pictures_def split: option.splits)

lemma ex_action: "(\<exists>action. P action) \<longleftrightarrow> P Act_cancel \<or> P Act_not_worn \<or> P Act_delete"
  by (metis plan_action.exhaust)

lemma raises_plan_entry:
  "raises (plan_entry e pending items plan) ev \<longleftrightarrow>
     \<not> pending \<and>
     (op_status plan = Plan_active \<and> \<not> cleared_content plan \<and> ev = Edit_plan plan
      \<or> (\<exists>action. ask_shown e plan action \<and> ev = Ask_action e plan action)
      \<or> op_status plan = Plan_not_worn \<and> ev = Restore_plan plan)"
  by (auto simp: plan_entry_def Let_def ex_action ask_shown_def split: option.splits)

lemma raises_plan_list:
  "any_raises (plan_list_screen e s) ev \<longleftrightarrow>
     (isError (pv_wardrobe s) \<and> \<not> session_lost (pv_wardrobe s) \<and> ev = Retry_query Wardrobe_key)
     \<or> (isError (pv_plans s) \<and> \<not> session_lost (pv_plans s) \<and> \<not> isPending (pv_plans s)
         \<and> ev = Retry_query Plans_key)
     \<or> (\<exists>plan\<in>set (listed_plans s). raises (plan_entry e (pv_pending s) (pv_items s) plan) ev)
     \<or> (listed_plans s \<noteq> [] \<and> hasNextPage (pv_plans s) \<and> \<not> q_fetching_next (pv_plans s)
         \<and> ev = Load_more Plans_key)"
  by (auto simp: plan_list_screen_def listed_plans_def session_lost_def)

lemma raises_plan_confirmation:
  "any_raises (plan_confirmation_screen s) ev \<longleftrightarrow>
     pv_confirmation s \<noteq> None \<and> (ev = Close_confirmation \<or> ev = Run_action)"
  by (auto simp: plan_confirmation_screen_def split: option.splits)

lemma raises_plan_screen:
  "\<not> plan_throws e s \<Longrightarrow> raises (plan_screen e lower s) ev \<longleftrightarrow>
     ((\<exists>x. plan_page s = Plan_account_unreadable x) \<and> ev = Retry_query Current_user_key)
     \<or> (plan_page s = Plan_content \<and>
         (any_raises (plan_form_screen lower (pv_category s) (pv_search s) (pv_form s)
             (pv_editing s \<noteq> None) (form_pending s) (pv_form_error s) (pv_items s)
             (loading_items (pv_wardrobe s)) (hasNextPage (pv_wardrobe s))) ev
          \<or> any_raises (plan_list_screen e s) ev))
     \<or> any_raises (plan_confirmation_screen s) ev"
  by (auto simp: plan_screen_def plan_content_screen_def plan_page_def session_lost_def form_pending_def
      loading_items_def isPending_def split: option.splits)

text \<open>The events of a person, as opposed to the timer and the query cache.\<close>

definition plan_user_event :: "plan_event \<Rightarrow> bool" where
  "plan_user_event ev \<longleftrightarrow>
     (case ev of Plan_timer \<Rightarrow> False | Plan_queries_changed _ _ _ \<Rightarrow> False | _ \<Rightarrow> True)"

lemmas raises_plan = raises_plan_screen raises_plan_form raises_flatlay raises_plan_list raises_plan_entry
  raises_plan_confirmation

text \<open>
  The dispatch of the page admits exactly the events of its controls: in every state in which the page
  can be rendered, an enabled control raises an event exactly when it is an event of a person that the
  dispatch admits, at the date of the rendering.
\<close>

lemma plan_screen_offers:
  assumes "\<not> plan_throws e s"
  shows "raises (plan_screen e lower s) ev \<longleftrightarrow>
     plan_user_event ev \<and> plan_dispatch lower s ev \<noteq> None
     \<and> (\<forall>e' plan action. ev = Ask_action e' plan action \<longrightarrow> e' = e)"
  unfolding raises_plan_screen [OF assms]
  by (cases ev)
     (auto simp: raises_plan_form raises_flatlay raises_plan_list raises_plan_entry raises_plan_confirmation
       plan_user_event_def plan_dispatch_def retry_shown_def load_more_shown_def
       plan_form_event_def editor_shown_def ask_shown_def Let_def image_iff
       split: query_key.splits if_splits plan_page_kind.splits)

end
