(* ===== verification/Statistics_Screen.thy ===== *)
theory Statistics_Screen
  imports Screen Query_Hooks Wear_Event_Lib
begin

text \<open>
  The statistics of actual wear, \<^verbatim>\<open>components/wear-event/wear-statistics.tsx\<close>, which the wardrobe
  page and the page of actual wear both show. The range is the state \<^verbatim>\<open>useState(currentWearRange)\<close>
  of the component, \<open>retry\<close> the event of its one button.
\<close>

definition statistics_figures :: "wear_statistics \<Rightarrow> (int \<times> string) list" where
  "statistics_figures st =
     [(ws_wear_days st, ''days of wear''), (ws_wear_events st, ''wear records''),
      (int (length (ws_item_uses st)), ''garments worn'')]"

definition statistics_screen ::
  "'ev \<Rightarrow> bool \<Rightarrow> jstring \<times> jstring \<Rightarrow> wear_statistics query \<Rightarrow> ('e, 'ev) widget list" where
  "statistics_screen retry enabled year stats =
     (if \<not> enabled then []
      else
        [Text [T ''actual wear this year''], Text [V (fst year), T ''to'', V (snd year)]]
        @ (if isPending stats then [Status [T ''reading the statistics'']]
           else if isError stats
           then [Notice [T ''the statistics cannot be read'']
                  [Button [T ''read the statistics again''] False retry]]
           else
             (case q_data stats of
                None \<Rightarrow> []
              | Some data \<Rightarrow>
                  map (\<lambda>(value, label). Text [T label, N value]) (statistics_figures data)))
        @ [Text [T ''counts confirmed wear; changes when records are edited or deleted'']])"

lemma raises_statistics [simp]:
  "any_raises (statistics_screen retry enabled year stats) ev \<longleftrightarrow> enabled \<and> isError stats \<and> ev = retry"
  by (auto simp: statistics_screen_def statistics_figures_def isPending_def isError_def
      split: option.splits query_status.splits)

end
