(* ===== verification/Wear_Screen.thy ===== *)
theory Wear_Screen
  imports Wear_View Statistics_Screen
begin

text \<open>
  What the page of actual wear shows: the form (\<^verbatim>\<open>wear-event-form.tsx\<close>), the records, the warning
  about similar records and the confirmation of \<^verbatim>\<open>wear-event-view.tsx\<close>, each a function of the
  state. The events that the enabled controls raise are exactly the ones that \<open>wear_dispatch\<close>
  admits.
\<close>

type_synonym wear_widget = "(wear_text + wear_form_text, wear_action) widget"

text \<open>The \<^verbatim>\<open>sourceLabels\<close> of the form and of the list.\<close>

definition source_option_label :: "source_kind \<Rightarrow> string" where
  "source_option_label k =
     (case k of Unplanned \<Rightarrow> ''recorded without a plan'' | Followed_plan \<Rightarrow> ''worn as planned''
      | Changed_plan \<Rightarrow> ''garments changed in the plan'' | Different_outfit \<Rightarrow> ''worn another outfit'')"

definition source_label :: "source_kind \<Rightarrow> string" where
  "source_label k =
     (case k of Unplanned \<Rightarrow> ''no plan'' | Followed_plan \<Rightarrow> ''worn as planned''
      | Changed_plan \<Rightarrow> ''changed some'' | Different_outfit \<Rightarrow> ''worn another outfit'')"

definition source_kinds :: "source_kind list" where
  "source_kinds = [Unplanned, Followed_plan, Changed_plan, Different_outfit]"

lemma source_kinds_all [simp]: "k \<in> set source_kinds"
  by (cases k) (simp_all add: source_kinds_def)

subsection \<open>The form\<close>

definition completeness_select :: "wear_form \<Rightarrow> bool \<Rightarrow> wear_widget" where
  "completeness_select form pending =
     Select [T ''scope of the record''] pending
       [(wr_completeness form = Complete, [T ''complete''], Set_completeness Complete),
        (wr_completeness form = Partial, [T ''partial, other garments unknown''], Set_completeness Partial)]"

definition source_select :: "wear_form \<Rightarrow> bool \<Rightarrow> wear_widget" where
  "source_select form pending =
     Select [T ''relation to the plan''] pending
       (map (\<lambda>k. (wr_source_kind form = k, [T (source_option_label k)], Set_source k)) source_kinds)"

definition plan_choices :: "wear_form \<Rightarrow> outfit_plan list \<Rightarrow> (jstring \<times> (wear_text + wear_form_text) caption) list" where
  "plan_choices form plans =
     [([], [T ''choose a plan''])]
     @ (if wr_source_plan_id form \<noteq> [] \<and> \<not> list_ex (\<lambda>plan. op_id plan = wr_source_plan_id form) plans
        then [(wr_source_plan_id form, [T ''plan linked before'', V (js_slice 0 8 (wr_source_plan_id form))])]
        else [])
     @ map (\<lambda>plan. (op_id plan,
          [V (op_local_date plan),
           V (if has_text (op_context_summary plan) then the (op_context_summary plan)
              else js_slice 0 8 (op_id plan)),
           T ''revision'', N (op_revision plan)]))
         (filter (\<lambda>plan. op_status plan = Plan_active \<or> op_status plan = Plan_completed
            \<or> op_id plan = wr_source_plan_id form) plans)"

definition source_plan_field ::
  "wear_form \<Rightarrow> bool \<Rightarrow> outfit_plan list \<Rightarrow> bool \<Rightarrow> bool \<Rightarrow> wear_widget list" where
  "source_plan_field form pending plans plansLoading hasMorePlans =
     only_if (wr_source_kind form \<noteq> Unplanned)
       ([Select [T ''source plan''] (pending \<or> plansLoading)
          (map (\<lambda>choice. (wr_source_plan_id form = fst choice, snd choice, Select_plan (fst choice)))
            (plan_choices form plans))]
        @ only_if hasMorePlans
            [Button [T ''load more plans''] (pending \<or> plansLoading) (Load_more_wear Plans_key)]
        @ [Text [T ''worn as planned brings the garments of the plan'']])"

definition worn_item ::
  "wear_form \<Rightarrow> bool \<Rightarrow> wardrobe_item \<Rightarrow> wear_widget" where
  "worn_item form pending item =
     (let selected = list_ex (\<lambda>entry. os_item_id entry = wi_id item) (wr_items form);
          unavailable = (wi_availability item \<noteq> Wearable);
          itemDisabled = (pending \<or> (\<not> selected \<and> length (wr_items form) \<ge> 20))
      in Group
        ([Check [V (wi_name item), V (availabilityLabels (wi_availability item))] selected itemDisabled
            (\<lambda>_. Toggle_item item), item_picture item]
         @ only_if selected
             (only_if unavailable
                [Check [T ''not available now, worn all the same'']
                   (wi_id item \<in> set (wr_confirmed_unavailable_ids form)) pending
                   (Confirm_worn (wi_id item))]
              @ [Check [T ''mark as to be washed''] (wi_id item \<in> set (wr_laundry_item_ids form)) pending
                   (Set_laundry (wi_id item))])))"

definition worn_items_field ::
  "wear_form \<Rightarrow> bool \<Rightarrow> wardrobe_item list \<Rightarrow> bool \<Rightarrow> bool \<Rightarrow> wear_widget list" where
  "worn_items_field form pending items itemsLoading hasMoreItems =
     (let missing = wear_missing form items in
      [Text [T ''garments worn''], Text [T ''kept in the order of choice, at most 20'']]
      @ (if itemsLoading then [Status [T ''reading the wardrobe'']]
         else if items = [] then [Text [T ''the wardrobe is empty''], Text [T ''add real garments first'']]
         else map (worn_item form pending) items)
      @ only_if hasMoreItems
          [Button [T ''load more garments''] (pending \<or> itemsLoading) (Load_more_wear Wardrobe_key)]
      @ only_if (missing \<noteq> [])
          (Text [N (int (length missing)), T ''chosen garments are not loaded'']
           # map (\<lambda>selection. Button [T ''remove unloaded garment'', V (js_slice 0 8 (os_item_id selection))]
               pending (Remove_missing_worn (os_item_id selection))) missing))"

definition wear_form_foot :: "bool \<Rightarrow> bool \<Rightarrow> wear_form_text option \<Rightarrow> bool \<Rightarrow> bool \<Rightarrow> wear_widget list" where
  "wear_form_foot editing pending error itemsLoading plansLoading =
     (case error of None \<Rightarrow> [] | Some x \<Rightarrow> [Notice [E (Inr x)] []])
     @ [Button [T (if pending then ''saving'' else if editing then ''save the correction''
          else ''confirm it was worn'')] (pending \<or> itemsLoading \<or> plansLoading) Save_wear]
     @ only_if editing
         [Button [T ''cancel editing''] pending Cancel_wear,
          Button [T ''reload the record''] pending Reload_wear]"

definition wear_form_screen ::
  "wear_form \<Rightarrow> bool \<Rightarrow> bool \<Rightarrow> wear_form_text option \<Rightarrow> wardrobe_item list \<Rightarrow> bool \<Rightarrow> bool
    \<Rightarrow> outfit_plan list \<Rightarrow> bool \<Rightarrow> bool \<Rightarrow> wear_widget list" where
  "wear_form_screen form editing pending error items itemsLoading hasMoreItems plans plansLoading hasMorePlans =
     [Text [T (if editing then ''correct the record'' else ''record actual wear'')],
      Text [T ''only saving records wear; unknown garments may stay unknown''],
      Input [T ''date''] (wr_local_date form) pending Set_wear_date,
      Text [T ''time zone'', V (wr_time_zone form)],
      completeness_select form pending, source_select form pending]
     @ source_plan_field form pending plans plansLoading hasMorePlans
     @ [Input [T ''occasion (optional)''] (wr_context_summary form) pending Set_wear_context]
     @ worn_items_field form pending items itemsLoading hasMoreItems
     @ wear_form_foot editing pending error itemsLoading plansLoading"

lemmas wear_form_parts = wear_form_screen_def worn_items_field_def wear_form_foot_def

subsection \<open>The page\<close>

definition wear_entry :: "bool \<Rightarrow> wear_event \<Rightarrow> wear_widget" where
  "wear_entry pending event =
     Group
      ([Text [V (we_local_date event)],
        Text [T (if we_completeness event = Partial then ''partial record'' else ''complete record'')],
        Text [T (source_label (we_source_kind event)), V (we_time_zone event), T ''revision'',
              N (we_revision event)]]
       @ only_if (has_text (we_context_summary event)) [Text [V (the (we_context_summary event))]]
       @ only_if (has_text (we_source_plan_id event))
           [Text [T ''linked plan'', V (the (we_source_plan_id event))]]
       @ map (\<lambda>item. Text [case si_content item of None \<Rightarrow> T ''cleared snapshot''
            | Some content \<Rightarrow> V (ic_name content)]) (we_items event)
       @ only_if (cleared_event event) [Text [T ''contains cleared snapshots'']]
       @ [Button [T ''correct''] (pending \<or> cleared_event event) (Edit_event event),
          Button [T ''delete''] pending (Ask_delete event)])"

definition duplicate_screen :: "wear_state \<Rightarrow> wear_widget list" where
  "duplicate_screen s =
     (case wv_duplicate s of
        None \<Rightarrow> []
      | Some candidates \<Rightarrow>
          [Notice [T ''similar records on that day'']
            ([Text [T ''found'', N (int (length candidates)), T ''similar records'']]
             @ map (\<lambda>c. Text [V (js_slice 0 8 (wc_id c)), T ''revision'', N (wc_revision c)]) candidates
             @ [Button [T ''save all the same''] (wv_pending s) Confirm_duplicates,
                Button [T ''go back''] (wv_pending s) Dismiss_duplicates])])"

definition wear_editor_screen :: "wear_state \<Rightarrow> wear_widget list" where
  "wear_editor_screen s =
     (if wv_editor_open s then
        [Button [T ''close the form''] (wv_pending s) Close_editor]
        @ only_if (wr_items (wv_form s) \<noteq> [])
            (map item_picture (filter (\<lambda>item.
               list_ex (\<lambda>entry. os_item_id entry = wi_id item) (wr_items (wv_form s))) (wv_items s)))
        @ wear_form_screen (wv_form s) (wv_editing s \<noteq> None)
            (wv_pending s \<or> wr_time_zone (wv_form s) = []) (wv_form_error s) (wv_items s)
            (isPending (wv_wardrobe s) \<or> q_fetching_next (wv_wardrobe s)) (hasNextPage (wv_wardrobe s))
            (wv_plan_items s) (isPending (wv_plans s) \<or> q_fetching_next (wv_plans s))
            (hasNextPage (wv_plans s))
      else
        [Text [T ''no need to record all at once''], Text [T ''what is not recorded stays unknown''],
         Button [T ''add a record''] False Open_editor])"

definition unreadable ::
  "string \<Rightarrow> query_key \<Rightarrow> ('a, 'z) query_scheme \<Rightarrow> wear_widget" where
  "unreadable title key q =
     Notice [T title]
       [Text [E (Inl (wearErrorMessage (q_error q)))], Button [T ''retry''] False (Retry_wear key)]"

definition wear_list_screen :: "wear_state \<Rightarrow> wear_widget list" where
  "wear_list_screen s =
     [Text [T ''records of actual wear''], Text [T ''by local date; unknown garments stay unknown'']]
     @ only_if (isError (wv_wardrobe s) \<and> accountStatus (q_error (wv_wardrobe s)) \<noteq> Some 401)
         [unreadable ''the wardrobe cannot be read'' Wardrobe_key (wv_wardrobe s)]
     @ only_if (isError (wv_plans s) \<and> accountStatus (q_error (wv_plans s)) \<noteq> Some 401)
         [unreadable ''the plans cannot be read'' Plans_key (wv_plans s)]
     @ (if isPending (wv_events s)
           \<or> (isError (wv_events s) \<and> accountStatus (q_error (wv_events s)) = Some 401)
        then [Status [T ''reading the records'']]
        else if isError (wv_events s)
        then [unreadable ''the records cannot be read'' Wear_events_key (wv_events s)]
        else if all_items (wv_events s) = []
        then [Text [T ''no records yet''], Text [T ''record here what has been worn'']]
        else map (wear_entry (wv_pending s)) (all_items (wv_events s))
          @ only_if (hasNextPage (wv_events s))
              [Button [T (if q_fetching_next (wv_events s) then ''loading'' else ''load more records'')]
                (q_fetching_next (wv_events s)) (Load_more_wear Wear_events_key)])"

definition wear_content_screen :: "jstring \<times> jstring \<Rightarrow> wear_state \<Rightarrow> wear_widget list" where
  "wear_content_screen year s =
     only_if (wv_deleted s) [Notice [T ''deleted''] [Text [T ''the record has been deleted'']]]
     @ (case wv_error s of None \<Rightarrow> [] | Some x \<Rightarrow> [Notice [T ''not done''] [Text [E (Inl x)]]])
     @ duplicate_screen s @ wear_editor_screen s @ wear_list_screen s
     @ statistics_screen (Retry_wear Statistics_key) (q_data (wv_user s) \<noteq> None) year (wv_stats s)"

definition wear_confirmation_screen :: "wear_state \<Rightarrow> wear_widget list" where
  "wear_confirmation_screen s =
     (if wv_confirm_delete s = None then []
      else [Text [T ''delete this record for ever?''], Text [T ''the linked plan is assessed again''],
            Button [T ''keep the record''] False Close_delete,
            Button [T ''confirm the deletion''] False Run_delete])"

definition wear_screen :: "jstring \<times> jstring \<Rightarrow> wear_state \<Rightarrow> wear_widget" where
  "wear_screen year s =
     Group
      ([Text [T ''only what was worn counts''], Text [T ''record what was really worn''],
        Button [T ''record actual wear''] (q_data (wv_user s) = None \<or> wv_pending s) Open_editor]
       @ (if isPending (wv_user s)
             \<or> (isError (wv_user s) \<and> accountStatus (q_error (wv_user s)) = Some 401)
          then [Status [T ''checking the session'']]
          else if isError (wv_user s)
          then [unreadable ''the account cannot be read'' Current_user_key (wv_user s)]
          else wear_content_screen year s)
       @ wear_confirmation_screen s)"

subsection \<open>The events of the controls\<close>

lemma raises_worn_item:
  "raises (worn_item form pending item) ev \<longleftrightarrow>
     \<not> pending \<and>
     (\<not> wear_item_disabled form item \<and> ev = Toggle_item item
      \<or> wear_selected form (wi_id item) \<and> wi_availability item \<noteq> Wearable
          \<and> (\<exists>b. ev = Confirm_worn (wi_id item) b)
      \<or> wear_selected form (wi_id item) \<and> (\<exists>b. ev = Set_laundry (wi_id item) b))"
  by (auto simp: worn_item_def Let_def wear_item_disabled_def wear_selected_def)

lemma plan_choices_options: "map fst (plan_choices form plans) = plan_options form plans"
  by (simp add: plan_choices_def plan_options_def o_def)

lemma raises_source_plan:
  "any_raises (source_plan_field form pending plans loading further) ev \<longleftrightarrow>
     wr_source_kind form \<noteq> Unplanned \<and> \<not> pending \<and> \<not> loading \<and>
     ((\<exists>i\<in>set (plan_options form plans). ev = Select_plan i)
      \<or> further \<and> ev = Load_more_wear Plans_key)"
  unfolding plan_choices_options [symmetric] by (auto simp: source_plan_field_def)

lemma raises_completeness: "raises (completeness_select form pending) ev \<longleftrightarrow> \<not> pending \<and> (\<exists>c. ev = Set_completeness c)"
proof -
  have "(\<exists>c. ev = Set_completeness c) \<longleftrightarrow> ev = Set_completeness Complete \<or> ev = Set_completeness Partial"
    by (metis completeness.exhaust)
  then show ?thesis by (simp add: completeness_select_def raises_Select)
qed

lemma raises_source: "raises (source_select form pending) ev \<longleftrightarrow> \<not> pending \<and> (\<exists>k. ev = Set_source k)"
  by (auto simp: source_select_def)

lemma raises_wear_form:
  "any_raises (wear_form_screen form editing pending error items loading further plans ploading pfurther) ev
     \<longleftrightarrow>
     any_raises (source_plan_field form pending plans ploading pfurther) ev
     \<or> \<not> loading \<and> (\<exists>item\<in>set items. raises (worn_item form pending item) ev)
     \<or> \<not> pending \<and>
     ((\<exists>v. ev = Set_wear_date v) \<or> (\<exists>c. ev = Set_completeness c) \<or> (\<exists>k. ev = Set_source k)
      \<or> (\<exists>v. ev = Set_wear_context v)
      \<or> further \<and> \<not> loading \<and> ev = Load_more_wear Wardrobe_key
      \<or> (\<exists>selection\<in>set (wear_missing form items). ev = Remove_missing_worn (os_item_id selection))
      \<or> \<not> loading \<and> \<not> ploading \<and> ev = Save_wear
      \<or> editing \<and> (ev = Cancel_wear \<or> ev = Reload_wear))"
proof -
  have error: "\<not> any_raises (case error of None \<Rightarrow> [] | Some x \<Rightarrow> [Notice [E (Inr x)] []]) ev"
    by (simp split: option.split)
  show ?thesis
    by (cases loading; cases pending)
       (auto simp: wear_form_parts Let_def raises_completeness raises_source error)
qed

lemma raises_wear_entry:
  "raises (wear_entry pending event) ev \<longleftrightarrow>
     \<not> pending \<and> (\<not> cleared_event event \<and> ev = Edit_event event \<or> ev = Ask_delete event)"
  by (auto simp: wear_entry_def)

lemma raises_unreadable [simp]: "raises (unreadable title key q) ev \<longleftrightarrow> ev = Retry_wear key"
  by (simp add: unreadable_def)

lemma raises_wear_list:
  "any_raises (wear_list_screen s) ev \<longleftrightarrow>
     (isError (wv_wardrobe s) \<and> \<not> session_lost (wv_wardrobe s) \<and> ev = Retry_wear Wardrobe_key)
     \<or> (isError (wv_plans s) \<and> \<not> session_lost (wv_plans s) \<and> ev = Retry_wear Plans_key)
     \<or> (isError (wv_events s) \<and> \<not> session_lost (wv_events s) \<and> ev = Retry_wear Wear_events_key)
     \<or> (\<exists>event\<in>set (listed_events s). raises (wear_entry (wv_pending s) event) ev)
     \<or> (listed_events s \<noteq> [] \<and> hasNextPage (wv_events s) \<and> \<not> q_fetching_next (wv_events s)
         \<and> ev = Load_more_wear Wear_events_key)"
  by (auto simp: wear_list_screen_def listed_events_def session_lost_def isPending_def isError_def
      split: query_status.splits)

lemma raises_duplicate:
  "any_raises (duplicate_screen s) ev \<longleftrightarrow>
     wv_duplicate s \<noteq> None \<and> \<not> wv_pending s \<and> (ev = Confirm_duplicates \<or> ev = Dismiss_duplicates)"
  by (auto simp: duplicate_screen_def split: option.splits)

lemma raises_wear_editor:
  "any_raises (wear_editor_screen s) ev \<longleftrightarrow>
     (if wv_editor_open s
      then \<not> wv_pending s \<and> ev = Close_editor
        \<or> any_raises (wear_form_screen (wv_form s) (wv_editing s \<noteq> None) (wear_form_pending s)
             (wv_form_error s) (wv_items s) (loading_items (wv_wardrobe s)) (hasNextPage (wv_wardrobe s))
             (wv_plan_items s) (loading_items (wv_plans s)) (hasNextPage (wv_plans s))) ev
      else ev = Open_editor)"
  by (simp add: wear_editor_screen_def wear_form_pending_def loading_items_def isPending_def)

lemma raises_wear_screen:
  "raises (wear_screen year s) ev \<longleftrightarrow>
     (q_data (wv_user s) \<noteq> None \<and> \<not> wv_pending s \<and> ev = Open_editor)
     \<or> ((\<exists>x. wear_page_of s = Wear_account_unreadable x) \<and> ev = Retry_wear Current_user_key)
     \<or> (wear_page_of s = Wear_content \<and>
         (any_raises (duplicate_screen s) ev \<or> any_raises (wear_editor_screen s) ev
          \<or> any_raises (wear_list_screen s) ev
          \<or> q_data (wv_user s) \<noteq> None \<and> isError (wv_stats s) \<and> ev = Retry_wear Statistics_key))
     \<or> (wv_confirm_delete s \<noteq> None \<and> (ev = Close_delete \<or> ev = Run_delete))"
  by (auto simp: wear_screen_def wear_content_screen_def wear_page_of_def session_lost_def
      wear_confirmation_screen_def split: option.splits)

definition wear_user_event :: "wear_action \<Rightarrow> bool" where
  "wear_user_event ev \<longleftrightarrow>
     (case ev of Wear_timer \<Rightarrow> False | Wear_queries_changed _ _ _ _ _ \<Rightarrow> False | _ \<Rightarrow> True)"

lemmas raises_wear = raises_wear_screen raises_wear_editor raises_wear_form raises_source_plan
  raises_worn_item raises_wear_list raises_wear_entry raises_duplicate

text \<open>
  The dispatch of the page admits exactly the events of its controls: in every state, whatever plan
  the address names, the enabled controls raise exactly the events of a person that the dispatch
  of the page admits.
\<close>

lemma wear_screen_offers:
  "raises (wear_screen year s) ev \<longleftrightarrow> wear_user_event ev \<and> wear_dispatch initialPlanID s ev \<noteq> None"
  by (cases ev)
     (auto simp: raises_wear wear_user_event_def wear_dispatch_def wear_retry_shown_def wear_more_shown_def
       wear_form_event_def Let_def image_iff find_None_iff list_ex_iff dest!: find_SomeD
       split: query_key.splits if_splits wear_page_kind.splits option.splits)

end
