(* ===== verification/Wardrobe_Screen.thy ===== *)
theory Wardrobe_Screen
  imports Wardrobe_View Statistics_Screen
begin

text \<open>
  What the wardrobe page shows: the photo editor (\<^verbatim>\<open>wardrobe-photo-editor.tsx\<close>), the form of an item
  (\<^verbatim>\<open>wardrobe-item-form.tsx\<close>), the filters, the list and the confirmation of
  \<^verbatim>\<open>wardrobe-view.tsx\<close>, each a function of the state. The events that the enabled controls raise
  are exactly the ones that \<open>wardrobe_dispatch\<close> admits.
\<close>

type_synonym wardrobe_widget = "(wardrobe_text + name_text + photo_editor_text, wardrobe_event) widget"

subsection \<open>The photo editor\<close>

definition photo_preview :: "wardrobe_form \<Rightarrow> wardrobe_widget list" where
  "photo_preview form =
     (let changed = photo_changed form in
      only_if (hasSource form \<or> has_text (fm_sample_image form))
        (only_if changed
           [Text [T ''original''],
            Picture (js ''original of the garment'')
              (case fm_original_photo_preview form of
                 Some src \<Rightarrow> Some src
               | None \<Rightarrow>
                   (case originalID form of
                      None \<Rightarrow> None
                    | Some i \<Rightarrow> if i \<noteq> [] then Some (js ''/media/'' @ i @ js ''/wardrobe-original'') else None))]
         @ only_if changed [Text [T ''current picture'']]
         @ [Picture (if fm_name form \<noteq> [] then fm_name form else js ''preview of the photo'')
              (image_src (fm_photo_preview form) (fm_photo_media_id form) (fm_sample_image form))]))"

definition crop_fields :: "bool \<Rightarrow> crop_insets \<Rightarrow> wardrobe_widget list" where
  "crop_fields disabled crop =
     [Number [T ''top''] (ins_top crop) disabled (Set_crop Crop_top),
      Number [T ''right''] (ins_right crop) disabled (Set_crop Crop_right),
      Number [T ''bottom''] (ins_bottom crop) disabled (Set_crop Crop_bottom),
      Number [T ''left''] (ins_left crop) disabled (Set_crop Crop_left)]"

definition photo_tools :: "wardrobe_form \<Rightarrow> bool \<Rightarrow> photo_editor \<Rightarrow> wardrobe_widget list" where
  "photo_tools form pending editor =
     (let disabled = (pending \<or> pe_busy editor) in
      only_if (hasSource form)
        ([Button [T ''remove the background''] disabled (Process_photo Remove_mode),
          Button [T ''restore the original''] disabled (Process_photo Restore_mode)]
         @ (case originalID form of
              None \<Rightarrow> []
            | Some i \<Rightarrow> only_if (i \<noteq> [])
                [Link [T ''look at the original''] (js ''/media/'' @ i @ js ''/wardrobe-original'')])
         @ [Text [T ''crop'']]
         @ crop_fields disabled (pe_crop editor)
         @ [Button [T ''apply the crop''] (disabled \<or> pe_crop editor = emptyCrop)
              (Process_photo Crop_mode)]))"

definition photo_status_text :: "photo_status \<Rightarrow> string" where
  "photo_status_text st =
     (case st of
        No_status \<Rightarrow> ''''
      | Running Remove_mode \<Rightarrow> ''loading the model and removing the background''
      | Running Crop_mode \<Rightarrow> ''cropping''
      | Running Restore_mode \<Rightarrow> ''restoring the original''
      | Finished mode legacy \<Rightarrow>
          (if legacy then ''the original upload is gone, the picture shown is kept; '' else '''')
          @ (case mode of Remove_mode \<Rightarrow> ''background removed'' | Crop_mode \<Rightarrow> ''cropped''
             | Restore_mode \<Rightarrow> ''original restored''))"

definition sample_select :: "wardrobe_form \<Rightarrow> bool \<Rightarrow> wardrobe_widget" where
  "sample_select form pending =
     Select [T ''sample picture''] pending
       (map (\<lambda>choice. (fm_sample_image form = fst choice, snd choice, Set_sample (fst choice)))
          ((None, [T ''no picture yet''])
           # map (\<lambda>sample. (Some (js (gs_key sample)), [V (gs_name sample), T ''sample''])) garmentSamples))"

definition photo_editor_screen :: "wardrobe_form \<Rightarrow> bool \<Rightarrow> photo_editor \<Rightarrow> wardrobe_widget list" where
  "photo_editor_screen form pending editor =
     [Upload [T ''photo of the garment''] (pending \<or> pe_busy editor) Choose_file,
      Text [T ''JPG, PNG or WebP, at most 12 MB; processed on this device'']]
     @ photo_preview form
     @ photo_tools form pending editor
     @ only_if (pe_status editor \<noteq> No_status) [Status [T (photo_status_text (pe_status editor))]]
     @ (case pe_error editor of None \<Rightarrow> [] | Some x \<Rightarrow> [Notice [E (Inr (Inr x))] []])
     @ only_if (\<not> hasSource form)
         [Text [T ''use a sample picture''], sample_select form pending,
          Text [T ''sample material, not a photo'']]"

subsection \<open>The form of an item\<close>

text \<open>
  One entry of \<^verbatim>\<open>attributeFields\<close> as a select: the unknown value, then the options with their
  labels.
\<close>

definition attribute_select ::
  "string \<Rightarrow> ('v option \<Rightarrow> wardrobe_event) \<Rightarrow> ('v \<times> string) list \<Rightarrow> 'v option \<Rightarrow> bool \<Rightarrow> wardrobe_widget" where
  "attribute_select label set_value options current pending =
     Select [T label] pending
       (map (\<lambda>choice. (current = fst choice, [T (snd choice)], set_value (fst choice)))
          ((None, ''unknown'') # map (\<lambda>(v, l). (Some v, l)) options))"

definition formality_options :: "(formality \<times> string) list" where
  "formality_options = [(Casual, ''casual''), (Smart_casual, ''smart casual''), (Formal, ''formal'')]"

definition warmth_options :: "(warmth \<times> string) list" where
  "warmth_options = [(Light, ''light''), (Medium, ''medium''), (Warm, ''warm'')]"

definition suitability_options :: "(suitability \<times> string) list" where
  "suitability_options = [(Suitable, ''suitable''), (Unsuitable, ''not suitable'')]"

definition attribute_fields :: "attributes \<Rightarrow> bool \<Rightarrow> wardrobe_widget list" where
  "attribute_fields a pending =
     [attribute_select ''formality'' Set_formality formality_options (at_formality_band a) pending,
      attribute_select ''warmth'' Set_warmth warmth_options (at_warmth_band a) pending,
      attribute_select ''rain'' Set_rain suitability_options (at_rain_use a) pending,
      attribute_select ''walking'' Set_walking suitability_options (at_walking_use a) pending]"

definition item_form_screen ::
  "wardrobe_form \<Rightarrow> bool \<Rightarrow> bool \<Rightarrow> bool \<Rightarrow> name_text option \<Rightarrow> photo_editor \<Rightarrow> wardrobe_widget list" where
  "item_form_screen form editing pending processing nameError editor =
     [Text [T (if editing then ''edit the garment'' else ''add a garment'')],
      Text [T ''name, category and availability are yours to confirm''],
      Input [T ''name''] (fm_name form) pending Set_name]
     @ (case nameError of None \<Rightarrow> [] | Some x \<Rightarrow> [Notice [E (Inr (Inl x))] []])
     @ photo_editor_screen form pending editor
     @ [Select [T ''category''] pending
          (map (\<lambda>c. (fm_category form = c, [V (categoryLabels c)], Set_category c)) all_categories),
        Select [T ''availability''] pending
          (map (\<lambda>a. (fm_availability form = a, [V (availabilityLabels a)], Set_availability a))
             all_availabilities),
        Text [T ''to be washed, lent out and packed away are not wearable''],
        Text [T ''attributes to confirm (optional)''], Text [T ''unknown is never guessed'']]
     @ attribute_fields (fm_attributes form) pending
     @ [Button [T (if processing then ''processing the photo'' else if pending then ''saving''
          else if editing then ''save changes'' else ''add to the wardrobe'')] pending Save_item]
     @ only_if editing
         [Button [T ''cancel editing''] pending Cancel_item,
          Button [T ''reload the garment''] pending Reload_item]"

subsection \<open>The page\<close>

definition wardrobe_toolbar :: "wardrobe_state \<Rightarrow> wardrobe_widget list" where
  "wardrobe_toolbar s =
     [Link [T ''match an outfit''] (js ''/plans''),
      Button [T (if wd_editor_open s then ''close the editor'' else ''add a garment'')] False Toggle_editor,
      Button [T ''add five sample garments'']
        (wd_pending s \<noteq> None \<or> isPending (wd_wardrobe s) \<or> isError (wd_wardrobe s)
         \<or> hasNextPage (wd_wardrobe s)
         \<or> list_all (\<lambda>sample. list_ex (\<lambda>item. wi_id item = js (gs_id sample)) (wd_items s)) garmentSamples)
        Add_samples]"

definition filter_fields :: "(jstring \<Rightarrow> jstring) \<Rightarrow> wardrobe_state \<Rightarrow> wardrobe_widget list" where
  "filter_fields lower s =
     map (\<lambda>c. Toggle [case c of None \<Rightarrow> T ''all'' | Some k \<Rightarrow> V (categoryLabels k)] (wd_category s = c) False
         (Filter_category c)) (None # map Some all_categories)
     @ [Input [T ''search garments''] (wd_search s) False Filter_search,
        Select [T ''filter by availability''] False
          (map (\<lambda>a. (wd_availability s = a,
              [case a of None \<Rightarrow> T ''all'' | Some k \<Rightarrow> V (availabilityLabels k)], Filter_availability a))
             (None # map Some all_availabilities)),
        Status ([T ''shown'', N (int (length (wd_filtered lower s))), T ''of loaded'',
            N (int (length (wd_items s)))]
          @ (if hasNextPage (wd_wardrobe s) then [T ''more can be loaded''] else []))]"

definition item_card :: "wardrobe_state \<Rightarrow> wardrobe_item \<Rightarrow> wardrobe_widget" where
  "item_card s item =
     Group
      ([item_picture item, Text [V (wi_name item)],
        Text [V (categoryLabels (wi_category item)), V (availabilityLabels (wi_availability item))],
        Text [T ''worn this year'',
          if isPending (wd_stats s) then T ''being read''
          else if isError (wd_stats s) then T ''not available''
          else N (case wd_uses s (wi_id item) of None \<Rightarrow> 0 | Some n \<Rightarrow> n)]]
       @ only_if (has_text (wi_sample_image item) \<and> \<not> has_text (wi_photo_media_id item))
           [Text [T ''sample picture'']]
       @ [Button [T ''edit''] (wd_pending s \<noteq> None) (Edit_item item),
          Button [T (if wd_impact_item s = Some (wi_id item) then ''checking'' else ''delete'')]
            (wd_pending s \<noteq> None) (Inspect_delete item)])"

definition wardrobe_list_screen :: "(jstring \<Rightarrow> jstring) \<Rightarrow> wardrobe_state \<Rightarrow> wardrobe_widget list" where
  "wardrobe_list_screen lower s =
     (if isPending (wd_wardrobe s)
         \<or> (isError (wd_wardrobe s) \<and> accountStatus (q_error (wd_wardrobe s)) = Some 401)
      then [Status [T ''reading the wardrobe'']]
      else if isError (wd_wardrobe s)
      then [Notice [T ''the wardrobe cannot be read'']
             [Text [E (Inl (wardrobeErrorMessage (q_error (wd_wardrobe s))))],
              Button [T ''retry''] False (W_retry Wardrobe_key)]]
      else if wd_items s = []
      then [Text [T ''the wardrobe is empty''], Text [T ''begin with a garment you often wear'']]
      else only_if (wd_filtered lower s = []) [Text [T ''no garment matches the filters'']]
        @ map (item_card s) (wd_filtered lower s)
        @ only_if (hasNextPage (wd_wardrobe s))
            [Button [T (if q_fetching_next (wd_wardrobe s) then ''loading'' else ''load more'')]
              (q_fetching_next (wd_wardrobe s)) (W_load_more Wardrobe_key)])"

definition deletion_screen :: "wardrobe_state \<Rightarrow> wardrobe_widget list" where
  "deletion_screen s =
     (case wd_deletion s of
        None \<Rightarrow> []
      | Some draft \<Rightarrow>
          (let impact = dd_impact draft in
           [Text [T ''delete'', V (wi_name (dd_item draft)), T ''?''],
            Text [T ''deletes the garment for ever; the server checks again''],
            Text [T ''linked plans'', N (di_affected_plan_count impact), T ''wear records'',
              N (di_affected_wear_event_count impact)]]
           @ only_if (di_affected_plan_count impact > 0 \<or> di_affected_wear_event_count impact > 0)
               [Select [T ''what happens to the linked history''] False
                  [(dd_policy draft = Redact_snapshots, [T ''keep records, clear the snapshots''],
                      Set_policy Redact_snapshots),
                   (dd_policy draft = Delete_affected_history, [T ''delete plans and records too''],
                      Set_policy Delete_affected_history)]]
           @ [Button [T ''keep the garment''] False Close_deletion,
              Button [T ''confirm the deletion''] False Confirm_deletion]))"

definition wardrobe_content_screen ::
  "(jstring \<Rightarrow> jstring) \<Rightarrow> jstring \<times> jstring \<Rightarrow> wardrobe_state \<Rightarrow> wardrobe_widget list" where
  "wardrobe_content_screen lower year s =
     only_if (wd_deleted s) [Notice [T ''deleted''] [Text [T ''the garment has been deleted'']]]
     @ (case wd_error s of None \<Rightarrow> [] | Some x \<Rightarrow> [Notice [T ''not done''] [Text [E (Inl x)]]])
     @ wardrobe_toolbar s
     @ only_if (wd_editor_open s)
         (item_form_screen (wd_form s) (wd_editing s \<noteq> None) (wd_pending s \<noteq> None)
            (wd_pending s = Some W_photo) (wd_name_error s) (wd_photo s))
     @ [Text [T ''every garment in sight''], Text [T ''filters the loaded garments'']]
     @ filter_fields lower s
     @ wardrobe_list_screen lower s
     @ statistics_screen (W_retry Statistics_key) (q_data (wd_user s) \<noteq> None) year (wd_stats s)"

definition wardrobe_screen ::
  "(jstring \<Rightarrow> jstring) \<Rightarrow> jstring \<times> jstring \<Rightarrow> wardrobe_state \<Rightarrow> wardrobe_widget" where
  "wardrobe_screen lower year s =
     Group
      ([Text [T ''my wardrobe''], Text [T ''see every garment, keep the outfits you wear'']]
       @ (if isPending (wd_user s)
             \<or> (isError (wd_user s) \<and> accountStatus (q_error (wd_user s)) = Some 401)
          then [Status [T ''checking the session'']]
          else if isError (wd_user s)
          then [Notice [T ''the account cannot be read'']
                 [Text [E (Inl (wardrobeErrorMessage (q_error (wd_user s))))],
                  Button [T ''retry''] False (W_retry Current_user_key)]]
          else wardrobe_content_screen lower year s)
       @ deletion_screen s)"

subsection \<open>The events of the controls\<close>

lemma raises_photo_preview [simp]: "\<not> any_raises (photo_preview form) ev"
  by (simp add: photo_preview_def Let_def)

lemma raises_photo_tools:
  "any_raises (photo_tools form pending editor) ev \<longleftrightarrow>
     hasSource form \<and> \<not> pending \<and> \<not> pe_busy editor \<and>
     ((\<exists>side v. ev = Set_crop side v)
      \<or> (\<exists>mode. ev = Process_photo mode \<and> \<not> (mode = Crop_mode \<and> pe_crop editor = emptyCrop)))"
proof -
  have s: "(\<exists>side v. ev = Set_crop side v) \<longleftrightarrow>
      (\<exists>v. ev = Set_crop Crop_top v) \<or> (\<exists>v. ev = Set_crop Crop_right v)
      \<or> (\<exists>v. ev = Set_crop Crop_bottom v) \<or> (\<exists>v. ev = Set_crop Crop_left v)"
    by (metis crop_side.exhaust)
  have m: "(\<exists>mode. P mode) \<longleftrightarrow> P Remove_mode \<or> P Crop_mode \<or> P Restore_mode" for P
    by (metis photo_mode.exhaust)
  have link: "\<not> any_raises (case originalID form of None \<Rightarrow> []
      | Some i \<Rightarrow> only_if (i \<noteq> []) [Link t (f i)]) ev" for t f
    by (simp split: option.split)
  show ?thesis
    unfolding s m by (auto simp: photo_tools_def Let_def crop_fields_def link)
qed

lemma sample_path_iff:
  "v = None \<or> sampleImagePath v \<noteq> None \<longleftrightarrow> v \<in> insert None ((\<lambda>s. Some (js (gs_key s))) ` set garmentSamples)"
  by (auto simp: sampleImagePath_def list_ex_iff)

lemma raises_sample_select:
  "raises (sample_select form pending) ev \<longleftrightarrow>
     \<not> pending \<and> (\<exists>v. (v = None \<or> sampleImagePath v \<noteq> None) \<and> ev = Set_sample v)"
  unfolding sample_path_iff sample_select_def raises_Select_map by auto

lemma raises_photo_editor:
  "any_raises (photo_editor_screen form pending editor) ev \<longleftrightarrow>
     \<not> pending \<and> \<not> pe_busy editor \<and> (\<exists>photo. ev = Choose_file photo)
     \<or> any_raises (photo_tools form pending editor) ev
     \<or> \<not> hasSource form \<and> raises (sample_select form pending) ev"
  by (auto simp: photo_editor_screen_def split: option.splits)

lemma raises_attribute_select:
  assumes "\<And>v. v \<in> fst ` set options"
  shows "raises (attribute_select label f options current pending) ev \<longleftrightarrow> \<not> pending \<and> (\<exists>v. ev = f v)"
proof -
  have "v \<in> set (None # map (\<lambda>(v, l). Some v) options)" for v
  proof (cases v)
    case (Some x)
    with assms [of x] show ?thesis by force
  qed simp
  then have "(\<exists>v. ev = f v) \<longleftrightarrow> (\<exists>v\<in>set (None # map (\<lambda>(v, l). Some v) options). ev = f v)"
    by blast
  then show ?thesis
    unfolding attribute_select_def raises_Select_map by (auto simp: case_prod_unfold)
qed

lemma attribute_options [simp]:
  "v \<in> fst ` set formality_options" "w \<in> fst ` set warmth_options" "u \<in> fst ` set suitability_options"
  by (cases v; simp add: formality_options_def)
     (cases w; cases u; simp add: warmth_options_def suitability_options_def)+

lemma raises_attributes:
  "any_raises (attribute_fields a pending) ev \<longleftrightarrow>
     \<not> pending \<and> ((\<exists>v. ev = Set_formality v) \<or> (\<exists>v. ev = Set_warmth v) \<or> (\<exists>v. ev = Set_rain v)
       \<or> (\<exists>v. ev = Set_walking v))"
  by (auto simp: attribute_fields_def raises_attribute_select)

lemma raises_item_form:
  "any_raises (item_form_screen form editing pending processing nameError editor) ev \<longleftrightarrow>
     any_raises (photo_editor_screen form pending editor) ev
     \<or> any_raises (attribute_fields (fm_attributes form) pending) ev
     \<or> \<not> pending \<and>
       ((\<exists>v. ev = Set_name v) \<or> (\<exists>c. ev = Set_category c) \<or> (\<exists>a. ev = Set_availability a)
        \<or> ev = Save_item \<or> editing \<and> (ev = Cancel_item \<or> ev = Reload_item))"
proof -
  have "\<not> any_raises (case nameError of None \<Rightarrow> [] | Some x \<Rightarrow> [Notice [E (Inr (Inl x))] []]) ev"
    by (simp split: option.split)
  then show ?thesis by (auto simp: item_form_screen_def)
qed

lemma samples_disabled_shown:
  "samples_disabled s \<longleftrightarrow>
     wd_pending s \<noteq> None \<or> isPending (wd_wardrobe s) \<or> isError (wd_wardrobe s) \<or> hasNextPage (wd_wardrobe s)
     \<or> list_all (\<lambda>sample. list_ex (\<lambda>item. wi_id item = js (gs_id sample)) (wd_items s)) garmentSamples"
  by (simp add: samples_disabled_def sample_present_def list_all_iff list_ex_iff)

lemma all_options: "x \<in> set (None # map Some all_categories)" "y \<in> set (None # map Some all_availabilities)"
  by (cases x; simp) (cases y; simp)

lemma raises_filters:
  "any_raises (filter_fields lower s) ev \<longleftrightarrow>
     (\<exists>c. ev = Filter_category c) \<or> (\<exists>v. ev = Filter_search v) \<or> (\<exists>a. ev = Filter_availability a)"
  unfolding filter_fields_def using all_options by (auto simp del: list.map set_simps)

lemma raises_wardrobe_list:
  "any_raises (wardrobe_list_screen lower s) ev \<longleftrightarrow>
     (isError (wd_wardrobe s) \<and> \<not> session_lost (wd_wardrobe s) \<and> ev = W_retry Wardrobe_key)
     \<or> (wd_pending s = None \<and> (\<exists>item\<in>set (listed_items lower s). ev = Edit_item item \<or> ev = Inspect_delete item))
     \<or> (\<not> isPending (wd_wardrobe s) \<and> \<not> isError (wd_wardrobe s) \<and> wd_items s \<noteq> []
         \<and> hasNextPage (wd_wardrobe s) \<and> \<not> q_fetching_next (wd_wardrobe s) \<and> ev = W_load_more Wardrobe_key)"
proof -
  have "wd_items s = [] \<Longrightarrow> wd_filtered lower s = []"
    by (simp add: wd_filtered_def)
  then show ?thesis
    by (auto simp: wardrobe_list_screen_def listed_items_def session_lost_def item_card_def isPending_def isError_def
        split: query_status.splits)
qed

lemma raises_deletion:
  "any_raises (deletion_screen s) ev \<longleftrightarrow>
     (case wd_deletion s of
        None \<Rightarrow> False
      | Some draft \<Rightarrow> ev = Close_deletion \<or> ev = Confirm_deletion
          \<or> (di_affected_plan_count (dd_impact draft) > 0
              \<or> di_affected_wear_event_count (dd_impact draft) > 0) \<and> (\<exists>policy. ev = Set_policy policy))"
proof -
  have "(\<exists>policy. ev = Set_policy policy)
      \<longleftrightarrow> ev = Set_policy Redact_snapshots \<or> ev = Set_policy Delete_affected_history"
    by (metis history_policy.exhaust)
  then show ?thesis
    by (auto simp: deletion_screen_def Let_def raises_Select split: option.splits)
qed

lemma raises_wardrobe_screen:
  "raises (wardrobe_screen lower year s) ev \<longleftrightarrow>
     ((\<exists>x. wardrobe_page_of s = W_account_unreadable x) \<and> ev = W_retry Current_user_key)
     \<or> (wardrobe_page_of s = W_content \<and>
         (ev = Toggle_editor \<or> \<not> samples_disabled s \<and> ev = Add_samples
          \<or> wd_editor_open s
              \<and> any_raises (item_form_screen (wd_form s) (wd_editing s \<noteq> None) (wd_pending s \<noteq> None)
                  (wd_pending s = Some W_photo) (wd_name_error s) (wd_photo s)) ev
          \<or> any_raises (filter_fields lower s) ev \<or> any_raises (wardrobe_list_screen lower s) ev
          \<or> q_data (wd_user s) \<noteq> None \<and> isError (wd_stats s) \<and> ev = W_retry Statistics_key))
     \<or> any_raises (deletion_screen s) ev"
  by (auto simp: wardrobe_screen_def wardrobe_content_screen_def wardrobe_toolbar_def wardrobe_page_of_def
      session_lost_def samples_disabled_shown split: option.splits)

definition wardrobe_user_event :: "wardrobe_event \<Rightarrow> bool" where
  "wardrobe_user_event ev \<longleftrightarrow> (case ev of W_queries_changed _ _ _ \<Rightarrow> False | _ \<Rightarrow> True)"

lemmas raises_wardrobe = raises_wardrobe_screen raises_item_form raises_photo_editor raises_photo_tools
  raises_sample_select raises_attributes raises_filters raises_wardrobe_list raises_deletion

text \<open>
  The dispatch of the page admits exactly the events of its controls: in every state of the page, its form
  and its photo editor, the enabled controls raise exactly the events of a person that the
  dispatch of the page admits.
\<close>

lemma wardrobe_screen_offers:
  "raises (wardrobe_screen lower year s) ev \<longleftrightarrow>
     wardrobe_user_event ev \<and> wardrobe_dispatch lower s ev \<noteq> None"
  by (cases ev)
     (auto simp: raises_wardrobe wardrobe_user_event_def wardrobe_dispatch_def wd_more_shown_def
       item_form_event_def split: query_key.splits if_splits wardrobe_page_kind.splits option.splits)

end
