(* ===== verification/Account_Screen.thy ===== *)
theory Account_Screen
  imports Auth_View Account_View Screen
begin

text \<open>
  What the login and registration form (\<^verbatim>\<open>auth-form.tsx\<close>) and the account page
  (\<^verbatim>\<open>account-view.tsx\<close>) show. The events of their enabled controls are the ones that the
  dispatch admits and whose handler does something.
\<close>

type_synonym account_page_text = "account_text + registration_text"
type_synonym auth_widget = "(account_page_text, auth_event) widget"
type_synonym account_widget = "(account_page_text, account_event) widget"

definition field_error :: "registration_text option \<Rightarrow> (account_page_text, 'ev) widget list" where
  "field_error x = (case x of None \<Rightarrow> [] | Some t \<Rightarrow> [Notice [E (Inr t)] []])"

lemma raises_field_error [simp]: "\<not> any_raises (field_error x) ev"
  by (simp add: field_error_def split: option.split)

definition operation_error :: "account_text option \<Rightarrow> (account_page_text, 'ev) widget list" where
  "operation_error x = (case x of None \<Rightarrow> [] | Some t \<Rightarrow> [Notice [T ''not done''] [Text [E (Inl t)]]])"

lemma raises_operation_error [simp]: "\<not> any_raises (operation_error x) ev"
  by (simp add: operation_error_def split: option.split)

subsection \<open>Login and registration\<close>

definition auth_title :: "auth_mode \<Rightarrow> string" where
  "auth_title mode = (if mode = Register then ''create an account'' else ''welcome back'')"

definition auth_form_screen :: "auth_mode \<Rightarrow> auth_state \<Rightarrow> auth_widget list" where
  "auth_form_screen mode s =
     (let registering = (mode = Register); errors = au_field_errors s in
      only_if registering
        (Input [T ''display name''] (au_display_name s) False Type_name
         # field_error (er_display_name errors))
      @ Limited [T ''e-mail''] 254 (au_email s) False Type_email # field_error (er_email errors)
      @ Input [T ''password''] (au_password s) False Type_password
        # only_if registering [Text [T ''12 to 72 bytes of UTF-8'']]
      @ field_error (er_password errors)
      @ only_if registering
        (Input [T ''confirm the password''] (au_confirmation s) False Type_confirmation
         # field_error (er_confirmation errors))
      @ operation_error (au_error s)
      @ [Submit [T (if au_pending s then ''submitting'' else auth_title mode)] (au_pending s) Submit_auth])"

definition auth_screen :: "auth_mode \<Rightarrow> auth_state \<Rightarrow> auth_widget" where
  "auth_screen mode s =
     (let registering = (mode = Register) in
      Group
       ([Text [T (auth_title mode)],
         Text [T (if registering then ''create an account and begin with your own wardrobe''
           else ''log in to see your wardrobe and outfits'')]]
        @ (if isPending (au_user s) \<or> q_data (au_user s) \<noteq> None then [Status [T ''checking the session'']]
           else if isError (au_user s) \<and> accountStatus (q_error (au_user s)) \<noteq> Some 401
           then [Notice [T ''the session cannot be checked'']
                  [Text [E (Inl (accountErrorMessage (q_error (au_user s))))],
                   Button [T ''retry''] False Retry_session]]
           else auth_form_screen mode s)
        @ [Text [T (if registering then ''already an account?'' else ''no account yet?'')],
           Link [T (if registering then ''log in'' else ''create an account'')]
             (if registering then js ''/login'' else js ''/register'')]))"

definition auth_user_event :: "auth_event \<Rightarrow> bool" where
  "auth_user_event ev \<longleftrightarrow> (case ev of User_query_changed _ \<Rightarrow> False | Type_email v \<Rightarrow> length v \<le> 254 | _ \<Rightarrow> True)"

lemma raises_auth_form:
  "any_raises (auth_form_screen mode s) ev \<longleftrightarrow>
     mode = Register \<and> ((\<exists>v. ev = Type_name v) \<or> (\<exists>v. ev = Type_confirmation v))
     \<or> (\<exists>v. length v \<le> 254 \<and> ev = Type_email v) \<or> (\<exists>v. ev = Type_password v)
     \<or> \<not> au_pending s \<and> (\<exists>mismatch. ev = Submit_auth mismatch)"
  by (auto simp: auth_form_screen_def Let_def)

lemma raises_auth_screen:
  "raises (auth_screen mode s) ev \<longleftrightarrow>
     (\<exists>x. auth_page s = Session_check_failed x) \<and> ev = Retry_session
     \<or> auth_page s = Auth_form \<and> any_raises (auth_form_screen mode s) ev"
  by (auto simp: auth_screen_def Let_def auth_page_def)

lemma auth_submit_idle: "auth_submit mode mismatch s = Return () \<longleftrightarrow> au_pending s"
  by (simp add: auth_submit_def Let_def)

lemma auth_screen_offers:
  "raises (auth_screen mode s) ev \<longleftrightarrow>
     auth_user_event ev \<and> auth_dispatch mode s ev \<notin> {None, Some (Return ())}"
  by (cases ev)
     (auto simp: raises_auth_screen raises_auth_form auth_user_event_def auth_dispatch_def auth_submit_idle
       refetch_def split: auth_page_kind.splits if_splits)

subsection \<open>The account page\<close>

text \<open>
  \<open>long_date\<close> is the platform's formatter of a moment as a long date, \<open>asked\<close> whether the
  confirmation dialog, which keeps its own state, is open.
\<close>

definition account_layout :: "string \<Rightarrow> string \<Rightarrow> account_widget list \<Rightarrow> account_widget list" where
  "account_layout title description children = [Text [T ''account''], Text [T title], Text [T description]] @ children"

definition deletion_accepted_screen :: "account_deletion \<Rightarrow> account_widget list" where
  "deletion_accepted_screen receipt =
     account_layout ''deletion accepted'' ''access is closed; private media may still be cleared''
      [Notice [T ''the deletion has been accepted'']
        [Text [T ''status'', T (if ad_status receipt = Deletion_complete then ''complete'' else ''clearing''),
           T ''keep the receipt'', V (ad_id receipt)]],
      Link [T ''back to registration''] (js ''/register'')]"

definition profile_screen :: "(jstring \<Rightarrow> jstring) \<Rightarrow> account_state \<Rightarrow> user \<Rightarrow> account_widget list" where
  "profile_screen long_date s user =
     [Text [T ''profile''], Text [T ''created on'', V (long_date (us_created_at user))],
      Input [T ''display name''] (shown_name s) False Type_account_name]
     @ field_error (ac_name_error s)
     @ [Limited [T ''e-mail''] 254 (shown_email s) False Type_account_email]
     @ field_error (ac_email_error s)
     @ operation_error (ac_error s)
     @ [Submit [T (if ac_pending s = Some Pending_update then ''saving'' else ''save the profile'')]
          (ac_pending s \<noteq> None) Save_account,
        Button [T ''reload the profile''] (ac_pending s \<noteq> None) Reload_account]"

definition session_screen :: "bool \<Rightarrow> account_state \<Rightarrow> account_widget list" where
  "session_screen asked s =
     [Text [T ''session and deletion''], Text [T ''logging out ends this session; deletion closes the account''],
      Text [T ''current session''],
      Button [T (if ac_pending s = Some Pending_logout then ''logging out'' else ''log out'')]
        (ac_pending s \<noteq> None) Logout,
      Inert [T ''delete the account''] (ac_pending s \<noteq> None)]
     @ only_if asked
         [Text [T ''delete the account?''], Text [T ''all sessions end at once; this cannot be undone''],
          Inert [T ''keep the account''] False, Button [T ''confirm the deletion''] False Confirm_delete]"

definition account_screen :: "(jstring \<Rightarrow> jstring) \<Rightarrow> bool \<Rightarrow> account_state \<Rightarrow> account_widget" where
  "account_screen long_date asked s =
     Group
      (case ac_deletion s of
         Some receipt \<Rightarrow> deletion_accepted_screen receipt
       | None \<Rightarrow>
           account_layout ''my account'' ''see and change your own profile''
             (if isPending (ac_query s)
                 \<or> (isError (ac_query s) \<and> accountStatus (q_error (ac_query s)) = Some 401)
              then [Status [T ''reading the account'']]
              else if isError (ac_query s)
              then [Notice [T ''the account cannot be read'']
                     [Text [E (Inl (accountErrorMessage (q_error (ac_query s))))],
                      Button [T ''retry''] False Retry_account]]
              else (case ac_user s of
                      None \<Rightarrow> []
                    | Some user \<Rightarrow> profile_screen long_date s user @ session_screen asked s)))"

definition account_user_event :: "account_event \<Rightarrow> bool" where
  "account_user_event ev \<longleftrightarrow> (case ev of Account_query_changed _ \<Rightarrow> False | Type_account_email v \<Rightarrow> length v \<le> 254 | _ \<Rightarrow> True)"

lemma raises_profile:
  "any_raises (profile_screen long_date s user) ev \<longleftrightarrow>
     (\<exists>v. ev = Type_account_name v) \<or> (\<exists>v. length v \<le> 254 \<and> ev = Type_account_email v)
     \<or> ac_pending s = None \<and> ((\<exists>mismatch. ev = Save_account mismatch) \<or> ev = Reload_account)"
  by (auto simp: profile_screen_def)

lemma raises_session:
  "any_raises (session_screen asked s) ev \<longleftrightarrow>
     ac_pending s = None \<and> ev = Logout \<or> asked \<and> ev = Confirm_delete"
  by (auto simp: session_screen_def)

lemma raises_account_screen:
  "raises (account_screen long_date asked s) ev \<longleftrightarrow>
     (\<exists>x. account_page s = Account_unreadable x) \<and> ev = Retry_account
     \<or> account_page s = Account_controls
         \<and> (\<exists>user. any_raises (profile_screen long_date s user) ev
              \<or> any_raises (session_screen asked s) ev)"
  by (auto simp: account_screen_def account_page_def session_lost_def deletion_accepted_screen_def account_layout_def
      raises_profile raises_session split: option.splits)

lemma account_save_idle: "account_save mismatch s = Return () \<longleftrightarrow> ac_pending s \<noteq> None \<or> ac_user s = None"
  by (auto simp: account_save_def Let_def split: option.splits)

lemma account_screen_offers:
  "raises (account_screen long_date asked s) ev \<longleftrightarrow>
     account_user_event ev \<and>
     (case account_dispatch s ev of
        None \<Rightarrow> False
      | Some p \<Rightarrow> if ev = Confirm_delete then asked else p \<noteq> Return ())"
  by (cases ev)
     (auto simp: raises_account_screen raises_profile raises_session account_user_event_def account_dispatch_def
       account_save_idle account_page_def refetch_def account_do_logout_def
       split: account_page_kind.splits if_splits option.splits)

end
