(* ===== verification/Recommendation_Screen.thy ===== *)
theory Recommendation_Screen
  imports Recommendation_View Screen
begin

text \<open>
  What the recommendation page shows (\<^verbatim>\<open>recommendation-view.tsx\<close>): the constraints, the outcome, one
  card for each candidate. The events of the enabled controls are the ones that
  \<open>recommend_dispatch\<close> admits; of a choice among constraints, the ones that change it.
\<close>

type_synonym recommend_widget = "(recommend_text + account_text + plan_text, recommend_event) widget"

subsection \<open>Labels\<close>

definition reason_labels :: "(string \<times> string) list" where
  "reason_labels =
     [(''real_owner_items'', ''garments of your own wardrobe''),
      (''explicit_packed_items'', ''with packed garments, as you allowed''),
      (''complete_one_piece_path'', ''a one piece and shoes make a complete outfit''),
      (''complete_separate_path'', ''top, bottom and shoes make a complete outfit''),
      (''confirmed_formality'', ''matches the formality you confirmed''),
      (''confirmed_warmth'', ''matches the warmth you confirmed''),
      (''confirmed_rain_shoes'', ''shoes suit the rain, as you confirmed''),
      (''confirmed_walking_shoes'', ''shoes suit walking, as you confirmed'')]"

definition uncertainty_labels :: "(string \<times> string) list" where
  "uncertainty_labels =
     [(''some_formality_unknown'', ''the formality of some garments is unknown''),
      (''some_warmth_unknown'', ''the warmth of some garments is unknown''),
      (''some_rain_suitability_unknown'', ''whether some garments suit the rain is unknown''),
      (''some_walking_suitability_unknown'', ''whether some garments suit walking is unknown'')]"

definition gap_labels :: "(string \<times> string) list" where
  "gap_labels =
     [(''no_available_items'', ''no garment is available now''),
      (''missing_shoes'', ''no shoes are available now''),
      (''missing_top_or_one_piece'', ''no top or one piece is available now''),
      (''missing_bottom_for_top'', ''a top, but no bottom is available now''),
      (''confirmed_constraints_conflict'', ''no garments meet all the constraints'')]"

text \<open>\<^verbatim>\<open>labels[key]\<close>, a missing key giving \<^verbatim>\<open>undefined\<close>.\<close>

definition label_of :: "(string \<times> string) list \<Rightarrow> jstring \<Rightarrow> string option" where
  "label_of labels key = map_option snd (List.find (\<lambda>(k, l). js k = key) labels)"

definition labelled :: "(string \<times> string) list \<Rightarrow> jstring \<Rightarrow> 'e piece" where
  "labelled labels key = (case label_of labels key of Some l \<Rightarrow> T l | None \<Rightarrow> V key)"

definition gap_text :: "jstring option \<Rightarrow> string" where
  "gap_text gap =
     (case label_of gap_labels (case gap of None \<Rightarrow> [] | Some g \<Rightarrow> g) of
        Some l \<Rightarrow> l
      | None \<Rightarrow> ''check the wardrobe and the constraints'')"

definition short_category :: "category \<Rightarrow> string" where
  "short_category c =
     (case c of Top \<Rightarrow> ''top'' | Bottom \<Rightarrow> ''bottom'' | One_piece \<Rightarrow> ''one piece''
      | Outerwear \<Rightarrow> ''outerwear'' | Shoes \<Rightarrow> ''shoes'' | Bag \<Rightarrow> ''bag'' | Accessory \<Rightarrow> ''accessory'')"

definition formalityOptions :: "(formality option \<times> string) list" where
  "formalityOptions =
     [(None, ''any formality''), (Some Casual, ''casual''), (Some Smart_casual, ''neat''), (Some Formal, ''formal'')]"

definition warmthOptions :: "(warmth option \<times> string) list" where
  "warmthOptions =
     [(None, ''any warmth''), (Some Light, ''light''), (Some Medium, ''medium''), (Some Warm, ''warm'')]"

definition extraOptions :: "(extra \<times> string) list" where
  "extraOptions =
     [(Rain, ''shoes for the rain''), (Walking, ''shoes for walking''), (Packed_too, ''packed garments too'')]"

subsection \<open>Constraints\<close>

text \<open>
  A group of which one item is chosen: pressing the chosen one yields the empty value, which the
  handler ignores. A group of several: pressing an item adds it at the end or takes it out.
\<close>

definition single_group ::
  "('v \<Rightarrow> recommend_event) \<Rightarrow> ('v \<times> string) list \<Rightarrow> 'v \<Rightarrow> bool \<Rightarrow> recommend_widget list" where
  "single_group pick options current disabled =
     map (\<lambda>option. if fst option = current then Inert [T (snd option)] disabled
       else Toggle [T (snd option)] False disabled (pick (fst option))) options"

definition toggled :: "extra \<Rightarrow> extra list \<Rightarrow> extra list" where
  "toggled x extras = (if x \<in> set extras then filter (\<lambda>y. y \<noteq> x) extras else extras @ [x])"

definition extras_group :: "extra list \<Rightarrow> bool \<Rightarrow> recommend_widget list" where
  "extras_group extras disabled =
     map (\<lambda>option. Toggle [T (snd option)] (fst option \<in> set extras) disabled
       (Choose_extras (toggled (fst option) extras))) extraOptions"

definition constraints_screen :: "recommend_state \<Rightarrow> recommend_widget list" where
  "constraints_screen s =
     (let saving = (rv_save_pending s \<noteq> None) in
      [Text [T ''confirm the constraints''], Text [T ''only what you choose is a constraint''],
       Text [T ''formality'']]
      @ single_group Choose_formality formalityOptions (rv_formality s) saving
      @ [Text [T ''warmth'']]
      @ single_group Choose_warmth warmthOptions (rv_warmth s) saving
      @ [Text [T ''more'']]
      @ extras_group (rv_extras s) saving
      @ [Button [T (if rv_pending s then ''looking through the wardrobe'' else ''recommend outfits'')]
           (rv_pending s \<or> saving) Submit_constraints,
         Text [T ''reads the wardrobe; creates no plan'']])"

subsection \<open>Outcome\<close>

definition candidate_card :: "recommend_state \<Rightarrow> nat \<Rightarrow> recommendation_candidate \<Rightarrow> recommend_widget" where
  "candidate_card s index candidate =
     (let key = candidate_key candidate; done_already = truthy (rv_saved s key) in
      Group
       ([Text [T ''outfit'', N (int index + 1)], Text [T ''your own garments, as they were then'']]
        @ map (\<lambda>item. Text ([V (wi_name item), T (short_category (wi_category item))]
             @ (if wi_availability item = Packed then [T ''packed''] else []))) (rc_items candidate)
        @ [Text [T ''reasons'']]
        @ map (\<lambda>reason. Text [labelled reason_labels reason]) (rc_reasons candidate)
        @ only_if (rc_uncertainties candidate \<noteq> [])
            (Text [T ''uncertain'']
             # map (\<lambda>v. Text [labelled uncertainty_labels v]) (rc_uncertainties candidate))
        @ (if done_already then [Status [T ''saved as a plan''], Link [T ''see the plans''] (js ''/plans'')]
           else [Button [T ''save as a plan''] (rv_save_pending s \<noteq> None) (Save_candidate candidate)])))"

definition outcome_screen :: "recommend_state \<Rightarrow> recommend_widget list" where
  "outcome_screen s =
     (case rv_result s of
        None \<Rightarrow> []
      | Some result \<Rightarrow>
          (let candidates = rv_candidates s in
           [Text [T (if candidates \<noteq> [] then ''outfits from your wardrobe'' else ''no complete outfit this time'')],
            Text (if candidates \<noteq> [] then [T ''outfits found'', N (int (length candidates))]
              else [T ''constraints are never relaxed, garments never made up''])]
           @ (if candidates = []
              then [Notice [T ''no combination meets the constraints'']
                     [Text [T (gap_text (rp_gap result))], Link [T ''see my wardrobe''] (js ''/wardrobe'')]]
              else map (\<lambda>(index, candidate). candidate_card s index candidate)
                     (enumerate 0 candidates))))"

definition recommend_content_screen :: "recommend_state \<Rightarrow> recommend_widget list" where
  "recommend_content_screen s =
     constraints_screen s
     @ (case rv_error s of None \<Rightarrow> []
        | Some x \<Rightarrow> [Notice [T ''no recommendation''] [Text [E (Inl x)]]])
     @ (case rv_save_error s of None \<Rightarrow> []
        | Some x \<Rightarrow> [Notice [T ''plan not saved''] [Text [E (Inr (Inr x)), T ''check the wardrobe and ask again'']]])
     @ outcome_screen s"

definition recommend_screen :: "jstring \<Rightarrow> recommend_state \<Rightarrow> recommend_widget" where
  "recommend_screen initialScene s =
     Group
      ([Link [T ''choose another scene''] (js ''/''), Text [T ''recommended from your own wardrobe''],
        Text [V (sc_label (scene_of initialScene)), T ''what to wear?''],
        Text [T ''confirm the constraints first; nothing is guessed or saved by itself'']]
       @ (if isPending (rv_user s) then [Status [T ''checking the session'']]
          else if isError (rv_user s) \<and> accountStatus (q_error (rv_user s)) = Some 401
          then [Notice [T ''log in for recommendations'']
                 [Text [T ''they read your own wardrobe only''], Link [T ''log in''] (js ''/login'')]]
          else if isError (rv_user s)
          then [Notice [T ''the account cannot be read'']
                 [Text [E (Inr (Inl (accountErrorMessage (q_error (rv_user s)))))],
                  Button [T ''retry''] False Rv_retry]]
          else recommend_content_screen s))"

subsection \<open>The events of the controls\<close>

lemma raises_single_group:
  assumes "\<And>v. v \<in> fst ` set options"
  shows "any_raises (single_group pick options current disabled) ev \<longleftrightarrow>
     \<not> disabled \<and> (\<exists>v. v \<noteq> current \<and> ev = pick v)"
proof -
  have "any_raises (single_group pick options current disabled) ev \<longleftrightarrow>
      \<not> disabled \<and> (\<exists>v\<in>fst ` set options. v \<noteq> current \<and> ev = pick v)"
    by (auto simp: single_group_def)
  with assms show ?thesis by blast
qed

lemma constraint_options [simp]:
  "v \<in> fst ` set formalityOptions" "w \<in> fst ` set warmthOptions" "x \<in> fst ` set extraOptions"
proof -
  show "v \<in> fst ` set formalityOptions"
    by (cases v; simp add: formalityOptions_def) (metis formality.exhaust)
  show "w \<in> fst ` set warmthOptions"
    by (cases w; simp add: warmthOptions_def) (metis warmth.exhaust)
  show "x \<in> fst ` set extraOptions"
    by (cases x) (simp_all add: extraOptions_def)
qed

lemma raises_extras:
  "any_raises (extras_group extras disabled) ev \<longleftrightarrow>
     \<not> disabled \<and> (\<exists>x. ev = Choose_extras (toggled x extras))"
proof -
  have "any_raises (extras_group extras disabled) ev \<longleftrightarrow>
      \<not> disabled \<and> (\<exists>x\<in>fst ` set extraOptions. ev = Choose_extras (toggled x extras))"
    by (auto simp: extras_group_def)
  then show ?thesis using constraint_options(3) by blast
qed

lemma raises_candidate:
  "raises (candidate_card s index candidate) ev \<longleftrightarrow>
     \<not> truthy (rv_saved s (candidate_key candidate)) \<and> rv_save_pending s = None
     \<and> ev = Save_candidate candidate"
  by (auto simp: candidate_card_def Let_def)

lemma raises_outcome:
  "any_raises (outcome_screen s) ev \<longleftrightarrow>
     rv_save_pending s = None \<and>
     (\<exists>candidate\<in>set (rv_candidates s).
        \<not> truthy (rv_saved s (candidate_key candidate)) \<and> ev = Save_candidate candidate)"
proof (cases "rv_result s")
  case None
  then show ?thesis by (simp add: outcome_screen_def rv_candidates_def)
next
  case (Some result)
  have numbered: "snd ` set (enumerate 0 (rv_candidates s)) = set (rv_candidates s)"
    by (metis map_snd_enumerate set_map)
  have "any_raises (outcome_screen s) ev \<longleftrightarrow>
      rv_save_pending s = None \<and>
      (\<exists>candidate\<in>snd ` set (enumerate 0 (rv_candidates s)).
         \<not> truthy (rv_saved s (candidate_key candidate)) \<and> ev = Save_candidate candidate)"
    using Some by (auto simp: outcome_screen_def Let_def raises_candidate case_prod_unfold)
  then show ?thesis unfolding numbered .
qed

lemma raises_recommend_screen:
  "raises (recommend_screen initialScene s) ev \<longleftrightarrow>
     (\<exists>x. recommend_page s = Rv_account_unreadable x) \<and> ev = Rv_retry
     \<or> recommend_page s = Rv_content \<and> rv_save_pending s = None \<and>
       ((\<exists>v. v \<noteq> rv_formality s \<and> ev = Choose_formality v)
        \<or> (\<exists>v. v \<noteq> rv_warmth s \<and> ev = Choose_warmth v)
        \<or> (\<exists>x. ev = Choose_extras (toggled x (rv_extras s)))
        \<or> \<not> rv_pending s \<and> ev = Submit_constraints
        \<or> any_raises (outcome_screen s) ev)"
proof -
  have error: "\<not> any_raises (case rv_error s of None \<Rightarrow> [] | Some x \<Rightarrow> [Notice t [f x]]) ev"
    if "\<And>x. \<not> raises (f x) ev" for t f
    using that by (simp split: option.split)
  have saveerror: "\<not> any_raises (case rv_save_error s of None \<Rightarrow> [] | Some x \<Rightarrow> [Notice t [f x]]) ev"
    if "\<And>x. \<not> raises (f x) ev" for t f
    using that by (simp split: option.split)
  show ?thesis
    by (auto simp: recommend_screen_def recommend_content_screen_def constraints_screen_def Let_def
        recommend_page_def session_lost_def raises_single_group raises_extras raises_outcome error saveerror)
qed

text \<open>The events of a person: a choice changes something.\<close>

definition recommend_user_event :: "recommend_state \<Rightarrow> recommend_event \<Rightarrow> bool" where
  "recommend_user_event s ev \<longleftrightarrow>
     (case ev of
        Rv_user_changed _ \<Rightarrow> False
      | Choose_formality v \<Rightarrow> v \<noteq> rv_formality s
      | Choose_warmth v \<Rightarrow> v \<noteq> rv_warmth s
      | Choose_extras v \<Rightarrow>
          v = toggled Rain (rv_extras s) \<or> v = toggled Walking (rv_extras s)
          \<or> v = toggled Packed_too (rv_extras s)
      | _ \<Rightarrow> True)"

lemma toggled_some: "(\<exists>x. v = toggled x extras) \<longleftrightarrow>
    v = toggled Rain extras \<or> v = toggled Walking extras \<or> v = toggled Packed_too extras"
  by (metis extra.exhaust)

lemma recommend_screen_offers:
  "raises (recommend_screen initialScene s) ev \<longleftrightarrow>
     recommend_user_event s ev \<and> recommend_dispatch initialScene s ev \<noteq> None"
  by (cases ev)
     (auto simp: raises_recommend_screen raises_outcome recommend_user_event_def recommend_dispatch_def
       toggled_some split: recommend_page_kind.splits if_splits)

end
