(* ===== verification/Fitting_Room_Screen.thy ===== *)
theory Fitting_Room_Screen
  imports Fitting_Room_View Look_Draft Screen
begin

text \<open>
  What the fitting room shows (\<^verbatim>\<open>fitting-room-view.tsx\<close>), with the picker of garments
  (\<^verbatim>\<open>garment-picker.tsx\<close>, \<^verbatim>\<open>garment-options.tsx\<close>) and the photo dialog
  (\<^verbatim>\<open>person-photo-dialog.tsx\<close>). While a dialog or the sheet is open only its own controls react; in
  every reachable state at most one is open. The events of the controls are the ones that
  \<open>room_step\<close> admits and that change something.

  The preview of a person appears as its picture, the comparison of the result as its two pictures;
  \<open>Look_Screen\<close> has the state and the controls of both, and the dialog that saves a look.

  \<open>url n\<close> is the text of the object URL \<open>n\<close>, \<open>draft\<close> the look in the local storage.
\<close>

type_synonym room_widget = "(person_dialog_text, room_event) widget"

subsection \<open>The garments to choose from\<close>

definition category_item :: "picker_category \<Rightarrow> string \<Rightarrow> picker_category \<Rightarrow> room_widget" where
  "category_item current label c =
     (if c = current then Inert [T label] False else Toggle [T label] False False (Pick_category c))"

definition garment_item :: "garment_option \<Rightarrow> garment_option \<Rightarrow> room_widget" where
  "garment_item selected item =
     (let chosen = (pg_id selected = pg_id item);
          label = [V (pg_name item)] @ (if chosen then [T ''chosen''] else []) @ [V (pg_category_label item)]
      in Group
        [if chosen then Inert label False else Toggle label False False (Pick_item item),
         Picture [] (Some (js (pg_image item)))])"

definition garment_options_screen ::
  "garment_option list \<Rightarrow> garment_option \<Rightarrow> picker_category \<Rightarrow> jstring \<Rightarrow> bool \<Rightarrow> room_widget list" where
  "garment_options_screen items selected category query showAllCategory =
     (let visible = visibleItems category query items in
      [Input [T ''search the sample wardrobe''] query False Set_query]
      @ only_if showAllCategory [category_item category ''all'' All_categories]
      @ [category_item category ''tops'' (Only Top), category_item category ''bottoms'' (Only Bottom)]
      @ (if visible \<noteq> [] then map (garment_item selected) visible
         else [Text [T ''no such garment''], Text [T ''try a name or a colour; the choice is kept''],
               Button [T ''clear the search''] False (Set_query [])]))"

definition picker_screen :: "room_state \<Rightarrow> room_widget list" where
  "picker_screen s =
     (let selected = fr_selected s;
          part = (if go_category selected = Top then ''the top'' else ''the bottom'')
      in [Text [T ''change one piece''], Text [T ''sample wardrobe'']]
         @ garment_options_screen fittingRoomGarments selected (picker_category s) (pk_query s) False
         @ [Text [T ''the other garments stay'']]
         @ concat (map (\<lambda>item.
             [Picture (pg_name item) (Some (js (pg_image item))), Text [V (pg_name item)],
              Text [T ''kept'', V (pg_category_label item)]]) (preserved_garments selected))
         @ [Text [T ''changes only'', T part],
            Toggle [T ''chosen'', V (pg_name selected), T ''change it''] True False (Picker True),
            Picture [] (Some (js (pg_image selected))),
            Button [T ''change one piece''] False (Picker True),
            Button [T ''try on'', T part] False Try_on,
            Button [T ''see the comparison''] False (To_view Result),
            Text [T ''trying on is not connected; choosing starts nothing'']])"

definition sheet_screen :: "room_state \<Rightarrow> room_widget list" where
  "sheet_screen s =
     [Text [T ''which piece to change?''], Text [T ''one piece at a time'']]
     @ garment_options_screen fittingRoomGarments (fr_selected s) (picker_category s) (pk_query s) True
     @ [Button [T ''back''] False (Picker False), Button [T ''use this garment''] False (Picker False),
        Link [T ''manage my wardrobe''] (js ''/wardrobe'')]"

subsection \<open>The photo dialog\<close>

definition photo_dialog_screen :: "(nat \<Rightarrow> jstring) \<Rightarrow> room_state \<Rightarrow> room_widget list" where
  "photo_dialog_screen url s =
     [Text [T ''add your own figure''], Text [T ''one clear full-length photo''],
      (case pd_preview s of
         Some u \<Rightarrow> Picture (js ''the photo to confirm'') (Some (url u))
       | None \<Rightarrow> Picture (js ''sample of a full-length photo'') (Some (js (li_src look_before)))),
      Upload [T ''choose a full-length photo''] False (\<lambda>photo. Choose_photo (Some photo)),
      Text [T ''JPG, PNG or WebP, at most 10 MB'']]
     @ (case pd_error s of None \<Rightarrow> [] | Some x \<Rightarrow> [Notice [E x] []])
     @ [Text [T ''the photo stays on this page''],
        Button [T (if pd_checking s then ''checking the photo'' else ''use this photo'')]
          (pd_file s = None \<or> pd_checking s) Use_photo,
        Button [T ''close''] False (Photo_dialog False)]"

subsection \<open>The room and the result\<close>

definition looks_aside :: "(nat \<Rightarrow> jstring) \<Rightarrow> look_draft option \<Rightarrow> room_state \<Rightarrow> room_widget list" where
  "looks_aside url draft s =
     [Text [T ''your looks'', N (if fr_photo s \<noteq> None then 1 else 2)],
      Inert [T ''original'', T (if fr_photo s \<noteq> None then ''my outfit'' else ''easy commute'')] False,
      Picture (js ''original'') (Some (case fr_photo s of Some u \<Rightarrow> url u | None \<Rightarrow> js (li_src look_before)))]
     @ only_if (fr_photo s = None)
         [Toggle [V (case draft of Some d \<Rightarrow> ld_name d | None \<Rightarrow> default_look_name), T ''sample'']
            False False (To_view Result),
          Picture (js ''sample'') (Some (js (li_src look_after)))]
     @ [Button [T ''new outfit''] False Reset_room, Link [T ''saved looks''] (js ''/looks'')]"

definition person_section :: "(nat \<Rightarrow> jstring) \<Rightarrow> room_state \<Rightarrow> room_widget list" where
  "person_section url s =
     [Text [T (if fr_photo s \<noteq> None then ''my figure, on this page only'' else ''look 01, easy commute'')],
      Text [T ''wear something new today''],
      Button [T ''change the photo''] False (Photo_dialog True),
      (case fr_photo s of
         Some u \<Rightarrow> Picture (js ''my full-length photo'') (Some (url u))
       | None \<Rightarrow> Picture (js ''sample figure in the original outfit'') (Some (js (li_src look_before)))),
      Inert [T ''look around (to come)''] False,
      Inert [T ''original''] False,
      Toggle [T ''comparison''] False False (To_view Result)]
     @ only_if (fr_photo s \<noteq> None) [Button [T ''back to the sample figure''] False Reset_room]"

definition result_screen :: "look_draft option \<Rightarrow> room_widget list" where
  "result_screen draft =
     [Text [T ''a new outfit, still you''],
      Text [T ''prepared pictures of a whole outfit, not of the piece chosen''],
      Picture (li_alt look_before) (Some (js (li_src look_before))),
      Picture (li_alt look_after) (Some (js (li_src look_after))),
      Text [V (case draft of Some d \<Rightarrow> ld_name d | None \<Rightarrow> default_look_name)],
      Picture (pg_name (hd fittingRoomGarments)) (Some (js (pg_image (hd fittingRoomGarments)))),
      Text [T ''saving a look does not count as wear''],
      Inert [T (if draft \<noteq> None then ''edit the saved draft'' else ''save this sample'')] False,
      Button [T ''choose garments again''] False (To_view Room),
      Link [T ''saved looks''] (js ''/looks''), Link [T ''record wear''] (js ''/wear''),
      Inert [T ''look around''] False]"

definition unavailable_screen :: "room_state \<Rightarrow> room_widget list" where
  "unavailable_screen s =
     [Text [T ''trying on is not connected''],
      Text ((if fr_photo s \<noteq> None then [T ''your photo stays here''] else [])
        @ [T ''kept'', V (pg_name (fr_selected s)), T ''nothing has been submitted'']),
      Button [T ''back''] False Close_unavailable,
      Button [T ''see the comparison''] False Unavailable_to_result]"

definition room_screen :: "(nat \<Rightarrow> jstring) \<Rightarrow> look_draft option \<Rightarrow> room_state \<Rightarrow> room_widget" where
  "room_screen url draft s =
     Group
      (if pd_open s then photo_dialog_screen url s
       else if fr_unavailable s then unavailable_screen s
       else if pk_choosing s then sheet_screen s
       else if fr_view s = Room
       then looks_aside url draft s @ person_section url s @ picker_screen s
       else result_screen draft)"

subsection \<open>At most one dialog\<close>

definition one_modal :: "room_state \<Rightarrow> bool" where
  "one_modal s \<longleftrightarrow>
     (pd_open s \<longrightarrow> fr_view s = Room \<and> \<not> fr_unavailable s \<and> \<not> pk_choosing s)
     \<and> (fr_unavailable s \<longrightarrow> fr_view s = Room \<and> \<not> pk_choosing s)
     \<and> (pk_choosing s \<longrightarrow> fr_view s = Room)"

lemma one_modal_fields:
  "fr_view t = fr_view s \<Longrightarrow> pd_open t = pd_open s \<Longrightarrow> fr_unavailable t = fr_unavailable s \<Longrightarrow>
     pk_choosing t = pk_choosing s \<Longrightarrow> one_modal s \<Longrightarrow> one_modal t"
  by (simp add: one_modal_def)

lemma modal_fields [simp]:
  "pk_choosing (set_preview x s) = pk_choosing s" "pk_choosing (set_photo x s) = pk_choosing s"
  "pk_choosing (next_sequence s) = pk_choosing s"
  "fr_view (revoke x s) = fr_view s" "pd_open (revoke x s) = pd_open s"
  "fr_unavailable (revoke x s) = fr_unavailable s" "pk_choosing (revoke x s) = pk_choosing s"
  by (simp_all add: set_preview_def set_photo_def next_sequence_def revoke_def split: option.split)

lemma decode_done_modal: "one_modal s \<Longrightarrow> one_modal (decode_done ok d s)"
  by (rule one_modal_fields) (simp_all add: decode_done_def in_dialog_def Let_def)

lemma choosePhoto_modal: "one_modal s \<Longrightarrow> one_modal (choosePhoto f s)"
  by (rule one_modal_fields) (simp_all add: choosePhoto_def create_url_def Let_def split: option.split)

lemma use_photo_modal: "one_modal s \<Longrightarrow> pd_open s \<Longrightarrow> one_modal (use_photo s)"
  by (auto simp: one_modal_def use_photo_def ownPhoto_def create_url_def navigate_def Let_def
      split: option.split)

lemma picked_modal:
  "one_modal s \<Longrightarrow> one_modal (changeCategory c s)" "one_modal s \<Longrightarrow> one_modal (select_garment i s)"
  "one_modal s \<Longrightarrow> one_modal (reset_room s)" "one_modal s \<Longrightarrow> one_modal (s\<lparr>pk_query := q\<rparr>)"
  by (auto simp: one_modal_def changeCategory_def select_garment_def reset_room_def Let_def split: option.split)

lemma navigate_modal: "\<not> modal s \<Longrightarrow> one_modal (navigate v s)"
  by (simp add: modal_def one_modal_def navigate_def fresh_room_def)

interpretation modals: step_invariant room_step room_init one_modal
proof
  show "one_modal room_init" by (simp add: one_modal_def room_init_def)
next
  fix s ev t
  assume m: "one_modal s" and st: "room_step ev s = Some t"
  show "one_modal t"
  proof (cases ev)
    case (Decoded n ok)
    have "one_modal (s\<lparr>fr_decoding := ds\<rparr>)" for ds using m by (simp add: one_modal_def)
    then show ?thesis using st Decoded
      by (auto simp: room_step_def split: if_splits intro: decode_done_modal)
  next
    case (Photo_dialog b)
    then show ?thesis using m st
      by (auto simp: room_step_def modal_def one_modal_def photo_dialog_change_def Let_def split: if_splits)
  next
    case (Picker b)
    with st have "fr_view s = Room" "t = picker_change b s" "b \<longrightarrow> \<not> modal s"
      by (simp_all add: room_step_def split: if_splits)
    then show ?thesis using m
      by (cases b) (simp_all add: one_modal_def modal_def picker_change_def)
  next
    case Unavailable_to_result
    then have "fr_unavailable s" and t: "t = navigate Result (s\<lparr>fr_unavailable := False\<rparr>)"
      using st by (auto simp: room_step_def split: if_splits)
    then show ?thesis
      unfolding t using m by (intro navigate_modal) (auto simp: modal_def one_modal_def)
  next
    case Close_unavailable
    then show ?thesis using m st by (auto simp: room_step_def one_modal_def split: if_splits)
  next
    case Try_on
    then show ?thesis using m st by (auto simp: room_step_def one_modal_def modal_def split: if_splits)
  qed (use m st in \<open>auto simp: room_step_def split: if_splits
        intro: choosePhoto_modal use_photo_modal picked_modal navigate_modal\<close>)
qed

subsection \<open>The events of the controls\<close>

lemma raises_category_item:
  "raises (category_item current label c) ev \<longleftrightarrow> c \<noteq> current \<and> ev = Pick_category c"
  by (simp add: category_item_def)

lemma raises_garment_item:
  "raises (garment_item selected item) ev \<longleftrightarrow> pg_id item \<noteq> pg_id selected \<and> ev = Pick_item item"
  by (auto simp: garment_item_def Let_def)

lemma raises_garment_options:
  "any_raises (garment_options_screen items selected category query further) ev \<longleftrightarrow>
     (\<exists>v. ev = Set_query v)
     \<or> (\<exists>c. (c = Only Top \<or> c = Only Bottom \<or> c = All_categories \<and> further)
            \<and> c \<noteq> category \<and> ev = Pick_category c)
     \<or> (\<exists>item\<in>set (visibleItems category query items). pg_id item \<noteq> pg_id selected \<and> ev = Pick_item item)"
  by (auto simp: garment_options_screen_def Let_def raises_category_item raises_garment_item)

definition room_user_event :: "room_state \<Rightarrow> room_event \<Rightarrow> bool" where
  "room_user_event s ev \<longleftrightarrow>
     (case ev of
        Decoded _ _ \<Rightarrow> False
      | Choose_photo file \<Rightarrow> file \<noteq> None
      | To_view v \<Rightarrow> v \<noteq> fr_view s
      | Pick_category c \<Rightarrow> c \<noteq> picker_category s
      | Pick_item item \<Rightarrow> pg_id item \<noteq> pg_id (fr_selected s)
      | _ \<Rightarrow> True)"

lemma raises_photo_dialog:
  "any_raises (photo_dialog_screen url s) ev \<longleftrightarrow>
     (\<exists>photo. ev = Choose_photo (Some photo)) \<or> ev = Photo_dialog False
     \<or> pd_file s \<noteq> None \<and> \<not> pd_checking s \<and> ev = Use_photo"
  by (auto simp: photo_dialog_screen_def split: option.splits)

lemma raises_picker:
  "any_raises (picker_screen s) ev \<longleftrightarrow>
     any_raises (garment_options_screen fittingRoomGarments (fr_selected s) (picker_category s)
       (pk_query s) False) ev
     \<or> ev = Picker True \<or> ev = Try_on \<or> ev = To_view Result"
  by (auto simp: picker_screen_def Let_def)

lemma raises_aside:
  "any_raises (looks_aside url draft s) ev \<longleftrightarrow> fr_photo s = None \<and> ev = To_view Result \<or> ev = Reset_room"
  by (auto simp: looks_aside_def)

lemma raises_person:
  "any_raises (person_section url s) ev \<longleftrightarrow>
     ev = Photo_dialog True \<or> ev = To_view Result \<or> fr_photo s \<noteq> None \<and> ev = Reset_room"
  by (auto simp: person_section_def split: option.splits)

lemma raises_modal:
  "any_raises (unavailable_screen s) ev \<longleftrightarrow> ev = Close_unavailable \<or> ev = Unavailable_to_result"
  "any_raises (sheet_screen s) ev \<longleftrightarrow>
     any_raises (garment_options_screen fittingRoomGarments (fr_selected s) (picker_category s)
       (pk_query s) True) ev \<or> ev = Picker False"
  "any_raises (result_screen draft) ev \<longleftrightarrow> ev = To_view Room"
  by (auto simp: unavailable_screen_def sheet_screen_def result_screen_def)

lemma room_screen_offers:
  assumes "one_modal s"
  shows "raises (room_screen url draft s) ev \<longleftrightarrow> room_user_event s ev \<and> room_step ev s \<noteq> None"
proof -
  consider "pd_open s" "fr_view s = Room" "\<not> fr_unavailable s" "\<not> pk_choosing s"
    | "fr_unavailable s" "fr_view s = Room" "\<not> pd_open s" "\<not> pk_choosing s"
    | "pk_choosing s" "fr_view s = Room" "\<not> pd_open s" "\<not> fr_unavailable s"
    | "fr_view s = Room" "\<not> modal s" | "fr_view s = Result" "\<not> modal s"
    using assms unfolding one_modal_def modal_def by (cases "fr_view s") blast+
  then show ?thesis
  proof cases
    case 1
    then show ?thesis
      by (cases ev) (auto simp: room_screen_def raises_photo_dialog room_user_event_def room_step_def modal_def)
  next
    case 2
    then show ?thesis
      by (cases ev) (auto simp: room_screen_def raises_modal room_user_event_def room_step_def modal_def)
  next
    case 3
    then show ?thesis
      by (cases ev) (auto simp: room_screen_def raises_modal raises_garment_options room_user_event_def
          room_step_def modal_def category_shown_def)
  next
    case 4
    then show ?thesis
      by (cases ev) (auto simp: room_screen_def raises_aside raises_person raises_picker raises_garment_options
          room_user_event_def room_step_def modal_def category_shown_def intro: room_view.exhaust)
  next
    case 5
    then show ?thesis
      by (cases ev) (auto simp: room_screen_def raises_modal room_user_event_def room_step_def modal_def
          intro: room_view.exhaust)
  qed
qed

end
