(* ===== verification/Look_Screen.thy ===== *)
theory Look_Screen
  imports Look_Draft Screen
begin

text \<open>
  The small components around looks and pictures: the preview of a person with its retry
  (\<^verbatim>\<open>person-preview.tsx\<close>), the comparison of two pictures (\<^verbatim>\<open>look-comparison.tsx\<close>), what the dialog
  that saves a look shows (\<^verbatim>\<open>save-look-dialog.tsx\<close>), and the two pages of the saved look
  (\<^verbatim>\<open>look-collection-view.tsx\<close>, \<^verbatim>\<open>look-detail-view.tsx\<close>) with their parts.
\<close>

subsection \<open>The preview of a person\<close>

text \<open>
  \<open>pp_attempt\<close> is the key of the picture element: another attempt is another element. What the
  browser reports of an element that is no longer there, it does not report.
\<close>

datatype preview_status = Preview_loading | Preview_ready | Preview_error

record person_preview =
  pp_status :: preview_status
  pp_attempt :: nat

datatype preview_event = Picture_loaded | Picture_failed | Load_again

definition preview_init :: person_preview where
  "preview_init = \<lparr>pp_status = Preview_loading, pp_attempt = 0\<rparr>"

definition preview_step :: "preview_event \<Rightarrow> person_preview \<Rightarrow> person_preview option" where
  "preview_step ev s =
     (if pp_status s = Preview_error
      then (case ev of
              Load_again \<Rightarrow> Some \<lparr>pp_status = Preview_loading, pp_attempt = pp_attempt s + 1\<rparr>
            | _ \<Rightarrow> None)
      else (case ev of
              Picture_loaded \<Rightarrow> Some (s\<lparr>pp_status := Preview_ready\<rparr>)
            | Picture_failed \<Rightarrow> Some (s\<lparr>pp_status := Preview_error\<rparr>)
            | Load_again \<Rightarrow> None))"

definition preview_screen ::
  "jstring \<Rightarrow> jstring \<Rightarrow> person_preview \<Rightarrow> (unit, preview_event) widget list" where
  "preview_screen src alt s =
     (if pp_status s = Preview_error
      then [Notice [T ''the photo could not be loaded; the choice is kept'']
             [Button [T ''load the photo again''] False Load_again]]
      else only_if (pp_status s = Preview_loading) [Status [T ''loading the photo'']]
        @ [Picture alt (Some src)])"

lemma raises_preview:
  "any_raises (preview_screen src alt s) ev \<longleftrightarrow> ev = Load_again \<and> preview_step Load_again s \<noteq> None"
  by (auto simp: preview_screen_def preview_step_def)

text \<open>
  A picture element fails at most once, each retry mounts another one: however the events are
  ordered, the attempts are the failures, less the one that is on the screen.
\<close>

definition failures :: "preview_event list \<Rightarrow> nat" where
  "failures evs = length (filter (\<lambda>ev. ev = Picture_failed) evs)"

lemma preview_counts:
  "step_run preview_step evs s = Some t \<Longrightarrow>
     pp_attempt s + failures evs + (if pp_status s = Preview_error then 1 else 0)
       = pp_attempt t + (if pp_status t = Preview_error then 1 else 0)"
proof (induction evs arbitrary: s)
  case (Cons ev evs)
  then obtain u where u: "preview_step ev s = Some u" and run: "step_run preview_step evs u = Some t"
    by (auto simp: bind_eq_Some_conv)
  have "pp_attempt u + (if pp_status u = Preview_error then 1 else 0)
      = pp_attempt s + (if pp_status s = Preview_error then 1 else 0) + failures [ev]"
    using u by (cases ev) (auto simp: preview_step_def failures_def split: if_splits)
  moreover have "failures (ev # evs) = failures [ev] + failures evs"
    by (simp add: failures_def)
  ultimately show ?case using Cons.IH [OF run] by simp
qed (simp add: failures_def)

subsection \<open>The comparison\<close>

datatype compare_mode = Side_by_side | Slider
datatype compared = Original_look | Result_look

record comparison =
  cp_mode :: compare_mode
  cp_mobile :: compared
  cp_split :: nat

datatype compare_event = Choose_mode compare_mode | Choose_image compared | Move_split nat

definition comparison_init :: comparison where
  "comparison_init = \<lparr>cp_mode = Side_by_side, cp_mobile = Result_look, cp_split = 50\<rparr>"

text \<open>The slider keeps its value within its bounds, and is there in its mode only.\<close>

definition compare_step :: "compare_event \<Rightarrow> comparison \<Rightarrow> comparison option" where
  "compare_step ev s =
     (case ev of
        Choose_mode m \<Rightarrow> Some (s\<lparr>cp_mode := m\<rparr>)
      | Choose_image v \<Rightarrow> Some (s\<lparr>cp_mobile := v\<rparr>)
      | Move_split n \<Rightarrow>
          if cp_mode s = Slider \<and> n \<le> 100 then Some (s\<lparr>cp_split := n\<rparr>) else None)"

definition compared_image :: "look_image \<Rightarrow> look_image \<Rightarrow> compared \<Rightarrow> look_image" where
  "compared_image before after v = (if v = Original_look then before else after)"

definition look_picture :: "look_image \<Rightarrow> ('e, 'ev) widget" where
  "look_picture img = Picture (li_alt img) (Some (js (li_src img)))"

definition group_item :: "'v \<Rightarrow> ('v \<Rightarrow> 'ev) \<Rightarrow> 'e caption \<Rightarrow> 'v \<Rightarrow> ('e, 'ev) widget" where
  "group_item current f label v = (if v = current then Inert label False else Toggle label False False (f v))"

definition comparison_screen ::
  "look_image \<Rightarrow> look_image \<Rightarrow> comparison \<Rightarrow> (unit, compare_event) widget list" where
  "comparison_screen before after s =
     [group_item (cp_mobile s) Choose_image [V (li_label before)] Original_look,
      group_item (cp_mobile s) Choose_image [V (li_label after)] Result_look,
      look_picture (compared_image before after (cp_mobile s))]
     @ (if cp_mode s = Side_by_side
        then concat (map (\<lambda>v.
               [Text ([V (li_label (compared_image before after v))]
                  @ (if v = Result_look then [T ''as an illustration''] else [])),
                look_picture (compared_image before after v)]) [Original_look, Result_look])
        else
          [Text [V (li_label before)], Text [V (li_label after), T ''as an illustration''],
           Picture (js ''sliding comparison: '' @ li_label after) (Some (js (li_src after))),
           Picture (js ''sliding comparison: '' @ li_label before) (Some (js (li_src before))),
           Slide [T ''drag to compare''] 0 100 (cp_split s) Move_split,
           Text [T ''drag left and right to compare'']])
     @ [group_item (cp_mode s) Choose_mode [T ''side by side''] Side_by_side,
        group_item (cp_mode s) Choose_mode [T ''sliding''] Slider]"

interpretation comparisons: step_invariant compare_step comparison_init "\<lambda>s. cp_split s \<le> 100"
  by standard (auto simp: comparison_init_def compare_step_def split: compare_event.splits if_splits)

lemma comparison_screen_offers:
  "any_raises (comparison_screen before after s) ev \<longleftrightarrow>
     ev \<noteq> Choose_mode (cp_mode s) \<and> ev \<noteq> Choose_image (cp_mobile s) \<and> compare_step ev s \<noteq> None"
proof -
  have "\<exists>m. cp_mode s = m" "\<exists>v. cp_mobile s = v" by simp_all
  then show ?thesis
    by (cases ev; cases "cp_mode s"; cases "cp_mobile s")
       (auto simp: comparison_screen_def group_item_def look_picture_def compare_step_def
         intro: compare_mode.exhaust compared.exhaust)
qed

subsection \<open>The dialog that saves a look\<close>

text \<open>
  \<open>denied\<close>, \<open>set_denied\<close> and \<open>remove_denied\<close> are what the storage of the browser will refuse; the
  trigger is the element the dialog is wrapped around.
\<close>

definition save_look_screen ::
  "bool \<Rightarrow> bool \<Rightarrow> bool \<Rightarrow> look_dialog \<Rightarrow> (look_text, look_event) widget list" where
  "save_look_screen denied set_denied remove_denied s =
     (if \<not> lk_open s then [Button [T ''save this look''] False (Look_open_change True denied)]
      else
        [Text [T ''keep this look for the next time''], Text [T ''saves a sample draft; does not count as wear''],
         Picture (js ''the sample look to save'') (Some (js (li_src look_after))),
         Limited [T ''name''] 40 (lk_name s) False Set_look_name]
        @ (case lk_error s of None \<Rightarrow> [] | Some x \<Rightarrow> [Notice [E x] []])
        @ [Limited [T ''occasion''] 60 (lk_scene s) False Set_look_scene,
           Text [T ''kept in this browser only''],
           Button [T ''save the sample draft''] False (Submit_look set_denied remove_denied),
           Button [T ''close''] False (Look_open_change False denied)])"

definition look_user_event :: "look_dialog \<Rightarrow> look_event \<Rightarrow> bool" where
  "look_user_event s ev \<longleftrightarrow>
     (case ev of Other_tab _ \<Rightarrow> False | Look_open_change value _ \<Rightarrow> value \<noteq> lk_open s | _ \<Rightarrow> True)"

lemma save_look_screen_offers:
  "(\<exists>denied set_denied remove_denied. any_raises (save_look_screen denied set_denied remove_denied s) ev)
     \<longleftrightarrow> look_user_event s ev \<and> look_step ev s \<noteq> None"
  by (cases ev) (auto simp: save_look_screen_def look_user_event_def look_step_def split: option.splits)

subsection \<open>The pages of the saved look\<close>

definition look_empty_state :: "('e, 'ev) widget list" where
  "look_empty_state =
     [Text [T ''keep the outfits you like''], Text [T ''nothing saved yet; look at the fitting room first''],
      Link [T ''to the fitting room''] (js ''/'')]"

definition look_follow_up :: "('e, 'ev) widget list" where
  "look_follow_up =
     [Notice [T ''saved does not mean worn''] [Text [T ''kept here only; record what was worn with your own garments'']],
      Link [T ''record wear''] (js ''/wear''), Link [T ''see the plans''] (js ''/plans'')]"

definition look_card :: "look_summary \<Rightarrow> ('e, 'ev) widget list" where
  "look_card look =
     [look_picture (ls_image look), Text [V (ld_name look)],
      Text [if ld_scene look \<noteq> [] then V (ld_scene look) else T ''no occasion given'', V (ls_source_label look)],
      Link [T ''see this look''] (js (ls_href look))]"

definition look_collection_screen :: "look_draft option \<Rightarrow> ('e, 'ev) widget" where
  "look_collection_screen draft =
     Group
      ([Text [T ''saved looks''], Text [T ''saved is a look, recorded is worn''],
        Link [T ''try on something new''] (js ''/'')]
       @ (case draft of Some d \<Rightarrow> look_card (sampleLookFromDraft d) | None \<Rightarrow> look_empty_state)
       @ [Text [T ''old clothes, new possibilities''], Text [T ''begin with what you own''],
          Link [T ''enter the fitting room''] (js ''/'')]
       @ look_follow_up)"

definition look_detail_screen :: "look_draft option \<Rightarrow> ('e, 'ev) widget" where
  "look_detail_screen draft =
     (let look = map_option sampleLookFromDraft draft in
      Group
       ([Text [case look of Some l \<Rightarrow> if ld_name l \<noteq> [] then V (ld_name l) else T ''look''
                | None \<Rightarrow> T ''look''],
         Text [T ''sample draft, kept in this browser''], Link [T ''back to the saved looks''] (js ''/looks'')]
        @ (case look of Some l \<Rightarrow> [look_picture (ls_image l)] | None \<Rightarrow> look_empty_state)
        @ [Text [T ''wear again what you like''],
           Text [case look of
               Some l \<Rightarrow> if ld_scene l \<noteq> [] then V (ld_scene l) else T ''name the look to find it again''
             | None \<Rightarrow> T ''name the look to find it again'']]
        @ only_if (look \<noteq> None) [Inert [T ''edit the saved look''] False]
        @ [Link [T ''choose garments''] (js ''/'')]
        @ look_follow_up))"

end
