(* ===== verification/Site_Shell.thy ===== *)
theory Site_Shell
  imports Screen Api_Client
begin

text \<open>
  The frame around the pages: the links of the navigation (\<^verbatim>\<open>layout/site-links.ts\<close>,
  \<^verbatim>\<open>layout/site-navigation.tsx\<close>), header and footer, the layouts, and the pages for an error and for
  an unknown address (\<^verbatim>\<open>app/error.tsx\<close>, \<^verbatim>\<open>app/not-found.tsx\<close>).
\<close>

subsection \<open>Links\<close>

record site_link =
  sl_href :: string
  sl_label :: string

definition siteLinks :: "site_link list" where
  "siteLinks =
     [\<lparr>sl_href = ''/'', sl_label = ''fitting room''\<rparr>, \<lparr>sl_href = ''/wardrobe'', sl_label = ''wardrobe''\<rparr>,
      \<lparr>sl_href = ''/looks'', sl_label = ''looks''\<rparr>, \<lparr>sl_href = ''/wear'', sl_label = ''records''\<rparr>]"

definition headerLinks :: "site_link list" where
  "headerLinks = siteLinks @ [\<lparr>sl_href = ''/account'', sl_label = ''mine''\<rparr>]"

definition isSiteLinkCurrent :: "string \<Rightarrow> jstring \<Rightarrow> bool" where
  "isSiteLinkCurrent href pathname \<longleftrightarrow>
     (if href = ''/'' then pathname = js ''/''
      else if href = ''/account''
      then pathname \<in> set [js ''/account'', js ''/login'', js ''/register'']
      else pathname = js href)"

subsection \<open>Navigation\<close>

definition nav_item :: "jstring \<Rightarrow> site_link \<Rightarrow> ('e, 'ev) widget" where
  "nav_item pathname link =
     Group (Link [T (sl_label link)] (js (sl_href link))
       # only_if (isSiteLinkCurrent (sl_href link) pathname) [Text [T ''current page'']])"

definition desktop_navigation :: "jstring \<Rightarrow> ('e, 'ev) widget list" where
  "desktop_navigation pathname = map (nav_item pathname) headerLinks"

text \<open>The menu of small screens; \<open>menu\<close> is whether its sheet, which keeps its own state, is open.\<close>

definition mobile_navigation :: "bool \<Rightarrow> jstring \<Rightarrow> ('e, 'ev) widget list" where
  "mobile_navigation menu pathname =
     Inert [T ''open the menu''] False
     # only_if menu
         ([Text [T ''Yixu''], Text [T ''choose a page''], Inert [T ''close the menu''] False]
          @ map (nav_item pathname) headerLinks)"

subsection \<open>Frame\<close>

definition brand_link :: "('e, 'ev) widget list" where
  "brand_link = [Link [T ''WEARLOG''] (js ''/''), Picture [] (Some (js ''/brand/wearlog-symbol.svg''))]"

definition site_header :: "bool \<Rightarrow> jstring \<Rightarrow> ('e, 'ev) widget list" where
  "site_header menu pathname = brand_link @ desktop_navigation pathname @ mobile_navigation menu pathname"

definition site_footer :: "('e, 'ev) widget list" where
  "site_footer = [Link [T ''WEARLOG''] (js ''/''), Text [T ''choose, try on, then decide'']]"

definition site_layout :: "bool \<Rightarrow> jstring \<Rightarrow> ('e, 'ev) widget \<Rightarrow> ('e, 'ev) widget" where
  "site_layout menu pathname children = Group (site_header menu pathname @ [children] @ site_footer)"

definition auth_layout :: "('e, 'ev) widget \<Rightarrow> ('e, 'ev) widget" where
  "auth_layout children = Group (brand_link @ [children, Link [T ''back to the start''] (js ''/'')])"

text \<open>The frame adds no event to a page.\<close>

lemma raises_nav [simp]: "\<not> raises (nav_item pathname link) ev"
  by (simp add: nav_item_def)

lemma raises_layout [simp]:
  "raises (site_layout menu pathname children) ev \<longleftrightarrow> raises children ev"
  "raises (auth_layout children) ev \<longleftrightarrow> raises children ev"
  by (simp_all add: site_layout_def site_header_def desktop_navigation_def mobile_navigation_def site_footer_def
      brand_link_def auth_layout_def)

subsection \<open>The page for an error\<close>

text \<open>
  \<open>isPending\<close> of the transition: set by the button, cleared by React when the page has been
  rendered again.
\<close>

datatype error_page_event = Retry_page | Transition_done

definition error_page_step :: "error_page_event \<Rightarrow> bool \<Rightarrow> bool option" where
  "error_page_step ev busy =
     (case ev of
        Retry_page \<Rightarrow> if busy then None else Some True
      | Transition_done \<Rightarrow> if busy then Some False else None)"

definition error_page :: "bool \<Rightarrow> jstring \<Rightarrow> bool \<Rightarrow> (unit, error_page_event) widget" where
  "error_page menu pathname busy =
     site_layout menu pathname (Group
       [Text [T ''the page cannot be shown''], Text [T ''try again, or go back to the start''],
        Button [T (if busy then ''trying again'' else ''try again'')] busy Retry_page,
        Link [T ''back to the start''] (js ''/'')])"

lemma error_page_offers: "raises (error_page menu pathname busy) ev \<longleftrightarrow> ev = Retry_page \<and> error_page_step ev busy \<noteq> None"
  by (auto simp: error_page_def error_page_step_def)

definition not_found_page :: "bool \<Rightarrow> jstring \<Rightarrow> ('e, 'ev) widget" where
  "not_found_page menu pathname =
     site_layout menu pathname (Group
       [Text [T ''no such page''], Text [T ''the link may be outdated''],
        Link [T ''back to the start''] (js ''/'')])"

subsection \<open>Links of a screen\<close>

fun links :: "('e, 'ev) widget \<Rightarrow> jstring list" where
  "links (Link t href) = [href]"
| "links (Notice t ws) = concat (map links ws)"
| "links (Group ws) = concat (map links ws)"
| "links _ = []"

text \<open>The pages under \<^verbatim>\<open>app\<close>, by the directories their files are in; a query follows the path.\<close>

datatype app_page =
    Fitting_room_page | Looks_page | Sample_look_page | Plans_page | Recommend_page | Wardrobe_page
  | Wear_page | Account_page | Login_page | Register_page

definition page_at :: "jstring \<Rightarrow> app_page option" where
  "page_at path =
     map_of
       [(js ''/'', Fitting_room_page), (js ''/looks'', Looks_page), (js ''/looks/sample'', Sample_look_page),
        (js ''/plans'', Plans_page), (js ''/recommend'', Recommend_page), (js ''/wardrobe'', Wardrobe_page),
        (js ''/wear'', Wear_page), (js ''/account'', Account_page), (js ''/login'', Login_page),
        (js ''/register'', Register_page)] path"

definition path_of :: "jstring \<Rightarrow> jstring" where
  "path_of href = takeWhile (\<lambda>u. u \<noteq> 0x3F) href"

definition query_of :: "jstring \<Rightarrow> jstring" where
  "query_of href = drop (Suc (length (path_of href))) href"

text \<open>A path that is no page is handed on to the service when \<open>proxied\<close> holds of it.\<close>

definition leads_somewhere :: "jstring \<Rightarrow> bool" where
  "leads_somewhere href \<longleftrightarrow> page_at (path_of href) \<noteq> None \<or> proxied (path_of href)"

text \<open>
  What all links are shown to be: alive, and not leading to the page of recommendations. The
  predicate is proved once for each part of a screen.
\<close>

definition leads_on :: "jstring \<Rightarrow> bool" where
  "leads_on href \<longleftrightarrow> leads_somewhere href \<and> page_at (path_of href) \<noteq> Some Recommend_page"

definition no_dead_link :: "('e, 'ev) widget \<Rightarrow> bool" where
  "no_dead_link w \<longleftrightarrow> list_all leads_on (links w)"

definition no_dead_links :: "('e, 'ev) widget list \<Rightarrow> bool" where
  "no_dead_links ws \<longleftrightarrow> list_all no_dead_link ws"

text \<open>The pages that the links of a screen lead to.\<close>

definition targets :: "('e, 'ev) widget \<Rightarrow> app_page set" where
  "targets w = set (List.map_filter (\<lambda>href. page_at (path_of href)) (links w))"

lemma no_dead_link_simps [simp]:
  "no_dead_link (Link t href) \<longleftrightarrow> leads_on href"
  "no_dead_link (Notice t ws) \<longleftrightarrow> no_dead_links ws" "no_dead_link (Group ws) \<longleftrightarrow> no_dead_links ws"
  "no_dead_link (Text t)" "no_dead_link (Status t)" "no_dead_link (Picture n src)"
  "no_dead_link (Button t d x)" "no_dead_link (Toggle t p d x)" "no_dead_link (Inert t d)"
  "no_dead_link (Submit t d f)" "no_dead_link (Input t v d g)" "no_dead_link (Limited t mx v d g)"
  "no_dead_link (Slide t lo hi pos k)" "no_dead_link (Number t q d h)" "no_dead_link (Check t c d f)"
  "no_dead_link (Upload t d up)" "no_dead_link (Select t d opts)"
  by (auto simp: no_dead_link_def no_dead_links_def list_all_iff)

lemma no_dead_links_simps [simp]:
  "no_dead_links []" "no_dead_links (w # ws) \<longleftrightarrow> no_dead_link w \<and> no_dead_links ws"
  "no_dead_links (ws @ vs) \<longleftrightarrow> no_dead_links ws \<and> no_dead_links vs"
  "no_dead_links (only_if b ws) \<longleftrightarrow> (b \<longrightarrow> no_dead_links ws)"
  "no_dead_links (map f xs) \<longleftrightarrow> (\<forall>x\<in>set xs. no_dead_link (f x))"
  "no_dead_links (concat wss) \<longleftrightarrow> (\<forall>ws\<in>set wss. no_dead_links ws)"
  by (auto simp: no_dead_links_def only_if_def list_all_iff)

lemma no_dead_link_item_picture [simp]: "no_dead_link (item_picture item)"
  by (simp add: item_picture_def)

text \<open>The link to an original, whatever its id: the first segment of the path decides.\<close>

lemma media_link: "leads_on (js ''/media/'' @ i @ js ''/wardrobe-original'')"
proof -
  obtain x where p: "path_of (js ''/media/'' @ i @ js ''/wardrobe-original'') = js ''/media/'' @ x"
    by (simp add: path_of_def)
  have "proxied (js ''/media/'' @ x)" by (simp add: proxied_def slash_def apiRoots_def)
  moreover have "page_at (js ''/media/'' @ x) = None" by (simp add: page_at_def)
  ultimately show ?thesis unfolding leads_on_def leads_somewhere_def p by simp
qed

lemmas media_links = media_link [simplified]

lemma no_dead_link_targets:
  assumes "no_dead_link w"
  shows "list_all leads_somewhere (links w)" and "Recommend_page \<notin> targets w"
  using assms by (auto simp: no_dead_link_def leads_on_def targets_def list_all_iff map_filter_def)

lemmas resolve = leads_on_def leads_somewhere_def page_at_def path_of_def

lemma wear_plan_path: "path_of (js ''/wear?plan='' @ i) = js ''/wear''" "query_of (js ''/wear?plan='' @ i) = js ''plan='' @ i"
  by (simp_all add: query_of_def path_of_def)

end
