(* ===== verification/Screen_Properties.thy ===== *)
theory Screen_Properties
  imports Plan_Screen Wear_Screen Wardrobe_Screen Account_Screen Recommendation_Screen
    Fitting_Room_Screen Look_Screen Site_Shell Demo_Data
begin

text \<open>
  What holds of the screens together: the navigation, the links, and the way from a plan to the
  record of its wear.
\<close>

subsection \<open>Links\<close>

lemma error_links [simp]: "no_dead_links (field_error x)" "no_dead_links (operation_error y)"
  by (simp_all add: field_error_def operation_error_def split: option.split)

lemma notice_links [simp]: "no_dead_links (case x of None \<Rightarrow> [] | Some y \<Rightarrow> [Notice (t y) [Text (u y)]])"
  "no_dead_links (case x of None \<Rightarrow> [] | Some y \<Rightarrow> [Notice (t y) []])"
  by (simp_all split: option.split)

lemma statistics_links [simp]: "no_dead_links (statistics_screen retry enabled year stats)"
  by (simp add: statistics_screen_def case_prod_unfold split: option.split)

lemma slot_links [simp]: "no_dead_links (preview_slot selected pending slot)"
  by (simp add: preview_slot_def Let_def)

lemma choice_links [simp]: "no_dead_link (garment_choice form items pending item)"
  by (simp add: garment_choice_def Let_def)

lemma flatlay_links [simp]: "no_dead_links (flatlay_screen lower category search form items pending)"
  by (simp add: flatlay_screen_def resolve Let_def)

lemma plan_form_links [simp]:
  "no_dead_links (plan_form_screen lower category search form editing pending error items loading further)"
  by (simp add: plan_form_parts unavailable_check_def Let_def)

lemma plan_entry_links [simp]: "no_dead_link (plan_entry e pending items plan)"
  by (simp add: plan_entry_def entry_pictures_def resolve Let_def split: option.split)

lemma plan_links: "no_dead_link (plan_screen e lower s)"
  by (simp add: plan_screen_def plan_content_screen_def plan_list_screen_def plan_confirmation_screen_def
      split: option.split)

lemma wear_links: "no_dead_link (wear_screen year s)"
  by (simp add: wear_screen_def wear_content_screen_def wear_confirmation_screen_def wear_list_screen_def
      wear_editor_screen_def wear_form_parts source_plan_field_def completeness_select_def source_select_def
      worn_item_def duplicate_screen_def unreadable_def wear_entry_def Let_def split: option.split)

lemma photo_editor_links:
  "no_dead_links (photo_editor_screen form pending editor)"
  by (simp add: photo_editor_screen_def photo_tools_def photo_preview_def crop_fields_def sample_select_def Let_def
      media_links
      split: option.split)

lemma item_form_links:
  "no_dead_links (item_form_screen form editing pending photo_busy error editor)"
  by (simp add: item_form_screen_def photo_editor_links attribute_fields_def attribute_select_def Let_def
      split: option.split)

lemma wardrobe_links: "no_dead_link (wardrobe_screen lower year s)"
  by (simp add: wardrobe_screen_def wardrobe_content_screen_def wardrobe_list_screen_def wardrobe_toolbar_def
      filter_fields_def item_card_def deletion_screen_def item_form_links resolve Let_def split: option.split)

lemma account_links: "no_dead_link (account_screen long_date asked s)" "no_dead_link (auth_screen mode t)"
  by (simp_all add: account_screen_def deletion_accepted_screen_def account_layout_def profile_screen_def session_screen_def
      auth_screen_def auth_form_screen_def resolve Let_def split: option.split)

lemma recommend_links: "no_dead_link (recommend_screen initialScene s)"
  by (simp add: recommend_screen_def recommend_content_screen_def constraints_screen_def single_group_def
      extras_group_def outcome_screen_def candidate_card_def resolve Let_def case_prod_unfold split: option.split)

lemma room_links: "no_dead_link (room_screen url draft s)"
  by (simp add: room_screen_def photo_dialog_screen_def unavailable_screen_def sheet_screen_def looks_aside_def
      person_section_def picker_screen_def result_screen_def garment_options_screen_def category_item_def
      garment_item_def resolve Let_def split: option.split)

lemma look_links: "no_dead_link (look_collection_screen draft)" "no_dead_link (look_detail_screen draft)"
  by (simp_all add: look_collection_screen_def look_detail_screen_def look_card_def look_empty_state_def
      look_follow_up_def look_picture_def sampleLookFromDraft_def look_draft.defs resolve Let_def split: option.split)

lemma frame_links:
  "no_dead_link children \<Longrightarrow> no_dead_link (site_layout menu pathname children)"
  "no_dead_link children \<Longrightarrow> no_dead_link (auth_layout children)"
  "no_dead_link (not_found_page menu pathname)" "no_dead_link (error_page menu pathname busy)"
  by (simp_all add: site_layout_def site_header_def desktop_navigation_def mobile_navigation_def site_footer_def
      brand_link_def auth_layout_def nav_item_def headerLinks_def siteLinks_def not_found_page_def error_page_def
      resolve)


lemma all_screens:
  shows "no_dead_link (site_layout menu pathname (room_screen url draft r))"
    and "no_dead_link (site_layout menu pathname (look_collection_screen draft))"
    and "no_dead_link (site_layout menu pathname (look_detail_screen draft))"
    and "no_dead_link (site_layout menu pathname (plan_screen e lower p))"
    and "no_dead_link (site_layout menu pathname (recommend_screen initialScene c))"
    and "no_dead_link (site_layout menu pathname (wardrobe_screen lower year w))"
    and "no_dead_link (site_layout menu pathname (wear_screen year v))"
    and "no_dead_link (site_layout menu pathname (account_screen long_date asked a))"
    and "no_dead_link (auth_layout (auth_screen mode t))"
    and "no_dead_link (not_found_page menu pathname)"
    and "no_dead_link (error_page menu pathname busy)"
  by (simp_all add: frame_links look_links room_links plan_links recommend_links wardrobe_links wear_links
      account_links)

text \<open>
  C30. No link of the client is dead: in every state of every page, in its frame, each link leads to
  a page of the client or to a path that is handed on to the service.
\<close>

theorem links_lead_somewhere:
  "list_all leads_somewhere (links (site_layout menu pathname (room_screen url draft r)))
    \<and> list_all leads_somewhere (links (site_layout menu pathname (look_collection_screen draft)))
    \<and> list_all leads_somewhere (links (site_layout menu pathname (look_detail_screen draft)))
    \<and> list_all leads_somewhere (links (site_layout menu pathname (plan_screen e lower p)))
    \<and> list_all leads_somewhere (links (site_layout menu pathname (recommend_screen initialScene c)))
    \<and> list_all leads_somewhere (links (site_layout menu pathname (wardrobe_screen lower year w)))
    \<and> list_all leads_somewhere (links (site_layout menu pathname (wear_screen year v)))
    \<and> list_all leads_somewhere (links (site_layout menu pathname (account_screen long_date asked a)))
    \<and> list_all leads_somewhere (links (auth_layout (auth_screen mode t)))
    \<and> list_all leads_somewhere (links (not_found_page menu pathname))
    \<and> list_all leads_somewhere (links (error_page menu pathname busy))"
  by (intro conjI no_dead_link_targets all_screens)

text \<open>
  C31. Nothing leads to the page of recommendations: no link of any screen does, and after a login,
  a logout or a lost session the client goes to the page of the account or to the login. The link
  of that page to choose another scene leads to the fitting room, which offers no scene.
\<close>

theorem recommendations_not_linked:
  "Recommend_page \<notin> targets (site_layout menu pathname (room_screen url draft r))
    \<and> Recommend_page \<notin> targets (site_layout menu pathname (look_collection_screen draft))
    \<and> Recommend_page \<notin> targets (site_layout menu pathname (look_detail_screen draft))
    \<and> Recommend_page \<notin> targets (site_layout menu pathname (plan_screen e lower p))
    \<and> Recommend_page \<notin> targets (site_layout menu pathname (recommend_screen initialScene c))
    \<and> Recommend_page \<notin> targets (site_layout menu pathname (wardrobe_screen lower year w))
    \<and> Recommend_page \<notin> targets (site_layout menu pathname (wear_screen year v))
    \<and> Recommend_page \<notin> targets (site_layout menu pathname (account_screen long_date asked a))
    \<and> Recommend_page \<notin> targets (auth_layout (auth_screen mode t))
    \<and> Recommend_page \<notin> targets (not_found_page menu pathname)
    \<and> Recommend_page \<notin> targets (error_page menu pathname busy)"
  by (intro conjI no_dead_link_targets all_screens)

subsection \<open>Navigation\<close>

text \<open>
  The navigation marks the page a person is on, once: of the links of the header at most one is
  current, and there is one exactly on the four pages of the site and the three of the account.
\<close>

lemma navigation_marks_one:
  "length (filter (\<lambda>link. isSiteLinkCurrent (sl_href link) pathname) headerLinks) =
     (if pathname \<in> {js ''/'', js ''/wardrobe'', js ''/looks'', js ''/wear'', js ''/account'', js ''/login'',
           js ''/register''} then 1 else 0)"
  by (auto simp: headerLinks_def siteLinks_def isSiteLinkCurrent_def)

subsection \<open>From a plan to its wear\<close>

text \<open>
  The page of wear takes the plan from the search parameters (\<^verbatim>\<open>app/(site)/wear/page.tsx\<close>), which the
  framework parses: \<open>parse query key\<close>.
\<close>

definition wear_page_plan :: "(jstring \<Rightarrow> jstring option) \<Rightarrow> jstring option" where
  "wear_page_plan searchParams = searchParams (js ''plan'')"

text \<open>The characters that no parser of a query treats in a way of its own.\<close>

definition unreserved :: "jstring \<Rightarrow> bool" where
  "unreserved i \<longleftrightarrow>
     list_all (\<lambda>u. u \<in> set (js ''ABCDEFGHIJKLMNOPQRSTUVWXYZabcdefghijklmnopqrstuvwxyz0123456789-_.~'')) i"

lemma no_links [simp]: "concat (map (\<lambda>x. []) xs) = []"
  by (induction xs) simp_all

lemma entry_picture_links [simp]: "concat (map links (entry_pictures items plan)) = []"
  by (auto simp: entry_pictures_def split: option.splits)

lemma plan_entry_links_are:
  "links (plan_entry e pending items plan) =
     (if op_status plan = Plan_active \<and> plan_due e plan
      then [js ''/wear?plan='' @ op_id plan] else [])"
  by (auto simp: plan_entry_def only_if_def Let_def comp_def simp del: js_simps split: option.split)

lemma plan_entry_link:
  "href \<in> set (links (plan_entry e pending items plan)) \<longleftrightarrow>
     op_status plan = Plan_active \<and> plan_due e plan
     \<and> href = js ''/wear?plan='' @ op_id plan"
  by (cases "op_status plan = Plan_active \<and> plan_due e plan")
     (simp_all only: plan_entry_links_are if_True if_False simp_thms list.set insert_iff empty_iff, blast+)

lemma wear_mount_plan:
  assumes "has_plan (Some i)"
  shows "\<exists>k. run e (wear_mount (Some i)) s =
      (s\<lparr>wv_timer := False\<rparr>, [Issued (Call (GetOutfitPlan i))], Await (Call (GetOutfitPlan i)) k)
    \<and> (\<forall>t d plan. run d (k (Inr (R_plan plan))) t =
         (t\<lparr>wv_linked_plan := Some plan, wv_form := plan_wear_form d plan\<rparr>, [], Return ()))
    \<and> (\<forall>t d x. run d (k (Inl x)) t =
         (t\<lparr>wv_form := emptyWearForm d, wv_error := Some Wear_source_plan_unreadable\<rparr>, [], Return ()))"
  using assms by (simp add: wear_mount_def prog_simps plan_get_def)

text \<open>
  C24. From a plan to its wear: a link in the entry of a plan is there only while the plan is active
  and due, and it opens the page of wear with the editor open; that page asks the service for this
  very plan, fills the form from the answer, or with an empty form reports that the plan cannot be
  read. The hypothesis on \<open>parse\<close> is what the parser of search parameters does with
  one parameter of unreserved characters.
\<close>

theorem plan_link_opens_wear:
  assumes "\<And>i. unreserved i \<Longrightarrow> parse (js ''plan='' @ i) (js ''plan'') = Some i"
    and "unreserved (op_id plan)" and "op_id plan \<noteq> []"
    and "href \<in> set (links (plan_entry e pending items plan))"
  shows "op_status plan = Plan_active
    \<and> (\<exists>today. todayInTimeZone e (op_time_zone plan) = Inr today \<and> op_local_date plan \<le> today)
    \<and> page_at (path_of href) = Some Wear_page
    \<and> (let i = wear_page_plan (parse (query_of href)); get = Call (GetOutfitPlan (op_id plan)) in
       wv_editor_open (wear_init i)
       \<and> (\<exists>k s. run d (wear_mount i) (wear_init i) = (s, [Issued get], Await get k)
           \<and> (\<forall>t d answer. run d (k (Inr (R_plan answer))) t =
                (t\<lparr>wv_linked_plan := Some answer, wv_form := plan_wear_form d answer\<rparr>, [], Return ()))
           \<and> (\<forall>t d x. run d (k (Inl x)) t =
                (t\<lparr>wv_form := emptyWearForm d, wv_error := Some Wear_source_plan_unreadable\<rparr>, [],
                 Return ()))))"
proof -
  from assms(4) have href: "href = js ''/wear?plan='' @ op_id plan"
    and due: "op_status plan = Plan_active" "plan_due e plan"
    by (simp_all only: plan_entry_link)
  from due(2) have today: "\<exists>today. todayInTimeZone e (op_time_zone plan) = Inr today \<and> op_local_date plan \<le> today"
    by (auto simp: plan_due_def split: sum.splits)
  have plan: "wear_page_plan (parse (query_of href)) = Some (op_id plan)"
    unfolding wear_page_plan_def href wear_plan_path by (rule assms(1) [OF assms(2)])
  have path: "page_at (path_of href) = Some Wear_page"
    unfolding href wear_plan_path by (simp add: page_at_def)
  have has: "has_plan (Some (op_id plan))" using assms(3) by (simp add: has_plan_def)
  from wear_mount_plan [OF has, of d "wear_init (Some (op_id plan))"] show ?thesis
    unfolding plan Let_def using due(1) today path has by (auto simp: wear_init_def)
qed

theorem plan_link_opens_wear_witness:
  "\<exists>parse href. unreserved (op_id demo_plan) \<and> href \<in> set (links (plan_entry demo_env False [] demo_plan))
     \<and> page_at (path_of href) = Some Wear_page
     \<and> wear_page_plan (parse (query_of href)) = Some (op_id demo_plan)"
proof -
  let ?parse = "\<lambda>query key. if take 5 query = js ''plan='' \<and> key = js ''plan'' then Some (drop 5 query) else None"
  let ?href = "js ''/wear?plan='' @ op_id demo_plan"
  have id: "unreserved (op_id demo_plan)" "op_id demo_plan \<noteq> []"
    by (simp_all add: unreserved_def demo_plan_def)
  have due: "?href \<in> set (links (plan_entry demo_env False [] demo_plan))"
    unfolding plan_entry_link by (simp add: demo_plan_def demo_today plan_due_def todayInTimeZone_def demo_known)
  have law: "?parse (js ''plan='' @ i) (js ''plan'') = Some i" for i by simp
  from plan_link_opens_wear [of ?parse, OF law id due] have "page_at (path_of ?href) = Some Wear_page" by blast
  moreover have "wear_page_plan (?parse (query_of ?href)) = Some (op_id demo_plan)"
    unfolding wear_page_plan_def wear_plan_path by simp
  ultimately show ?thesis using id(1) due by (intro exI [of _ ?parse] exI [of _ ?href] conjI)
qed

end
