(* ===== verification/Screen_Guards.thy ===== *)
theory Screen_Guards
  imports Plan_Screen Wear_Screen Wardrobe_Screen Fitting_Room_Screen Plan_Properties Wear_Properties
    Wardrobe_Properties
begin


subsection \<open>Actual records\<close>







subsection \<open>Plans\<close>







subsection \<open>The wardrobe\<close>






subsection \<open>The fitting room\<close>

lemma find_by_key: "distinct (map key xs) \<Longrightarrow> x \<in> set xs \<Longrightarrow> List.find (\<lambda>y. key y = key x) xs = Some x"
  by (induction xs) (auto split: if_splits dest: imageI [of _ _ key])

lemma garments_by_id:
  assumes "item \<in> set fittingRoomGarments"
  shows "List.find (\<lambda>g. pg_id g = pg_id item) fittingRoomGarments = Some item"
proof (rule find_by_key [OF _ assms])
  show "distinct (map pg_id fittingRoomGarments)" by (simp add: fittingRoomGarments_def)
qed

lemma category_chosen:
  assumes "category_shown s c"
  shows "picker_category (changeCategory c s) = c"
  using assms
  by (auto simp: category_shown_def changeCategory_def picker_category_def fittingRoomGarments_def Let_def)

text \<open>Closing the dialog makes every photo that is still being decoded stale.\<close>

lemma dialog_closed:
  assumes "room_inv s" and "t = photo_dialog_change False s"
  shows "\<not> pd_open t \<and> pd_file t = None \<and> pd_preview t = None \<and> pd_error t = None \<and> \<not> pd_checking t
    \<and> list_all (\<lambda>d. \<not> is_current t d) (fr_decoding t)"
proof -
  have "queue_ok (s\<lparr>pd_open := False\<rparr>)" using assms(1) by (simp add: room_inv_def)
  then have "\<not> is_current (next_sequence (s\<lparr>pd_open := False\<rparr>)) d"
    if "d \<in> set (fr_decoding (next_sequence (s\<lparr>pd_open := False\<rparr>)))" for d
    using that next_sequence_stale by blast
  then show ?thesis
    unfolding assms(2)
    by (simp add: photo_dialog_change_def Let_def list_all_iff is_current_def)
qed

lemma photo_used:
  assumes "room_inv s" and "fr_view s = Room" and "pd_file s = Some f" and "t = use_photo s"
  shows "\<not> pd_open t \<and> pd_file t = None \<and> pd_preview t = None \<and> fr_view t = Room
    \<and> fr_photo t = Some (fr_next s) \<and> fr_next s \<in> fr_live t \<and> fr_next s \<notin> fr_live s"
proof -
  obtain u s1 where c: "create_url s = (u, s1)" by force
  have s1: "u = fr_next s" "s1 = s\<lparr>fr_live := insert (fr_next s) (fr_live s), fr_next := Suc (fr_next s)\<rparr>"
    using c by (auto simp: create_url_def)
  have fresh: "fr_next s \<notin> fr_live s" "fr_photo s \<noteq> Some (fr_next s)" "pd_preview s \<noteq> Some (fr_next s)"
    using assms(1) by (auto simp: room_inv_def urls_ok_def owned_def opt_list_def split: option.splits)
  show ?thesis
    unfolding assms(4) use_photo_eq [OF assms(2,3) c]
    using fresh assms(2) by (auto simp: s1 set_preview_def set_photo_def revoke_def split: option.splits)
qed

text \<open>What the use of a control promises, in the state before and the state after it.\<close>

definition room_promise :: "room_event \<Rightarrow> room_state \<Rightarrow> room_state \<Rightarrow> bool" where
  "room_promise ev s t \<longleftrightarrow>
      (case ev of
         Photo_dialog True \<Rightarrow> \<not> pd_open s \<and> pd_open t
       | Photo_dialog False \<Rightarrow> pd_open s \<and> \<not> pd_open t \<and> pd_file t = None \<and> pd_preview t = None
           \<and> pd_error t = None \<and> \<not> pd_checking t \<and> list_all (\<lambda>d. \<not> is_current t d) (fr_decoding t)
       | Choose_photo file \<Rightarrow> (\<exists>f. file = Some f \<and>
           (pd_error t = map_option Photo_refused (photoValidationError (file_type f) (file_size f)))
           \<and> pd_file t = None \<and> pd_preview t = None)
       | Use_photo \<Rightarrow> \<not> pd_checking s
           \<and> (\<exists>f. pd_file s = Some f \<and> photoValidationError (file_type f) (file_size f) = None)
           \<and> \<not> pd_open t \<and> pd_file t = None \<and> pd_preview t = None \<and> fr_view t = Room
           \<and> fr_photo t = Some (fr_next s) \<and> fr_next s \<in> fr_live t \<and> fr_next s \<notin> fr_live s
       | Try_on \<Rightarrow> \<not> fr_unavailable s \<and> fr_unavailable t \<and> fr_view t = Room
       | Close_unavailable \<Rightarrow> fr_unavailable s \<and> \<not> fr_unavailable t \<and> fr_view t = Room
       | Unavailable_to_result \<Rightarrow> fr_unavailable s \<and> \<not> fr_unavailable t \<and> fr_view t = Result
       | To_view v \<Rightarrow> fr_view s \<noteq> v \<and> fr_view t = v
       | Picker b \<Rightarrow> pk_choosing s \<noteq> b \<and> pk_choosing t = b
       | Pick_category c \<Rightarrow> picker_category s \<noteq> c \<and> picker_category t = c
       | Pick_item item \<Rightarrow> fr_selected s \<noteq> item \<and> fr_selected t = item
       | Set_query q \<Rightarrow> pk_query t = q
       | Reset_room \<Rightarrow> fr_photo t = None \<and> fr_selected t = hd fittingRoomGarments
       | Decoded _ _ \<Rightarrow> False)"

lemma promise_kept:
  assumes "one_modal s" and "room_inv s" and "room_user_event s ev" and "room_step ev s = Some t"
  shows "room_promise ev s t"
proof (cases ev)
  case (Photo_dialog b)
  show ?thesis
  proof (cases b)
    case True
    with Photo_dialog assms(4) show ?thesis
      by (auto simp: room_promise_def room_step_def photo_dialog_change_def Let_def split: if_splits)
  next
    case False
    with Photo_dialog assms(4) have "pd_open s" "t = photo_dialog_change False s"
      by (auto simp: room_step_def split: if_splits)
    with dialog_closed [OF assms(2)] Photo_dialog False show ?thesis by (simp add: room_promise_def)
  qed
next
  case (Choose_photo x)
  with assms(3) obtain f where f: "x = Some f" by (auto simp: room_user_event_def)
  with Choose_photo assms(4) have "t = choosePhoto (Some f) s" by (auto simp: room_step_def split: if_splits)
  with choose_refused [of f _ t s] choose_accepted [of f t s] Choose_photo f show ?thesis
    by (cases "photoValidationError (file_type f) (file_size f)") (simp_all add: room_promise_def)
next
  case Use_photo
  with assms(4) obtain f where f: "fr_view s = Room" "pd_open s" "pd_file s = Some f" "\<not> pd_checking s" "t = use_photo s"
    by (auto simp: room_step_def split: if_splits)
  with assms(2) have "photoValidationError (file_type f) (file_size f) = None"
    by (simp add: room_inv_def dialog_ok_def)
  with photo_used [OF assms(2) f(1,3,5)] f Use_photo show ?thesis by (simp add: room_promise_def)
next
  case (Pick_category c)
  with assms(4) have "t = changeCategory c s" "category_shown s c"
    by (auto simp: room_step_def split: if_splits)
  with Pick_category assms(3) category_chosen [of s c] show ?thesis
    by (auto simp: room_promise_def room_user_event_def)
next
  case (Pick_item item)
  with assms(4) have t: "t = select_garment (pg_id item) s" and "item \<in> set fittingRoomGarments"
    by (auto simp: room_step_def visibleItems_def split: if_splits)
  with garments_by_id Pick_item assms(3) show ?thesis
    by (auto simp: room_promise_def room_user_event_def select_garment_def)
next
  case (To_view v)
  with assms(3,4) have "v \<noteq> fr_view s" "t = navigate v s"
    by (auto simp: room_user_event_def room_step_def split: if_splits)
  with To_view show ?thesis by (auto simp: room_promise_def navigate_def)
next
  case Unavailable_to_result
  with assms(1,4) have "fr_unavailable s" "t = navigate Result (s\<lparr>fr_unavailable := False\<rparr>)" "fr_view s = Room"
    by (auto simp: room_step_def one_modal_def split: if_splits)
  with Unavailable_to_result show ?thesis by (simp add: room_promise_def navigate_def fresh_room_def)
next
  case (Picker b)
  with assms(4) show ?thesis by (auto simp: room_promise_def room_step_def picker_change_def split: if_splits)
next
  case (Decoded n b)
  with assms(3) show ?thesis by (simp add: room_user_event_def)
qed (use assms in \<open>auto simp: room_promise_def room_step_def room_user_event_def one_modal_def modal_def reset_room_def
      set_photo_def split: if_splits\<close>)

text \<open>
  C27. The controls of the fitting room do what they say. In every reachable state every event of an
  enabled control is handled, and: the photo dialog opens, and closes forgetting the photo, the message
  and every photo that is still being decoded; a photo can be used once it has been accepted and decoded,
  and then the dialog is closed and the room shows it; the notice that trying on is not connected opens,
  closes in the room, and also closes when it leads to the comparison; the tabs change the view, and the
  sheet opens and closes; choosing a garment or a category chooses that one; the new outfit forgets the
  photo and the choice. Whatever is shown afterwards, at most one dialog is open, only in the room, and
  there is a control that closes it, or one that leads to the other view.
\<close>

theorem room_controls_act:
  assumes "room_reach s" and "raises (room_screen url draft s) ev"
  shows "\<exists>t. room_step ev s = Some t
    \<and> room_promise ev s t
    \<and> \<not> (pd_open t \<and> fr_unavailable t) \<and> \<not> (pd_open t \<and> pk_choosing t) \<and> \<not> (fr_unavailable t \<and> pk_choosing t)
    \<and> (if pd_open t then raises (room_screen url draft t) (Photo_dialog False)
       else if fr_unavailable t then raises (room_screen url draft t) Close_unavailable
       else if pk_choosing t then raises (room_screen url draft t) (Picker False)
       else raises (room_screen url draft t) (To_view (if fr_view t = Room then Result else Room)))"
proof -
  have modal: "one_modal s" and inv: "room_inv s"
    using assms(1) by (rule modals.reach_inv, rule room.reach_inv)
  from assms(2) have user: "room_user_event s ev" and "room_step ev s \<noteq> None"
    by (simp_all add: room_screen_offers [OF modal])
  then obtain t where st: "room_step ev s = Some t" by blast
  have mt: "one_modal t" by (rule modals.preserved [OF modal st])
  have out: "if pd_open t then raises (room_screen url draft t) (Photo_dialog False)
       else if fr_unavailable t then raises (room_screen url draft t) Close_unavailable
       else if pk_choosing t then raises (room_screen url draft t) (Picker False)
       else raises (room_screen url draft t) (To_view (if fr_view t = Room then Result else Room))"
    using mt by (cases "fr_view t")
      (auto simp: room_screen_def raises_photo_dialog raises_modal raises_person raises_aside raises_picker)
  have one: "\<not> (pd_open t \<and> fr_unavailable t)" "\<not> (pd_open t \<and> pk_choosing t)" "\<not> (fr_unavailable t \<and> pk_choosing t)"
    using mt by (auto simp: one_modal_def)
  show ?thesis
  proof (intro exI [of _ t] conjI st one out)
    show "room_promise ev s t" by (rule promise_kept [OF modal inv user st])
  qed
qed

theorem room_controls_act_witness:
  "\<exists>t. room_step Try_on room_init = Some t \<and> fr_unavailable t
    \<and> raises (room_screen (\<lambda>_. []) None t) Close_unavailable"
proof -
  have modal: "one_modal room_init" by (rule modals.initial)
  have "raises (room_screen (\<lambda>_. []) None room_init) Try_on"
    by (simp add: room_screen_offers [OF modal] room_user_event_def) (simp add: room_step_def modal_def room_init_def)
  from room_controls_act [OF step_reach.start this] show ?thesis by (auto simp: room_promise_def split: if_splits)
qed

end
