(* ===== verification/Cache_Freshness.thy ===== *)
theory Cache_Freshness
  imports Query_Hooks
begin

text \<open>
  Whether the query cache follows the service: after an action of a hook has succeeded, the queries
  whose answers it has changed have to be fetched again. \<open>changed_queries\<close> states what a call changes,
  as the service documents it: the deletion of an item clears or deletes the plans and records
  that contain it, the deletion of a plan turns the records that refer to it into unplanned
  ones at a new revision, and an actual record may complete a plan and send garments to the
  laundry (\<^verbatim>\<open>backend/internal/adapter/postgres\<close>: \<^verbatim>\<open>wardrobe.go\<close>, \<^verbatim>\<open>outfit_plan.go\<close>, \<^verbatim>\<open>wear_event.go\<close>).
\<close>

subsection \<open>What a call changes and what an action refreshes\<close>

definition changed_queries :: "api_call \<Rightarrow> query_key set" where
  "changed_queries c =
     (case c of
        CreateWardrobeItem _ \<Rightarrow> {Wardrobe_key}
      | UpdateWardrobeItem _ _ \<Rightarrow> {Wardrobe_key}
      | DeleteWardrobeItem _ _ _ _ \<Rightarrow> {Wardrobe_key, Statistics_key, Plans_key, Wear_events_key}
      | CreateOutfitPlan _ \<Rightarrow> {Plans_key}
      | UpdateOutfitPlan _ _ \<Rightarrow> {Plans_key}
      | CancelOutfitPlan _ _ \<Rightarrow> {Plans_key}
      | MarkOutfitPlanNotWorn _ _ \<Rightarrow> {Plans_key}
      | RestoreOutfitPlan _ _ \<Rightarrow> {Plans_key}
      | DeleteOutfitPlan _ _ \<Rightarrow> {Plans_key, Wear_events_key}
      | CreateWearEvent _ \<Rightarrow> {Wear_events_key, Statistics_key, Plans_key, Wardrobe_key}
      | UpdateWearEvent _ _ \<Rightarrow> {Wear_events_key, Statistics_key, Plans_key, Wardrobe_key}
      | DeleteWearEvent _ _ \<Rightarrow> {Wear_events_key, Statistics_key, Plans_key}
      | UpdateCurrentUser _ \<Rightarrow> {Current_user_key}
      | RegisterAccount _ \<Rightarrow> UNIV
      | CreateSession _ \<Rightarrow> UNIV
      | DeleteSession \<Rightarrow> UNIV
      | DeleteCurrentUser \<Rightarrow> UNIV
      | _ \<Rightarrow> {})"

definition refreshed_by :: "effect \<Rightarrow> query_key set" where
  "refreshed_by x =
     (case x of
        Issued (Invalidate_queries ks) \<Rightarrow> set ks
      | Issued (Refetch_query k) \<Rightarrow> {k}
      | Cache_clear \<Rightarrow> UNIV
      | Cache_set_user _ \<Rightarrow> {Current_user_key}
      | _ \<Rightarrow> {})"

definition refreshed :: "effect list \<Rightarrow> query_key set" where
  "refreshed out = \<Union> (set (map refreshed_by out))"

text \<open>
  The queries that an action leaves as they were although its call has changed them, when the call
  is answered by \<open>r\<close>; \<^verbatim>\<open>None\<close> for a program that does not begin with a call.
\<close>

definition left_stale :: "env \<Rightarrow> 's \<Rightarrow> ('s, 'a) prog \<Rightarrow> response \<Rightarrow> query_key set option" where
  "left_stale e s p r =
     (case p of
        Await (Call c) k \<Rightarrow>
          (case run e (k (Inr r)) s of (s', out, q) \<Rightarrow> Some (changed_queries c - refreshed out))
      | _ \<Rightarrow> None)"

lemmas freshness = left_stale_def changed_queries_def refreshed_def refreshed_by_def

lemma account_fresh:
  "left_stale e s (account_register rb) (R_user u) = Some {}"
  "left_stale e s (account_login sb) (R_user u) = Some {}"
  "left_stale e s (account_update ub) (R_user u) = Some {}"
  "left_stale e s account_logout R_void = Some {}"
  "left_stale e s account_remove (R_deletion d) = Some {}"
  by (auto simp: freshness prog_simps)

lemma plan_fresh:
  "left_stale e s (plan_create pb) (R_plan p) = Some {}"
  "left_stale e s (plan_update i qb) (R_plan p) = Some {}"
  "left_stale e s (plan_cancel i n) (R_plan p) = Some {}"
  "left_stale e s (plan_mark_not_worn i n) (R_plan p) = Some {}"
  "left_stale e s (plan_restore i n) (R_plan p) = Some {}"
  "left_stale e s (plan_remove i n) R_void = Some {Wear_events_key}"
  by (auto simp: freshness prog_simps)

lemma wear_fresh:
  "left_stale e s (wear_create wb) (R_event v) = Some {}"
  "left_stale e s (wear_update i vb) (R_event v) = Some {}"
  "left_stale e s (wear_remove i n) R_void = Some {}"
  by (auto simp: freshness prog_simps)

lemma wardrobe_fresh:
  "left_stale e s (wardrobe_create cb) (R_item x) = Some {}"
  "left_stale e s (wardrobe_update i db) (R_item x) = Some {}"
  "left_stale e s (wardrobe_remove i n m policy) R_void = Some {Plans_key, Wear_events_key}"
  by (auto simp: freshness prog_simps)

text \<open>
  C22. Every action of the hooks that succeeds fetches again what its call has changed, or clears
  the cache, but for two: after the deletion of a plan the cached records still refer to it, and
  after the deletion of a garment the cached plans and records still contain it.
\<close>

theorem actions_refresh_cache:
  "left_stale e s (account_register rb) (R_user u) = Some {}
   \<and> left_stale e s (account_login sb) (R_user u) = Some {}
   \<and> left_stale e s (account_update ub) (R_user u) = Some {}
   \<and> left_stale e s account_logout R_void = Some {}
   \<and> left_stale e s account_remove (R_deletion d) = Some {}
   \<and> left_stale e s (plan_create pb) (R_plan p) = Some {}
   \<and> left_stale e s (plan_update i qb) (R_plan p) = Some {}
   \<and> left_stale e s (plan_cancel i n) (R_plan p) = Some {}
   \<and> left_stale e s (plan_mark_not_worn i n) (R_plan p) = Some {}
   \<and> left_stale e s (plan_restore i n) (R_plan p) = Some {}
   \<and> left_stale e s (plan_remove i n) R_void = Some {Wear_events_key}
   \<and> left_stale e s (wear_create wb) (R_event v) = Some {}
   \<and> left_stale e s (wear_update i vb) (R_event v) = Some {}
   \<and> left_stale e s (wear_remove i n) R_void = Some {}
   \<and> left_stale e s (wardrobe_create cb) (R_item x) = Some {}
   \<and> left_stale e s (wardrobe_update i db) (R_item x) = Some {}
   \<and> left_stale e s (wardrobe_remove i n m policy) R_void = Some {Plans_key, Wear_events_key}"
  by (intro conjI account_fresh plan_fresh wear_fresh wardrobe_fresh)

end
