(* ===== verification/Api_Community.thy ===== *)
theory Api_Community
  imports Api_Client Js_Numbers
begin

text \<open>
  The generated functions of \<^verbatim>\<open>frontend/src/api\<close> that no hook calls: here the community,
  the public profiles and the administration. Like those of \<^verbatim>\<open>Api_Client\<close>, each is the request it
  hands to the HTTP library. Their parameter objects are lists of the fields that are set, their
  bodies arbitrary JSON values, and the caller's options a change of the options built so far.
\<close>

subsection \<open>Parameters and options\<close>

type_synonym params = "(string \<times> param) list"

text \<open>
  \<^verbatim>\<open>...(options || {})\<close>: the fields the caller sets replace the ones before them; a caller
  without options passes the identity.
\<close>

type_synonym overrides = "request_options \<Rightarrow> request_options"

text \<open>
  \<^verbatim>\<open>const { k: param0, ...queryParams } = params\<close> and \<^verbatim>\<open>${param0}\<close> in the URL: the text of the
  field that is taken out, \<^verbatim>\<open>undefined\<close> where it is missing.
\<close>

definition segment :: "string \<Rightarrow> params \<Rightarrow> jstring" where
  "segment k params =
     (case map_of params k of
        Some (P_string s) \<Rightarrow> s
      | Some (P_number n) \<Rightarrow> js_of_int n
      | _ \<Rightarrow> js ''undefined'')"

definition rest :: "string list \<Rightarrow> params \<Rightarrow> params" where
  "rest ks params = filter (\<lambda>(k, v). k \<notin> set ks) params"

subsection \<open>api/accountAdministration.ts\<close>

definition listAdminUsers :: "params \<Rightarrow> overrides \<Rightarrow> axios_config" where
  "listAdminUsers params options =
     request (js ''/admin/users'')
       (options (plain GET (spread [(''limit'', P_string (js ''20''))] params)))"

definition restoreUser :: "params \<Rightarrow> jsval \<Rightarrow> overrides \<Rightarrow> axios_config" where
  "restoreUser params body options =
     request (js ''/admin/users/'' @ segment ''user_id'' params @ js ''/restore'')
       (options ((json POST (B_json body))\<lparr>ro_params := rest [''user_id''] params\<rparr>))"

definition suspendUser :: "params \<Rightarrow> jsval \<Rightarrow> overrides \<Rightarrow> axios_config" where
  "suspendUser params body options =
     request (js ''/admin/users/'' @ segment ''user_id'' params @ js ''/suspend'')
       (options ((json POST (B_json body))\<lparr>ro_params := rest [''user_id''] params\<rparr>))"

subsection \<open>api/communityAppeals.ts\<close>

definition listModerationAppeals :: "params \<Rightarrow> overrides \<Rightarrow> axios_config" where
  "listModerationAppeals params options =
     request (js ''/admin/moderation-appeals'')
       (options (plain GET (spread [(''limit'', P_string (js ''20''))] params)))"

definition resolveModerationAppeal :: "params \<Rightarrow> jsval \<Rightarrow> overrides \<Rightarrow> axios_config" where
  "resolveModerationAppeal params body options =
     request (js ''/admin/moderation-appeals/'' @ segment ''appeal_id'' params @ js ''/resolve'')
       (options ((json POST (B_json body))\<lparr>ro_params := rest [''appeal_id''] params\<rparr>))"

definition createModerationAppeal :: "jsval \<Rightarrow> overrides \<Rightarrow> axios_config" where
  "createModerationAppeal body options =
     request (js ''/moderation-appeals'')
       (options (json POST (B_json body)))"

definition listOwnModerationAppeals :: "params \<Rightarrow> overrides \<Rightarrow> axios_config" where
  "listOwnModerationAppeals params options =
     request (js ''/users/me/moderation-appeals'')
       (options (plain GET (spread [(''limit'', P_string (js ''20''))] params)))"

subsection \<open>api/communityComments.ts\<close>

definition deleteComment :: "params \<Rightarrow> overrides \<Rightarrow> axios_config" where
  "deleteComment params options =
     request (js ''/comments/'' @ segment ''comment_id'' params)
       (options (plain DELETE (rest [''comment_id''] params)))"

definition listCommentReplies :: "params \<Rightarrow> overrides \<Rightarrow> axios_config" where
  "listCommentReplies params options =
     request (js ''/comments/'' @ segment ''comment_id'' params @ js ''/replies'')
       (options (plain GET (spread [(''limit'', P_string (js ''20''))] (rest [''comment_id''] params))))"

definition listComments :: "params \<Rightarrow> overrides \<Rightarrow> axios_config" where
  "listComments params options =
     request (js ''/posts/'' @ segment ''post_id'' params @ js ''/comments'')
       (options (plain GET (spread [(''limit'', P_string (js ''20''))] (rest [''post_id''] params))))"

definition createComment :: "params \<Rightarrow> jsval \<Rightarrow> overrides \<Rightarrow> axios_config" where
  "createComment params body options =
     request (js ''/posts/'' @ segment ''post_id'' params @ js ''/comments'')
       (options ((json POST (B_json body))\<lparr>ro_params := rest [''post_id''] params\<rparr>))"

subsection \<open>api/communityDiscovery.ts\<close>

definition listCommunityFeed :: "params \<Rightarrow> overrides \<Rightarrow> axios_config" where
  "listCommunityFeed params options =
     request (js ''/feed'')
       (options (plain GET (spread [(''limit'', P_string (js ''20'')), (''type'', P_string
         (js ''discover''))] params)))"

definition listProfilePosts :: "params \<Rightarrow> overrides \<Rightarrow> axios_config" where
  "listProfilePosts params options =
     request (js ''/profiles/'' @ segment ''handle'' params @ js ''/posts'')
       (options (plain GET (spread [(''limit'', P_string (js ''20''))] (rest [''handle''] params))))"

definition searchCommunityPosts :: "params \<Rightarrow> overrides \<Rightarrow> axios_config" where
  "searchCommunityPosts params options =
     request (js ''/search/posts'')
       (options (plain GET (spread [(''limit'', P_string (js ''20''))] params)))"

subsection \<open>api/communityInteractions.ts\<close>

definition bookmarkPost :: "params \<Rightarrow> overrides \<Rightarrow> axios_config" where
  "bookmarkPost params options =
     request (js ''/posts/'' @ segment ''post_id'' params @ js ''/bookmark'')
       (options (plain PUT (rest [''post_id''] params)))"

definition unbookmarkPost :: "params \<Rightarrow> overrides \<Rightarrow> axios_config" where
  "unbookmarkPost params options =
     request (js ''/posts/'' @ segment ''post_id'' params @ js ''/bookmark'')
       (options (plain DELETE (rest [''post_id''] params)))"

definition likePost :: "params \<Rightarrow> overrides \<Rightarrow> axios_config" where
  "likePost params options =
     request (js ''/posts/'' @ segment ''post_id'' params @ js ''/like'')
       (options (plain PUT (rest [''post_id''] params)))"

definition unlikePost :: "params \<Rightarrow> overrides \<Rightarrow> axios_config" where
  "unlikePost params options =
     request (js ''/posts/'' @ segment ''post_id'' params @ js ''/like'')
       (options (plain DELETE (rest [''post_id''] params)))"

definition listBookmarks :: "params \<Rightarrow> overrides \<Rightarrow> axios_config" where
  "listBookmarks params options =
     request (js ''/users/me/bookmarks'')
       (options (plain GET (spread [(''limit'', P_string (js ''20''))] params)))"

subsection \<open>api/communityModeration.ts\<close>

definition removePublishedComment :: "params \<Rightarrow> jsval \<Rightarrow> overrides \<Rightarrow> axios_config" where
  "removePublishedComment params body options =
     request (js ''/admin/comments/'' @ segment ''comment_id'' params @ js ''/remove'')
       (options ((json POST (B_json body))\<lparr>ro_params := rest [''comment_id''] params\<rparr>))"

definition listModerationActions :: "params \<Rightarrow> overrides \<Rightarrow> axios_config" where
  "listModerationActions params options =
     request (js ''/admin/moderation-actions'')
       (options (plain GET (spread [(''limit'', P_string (js ''20''))] params)))"

definition listCommentModerationCandidates :: "params \<Rightarrow> overrides \<Rightarrow> axios_config" where
  "listCommentModerationCandidates params options =
     request (js ''/admin/moderation/comments'')
       (options (plain GET (spread [(''limit'', P_string (js ''20''))] params)))"

definition decideCommentModeration :: "params \<Rightarrow> jsval \<Rightarrow> overrides \<Rightarrow> axios_config" where
  "decideCommentModeration params body options =
     request (js ''/admin/moderation/comments/'' @ segment ''comment_id'' params @ js ''/decisions'')
       (options ((json POST (B_json body))\<lparr>ro_params := rest [''comment_id''] params\<rparr>))"

definition listPostModerationCandidates :: "params \<Rightarrow> overrides \<Rightarrow> axios_config" where
  "listPostModerationCandidates params options =
     request (js ''/admin/moderation/posts'')
       (options (plain GET (spread [(''limit'', P_string (js ''20''))] params)))"

definition decidePostModeration :: "params \<Rightarrow> jsval \<Rightarrow> overrides \<Rightarrow> axios_config" where
  "decidePostModeration params body options =
     request (js ''/admin/moderation/posts/'' @ segment ''post_id'' params @ js ''/decisions'')
       (options ((json POST (B_json body))\<lparr>ro_params := rest [''post_id''] params\<rparr>))"

definition getPostModerationCandidate :: "params \<Rightarrow> overrides \<Rightarrow> axios_config" where
  "getPostModerationCandidate params options =
     request (js ''/admin/moderation/posts/'' @ segment ''post_id'' params @ js ''/revisions/'' @ segment
         ''version'' params)
       (options (plain GET (rest [''post_id'', ''version''] params)))"

definition getPostModerationImage :: "params \<Rightarrow> overrides \<Rightarrow> axios_config" where
  "getPostModerationImage params options =
     request (js ''/admin/moderation/posts/'' @ segment ''post_id'' params @ js ''/revisions/'' @ segment
         ''version'' params @ js ''/images/'' @ segment ''ordinal'' params)
       (options (plain GET (rest [''post_id'', ''version'', ''ordinal''] params)))"

definition removePublishedPost :: "params \<Rightarrow> jsval \<Rightarrow> overrides \<Rightarrow> axios_config" where
  "removePublishedPost params body options =
     request (js ''/admin/posts/'' @ segment ''post_id'' params @ js ''/remove'')
       (options ((json POST (B_json body))\<lparr>ro_params := rest [''post_id''] params\<rparr>))"

definition listCommunityReports :: "params \<Rightarrow> overrides \<Rightarrow> axios_config" where
  "listCommunityReports params options =
     request (js ''/admin/reports'')
       (options (plain GET (spread [(''limit'', P_string (js ''20''))] params)))"

definition resolveCommunityReport :: "params \<Rightarrow> jsval \<Rightarrow> overrides \<Rightarrow> axios_config" where
  "resolveCommunityReport params body options =
     request (js ''/admin/reports/'' @ segment ''report_id'' params @ js ''/resolve'')
       (options ((json POST (B_json body))\<lparr>ro_params := rest [''report_id''] params\<rparr>))"

subsection \<open>api/communityPosts.ts\<close>

definition createPost :: "jsval \<Rightarrow> overrides \<Rightarrow> axios_config" where
  "createPost body options =
     request (js ''/posts'')
       (options (json POST (B_json body)))"

definition updatePost :: "params \<Rightarrow> jsval \<Rightarrow> overrides \<Rightarrow> axios_config" where
  "updatePost params body options =
     request (js ''/posts/'' @ segment ''post_id'' params)
       (options ((json PUT (B_json body))\<lparr>ro_params := rest [''post_id''] params\<rparr>))"

definition deletePost :: "params \<Rightarrow> overrides \<Rightarrow> axios_config" where
  "deletePost params options =
     request (js ''/posts/'' @ segment ''post_id'' params)
       (options (plain DELETE (rest [''post_id''] params)))"

definition submitPost :: "params \<Rightarrow> jsval \<Rightarrow> overrides \<Rightarrow> axios_config" where
  "submitPost params body options =
     request (js ''/posts/'' @ segment ''post_id'' params @ js ''/submit'')
       (options ((json POST (B_json body))\<lparr>ro_params := rest [''post_id''] params\<rparr>))"

definition withdrawPost :: "params \<Rightarrow> jsval \<Rightarrow> overrides \<Rightarrow> axios_config" where
  "withdrawPost params body options =
     request (js ''/posts/'' @ segment ''post_id'' params @ js ''/withdraw'')
       (options ((json POST (B_json body))\<lparr>ro_params := rest [''post_id''] params\<rparr>))"

definition listOwnPosts :: "params \<Rightarrow> overrides \<Rightarrow> axios_config" where
  "listOwnPosts params options =
     request (js ''/users/me/posts'')
       (options (plain GET (spread [(''limit'', P_string (js ''20''))] params)))"

definition getOwnPost :: "params \<Rightarrow> overrides \<Rightarrow> axios_config" where
  "getOwnPost params options =
     request (js ''/users/me/posts/'' @ segment ''post_id'' params)
       (options (plain GET (rest [''post_id''] params)))"

subsection \<open>api/communityRelationships.ts\<close>

definition followProfile :: "params \<Rightarrow> overrides \<Rightarrow> axios_config" where
  "followProfile params options =
     request (js ''/profiles/'' @ segment ''handle'' params @ js ''/follow'')
       (options (plain PUT (rest [''handle''] params)))"

definition unfollowProfile :: "params \<Rightarrow> overrides \<Rightarrow> axios_config" where
  "unfollowProfile params options =
     request (js ''/profiles/'' @ segment ''handle'' params @ js ''/follow'')
       (options (plain DELETE (rest [''handle''] params)))"

definition listProfileFollowers :: "params \<Rightarrow> overrides \<Rightarrow> axios_config" where
  "listProfileFollowers params options =
     request (js ''/profiles/'' @ segment ''handle'' params @ js ''/followers'')
       (options (plain GET (spread [(''limit'', P_string (js ''20''))] (rest [''handle''] params))))"

definition listProfileFollowing :: "params \<Rightarrow> overrides \<Rightarrow> axios_config" where
  "listProfileFollowing params options =
     request (js ''/profiles/'' @ segment ''handle'' params @ js ''/following'')
       (options (plain GET (spread [(''limit'', P_string (js ''20''))] (rest [''handle''] params))))"

subsection \<open>api/communityReports.ts\<close>

definition createPostReport :: "jsval \<Rightarrow> overrides \<Rightarrow> axios_config" where
  "createPostReport body options =
     request (js ''/reports'')
       (options (json POST (B_json body)))"

definition listOwnReports :: "params \<Rightarrow> overrides \<Rightarrow> axios_config" where
  "listOwnReports params options =
     request (js ''/users/me/reports'')
       (options (plain GET (spread [(''limit'', P_string (js ''20''))] params)))"

subsection \<open>api/communitySafety.ts\<close>

definition listBlockedUsers :: "params \<Rightarrow> overrides \<Rightarrow> axios_config" where
  "listBlockedUsers params options =
     request (js ''/users/me/blocks'')
       (options (plain GET (spread [(''limit'', P_string (js ''20''))] params)))"

definition blockUser :: "params \<Rightarrow> overrides \<Rightarrow> axios_config" where
  "blockUser params options =
     request (js ''/users/me/blocks/'' @ segment ''user_id'' params)
       (options (plain PUT (rest [''user_id''] params)))"

definition unblockUser :: "params \<Rightarrow> overrides \<Rightarrow> axios_config" where
  "unblockUser params options =
     request (js ''/users/me/blocks/'' @ segment ''user_id'' params)
       (options (plain DELETE (rest [''user_id''] params)))"

subsection \<open>api/profile.ts\<close>

definition getPublicProfile :: "params \<Rightarrow> overrides \<Rightarrow> axios_config" where
  "getPublicProfile params options =
     request (js ''/profiles/'' @ segment ''handle'' params)
       (options (plain GET (rest [''handle''] params)))"

definition getPublicProfileAvatar :: "params \<Rightarrow> overrides \<Rightarrow> axios_config" where
  "getPublicProfileAvatar params options =
     request (js ''/profiles/'' @ segment ''handle'' params @ js ''/avatar'')
       (options (plain GET (rest [''handle''] params)))"

definition getCurrentProfile :: "overrides \<Rightarrow> axios_config" where
  "getCurrentProfile options =
     request (js ''/users/me/profile'')
       (options (plain GET []))"

definition putCurrentProfile :: "jsval \<Rightarrow> overrides \<Rightarrow> axios_config" where
  "putCurrentProfile body options =
     request (js ''/users/me/profile'')
       (options (json PUT (B_json body)))"

definition putProfileAvatar :: "jsval \<Rightarrow> overrides \<Rightarrow> axios_config" where
  "putProfileAvatar body options =
     request (js ''/users/me/profile/avatar'')
       (options (json PUT (B_json body)))"

definition deleteProfileAvatar :: "params \<Rightarrow> overrides \<Rightarrow> axios_config" where
  "deleteProfileAvatar params options =
     request (js ''/users/me/profile/avatar'')
       (options (plain DELETE params))"

subsection \<open>api/publicCommunity.ts\<close>

definition getPublicPost :: "params \<Rightarrow> overrides \<Rightarrow> axios_config" where
  "getPublicPost params options =
     request (js ''/posts/'' @ segment ''post_id'' params)
       (options (plain GET (rest [''post_id''] params)))"

definition getPublicPostImage :: "params \<Rightarrow> overrides \<Rightarrow> axios_config" where
  "getPublicPostImage params options =
     request (js ''/posts/'' @ segment ''post_id'' params @ js ''/images/'' @ segment ''ordinal'' params)
       (options (plain GET (rest [''post_id'', ''ordinal''] params)))"

end
