(* ===== verification/Api_Personal.thy ===== *)
theory Api_Personal
  imports Api_Community
begin

text \<open>
  The other generated functions without a caller: the account and its sessions, the diary, the
  generation of images, exports, notifications, declarations, private media, the synchronisation
  and the remaining functions of the wardrobe and of the actual records.
\<close>

subsection \<open>api/account.ts\<close>

definition getAccountDeletionReceipt :: "params \<Rightarrow> overrides \<Rightarrow> axios_config" where
  "getAccountDeletionReceipt params options =
     request (js ''/account-deletion-requests/'' @ segment ''id'' params)
       (options (plain GET (rest [''id''] params)))"

definition revokeAccountDeletionReceipt :: "params \<Rightarrow> overrides \<Rightarrow> axios_config" where
  "revokeAccountDeletionReceipt params options =
     request (js ''/account-deletion-requests/'' @ segment ''id'' params)
       (options (plain DELETE (rest [''id''] params)))"

definition listCurrentUserSessions :: "params \<Rightarrow> overrides \<Rightarrow> axios_config" where
  "listCurrentUserSessions params options =
     request (js ''/users/me/sessions'')
       (options (plain GET (spread [(''limit'', P_string (js ''50''))] params)))"

definition revokeCurrentUserSession :: "params \<Rightarrow> overrides \<Rightarrow> axios_config" where
  "revokeCurrentUserSession params options =
     request (js ''/users/me/sessions/'' @ segment ''session_id'' params)
       (options (plain DELETE (rest [''session_id''] params)))"

subsection \<open>api/authentication.ts\<close>

definition requestEmailVerification :: "overrides \<Rightarrow> axios_config" where
  "requestEmailVerification options =
     request (js ''/auth/email-verifications'')
       (options (plain POST []))"

definition confirmEmailVerification :: "jsval \<Rightarrow> overrides \<Rightarrow> axios_config" where
  "confirmEmailVerification body options =
     request (js ''/auth/email-verifications/confirm'')
       (options (json POST (B_json body)))"

definition requestPasswordReset :: "jsval \<Rightarrow> overrides \<Rightarrow> axios_config" where
  "requestPasswordReset body options =
     request (js ''/auth/password-resets'')
       (options (json POST (B_json body)))"

definition confirmPasswordReset :: "jsval \<Rightarrow> overrides \<Rightarrow> axios_config" where
  "confirmPasswordReset body options =
     request (js ''/auth/password-resets/confirm'')
       (options (json POST (B_json body)))"

subsection \<open>api/dataExport.ts\<close>

definition createDataExport :: "jsval \<Rightarrow> overrides \<Rightarrow> axios_config" where
  "createDataExport body options =
     request (js ''/exports'')
       (options (json POST (B_json body)))"

definition getDataExport :: "params \<Rightarrow> overrides \<Rightarrow> axios_config" where
  "getDataExport params options =
     request (js ''/exports/'' @ segment ''id'' params)
       (options (plain GET (rest [''id''] params)))"

definition revokeDataExport :: "params \<Rightarrow> overrides \<Rightarrow> axios_config" where
  "revokeDataExport params options =
     request (js ''/exports/'' @ segment ''id'' params)
       (options (plain DELETE (rest [''id''] params)))"

definition downloadDataExport :: "params \<Rightarrow> overrides \<Rightarrow> axios_config" where
  "downloadDataExport params options =
     request (js ''/exports/'' @ segment ''id'' params @ js ''/content'')
       (options (plain GET (rest [''id''] params)))"

subsection \<open>api/diary.ts\<close>

definition getCalendarMonth :: "params \<Rightarrow> overrides \<Rightarrow> axios_config" where
  "getCalendarMonth params options =
     request (js ''/calendar'')
       (options (plain GET params))"

definition listDiaryEntries :: "params \<Rightarrow> overrides \<Rightarrow> axios_config" where
  "listDiaryEntries params options =
     request (js ''/diary-entries'')
       (options (plain GET (spread [(''limit'', P_string (js ''20''))] params)))"

definition createDiaryEntry :: "jsval \<Rightarrow> overrides \<Rightarrow> axios_config" where
  "createDiaryEntry body options =
     request (js ''/diary-entries'')
       (options (json POST (B_json body)))"

definition getDiaryEntry :: "params \<Rightarrow> overrides \<Rightarrow> axios_config" where
  "getDiaryEntry params options =
     request (js ''/diary-entries/'' @ segment ''entry_id'' params)
       (options (plain GET (rest [''entry_id''] params)))"

definition updateDiaryEntry :: "params \<Rightarrow> jsval \<Rightarrow> overrides \<Rightarrow> axios_config" where
  "updateDiaryEntry params body options =
     request (js ''/diary-entries/'' @ segment ''entry_id'' params)
       (options ((json PUT (B_json body))\<lparr>ro_params := rest [''entry_id''] params\<rparr>))"

definition deleteDiaryEntry :: "params \<Rightarrow> overrides \<Rightarrow> axios_config" where
  "deleteDiaryEntry params options =
     request (js ''/diary-entries/'' @ segment ''entry_id'' params)
       (options (plain DELETE (rest [''entry_id''] params)))"

definition getDiaryEntryDeletionImpact :: "params \<Rightarrow> overrides \<Rightarrow> axios_config" where
  "getDiaryEntryDeletionImpact params options =
     request (js ''/diary-entries/'' @ segment ''entry_id'' params @ js ''/deletion-impact'')
       (options (plain GET (rest [''entry_id''] params)))"

subsection \<open>api/generation.ts\<close>

definition reconcileUnknownGenerationSubmission :: "params \<Rightarrow> jsval \<Rightarrow> overrides \<Rightarrow> axios_config" where
  "reconcileUnknownGenerationSubmission params body options =
     request (js ''/admin/generation-jobs/'' @ segment ''job_id'' params @ js ''/submission-reconciliation'')
       (options ((json POST (B_json body))\<lparr>ro_params := rest [''job_id''] params\<rparr>))"

definition listUnknownGenerationSubmissions :: "params \<Rightarrow> overrides \<Rightarrow> axios_config" where
  "listUnknownGenerationSubmissions params options =
     request (js ''/admin/generation/submission-reconciliations'')
       (options (plain GET (spread [(''limit'', P_string (js ''20''))] params)))"

definition listGenerationJobs :: "params \<Rightarrow> overrides \<Rightarrow> axios_config" where
  "listGenerationJobs params options =
     request (js ''/generation-jobs'')
       (options (plain GET (spread [(''limit'', P_string (js ''20''))] params)))"

definition createGenerationJob :: "jsval \<Rightarrow> overrides \<Rightarrow> axios_config" where
  "createGenerationJob body options =
     request (js ''/generation-jobs'')
       (options (json POST (B_json body)))"

definition getGenerationJob :: "params \<Rightarrow> overrides \<Rightarrow> axios_config" where
  "getGenerationJob params options =
     request (js ''/generation-jobs/'' @ segment ''job_id'' params)
       (options (plain GET (rest [''job_id''] params)))"

definition deleteGenerationJob :: "params \<Rightarrow> overrides \<Rightarrow> axios_config" where
  "deleteGenerationJob params options =
     request (js ''/generation-jobs/'' @ segment ''job_id'' params)
       (options (plain DELETE (rest [''job_id''] params)))"

definition cancelGenerationJob :: "params \<Rightarrow> overrides \<Rightarrow> axios_config" where
  "cancelGenerationJob params options =
     request (js ''/generation-jobs/'' @ segment ''job_id'' params @ js ''/cancel'')
       (options (plain POST (rest [''job_id''] params)))"

definition confirmGenerationImage :: "params \<Rightarrow> overrides \<Rightarrow> axios_config" where
  "confirmGenerationImage params options =
     request (js ''/generation-jobs/'' @ segment ''job_id'' params @ js ''/confirm-image'')
       (options (plain POST (rest [''job_id''] params)))"

definition getGenerationOutputAccess :: "params \<Rightarrow> overrides \<Rightarrow> axios_config" where
  "getGenerationOutputAccess params options =
     request (js ''/generation-jobs/'' @ segment ''job_id'' params @ js ''/output-access'')
       (options (plain GET (rest [''job_id''] params)))"

subsection \<open>api/health.ts\<close>

definition getLiveness :: "overrides \<Rightarrow> axios_config" where
  "getLiveness options =
     request (js ''/health/live'')
       (options (plain GET []))"

definition getReadiness :: "overrides \<Rightarrow> axios_config" where
  "getReadiness options =
     request (js ''/health/ready'')
       (options (plain GET []))"

subsection \<open>api/notifications.ts\<close>

definition listNotifications :: "params \<Rightarrow> overrides \<Rightarrow> axios_config" where
  "listNotifications params options =
     request (js ''/notifications'')
       (options (plain GET (spread [(''limit'', P_string (js ''20''))] params)))"

definition markNotificationRead :: "params \<Rightarrow> overrides \<Rightarrow> axios_config" where
  "markNotificationRead params options =
     request (js ''/notifications/'' @ segment ''notification_id'' params @ js ''/read'')
       (options (plain PUT (rest [''notification_id''] params)))"

subsection \<open>api/privacy.ts\<close>

definition getSelfAdultDeclaration :: "overrides \<Rightarrow> axios_config" where
  "getSelfAdultDeclaration options =
     request (js ''/privacy/self-adult-declaration'')
       (options (plain GET []))"

definition confirmSelfAdultDeclaration :: "jsval \<Rightarrow> overrides \<Rightarrow> axios_config" where
  "confirmSelfAdultDeclaration body options =
     request (js ''/privacy/self-adult-declaration'')
       (options (json PUT (B_json body)))"

definition withdrawSelfAdultDeclaration :: "overrides \<Rightarrow> axios_config" where
  "withdrawSelfAdultDeclaration options =
     request (js ''/privacy/self-adult-declaration'')
       (options (plain DELETE []))"

subsection \<open>api/privateMedia.ts\<close>

definition createConsent :: "jsval \<Rightarrow> overrides \<Rightarrow> axios_config" where
  "createConsent body options =
     request (js ''/consents'')
       (options (json POST (B_json body)))"

definition getConsent :: "params \<Rightarrow> overrides \<Rightarrow> axios_config" where
  "getConsent params options =
     request (js ''/consents/'' @ segment ''consent_id'' params)
       (options (plain GET (rest [''consent_id''] params)))"

definition withdrawConsent :: "params \<Rightarrow> overrides \<Rightarrow> axios_config" where
  "withdrawConsent params options =
     request (js ''/consents/'' @ segment ''consent_id'' params @ js ''/withdraw'')
       (options (plain POST (rest [''consent_id''] params)))"

definition getDeletionRequest :: "params \<Rightarrow> overrides \<Rightarrow> axios_config" where
  "getDeletionRequest params options =
     request (js ''/deletion-requests/'' @ segment ''request_id'' params)
       (options (plain GET (rest [''request_id''] params)))"

definition deleteMedia :: "params \<Rightarrow> overrides \<Rightarrow> axios_config" where
  "deleteMedia params options =
     request (js ''/media/'' @ segment ''media_id'' params)
       (options (plain DELETE (rest [''media_id''] params)))"

subsection \<open>api/sync.ts\<close>

definition listSyncChanges :: "params \<Rightarrow> overrides \<Rightarrow> axios_config" where
  "listSyncChanges params options =
     request (js ''/sync/changes'')
       (options (plain GET (spread [(''limit'', P_string (js ''50''))] params)))"

subsection \<open>api/wardrobe.ts\<close>

definition archiveWardrobeItem :: "params \<Rightarrow> jsval \<Rightarrow> overrides \<Rightarrow> axios_config" where
  "archiveWardrobeItem params body options =
     request (js ''/wardrobe/items/'' @ segment ''item_id'' params @ js ''/archive'')
       (options ((json POST (B_json body))\<lparr>ro_params := rest [''item_id''] params\<rparr>))"

definition restoreWardrobeItem :: "params \<Rightarrow> jsval \<Rightarrow> overrides \<Rightarrow> axios_config" where
  "restoreWardrobeItem params body options =
     request (js ''/wardrobe/items/'' @ segment ''item_id'' params @ js ''/restore'')
       (options ((json POST (B_json body))\<lparr>ro_params := rest [''item_id''] params\<rparr>))"

subsection \<open>api/wearFeedback.ts\<close>

definition getWearFeedback :: "params \<Rightarrow> overrides \<Rightarrow> axios_config" where
  "getWearFeedback params options =
     request (js ''/wear-events/'' @ segment ''wear_event_id'' params @ js ''/feedback'')
       (options (plain GET (rest [''wear_event_id''] params)))"

definition saveWearFeedback :: "params \<Rightarrow> jsval \<Rightarrow> overrides \<Rightarrow> axios_config" where
  "saveWearFeedback params body options =
     request (js ''/wear-events/'' @ segment ''wear_event_id'' params @ js ''/feedback'')
       (options ((json PUT (B_json body))\<lparr>ro_params := rest [''wear_event_id''] params\<rparr>))"

definition deleteWearFeedback :: "params \<Rightarrow> overrides \<Rightarrow> axios_config" where
  "deleteWearFeedback params options =
     request (js ''/wear-events/'' @ segment ''wear_event_id'' params @ js ''/feedback'')
       (options (plain DELETE (rest [''wear_event_id''] params)))"

end
