(* ===== verification/Api_Routing.thy ===== *)
theory Api_Routing
  imports Api_Personal Site_Shell
begin

text \<open>
  Where the requests of the client go. Every call of the hooks is routed to the service and is
  no page of the client; of the functions without a caller exactly those listed here are routed
  under the present roots of \<^verbatim>\<open>next.config.ts\<close>, and the page of the wardrobe is the only page
  whose address the rewrite rule also matches. Then the parameter objects of those functions.
\<close>

subsection \<open>The functions without a caller\<close>

definition community_calls :: "params \<Rightarrow> jsval \<Rightarrow> overrides \<Rightarrow> (string \<times> axios_config) list" where
  "community_calls params body options =
     [(''listAdminUsers'', listAdminUsers params options),
      (''restoreUser'', restoreUser params body options),
      (''suspendUser'', suspendUser params body options),
      (''listModerationAppeals'', listModerationAppeals params options),
      (''resolveModerationAppeal'', resolveModerationAppeal params body options),
      (''createModerationAppeal'', createModerationAppeal body options),
      (''listOwnModerationAppeals'', listOwnModerationAppeals params options),
      (''deleteComment'', deleteComment params options),
      (''listCommentReplies'', listCommentReplies params options),
      (''listComments'', listComments params options),
      (''createComment'', createComment params body options),
      (''listCommunityFeed'', listCommunityFeed params options),
      (''listProfilePosts'', listProfilePosts params options),
      (''searchCommunityPosts'', searchCommunityPosts params options),
      (''bookmarkPost'', bookmarkPost params options),
      (''unbookmarkPost'', unbookmarkPost params options), (''likePost'', likePost params options),
      (''unlikePost'', unlikePost params options), (''listBookmarks'', listBookmarks params options),
      (''removePublishedComment'', removePublishedComment params body options),
      (''listModerationActions'', listModerationActions params options),
      (''listCommentModerationCandidates'', listCommentModerationCandidates params options),
      (''decideCommentModeration'', decideCommentModeration params body options),
      (''listPostModerationCandidates'', listPostModerationCandidates params options),
      (''decidePostModeration'', decidePostModeration params body options),
      (''getPostModerationCandidate'', getPostModerationCandidate params options),
      (''getPostModerationImage'', getPostModerationImage params options),
      (''removePublishedPost'', removePublishedPost params body options),
      (''listCommunityReports'', listCommunityReports params options),
      (''resolveCommunityReport'', resolveCommunityReport params body options),
      (''createPost'', createPost body options), (''updatePost'', updatePost params body options),
      (''deletePost'', deletePost params options), (''submitPost'', submitPost params body options),
      (''withdrawPost'', withdrawPost params body options),
      (''listOwnPosts'', listOwnPosts params options), (''getOwnPost'', getOwnPost params options),
      (''followProfile'', followProfile params options),
      (''unfollowProfile'', unfollowProfile params options),
      (''listProfileFollowers'', listProfileFollowers params options),
      (''listProfileFollowing'', listProfileFollowing params options),
      (''createPostReport'', createPostReport body options),
      (''listOwnReports'', listOwnReports params options),
      (''listBlockedUsers'', listBlockedUsers params options),
      (''blockUser'', blockUser params options), (''unblockUser'', unblockUser params options),
      (''getPublicProfile'', getPublicProfile params options),
      (''getPublicProfileAvatar'', getPublicProfileAvatar params options),
      (''getCurrentProfile'', getCurrentProfile options),
      (''putCurrentProfile'', putCurrentProfile body options),
      (''putProfileAvatar'', putProfileAvatar body options),
      (''deleteProfileAvatar'', deleteProfileAvatar params options),
      (''getPublicPost'', getPublicPost params options),
      (''getPublicPostImage'', getPublicPostImage params options)]"

definition personal_calls :: "params \<Rightarrow> jsval \<Rightarrow> overrides \<Rightarrow> (string \<times> axios_config) list" where
  "personal_calls params body options =
     [(''getAccountDeletionReceipt'', getAccountDeletionReceipt params options),
      (''revokeAccountDeletionReceipt'', revokeAccountDeletionReceipt params options),
      (''listCurrentUserSessions'', listCurrentUserSessions params options),
      (''revokeCurrentUserSession'', revokeCurrentUserSession params options),
      (''requestEmailVerification'', requestEmailVerification options),
      (''confirmEmailVerification'', confirmEmailVerification body options),
      (''requestPasswordReset'', requestPasswordReset body options),
      (''confirmPasswordReset'', confirmPasswordReset body options),
      (''createDataExport'', createDataExport body options),
      (''getDataExport'', getDataExport params options),
      (''revokeDataExport'', revokeDataExport params options),
      (''downloadDataExport'', downloadDataExport params options),
      (''getCalendarMonth'', getCalendarMonth params options),
      (''listDiaryEntries'', listDiaryEntries params options),
      (''createDiaryEntry'', createDiaryEntry body options),
      (''getDiaryEntry'', getDiaryEntry params options),
      (''updateDiaryEntry'', updateDiaryEntry params body options),
      (''deleteDiaryEntry'', deleteDiaryEntry params options),
      (''getDiaryEntryDeletionImpact'', getDiaryEntryDeletionImpact params options),
      (''reconcileUnknownGenerationSubmission'', reconcileUnknownGenerationSubmission params body options),
      (''listUnknownGenerationSubmissions'', listUnknownGenerationSubmissions params options),
      (''listGenerationJobs'', listGenerationJobs params options),
      (''createGenerationJob'', createGenerationJob body options),
      (''getGenerationJob'', getGenerationJob params options),
      (''deleteGenerationJob'', deleteGenerationJob params options),
      (''cancelGenerationJob'', cancelGenerationJob params options),
      (''confirmGenerationImage'', confirmGenerationImage params options),
      (''getGenerationOutputAccess'', getGenerationOutputAccess params options),
      (''getLiveness'', getLiveness options), (''getReadiness'', getReadiness options),
      (''listNotifications'', listNotifications params options),
      (''markNotificationRead'', markNotificationRead params options),
      (''getSelfAdultDeclaration'', getSelfAdultDeclaration options),
      (''confirmSelfAdultDeclaration'', confirmSelfAdultDeclaration body options),
      (''withdrawSelfAdultDeclaration'', withdrawSelfAdultDeclaration options),
      (''createConsent'', createConsent body options), (''getConsent'', getConsent params options),
      (''withdrawConsent'', withdrawConsent params options),
      (''getDeletionRequest'', getDeletionRequest params options),
      (''deleteMedia'', deleteMedia params options),
      (''listSyncChanges'', listSyncChanges params options),
      (''archiveWardrobeItem'', archiveWardrobeItem params body options),
      (''restoreWardrobeItem'', restoreWardrobeItem params body options),
      (''getWearFeedback'', getWearFeedback params options),
      (''saveWearFeedback'', saveWearFeedback params body options),
      (''deleteWearFeedback'', deleteWearFeedback params options)]"

lemmas community_function_defs =
  listAdminUsers_def restoreUser_def suspendUser_def listModerationAppeals_def
  resolveModerationAppeal_def createModerationAppeal_def listOwnModerationAppeals_def
  deleteComment_def listCommentReplies_def listComments_def createComment_def listCommunityFeed_def
  listProfilePosts_def searchCommunityPosts_def bookmarkPost_def unbookmarkPost_def likePost_def
  unlikePost_def listBookmarks_def removePublishedComment_def listModerationActions_def
  listCommentModerationCandidates_def decideCommentModeration_def listPostModerationCandidates_def
  decidePostModeration_def getPostModerationCandidate_def getPostModerationImage_def
  removePublishedPost_def listCommunityReports_def resolveCommunityReport_def createPost_def
  updatePost_def deletePost_def submitPost_def withdrawPost_def listOwnPosts_def getOwnPost_def
  followProfile_def unfollowProfile_def listProfileFollowers_def listProfileFollowing_def
  createPostReport_def listOwnReports_def listBlockedUsers_def blockUser_def unblockUser_def
  getPublicProfile_def getPublicProfileAvatar_def getCurrentProfile_def putCurrentProfile_def
  putProfileAvatar_def deleteProfileAvatar_def getPublicPost_def getPublicPostImage_def

lemmas personal_function_defs =
  getAccountDeletionReceipt_def revokeAccountDeletionReceipt_def listCurrentUserSessions_def
  revokeCurrentUserSession_def requestEmailVerification_def confirmEmailVerification_def
  requestPasswordReset_def confirmPasswordReset_def createDataExport_def getDataExport_def
  revokeDataExport_def downloadDataExport_def getCalendarMonth_def listDiaryEntries_def
  createDiaryEntry_def getDiaryEntry_def updateDiaryEntry_def deleteDiaryEntry_def
  getDiaryEntryDeletionImpact_def reconcileUnknownGenerationSubmission_def
  listUnknownGenerationSubmissions_def listGenerationJobs_def createGenerationJob_def
  getGenerationJob_def deleteGenerationJob_def cancelGenerationJob_def confirmGenerationImage_def
  getGenerationOutputAccess_def getLiveness_def getReadiness_def listNotifications_def
  markNotificationRead_def getSelfAdultDeclaration_def confirmSelfAdultDeclaration_def
  withdrawSelfAdultDeclaration_def createConsent_def getConsent_def withdrawConsent_def
  getDeletionRequest_def deleteMedia_def listSyncChanges_def archiveWardrobeItem_def
  restoreWardrobeItem_def getWearFeedback_def saveWearFeedback_def deleteWearFeedback_def

text \<open>A request's destination depends on its URL only, whatever its caller's options are.\<close>

definition served :: "axios_config \<Rightarrow> bool" where
  "served c \<longleftrightarrow> proxied (path_of (ac_url c))"

lemma request_url [simp]: "ac_url (request url options) = url"
  by (simp add: request_def)

lemma request_credentials [simp]:
  "ro_with_credentials options = None \<Longrightarrow> ac_with_credentials (request url options)"
  by (simp add: request_def)

text \<open>For a URL that begins with a literal, the root is read off the literal.\<close>

lemma char_unit_eq: "(of_char c :: code_unit) = of_char d \<longleftrightarrow> c = d"
proof -
  have small: "(of_char e :: nat) < 2 ^ 16" for e :: char
    using nat_of_char_less_256 [of e] by (rule less_trans) simp
  have "(of_char c :: code_unit) = of_char d \<longleftrightarrow> (of_char c :: nat) = of_char d"
    unfolding of_nat_of_char [symmetric, where 'a = "16 word"]
    using small [of c] small [of d] by (simp add: word_of_nat_eq_iff take_bit_nat_eq_self)
  then show ?thesis by simp
qed

lemma js_eq: "js s = js t \<longleftrightarrow> s = t"
  by (simp add: js_def inj_map_eq_map inj_on_def char_unit_eq)

definition url_root :: "string \<Rightarrow> string" where
  "url_root s = takeWhile (\<lambda>c. c \<noteq> CHR ''/'' \<and> c \<noteq> CHR ''?'') (tl s)"

lemma root_units: "takeWhile (\<lambda>v. v \<noteq> slash) (takeWhile (\<lambda>v. v \<noteq> 0x3F) (js r @ u)) = js (url_root (CHR ''/'' # r))"
  if "CHR ''/'' \<in> set r \<or> u = []"
proof -
  have "takeWhile (\<lambda>v. v \<noteq> of_char CHR ''/'' \<and> v \<noteq> of_char CHR ''?'') (js r @ u) =
      js (takeWhile (\<lambda>c. c \<noteq> CHR ''/'' \<and> c \<noteq> CHR ''?'') r)"
    using that by (induction r) (auto simp: char_unit_eq simp del: of_char_Char)
  moreover have "takeWhile Q (takeWhile P xs) = takeWhile (\<lambda>v. Q v \<and> P v) xs" for P Q and xs :: jstring
    by (induction xs) auto
  ultimately show ?thesis by (simp add: slash_def url_root_def)
qed

lemma served_literal:
  assumes "CHR ''/'' \<in> set r \<or> u = []"
  shows "served (request (js (CHR ''/'' # r) @ u) options) \<longleftrightarrow> url_root (CHR ''/'' # r) \<in> set apiRoots"
proof -
  have "path_of (js (CHR ''/'' # r) @ u) = slash # takeWhile (\<lambda>v. v \<noteq> 0x3F) (js r @ u)"
    by (simp add: path_of_def slash_def)
  then show ?thesis
    using root_units [OF assms] by (auto simp: served_def request_def proxied_def js_eq)
qed

lemma served_whole:
  "served (request (js (CHR ''/'' # r)) options) \<longleftrightarrow> url_root (CHR ''/'' # r) \<in> set apiRoots"
  using served_literal [where u = "[]"] by simp

lemmas route_simps = served_literal served_whole url_root_def apiRoots_def

lemma community_calls_routed:
  "map fst (filter (\<lambda>(n, c). served c) (community_calls params body options)) =
     [''listOwnModerationAppeals'', ''listBookmarks'', ''listOwnPosts'', ''getOwnPost'',
       ''listOwnReports'', ''listBlockedUsers'', ''blockUser'', ''unblockUser'',
       ''getCurrentProfile'', ''putCurrentProfile'', ''putProfileAvatar'', ''deleteProfileAvatar'']"
  by (simp add: community_calls_def community_function_defs route_simps del: js_simps)

lemma personal_calls_routed:
  "map fst (filter (\<lambda>(n, c). served c) (personal_calls params body options)) =
     [''listCurrentUserSessions'', ''revokeCurrentUserSession'', ''requestEmailVerification'',
       ''confirmEmailVerification'', ''requestPasswordReset'', ''confirmPasswordReset'',
       ''getLiveness'', ''getReadiness'', ''getSelfAdultDeclaration'',
       ''confirmSelfAdultDeclaration'', ''withdrawSelfAdultDeclaration'', ''createConsent'',
       ''getConsent'', ''withdrawConsent'', ''getDeletionRequest'', ''deleteMedia'',
       ''archiveWardrobeItem'', ''restoreWardrobeItem'', ''getWearFeedback'',
       ''saveWearFeedback'', ''deleteWearFeedback'']"
  by (simp add: personal_calls_def personal_function_defs route_simps del: js_simps)

text \<open>Exactly these of the hundred functions would reach the service as it is set up now.\<close>

lemma uncalled_functions_routed:
  "map fst (filter (\<lambda>(n, c). served c)
     (community_calls params body options @ personal_calls params body options)) =
     [''listOwnModerationAppeals'', ''listBookmarks'', ''listOwnPosts'', ''getOwnPost'',
       ''listOwnReports'', ''listBlockedUsers'', ''blockUser'', ''unblockUser'',
       ''getCurrentProfile'', ''putCurrentProfile'', ''putProfileAvatar'',
       ''deleteProfileAvatar'', ''listCurrentUserSessions'', ''revokeCurrentUserSession'',
       ''requestEmailVerification'', ''confirmEmailVerification'', ''requestPasswordReset'',
       ''confirmPasswordReset'', ''getLiveness'', ''getReadiness'', ''getSelfAdultDeclaration'',
       ''confirmSelfAdultDeclaration'', ''withdrawSelfAdultDeclaration'', ''createConsent'',
       ''getConsent'', ''withdrawConsent'', ''getDeletionRequest'', ''deleteMedia'',
       ''archiveWardrobeItem'', ''restoreWardrobeItem'', ''getWearFeedback'',
       ''saveWearFeedback'', ''deleteWearFeedback'']"
  by (simp only: filter_append map_append community_calls_routed personal_calls_routed append.simps)

subsection \<open>Their parameters\<close>

text \<open>
  A field that goes into the path is left out of the query, and the other fields are kept; a
  default holds unless the caller sets the field, be it to \<^verbatim>\<open>undefined\<close>, which removes it.
\<close>

lemma rest_params: "map_of (rest ks params) k = (if k \<in> set ks then None else map_of params k)"
  by (induction params) (auto simp: rest_def)

lemma put_param_get: "map_of (put_param k v ps) j = (if j = k then Some v else map_of ps j)"
  by (induction ps rule: put_param.induct) auto

lemma spread_get:
  "distinct (map fst ys) \<Longrightarrow>
   map_of (spread xs ys) j = (case map_of ys j of None \<Rightarrow> map_of xs j | Some v \<Rightarrow> Some v)"
proof (induction ys arbitrary: xs)
  case Nil
  then show ?case by (simp add: spread_def)
next
  case (Cons y ys)
  obtain k v where y: "y = (k, v)" by (cases y)
  have "map_of (spread xs (y # ys)) j = map_of (spread (put_param k v xs) ys) j"
    by (simp add: spread_def y)
  moreover have "map_of ys k = None"
    using Cons.prems by (simp add: y map_of_eq_None_iff)
  ultimately show ?case
    using Cons.IH [of "put_param k v xs"] Cons.prems
    by (auto simp: y put_param_get split: option.splits)
qed

lemma list_limit:
  assumes "distinct (map fst params)"
  shows "map_of (ac_params (listComments params (\<lambda>os. os))) ''limit'' =
      (case map_of params ''limit'' of None \<Rightarrow> Some (P_string (js ''20'')) | Some v \<Rightarrow> Some v)"
    and "map_of (ac_params (listComments params (\<lambda>os. os))) ''post_id'' = None"
proof -
  have "distinct (map fst (rest ks params))" for ks
    using assms by (simp add: rest_def distinct_map_filter)
  from spread_get [OF this]
  show "map_of (ac_params (listComments params (\<lambda>os. os))) ''limit'' =
      (case map_of params ''limit'' of None \<Rightarrow> Some (P_string (js ''20'')) | Some v \<Rightarrow> Some v)"
    and "map_of (ac_params (listComments params (\<lambda>os. os))) ''post_id'' = None"
    by (simp_all add: listComments_def request_def plain_def rest_params cong: option.case_cong)
qed

subsection \<open>Pages and requests\<close>

text \<open>
  \<^verbatim>\<open>next.config.ts\<close> also matches the address of a page, the wardrobe's; it is shown because pages
  come before rewrites. No other page has the address of a request.
\<close>

lemma wardrobe_only_shadowed: "page_at path = Some p \<Longrightarrow> proxied path \<longleftrightarrow> p = Wardrobe_page"
  by (auto simp: page_at_def proxied_def slash_def apiRoots_def split: if_splits)

text \<open>
  Every request of the hooks is handed on to the service: its path matches the rewrite rule of
  the client, belongs to no page of the client, and the session cookie is sent with it.
\<close>

lemma calls_reach_service:
  "proxied (path_of (ac_url (http_of c))) \<and> page_at (path_of (ac_url (http_of c))) = None
    \<and> ac_with_credentials (http_of c)"
proof (intro conjI)
  show "proxied (path_of (ac_url (http_of c)))"
    by (cases c) (simp_all add: api_function_defs proxied_def slash_def apiRoots_def path_of_def)
  show "page_at (path_of (ac_url (http_of c))) = None"
    by (cases c) (simp_all add: api_function_defs page_at_def path_of_def)
  show "ac_with_credentials (http_of c)" by (rule http_of_credentials)
qed

end
