(* ===== verification/Api_Shapes.thy ===== *)
theory Api_Shapes
  imports Api_Personal
begin

text \<open>
  The types of \<^verbatim>\<open>api/typings.d.ts\<close> that the functions without a caller declare for their parameters
  and bodies, as shapes that a value can be checked against. A caller that keeps to the types
  fills every part of a path, and a consent it sends is the one the service is built on.
\<close>

subsection \<open>Shapes\<close>

datatype presence = Required | Optional

datatype shape =
    S_string | S_number | S_any
  | S_flag bool
  | S_value int
  | S_words "string list"
  | S_object "(string \<times> presence \<times> shape) list"

type_synonym fields = "(string \<times> presence \<times> shape) list"

text \<open>A value of the shape; a missing or undefined field must be optional.\<close>

fun conforms :: "shape \<Rightarrow> jsval \<Rightarrow> bool" where
  "conforms S_string v = (case v of JStr s \<Rightarrow> True | _ \<Rightarrow> False)"
| "conforms S_number v = (case v of JNum n \<Rightarrow> True | _ \<Rightarrow> False)"
| "conforms S_any v = True"
| "conforms (S_flag b) v = (v = JBool b)"
| "conforms (S_value n) v = (v = JNum n)"
| "conforms (S_words ws) v = (v \<in> JStr ` js ` set ws)"
| "conforms (S_object fs) v =
     (case v of
        JObj ps \<Rightarrow> list_all (\<lambda>(k, p, s).
          case map_of ps k of None \<Rightarrow> p = Optional
          | Some w \<Rightarrow> w = JUndefined \<and> p = Optional \<or> conforms s w) fs
      | _ \<Rightarrow> False)"

fun conforms_param :: "shape \<Rightarrow> param \<Rightarrow> bool" where
  "conforms_param S_string v = (case v of P_string s \<Rightarrow> True | _ \<Rightarrow> False)"
| "conforms_param S_number v = (case v of P_number n \<Rightarrow> True | _ \<Rightarrow> False)"
| "conforms_param (S_words ws) v = (v \<in> P_string ` js ` set ws)"
| "conforms_param _ v = False"

definition typed_params :: "fields \<Rightarrow> params \<Rightarrow> bool" where
  "typed_params fs params \<longleftrightarrow>
     list_all (\<lambda>(k, p, s).
       case map_of params k of None \<Rightarrow> p = Optional
       | Some v \<Rightarrow> v = P_undefined \<and> p = Optional \<or> conforms_param s v) fs"

subsection \<open>Parameters\<close>

definition getAccountDeletionReceiptParams :: fields where
  "getAccountDeletionReceiptParams =
     [(''id'', Required, S_string)]"

definition revokeAccountDeletionReceiptParams :: fields where
  "revokeAccountDeletionReceiptParams =
     [(''id'', Required, S_string)]"

definition listCurrentUserSessionsParams :: fields where
  "listCurrentUserSessionsParams =
     [(''limit'', Optional, S_number), (''offset'', Optional, S_number)]"

definition revokeCurrentUserSessionParams :: fields where
  "revokeCurrentUserSessionParams =
     [(''session_id'', Required, S_string)]"

definition listAdminUsersParams :: fields where
  "listAdminUsersParams =
     [(''limit'', Optional, S_number), (''after_id'', Optional, S_string)]"

definition restoreUserParams :: fields where
  "restoreUserParams =
     [(''user_id'', Required, S_string)]"

definition suspendUserParams :: fields where
  "suspendUserParams =
     [(''user_id'', Required, S_string)]"

definition listModerationAppealsParams :: fields where
  "listModerationAppealsParams =
     [(''limit'', Optional, S_number), (''after_id'', Optional, S_string),
      (''status'', Optional, S_words [''open'', ''upheld'', ''reversed''])]"

definition resolveModerationAppealParams :: fields where
  "resolveModerationAppealParams =
     [(''appeal_id'', Required, S_string)]"

definition listOwnModerationAppealsParams :: fields where
  "listOwnModerationAppealsParams =
     [(''limit'', Optional, S_number), (''after_id'', Optional, S_string)]"

definition deleteCommentParams :: fields where
  "deleteCommentParams =
     [(''comment_id'', Required, S_string), (''expected_revision'', Optional, S_number)]"

definition listCommentRepliesParams :: fields where
  "listCommentRepliesParams =
     [(''limit'', Optional, S_number), (''after_id'', Optional, S_string),
      (''comment_id'', Required, S_string)]"

definition listCommentsParams :: fields where
  "listCommentsParams =
     [(''limit'', Optional, S_number), (''after_id'', Optional, S_string),
      (''post_id'', Required, S_string), (''parent_id'', Optional, S_string)]"

definition createCommentParams :: fields where
  "createCommentParams =
     [(''post_id'', Required, S_string)]"

definition listCommunityFeedParams :: fields where
  "listCommunityFeedParams =
     [(''limit'', Optional, S_number), (''after_id'', Optional, S_string),
      (''type'', Optional, S_words [''discover'', ''following''])]"

definition listProfilePostsParams :: fields where
  "listProfilePostsParams =
     [(''limit'', Optional, S_number), (''after_id'', Optional, S_string),
      (''handle'', Required, S_string)]"

definition searchCommunityPostsParams :: fields where
  "searchCommunityPostsParams =
     [(''limit'', Optional, S_number), (''after_id'', Optional, S_string), (''q'', Optional, S_string),
      (''tag'', Optional, S_string)]"

definition bookmarkPostParams :: fields where
  "bookmarkPostParams =
     [(''post_id'', Required, S_string)]"

definition unbookmarkPostParams :: fields where
  "unbookmarkPostParams =
     [(''post_id'', Required, S_string)]"

definition likePostParams :: fields where
  "likePostParams =
     [(''post_id'', Required, S_string)]"

definition unlikePostParams :: fields where
  "unlikePostParams =
     [(''post_id'', Required, S_string)]"

definition listBookmarksParams :: fields where
  "listBookmarksParams =
     [(''limit'', Optional, S_number), (''after_id'', Optional, S_string)]"

definition removePublishedCommentParams :: fields where
  "removePublishedCommentParams =
     [(''comment_id'', Required, S_string)]"

definition listModerationActionsParams :: fields where
  "listModerationActionsParams =
     [(''limit'', Optional, S_number), (''after_id'', Optional, S_string)]"

definition listCommentModerationCandidatesParams :: fields where
  "listCommentModerationCandidatesParams =
     [(''limit'', Optional, S_number), (''after_id'', Optional, S_string)]"

definition decideCommentModerationParams :: fields where
  "decideCommentModerationParams =
     [(''comment_id'', Required, S_string)]"

definition listPostModerationCandidatesParams :: fields where
  "listPostModerationCandidatesParams =
     [(''limit'', Optional, S_number), (''after_id'', Optional, S_string)]"

definition decidePostModerationParams :: fields where
  "decidePostModerationParams =
     [(''post_id'', Required, S_string)]"

definition getPostModerationCandidateParams :: fields where
  "getPostModerationCandidateParams =
     [(''post_id'', Required, S_string), (''version'', Required, S_number)]"

definition getPostModerationImageParams :: fields where
  "getPostModerationImageParams =
     [(''post_id'', Required, S_string), (''version'', Required, S_number),
      (''ordinal'', Required, S_number)]"

definition removePublishedPostParams :: fields where
  "removePublishedPostParams =
     [(''post_id'', Required, S_string)]"

definition listCommunityReportsParams :: fields where
  "listCommunityReportsParams =
     [(''limit'', Optional, S_number), (''after_id'', Optional, S_string),
      (''status'', Optional, S_words [''open'', ''resolved'', ''dismissed''])]"

definition resolveCommunityReportParams :: fields where
  "resolveCommunityReportParams =
     [(''report_id'', Required, S_string)]"

definition updatePostParams :: fields where
  "updatePostParams =
     [(''post_id'', Required, S_string)]"

definition deletePostParams :: fields where
  "deletePostParams =
     [(''post_id'', Required, S_string), (''expected_revision'', Optional, S_number)]"

definition submitPostParams :: fields where
  "submitPostParams =
     [(''post_id'', Required, S_string)]"

definition withdrawPostParams :: fields where
  "withdrawPostParams =
     [(''post_id'', Required, S_string)]"

definition listOwnPostsParams :: fields where
  "listOwnPostsParams =
     [(''limit'', Optional, S_number), (''after_id'', Optional, S_string),
      (''state'', Optional, S_words [''draft'', ''pending'', ''published'', ''withdrawn'', ''removed''])]"

definition getOwnPostParams :: fields where
  "getOwnPostParams =
     [(''post_id'', Required, S_string)]"

definition followProfileParams :: fields where
  "followProfileParams =
     [(''handle'', Required, S_string)]"

definition unfollowProfileParams :: fields where
  "unfollowProfileParams =
     [(''handle'', Required, S_string)]"

definition listProfileFollowersParams :: fields where
  "listProfileFollowersParams =
     [(''limit'', Optional, S_number), (''after_id'', Optional, S_string),
      (''handle'', Required, S_string)]"

definition listProfileFollowingParams :: fields where
  "listProfileFollowingParams =
     [(''limit'', Optional, S_number), (''after_id'', Optional, S_string),
      (''handle'', Required, S_string)]"

definition listOwnReportsParams :: fields where
  "listOwnReportsParams =
     [(''limit'', Optional, S_number), (''after_id'', Optional, S_string),
      (''status'', Optional, S_words [''open'', ''resolved'', ''dismissed''])]"

definition listBlockedUsersParams :: fields where
  "listBlockedUsersParams =
     [(''limit'', Optional, S_number), (''after_id'', Optional, S_string)]"

definition blockUserParams :: fields where
  "blockUserParams =
     [(''user_id'', Required, S_string)]"

definition unblockUserParams :: fields where
  "unblockUserParams =
     [(''user_id'', Required, S_string)]"

definition getDataExportParams :: fields where
  "getDataExportParams =
     [(''id'', Required, S_string)]"

definition revokeDataExportParams :: fields where
  "revokeDataExportParams =
     [(''id'', Required, S_string)]"

definition downloadDataExportParams :: fields where
  "downloadDataExportParams =
     [(''id'', Required, S_string)]"

definition getCalendarMonthParams :: fields where
  "getCalendarMonthParams =
     [(''month'', Optional, S_string)]"

definition listDiaryEntriesParams :: fields where
  "listDiaryEntriesParams =
     [(''limit'', Optional, S_number), (''after_id'', Optional, S_string),
      (''date_from'', Optional, S_string), (''date_to'', Optional, S_string)]"

definition getDiaryEntryParams :: fields where
  "getDiaryEntryParams =
     [(''entry_id'', Required, S_string)]"

definition updateDiaryEntryParams :: fields where
  "updateDiaryEntryParams =
     [(''entry_id'', Required, S_string)]"

definition deleteDiaryEntryParams :: fields where
  "deleteDiaryEntryParams =
     [(''entry_id'', Required, S_string), (''expected_revision'', Optional, S_number)]"

definition getDiaryEntryDeletionImpactParams :: fields where
  "getDiaryEntryDeletionImpactParams =
     [(''entry_id'', Required, S_string)]"

definition reconcileUnknownGenerationSubmissionParams :: fields where
  "reconcileUnknownGenerationSubmissionParams =
     [(''job_id'', Required, S_string)]"

definition listUnknownGenerationSubmissionsParams :: fields where
  "listUnknownGenerationSubmissionsParams =
     [(''limit'', Optional, S_number), (''after_id'', Optional, S_string)]"

definition listGenerationJobsParams :: fields where
  "listGenerationJobsParams =
     [(''limit'', Optional, S_number), (''after_id'', Optional, S_string)]"

definition getGenerationJobParams :: fields where
  "getGenerationJobParams =
     [(''job_id'', Required, S_string)]"

definition deleteGenerationJobParams :: fields where
  "deleteGenerationJobParams =
     [(''job_id'', Required, S_string)]"

definition cancelGenerationJobParams :: fields where
  "cancelGenerationJobParams =
     [(''job_id'', Required, S_string)]"

definition confirmGenerationImageParams :: fields where
  "confirmGenerationImageParams =
     [(''job_id'', Required, S_string)]"

definition getGenerationOutputAccessParams :: fields where
  "getGenerationOutputAccessParams =
     [(''job_id'', Required, S_string)]"

definition listNotificationsParams :: fields where
  "listNotificationsParams =
     [(''limit'', Optional, S_number), (''after_id'', Optional, S_string)]"

definition markNotificationReadParams :: fields where
  "markNotificationReadParams =
     [(''notification_id'', Required, S_string)]"

definition getConsentParams :: fields where
  "getConsentParams =
     [(''consent_id'', Required, S_string)]"

definition withdrawConsentParams :: fields where
  "withdrawConsentParams =
     [(''consent_id'', Required, S_string)]"

definition getDeletionRequestParams :: fields where
  "getDeletionRequestParams =
     [(''request_id'', Required, S_string)]"

definition deleteMediaParams :: fields where
  "deleteMediaParams =
     [(''media_id'', Required, S_string)]"

definition getPublicProfileParams :: fields where
  "getPublicProfileParams =
     [(''handle'', Required, S_string)]"

definition getPublicProfileAvatarParams :: fields where
  "getPublicProfileAvatarParams =
     [(''handle'', Required, S_string)]"

definition deleteProfileAvatarParams :: fields where
  "deleteProfileAvatarParams =
     [(''expected_revision'', Optional, S_number)]"

definition getPublicPostParams :: fields where
  "getPublicPostParams =
     [(''post_id'', Required, S_string)]"

definition getPublicPostImageParams :: fields where
  "getPublicPostImageParams =
     [(''post_id'', Required, S_string), (''ordinal'', Required, S_number)]"

definition listSyncChangesParams :: fields where
  "listSyncChangesParams =
     [(''after'', Optional, S_string), (''limit'', Optional, S_number)]"

definition archiveWardrobeItemParams :: fields where
  "archiveWardrobeItemParams =
     [(''item_id'', Required, S_string)]"

definition restoreWardrobeItemParams :: fields where
  "restoreWardrobeItemParams =
     [(''item_id'', Required, S_string)]"

definition getWearFeedbackParams :: fields where
  "getWearFeedbackParams =
     [(''wear_event_id'', Required, S_string)]"

definition saveWearFeedbackParams :: fields where
  "saveWearFeedbackParams =
     [(''wear_event_id'', Required, S_string)]"

definition deleteWearFeedbackParams :: fields where
  "deleteWearFeedbackParams =
     [(''wear_event_id'', Required, S_string), (''feedback_id'', Optional, S_string),
      (''mutation_id'', Optional, S_string), (''expected_revision'', Optional, S_number)]"

subsection \<open>Bodies\<close>

definition SetUserStatusRequest :: fields where
  "SetUserStatusRequest =
     [(''expected_revision'', Required, S_number), (''reason_code'', Required, S_string)]"

definition ConfirmMailChallengeInputBody :: fields where
  "ConfirmMailChallengeInputBody =
     [(''token'', Required, S_string)]"

definition RequestPasswordResetInputBody :: fields where
  "RequestPasswordResetInputBody =
     [(''email'', Required, S_string)]"

definition ConfirmPasswordResetInputBody :: fields where
  "ConfirmPasswordResetInputBody =
     [(''new_password'', Required, S_string), (''token'', Required, S_string)]"

definition ResolveAppealRequest :: fields where
  "ResolveAppealRequest =
     [(''resolution_code'', Required, S_string),
      (''status'', Required, S_words [''upheld'', ''reversed''])]"

definition CreateAppealRequest :: fields where
  "CreateAppealRequest =
     [(''action_id'', Required, S_string), (''id'', Required, S_string),
      (''reason'', Required, S_string)]"

definition CreateCommentRequest :: fields where
  "CreateCommentRequest =
     [(''body'', Required, S_string), (''id'', Required, S_string), (''parent_id'', Optional, S_string)]"

definition RemovePostRequest :: fields where
  "RemovePostRequest =
     [(''expected_revision'', Required, S_number), (''reason_code'', Required, S_string)]"

definition DecideCommentRequest :: fields where
  "DecideCommentRequest =
     [(''decision'', Required, S_words [''approve'', ''reject'']),
      (''expected_revision'', Required, S_number), (''reason_code'', Required, S_string)]"

definition DecidePostRequest :: fields where
  "DecidePostRequest =
     [(''decision'', Required, S_words [''approve'', ''reject'']),
      (''expected_revision'', Required, S_number), (''reason_code'', Required, S_string),
      (''review_round'', Required, S_number), (''version'', Required, S_number)]"

definition ResolveReportRequest :: fields where
  "ResolveReportRequest =
     [(''resolution_code'', Required, S_string),
      (''status'', Required, S_words [''resolved'', ''dismissed''])]"

definition CreatePostRequest :: fields where
  "CreatePostRequest =
     [(''body'', Optional, S_string), (''id'', Required, S_string), (''media_ids'', Required, S_any),
      (''source_diary_id'', Optional, S_string), (''tags'', Required, S_any),
      (''title'', Optional, S_string)]"

definition UpdatePostRequest :: fields where
  "UpdatePostRequest =
     [(''body'', Optional, S_string), (''expected_revision'', Required, S_number),
      (''media_ids'', Required, S_any), (''source_diary_id'', Optional, S_string),
      (''tags'', Required, S_any), (''title'', Optional, S_string)]"

definition PostRevisionRequest :: fields where
  "PostRevisionRequest =
     [(''expected_revision'', Required, S_number)]"

definition CreateReportRequest :: fields where
  "CreateReportRequest =
     [(''comment_id'', Optional, S_string), (''detail'', Optional, S_string),
      (''id'', Required, S_string), (''post_id'', Required, S_string),
      (''reason_code'', Required, S_words [''spam'', ''harassment'', ''sexual'', ''violence'', ''misinformation'', ''other'']),
      (''target_type'', Required, S_words [''post'', ''comment''])]"

definition CreateDataExportInputBody :: fields where
  "CreateDataExportInputBody =
     [(''mode'', Required, S_words [''structured'', ''with_media'']),
      (''password'', Required, S_string)]"

definition CreateDiaryEntryRequest :: fields where
  "CreateDiaryEntryRequest =
     [(''body'', Optional, S_string), (''id'', Required, S_string),
      (''local_date'', Required, S_string), (''media_ids'', Required, S_any),
      (''mood'', Optional, S_string), (''occasion'', Optional, S_string),
      (''plan_id'', Optional, S_string), (''time_zone'', Required, S_string),
      (''title'', Optional, S_string), (''wear_event_id'', Optional, S_string)]"

definition UpdateDiaryEntryRequest :: fields where
  "UpdateDiaryEntryRequest =
     [(''body'', Optional, S_string), (''expected_revision'', Required, S_number),
      (''local_date'', Required, S_string), (''media_ids'', Required, S_any),
      (''mood'', Optional, S_string), (''occasion'', Optional, S_string),
      (''plan_id'', Optional, S_string), (''time_zone'', Required, S_string),
      (''title'', Optional, S_string), (''wear_event_id'', Optional, S_string)]"

definition ReconcileUnknownSubmissionRequest :: fields where
  "ReconcileUnknownSubmissionRequest =
     [(''decision'', Required, S_words [''accepted'', ''not_accepted'']),
      (''evidence_reference'', Required, S_string),
      (''evidence_type'', Required, S_words [''provider_console'', ''provider_query'', ''support_case'']),
      (''expected_revision'', Required, S_number), (''external_task_id'', Optional, S_string)]"

definition GenerationConsentRequest :: fields where
  "GenerationConsentRequest =
     [(''accepted_at'', Required, S_string), (''id'', Required, S_string),
      (''policy_version'', Required, S_string), (''purpose'', Required, S_words [''image'', ''model''])]"

definition CreateGenerationJobRequest :: fields where
  "CreateGenerationJobRequest =
     [(''consent'', Required, S_object GenerationConsentRequest),
      (''idempotency_key'', Required, S_string), (''image_asset_id'', Optional, S_string),
      (''image_sha256'', Optional, S_string), (''inputs'', Required, S_any),
      (''look_id'', Required, S_string), (''look_revision'', Required, S_number),
      (''model'', Required, S_string), (''parameters'', Optional, S_any),
      (''provider'', Required, S_string), (''purpose'', Required, S_words [''image'', ''model''])]"

definition ConfirmSelfAdultDeclarationRequest :: fields where
  "ConfirmSelfAdultDeclarationRequest =
     [(''confirms_self_and_adult'', Required, S_flag True),
      (''policy_version'', Required, S_words [''self-adult-v1''])]"

definition CreateConsentRequest :: fields where
  "CreateConsentRequest =
     [(''actively_agreed'', Required, S_flag True),
      (''category'', Required, S_words [''person_photo'', ''ordinary_image'']),
      (''max_retention_hours'', Required, S_value 24),
      (''policy_version'', Required, S_words [''person-photo-v1'', ''generation-input-v1'']),
      (''processor'', Required, S_words [''then'']),
      (''purpose'', Required, S_words [''avatar_source_preparation'', ''generation_input'']),
      (''region'', Required, S_words [''local-development'']),
      (''training_allowed'', Required, S_flag False)]"

definition PutProfileRequest :: fields where
  "PutProfileRequest =
     [(''bio'', Optional, S_string), (''expected_revision'', Required, S_number),
      (''handle'', Required, S_string)]"

definition PutProfileAvatarRequest :: fields where
  "PutProfileAvatarRequest =
     [(''expected_revision'', Required, S_number), (''media_id'', Required, S_string)]"

definition WardrobeLifecycleRequest :: fields where
  "WardrobeLifecycleRequest =
     [(''expected_revision'', Required, S_number)]"

definition SaveFeedbackRequest :: fields where
  "SaveFeedbackRequest =
     [(''activity_comfort'', Optional, S_words [''uncomfortable'', ''okay'', ''comfortable'']),
      (''expected_revision'', Optional, S_number), (''feedback_id'', Required, S_string),
      (''issue_tags'', Required, S_any), (''mutation_id'', Required, S_string),
      (''note'', Optional, S_string),
      (''occasion_fit'', Optional, S_words [''tooCasual'', ''right'', ''tooFormal'']),
      (''repeat_intent'', Optional, S_words [''yes'', ''unsure'', ''no'']),
      (''thermal_comfort'', Optional, S_words [''cold'', ''comfortable'', ''hot''])]"

subsection \<open>Paths of a typed caller\<close>

text \<open>Every function that takes fields out for its path, with the type of its parameters.\<close>

definition path_fields :: "(string \<times> fields \<times> string list) list" where
  "path_fields =
     [(''getAccountDeletionReceipt'', getAccountDeletionReceiptParams, [''id'']),
      (''revokeAccountDeletionReceipt'', revokeAccountDeletionReceiptParams, [''id'']),
      (''revokeCurrentUserSession'', revokeCurrentUserSessionParams, [''session_id'']),
      (''restoreUser'', restoreUserParams, [''user_id'']),
      (''suspendUser'', suspendUserParams, [''user_id'']),
      (''resolveModerationAppeal'', resolveModerationAppealParams, [''appeal_id'']),
      (''deleteComment'', deleteCommentParams, [''comment_id'']),
      (''listCommentReplies'', listCommentRepliesParams, [''comment_id'']),
      (''listComments'', listCommentsParams, [''post_id'']),
      (''createComment'', createCommentParams, [''post_id'']),
      (''listProfilePosts'', listProfilePostsParams, [''handle'']),
      (''bookmarkPost'', bookmarkPostParams, [''post_id'']),
      (''unbookmarkPost'', unbookmarkPostParams, [''post_id'']),
      (''likePost'', likePostParams, [''post_id'']),
      (''unlikePost'', unlikePostParams, [''post_id'']),
      (''removePublishedComment'', removePublishedCommentParams, [''comment_id'']),
      (''decideCommentModeration'', decideCommentModerationParams, [''comment_id'']),
      (''decidePostModeration'', decidePostModerationParams, [''post_id'']),
      (''getPostModerationCandidate'', getPostModerationCandidateParams, [''post_id'', ''version'']),
      (''getPostModerationImage'', getPostModerationImageParams, [''post_id'', ''version'', ''ordinal'']),
      (''removePublishedPost'', removePublishedPostParams, [''post_id'']),
      (''resolveCommunityReport'', resolveCommunityReportParams, [''report_id'']),
      (''updatePost'', updatePostParams, [''post_id'']),
      (''deletePost'', deletePostParams, [''post_id'']),
      (''submitPost'', submitPostParams, [''post_id'']),
      (''withdrawPost'', withdrawPostParams, [''post_id'']),
      (''getOwnPost'', getOwnPostParams, [''post_id'']),
      (''followProfile'', followProfileParams, [''handle'']),
      (''unfollowProfile'', unfollowProfileParams, [''handle'']),
      (''listProfileFollowers'', listProfileFollowersParams, [''handle'']),
      (''listProfileFollowing'', listProfileFollowingParams, [''handle'']),
      (''blockUser'', blockUserParams, [''user_id'']),
      (''unblockUser'', unblockUserParams, [''user_id'']),
      (''getDataExport'', getDataExportParams, [''id'']),
      (''revokeDataExport'', revokeDataExportParams, [''id'']),
      (''downloadDataExport'', downloadDataExportParams, [''id'']),
      (''getDiaryEntry'', getDiaryEntryParams, [''entry_id'']),
      (''updateDiaryEntry'', updateDiaryEntryParams, [''entry_id'']),
      (''deleteDiaryEntry'', deleteDiaryEntryParams, [''entry_id'']),
      (''getDiaryEntryDeletionImpact'', getDiaryEntryDeletionImpactParams, [''entry_id'']),
      (''reconcileUnknownGenerationSubmission'', reconcileUnknownGenerationSubmissionParams, [''job_id'']),
      (''getGenerationJob'', getGenerationJobParams, [''job_id'']),
      (''deleteGenerationJob'', deleteGenerationJobParams, [''job_id'']),
      (''cancelGenerationJob'', cancelGenerationJobParams, [''job_id'']),
      (''confirmGenerationImage'', confirmGenerationImageParams, [''job_id'']),
      (''getGenerationOutputAccess'', getGenerationOutputAccessParams, [''job_id'']),
      (''markNotificationRead'', markNotificationReadParams, [''notification_id'']),
      (''getConsent'', getConsentParams, [''consent_id'']),
      (''withdrawConsent'', withdrawConsentParams, [''consent_id'']),
      (''getDeletionRequest'', getDeletionRequestParams, [''request_id'']),
      (''deleteMedia'', deleteMediaParams, [''media_id'']),
      (''getPublicProfile'', getPublicProfileParams, [''handle'']),
      (''getPublicProfileAvatar'', getPublicProfileAvatarParams, [''handle'']),
      (''getPublicPost'', getPublicPostParams, [''post_id'']),
      (''getPublicPostImage'', getPublicPostImageParams, [''post_id'', ''ordinal'']),
      (''archiveWardrobeItem'', archiveWardrobeItemParams, [''item_id'']),
      (''restoreWardrobeItem'', restoreWardrobeItemParams, [''item_id'']),
      (''getWearFeedback'', getWearFeedbackParams, [''wear_event_id'']),
      (''saveWearFeedback'', saveWearFeedbackParams, [''wear_event_id'']),
      (''deleteWearFeedback'', deleteWearFeedbackParams, [''wear_event_id''])]"

lemmas params_defs =
  getAccountDeletionReceiptParams_def
  revokeAccountDeletionReceiptParams_def
  listCurrentUserSessionsParams_def
  revokeCurrentUserSessionParams_def
  listAdminUsersParams_def
  restoreUserParams_def
  suspendUserParams_def
  listModerationAppealsParams_def
  resolveModerationAppealParams_def
  listOwnModerationAppealsParams_def
  deleteCommentParams_def
  listCommentRepliesParams_def
  listCommentsParams_def
  createCommentParams_def
  listCommunityFeedParams_def
  listProfilePostsParams_def
  searchCommunityPostsParams_def
  bookmarkPostParams_def
  unbookmarkPostParams_def
  likePostParams_def
  unlikePostParams_def
  listBookmarksParams_def
  removePublishedCommentParams_def
  listModerationActionsParams_def
  listCommentModerationCandidatesParams_def
  decideCommentModerationParams_def
  listPostModerationCandidatesParams_def
  decidePostModerationParams_def
  getPostModerationCandidateParams_def
  getPostModerationImageParams_def
  removePublishedPostParams_def
  listCommunityReportsParams_def
  resolveCommunityReportParams_def
  updatePostParams_def
  deletePostParams_def
  submitPostParams_def
  withdrawPostParams_def
  listOwnPostsParams_def
  getOwnPostParams_def
  followProfileParams_def
  unfollowProfileParams_def
  listProfileFollowersParams_def
  listProfileFollowingParams_def
  listOwnReportsParams_def
  listBlockedUsersParams_def
  blockUserParams_def
  unblockUserParams_def
  getDataExportParams_def
  revokeDataExportParams_def
  downloadDataExportParams_def
  getCalendarMonthParams_def
  listDiaryEntriesParams_def
  getDiaryEntryParams_def
  updateDiaryEntryParams_def
  deleteDiaryEntryParams_def
  getDiaryEntryDeletionImpactParams_def
  reconcileUnknownGenerationSubmissionParams_def
  listUnknownGenerationSubmissionsParams_def
  listGenerationJobsParams_def
  getGenerationJobParams_def
  deleteGenerationJobParams_def
  cancelGenerationJobParams_def
  confirmGenerationImageParams_def
  getGenerationOutputAccessParams_def
  listNotificationsParams_def
  markNotificationReadParams_def
  getConsentParams_def
  withdrawConsentParams_def
  getDeletionRequestParams_def
  deleteMediaParams_def
  getPublicProfileParams_def
  getPublicProfileAvatarParams_def
  deleteProfileAvatarParams_def
  getPublicPostParams_def
  getPublicPostImageParams_def
  listSyncChangesParams_def
  archiveWardrobeItemParams_def
  restoreWardrobeItemParams_def
  getWearFeedbackParams_def
  saveWearFeedbackParams_def
  deleteWearFeedbackParams_def

lemma path_fields_required:
  "list_all (\<lambda>(n, fs, ks). list_all (\<lambda>k. (k, Required, S_string) \<in> set fs \<or> (k, Required, S_number) \<in> set fs) ks)
     path_fields"
  by (simp add: path_fields_def params_defs)

lemma required_param:
  assumes "typed_params fs params" and "(k, Required, s) \<in> set fs"
  obtains v where "map_of params k = Some v" and "conforms_param s v"
proof -
  have "case map_of params k of None \<Rightarrow> Required = Optional
      | Some v \<Rightarrow> v = P_undefined \<and> Required = Optional \<or> conforms_param s v"
    using assms by (auto simp: typed_params_def list_all_iff dest!: bspec)
  then show thesis using that by (cases "map_of params k") auto
qed

lemma segment_string:
  assumes "typed_params fs params" and "(k, Required, S_string) \<in> set fs"
  shows "map_of params k = Some (P_string (segment k params))"
  by (rule required_param [OF assms]) (simp add: segment_def split: param.splits)

lemma segment_number:
  assumes "typed_params fs params" and "(k, Required, S_number) \<in> set fs"
  shows "\<exists>n. map_of params k = Some (P_number n) \<and> segment k params = js_of_int n"
  by (rule required_param [OF assms]) (simp add: segment_def split: param.splits)

text \<open>A typed caller fills every part of a path: the text of no missing field stands in it.\<close>

lemma paths_filled:
  assumes "(n, fs, ks) \<in> set path_fields" and "k \<in> set ks" and "typed_params fs params"
  shows "map_of params k = Some (P_string (segment k params))
    \<or> (\<exists>i. map_of params k = Some (P_number i) \<and> segment k params = js_of_int i)"
proof -
  have "(k, Required, S_string) \<in> set fs \<or> (k, Required, S_number) \<in> set fs"
    using path_fields_required assms(1, 2) by (auto simp: list_all_iff)
  then show ?thesis
    using segment_string [OF assms(3)] segment_number [OF assms(3)] by blast
qed

subsection \<open>What a typed body promises\<close>

text \<open>
  A consent of a typed caller was actively agreed to, forbids training and lasts at most a day; a
  declaration of age can only be made, not denied.
\<close>

lemma field_of_object:
  "conforms (S_object fs) body \<Longrightarrow> (k, Required, s) \<in> set fs \<Longrightarrow> conforms s (js_prop body k)"
  by (force simp: list_all_iff js_prop_def split: jsval.splits option.splits)

lemma consent_terms:
  assumes "conforms (S_object CreateConsentRequest) body"
  shows "js_prop body ''actively_agreed'' = JBool True" and "js_prop body ''training_allowed'' = JBool False"
    and "js_prop body ''max_retention_hours'' = JNum 24"
  using field_of_object [OF assms, of "''actively_agreed''" "S_flag True"]
    field_of_object [OF assms, of "''training_allowed''" "S_flag False"]
    field_of_object [OF assms, of "''max_retention_hours''" "S_value 24"]
  by (simp_all add: CreateConsentRequest_def)

lemma declaration_true:
  assumes "conforms (S_object ConfirmSelfAdultDeclarationRequest) body"
  shows "js_prop body ''confirms_self_and_adult'' = JBool True"
  using field_of_object [OF assms, of "''confirms_self_and_adult''" "S_flag True"]
  by (simp add: ConfirmSelfAdultDeclarationRequest_def)

end
