(* ===== verification/Interface_Primitives.thy ===== *)
theory Interface_Primitives
  imports Js_Strings
begin

text \<open>
  The interface primitives of \<^verbatim>\<open>components/ui\<close> and the header and container of a page: each is
  the element it renders, as a tree of tags with their attributes and content. Tags with a dot
  and the icons are components of third-party libraries and stay names. What is left out are the
  styles: the \<^verbatim>\<open>className\<close> and \<^verbatim>\<open>style\<close> of the elements and of the arguments, and the variants
  of classes.
\<close>

subsection \<open>Elements\<close>

text \<open>An attribute: a value the sources write or read, or any other one a caller gives.\<close>

datatype 'h attr = Undefined | Lit string | Flag bool | Num int | Vals "int list" | Given 'h

type_synonym 'h props = "(string \<times> 'h attr) list"

text \<open>A React node; \<open>Nothing\<close> is one of \<^verbatim>\<open>undefined\<close>, \<^verbatim>\<open>null\<close> and \<^verbatim>\<open>false\<close>.\<close>

datatype 'h node =
    Nothing
  | Words jstring
  | Nodes "'h node list"
  | Tag string "'h props" "'h node"

fun attr_truthy :: "'h attr \<Rightarrow> bool" where
  "attr_truthy Undefined = False"
| "attr_truthy (Lit s) = (s \<noteq> [])"
| "attr_truthy (Flag b) = b"
| "attr_truthy (Num n) = (n \<noteq> 0)"
| "attr_truthy _ = True"

fun node_truthy :: "'h node \<Rightarrow> bool" where
  "node_truthy Nothing = False"
| "node_truthy (Words s) = (s \<noteq> [])"
| "node_truthy _ = True"

text \<open>Property access, removal of destructured names, and \<^verbatim>\<open>own={..} {...props}\<close>.\<close>

definition attr_of :: "string \<Rightarrow> 'h props \<Rightarrow> 'h attr" where
  "attr_of k ps = (case map_of ps k of None \<Rightarrow> Undefined | Some v \<Rightarrow> v)"

definition without :: "string list \<Rightarrow> 'h props \<Rightarrow> 'h props" where
  "without ks ps = filter (\<lambda>(k, v). k \<notin> set ks) ps"

fun put :: "'k \<Rightarrow> 'v \<Rightarrow> ('k \<times> 'v) list \<Rightarrow> ('k \<times> 'v) list" where
  "put k v [] = [(k, v)]"
| "put k v ((k', v') # ps) = (if k = k' then (k, v) # ps else (k', v') # put k v ps)"

definition merge :: "('k \<times> 'v) list \<Rightarrow> ('k \<times> 'v) list \<Rightarrow> ('k \<times> 'v) list" where
  "merge xs ys = fold (\<lambda>(k, v) ps. put k v ps) ys xs"

definition slot :: "string \<Rightarrow> string \<times> 'h attr" where
  "slot s = (''data-slot'', Lit s)"

text \<open>A default of a destructured name, and \<^verbatim>\<open>x || y\<close>.\<close>

definition default :: "'h attr \<Rightarrow> 'h attr \<Rightarrow> 'h attr" where
  "default v d = (case v of Undefined \<Rightarrow> d | _ \<Rightarrow> v)"

definition or_else :: "'h attr \<Rightarrow> 'h attr \<Rightarrow> 'h attr" where
  "or_else v w = (if attr_truthy v then v else w)"

definition shown_if :: "bool \<Rightarrow> 'h node \<Rightarrow> 'h node" where
  "shown_if b n = (if b then n else Nothing)"

subsection \<open>components/ui/button.tsx\<close>

definition Button_element :: "'h props \<Rightarrow> 'h node \<Rightarrow> 'h node" where
  "Button_element props children =
     Tag (if attr_truthy (default (attr_of ''asChild'' props) (Flag False)) then ''Slot.Root'' else ''button'')
       (merge [slot ''button'', (''data-variant'', default (attr_of ''variant'' props) (Lit ''default'')),
           (''data-size'', default (attr_of ''size'' props) (Lit ''default''))]
          (without [''className'', ''variant'', ''size'', ''asChild''] props)) children"

subsection \<open>components/ui/toggle.tsx\<close>

definition Toggle_element :: "'h props \<Rightarrow> 'h node \<Rightarrow> 'h node" where
  "Toggle_element props children =
     Tag ''TogglePrimitive.Root'' (merge [slot ''toggle'']
       (without [''className'', ''variant'', ''size''] props)) children"

subsection \<open>components/ui/label.tsx\<close>

definition Label :: "'h props \<Rightarrow> 'h node \<Rightarrow> 'h node" where
  "Label props children =
     Tag ''LabelPrimitive.Root'' (merge [slot ''label''] (without [''className''] props)) children"

subsection \<open>components/ui/separator.tsx\<close>

definition Separator :: "'h props \<Rightarrow> 'h node \<Rightarrow> 'h node" where
  "Separator props children =
     Tag ''SeparatorPrimitive.Root''
       (merge [slot ''separator'', (''decorative'', default (attr_of ''decorative'' props) (Flag True)),
           (''orientation'', default (attr_of ''orientation'' props) (Lit ''horizontal''))]
          (without [''className'', ''orientation'', ''decorative''] props)) children"

subsection \<open>components/ui/alert.tsx\<close>

definition Alert :: "'h props \<Rightarrow> 'h node \<Rightarrow> 'h node" where
  "Alert props children =
     Tag ''div'' (merge [slot ''alert'', (''role'', Lit ''alert'')]
       (without [''className'', ''variant''] props)) children"

definition AlertTitle :: "'h props \<Rightarrow> 'h node \<Rightarrow> 'h node" where
  "AlertTitle props children =
     Tag ''div'' (merge [slot ''alert-title''] (without [''className''] props)) children"

definition AlertDescription :: "'h props \<Rightarrow> 'h node \<Rightarrow> 'h node" where
  "AlertDescription props children =
     Tag ''div'' (merge [slot ''alert-description''] (without [''className''] props)) children"

definition AlertAction :: "'h props \<Rightarrow> 'h node \<Rightarrow> 'h node" where
  "AlertAction props children =
     Tag ''div'' (merge [slot ''alert-action''] (without [''className''] props)) children"

subsection \<open>components/ui/alert-dialog.tsx\<close>

definition AlertDialog :: "'h props \<Rightarrow> 'h node \<Rightarrow> 'h node" where
  "AlertDialog props children =
     Tag ''AlertDialogPrimitive.Root'' (merge [slot ''alert-dialog''] props) children"

definition AlertDialogTrigger :: "'h props \<Rightarrow> 'h node \<Rightarrow> 'h node" where
  "AlertDialogTrigger props children =
     Tag ''AlertDialogPrimitive.Trigger'' (merge [slot ''alert-dialog-trigger''] props) children"

definition AlertDialogPortal :: "'h props \<Rightarrow> 'h node \<Rightarrow> 'h node" where
  "AlertDialogPortal props children =
     Tag ''AlertDialogPrimitive.Portal'' (merge [slot ''alert-dialog-portal''] props) children"

definition AlertDialogOverlay :: "'h props \<Rightarrow> 'h node \<Rightarrow> 'h node" where
  "AlertDialogOverlay props children =
     Tag ''AlertDialogPrimitive.Overlay'' (merge [slot ''alert-dialog-overlay'']
       (without [''className''] props)) children"

definition AlertDialogContent :: "'h props \<Rightarrow> 'h node \<Rightarrow> 'h node" where
  "AlertDialogContent props children =
     AlertDialogPortal [] (Nodes
       [AlertDialogOverlay [] Nothing,
        Tag ''AlertDialogPrimitive.Content''
          (merge [slot ''alert-dialog-content'', (''data-size'', default (attr_of ''size'' props) (Lit ''default''))]
             (without [''className'', ''size''] props)) children])"

definition AlertDialogHeader :: "'h props \<Rightarrow> 'h node \<Rightarrow> 'h node" where
  "AlertDialogHeader props children =
     Tag ''div'' (merge [slot ''alert-dialog-header''] (without [''className''] props)) children"

definition AlertDialogFooter :: "'h props \<Rightarrow> 'h node \<Rightarrow> 'h node" where
  "AlertDialogFooter props children =
     Tag ''div'' (merge [slot ''alert-dialog-footer''] (without [''className''] props)) children"

definition AlertDialogMedia :: "'h props \<Rightarrow> 'h node \<Rightarrow> 'h node" where
  "AlertDialogMedia props children =
     Tag ''div'' (merge [slot ''alert-dialog-media''] (without [''className''] props)) children"

definition AlertDialogTitle :: "'h props \<Rightarrow> 'h node \<Rightarrow> 'h node" where
  "AlertDialogTitle props children =
     Tag ''AlertDialogPrimitive.Title'' (merge [slot ''alert-dialog-title'']
       (without [''className''] props)) children"

definition AlertDialogDescription :: "'h props \<Rightarrow> 'h node \<Rightarrow> 'h node" where
  "AlertDialogDescription props children =
     Tag ''AlertDialogPrimitive.Description'' (merge [slot ''alert-dialog-description'']
       (without [''className''] props)) children"

definition AlertDialogAction :: "'h props \<Rightarrow> 'h node \<Rightarrow> 'h node" where
  "AlertDialogAction props children =
     Button_element
       [(''variant'', default (attr_of ''variant'' props) (Lit ''default'')),
        (''size'', default (attr_of ''size'' props) (Lit ''default'')), (''asChild'', Flag True)]
       (Tag ''AlertDialogPrimitive.Action''
          (merge [slot ''alert-dialog-action''] (without [''className'', ''variant'', ''size''] props)) children)"

definition AlertDialogCancel :: "'h props \<Rightarrow> 'h node \<Rightarrow> 'h node" where
  "AlertDialogCancel props children =
     Button_element
       [(''variant'', default (attr_of ''variant'' props) (Lit ''outline'')),
        (''size'', default (attr_of ''size'' props) (Lit ''default'')), (''asChild'', Flag True)]
       (Tag ''AlertDialogPrimitive.Cancel''
          (merge [slot ''alert-dialog-cancel''] (without [''className'', ''variant'', ''size''] props)) children)"

subsection \<open>components/ui/badge.tsx\<close>

definition Badge :: "'h props \<Rightarrow> 'h node \<Rightarrow> 'h node" where
  "Badge props children =
     Tag (if attr_truthy (default (attr_of ''asChild'' props) (Flag False)) then ''Slot.Root'' else ''span'')
       (merge [slot ''badge'', (''data-variant'', default (attr_of ''variant'' props) (Lit ''default''))]
          (without [''className'', ''variant'', ''asChild''] props)) children"

subsection \<open>components/ui/card.tsx\<close>

definition Card :: "'h props \<Rightarrow> 'h node \<Rightarrow> 'h node" where
  "Card props children =
     Tag ''div'' (merge [slot ''card'', (''data-size'', default (attr_of ''size'' props) (Lit ''default''))]
       (without [''className'', ''size''] props)) children"

definition CardHeader :: "'h props \<Rightarrow> 'h node \<Rightarrow> 'h node" where
  "CardHeader props children =
     Tag ''div'' (merge [slot ''card-header''] (without [''className''] props)) children"

definition CardTitle :: "'h props \<Rightarrow> 'h node \<Rightarrow> 'h node" where
  "CardTitle props children =
     Tag ''div'' (merge [slot ''card-title''] (without [''className''] props)) children"

definition CardDescription :: "'h props \<Rightarrow> 'h node \<Rightarrow> 'h node" where
  "CardDescription props children =
     Tag ''div'' (merge [slot ''card-description''] (without [''className''] props)) children"

definition CardAction :: "'h props \<Rightarrow> 'h node \<Rightarrow> 'h node" where
  "CardAction props children =
     Tag ''div'' (merge [slot ''card-action''] (without [''className''] props)) children"

definition CardContent :: "'h props \<Rightarrow> 'h node \<Rightarrow> 'h node" where
  "CardContent props children =
     Tag ''div'' (merge [slot ''card-content''] (without [''className''] props)) children"

definition CardFooter :: "'h props \<Rightarrow> 'h node \<Rightarrow> 'h node" where
  "CardFooter props children =
     Tag ''div'' (merge [slot ''card-footer''] (without [''className''] props)) children"

subsection \<open>components/ui/checkbox.tsx\<close>

text \<open>The content a caller gives is replaced by the indicator.\<close>

definition Checkbox :: "'h props \<Rightarrow> 'h node \<Rightarrow> 'h node" where
  "Checkbox props children =
     Tag ''CheckboxPrimitive.Root'' (merge [slot ''checkbox''] (without [''className''] props))
       (Tag ''CheckboxPrimitive.Indicator'' [slot ''checkbox-indicator''] (Tag ''CheckIcon'' [] Nothing))"

subsection \<open>components/ui/dialog.tsx\<close>

definition Dialog :: "'h props \<Rightarrow> 'h node \<Rightarrow> 'h node" where
  "Dialog props children =
     Tag ''DialogPrimitive.Root'' (merge [slot ''dialog''] props) children"

definition DialogTrigger :: "'h props \<Rightarrow> 'h node \<Rightarrow> 'h node" where
  "DialogTrigger props children =
     Tag ''DialogPrimitive.Trigger'' (merge [slot ''dialog-trigger''] props) children"

definition DialogPortal :: "'h props \<Rightarrow> 'h node \<Rightarrow> 'h node" where
  "DialogPortal props children =
     Tag ''DialogPrimitive.Portal'' (merge [slot ''dialog-portal''] props) children"

definition DialogClose :: "'h props \<Rightarrow> 'h node \<Rightarrow> 'h node" where
  "DialogClose props children =
     Tag ''DialogPrimitive.Close'' (merge [slot ''dialog-close''] props) children"

definition DialogOverlay :: "'h props \<Rightarrow> 'h node \<Rightarrow> 'h node" where
  "DialogOverlay props children =
     Tag ''DialogPrimitive.Overlay'' (merge [slot ''dialog-overlay'']
       (without [''className''] props)) children"

text \<open>The text of the button that closes a dialog, Chinese for close.\<close>

definition close_words :: jstring where
  "close_words = [0x5173, 0x95ED]"

definition DialogContent :: "'h props \<Rightarrow> 'h node \<Rightarrow> 'h node" where
  "DialogContent props children =
     DialogPortal [] (Nodes
       [DialogOverlay [] Nothing,
        Tag ''DialogPrimitive.Content''
          (merge [slot ''dialog-content''] (without [''className'', ''showCloseButton''] props))
          (Nodes
            [children,
             shown_if (attr_truthy (default (attr_of ''showCloseButton'' props) (Flag True)))
               (Tag ''DialogPrimitive.Close'' [slot ''dialog-close'', (''asChild'', Flag True)]
                 (Button_element [(''variant'', Lit ''ghost''), (''size'', Lit ''icon-sm'')] (Nodes
                   [Tag ''XIcon'' [(''data-icon'', Lit ''inline-start'')] Nothing,
                    Tag ''span'' [] (Words close_words)])))])])"

definition DialogHeader :: "'h props \<Rightarrow> 'h node \<Rightarrow> 'h node" where
  "DialogHeader props children =
     Tag ''div'' (merge [slot ''dialog-header''] (without [''className''] props)) children"

definition DialogFooter :: "'h props \<Rightarrow> 'h node \<Rightarrow> 'h node" where
  "DialogFooter props children =
     Tag ''div'' (merge [slot ''dialog-footer''] (without [''className'', ''showCloseButton''] props))
       (Nodes
         [children,
          shown_if (attr_truthy (default (attr_of ''showCloseButton'' props) (Flag False)))
            (Tag ''DialogPrimitive.Close'' [(''asChild'', Flag True)]
              (Button_element [(''variant'', Lit ''outline'')] (Words close_words)))])"

definition DialogTitle :: "'h props \<Rightarrow> 'h node \<Rightarrow> 'h node" where
  "DialogTitle props children =
     Tag ''DialogPrimitive.Title'' (merge [slot ''dialog-title'']
       (without [''className''] props)) children"

definition DialogDescription :: "'h props \<Rightarrow> 'h node \<Rightarrow> 'h node" where
  "DialogDescription props children =
     Tag ''DialogPrimitive.Description'' (merge [slot ''dialog-description'']
       (without [''className''] props)) children"

subsection \<open>components/ui/empty.tsx\<close>

definition Empty :: "'h props \<Rightarrow> 'h node \<Rightarrow> 'h node" where
  "Empty props children =
     Tag ''div'' (merge [slot ''empty''] (without [''className'', ''variant''] props)) children"

definition EmptyHeader :: "'h props \<Rightarrow> 'h node \<Rightarrow> 'h node" where
  "EmptyHeader props children =
     Tag ''div'' (merge [slot ''empty-header''] (without [''className''] props)) children"

definition EmptyMedia :: "'h props \<Rightarrow> 'h node \<Rightarrow> 'h node" where
  "EmptyMedia props children =
     Tag ''div''
       (merge [slot ''empty-icon'', (''data-variant'', default (attr_of ''variant'' props) (Lit ''default''))]
          (without [''className'', ''variant''] props)) children"

definition EmptyTitle :: "'h props \<Rightarrow> 'h node \<Rightarrow> 'h node" where
  "EmptyTitle props children =
     Tag ''div'' (merge [slot ''empty-title''] (without [''className''] props)) children"

definition EmptyDescription :: "'h props \<Rightarrow> 'h node \<Rightarrow> 'h node" where
  "EmptyDescription props children =
     Tag ''div'' (merge [slot ''empty-description''] (without [''className''] props)) children"

definition EmptyContent :: "'h props \<Rightarrow> 'h node \<Rightarrow> 'h node" where
  "EmptyContent props children =
     Tag ''div'' (merge [slot ''empty-content''] (without [''className''] props)) children"

subsection \<open>components/ui/field.tsx\<close>

definition FieldSet :: "'h props \<Rightarrow> 'h node \<Rightarrow> 'h node" where
  "FieldSet props children =
     Tag ''fieldset'' (merge [slot ''field-set''] (without [''className''] props)) children"

definition FieldLegend :: "'h props \<Rightarrow> 'h node \<Rightarrow> 'h node" where
  "FieldLegend props children =
     Tag ''legend''
       (merge [slot ''field-legend'', (''data-variant'', default (attr_of ''variant'' props) (Lit ''legend''))]
          (without [''className'', ''variant''] props)) children"

definition FieldGroup :: "'h props \<Rightarrow> 'h node \<Rightarrow> 'h node" where
  "FieldGroup props children =
     Tag ''div'' (merge [slot ''field-group''] (without [''className''] props)) children"

definition Field :: "'h props \<Rightarrow> 'h node \<Rightarrow> 'h node" where
  "Field props children =
     Tag ''div''
       (merge [(''role'', Lit ''group''), slot ''field'', (''data-orientation'', default (attr_of ''orientation'' props) (Lit ''vertical''))]
          (without [''className'', ''orientation''] props)) children"

definition FieldContent :: "'h props \<Rightarrow> 'h node \<Rightarrow> 'h node" where
  "FieldContent props children =
     Tag ''div'' (merge [slot ''field-content''] (without [''className''] props)) children"

definition FieldLabel :: "'h props \<Rightarrow> 'h node \<Rightarrow> 'h node" where
  "FieldLabel props children =
     Label (merge [slot ''field-label''] (without [''className''] props)) children"

definition FieldTitle :: "'h props \<Rightarrow> 'h node \<Rightarrow> 'h node" where
  "FieldTitle props children =
     Tag ''div'' (merge [slot ''field-label''] (without [''className''] props)) children"

definition FieldDescription :: "'h props \<Rightarrow> 'h node \<Rightarrow> 'h node" where
  "FieldDescription props children =
     Tag ''p'' (merge [slot ''field-description''] (without [''className''] props)) children"

definition FieldSeparator :: "'h props \<Rightarrow> 'h node \<Rightarrow> 'h node" where
  "FieldSeparator props children =
     Tag ''div''
       (merge [slot ''field-separator'', (''data-content'', Flag (node_truthy children))]
          (without [''className''] props))
       (Nodes
         [Separator [] Nothing,
          if node_truthy children then Tag ''span'' [slot ''field-separator-content''] children
          else children])"

text \<open>
  The errors of a field are optional objects with an optional message. \<^verbatim>\<open>new Map\<close> of pairs keeps
  the place of the first pair with a key and the value of the last.
\<close>

type_synonym error_entry = "jstring option option"

definition error_message :: "error_entry \<Rightarrow> jstring option" where
  "error_message e = (case e of None \<Rightarrow> None | Some m \<Rightarrow> m)"

definition message_node :: "error_entry \<Rightarrow> 'h node" where
  "message_node e = (case error_message e of None \<Rightarrow> Nothing | Some m \<Rightarrow> Words m)"

definition error_item :: "error_entry \<Rightarrow> 'h node" where
  "error_item e =
     (let m = message_node e in if node_truthy m then Tag ''li'' [] m else m)"

definition unique_errors :: "error_entry list \<Rightarrow> error_entry list" where
  "unique_errors errors = map snd (merge [] (map (\<lambda>e. (error_message e, e)) errors))"

definition field_error_content :: "'h node \<Rightarrow> error_entry list option \<Rightarrow> 'h node" where
  "field_error_content children errors =
     (if node_truthy children then children
      else case errors of
          None \<Rightarrow> Nothing
        | Some [] \<Rightarrow> Nothing
        | Some es \<Rightarrow>
            (case unique_errors es of
               [e] \<Rightarrow> message_node e
             | us \<Rightarrow> Tag ''ul'' [] (Nodes (map error_item us))))"

definition FieldError :: "'h props \<Rightarrow> 'h node \<Rightarrow> error_entry list option \<Rightarrow> 'h node" where
  "FieldError props children errors =
     (let content = field_error_content children errors
      in if \<not> node_truthy content then Nothing
         else Tag ''div'' (merge [(''role'', Lit ''alert''), slot ''field-error''] (without [''className''] props))
           content)"

subsection \<open>components/ui/input.tsx\<close>

definition Input_element :: "'h props \<Rightarrow> 'h node \<Rightarrow> 'h node" where
  "Input_element props children =
     Tag ''input'' (merge [(''type'', attr_of ''type'' props), slot ''input'']
       (without [''className'', ''type''] props)) children"

subsection \<open>components/ui/native-select.tsx\<close>

definition NativeSelect :: "'h props \<Rightarrow> 'h node \<Rightarrow> 'h node" where
  "NativeSelect props children =
     (let size = default (attr_of ''size'' props) (Lit ''default'')
      in Tag ''div'' [slot ''native-select-wrapper'', (''data-size'', size)] (Nodes
           [Tag ''select'' (merge [slot ''native-select'', (''data-size'', size)]
              (without [''className'', ''size''] props)) children,
            Tag ''ChevronDownIcon'' [(''aria-hidden'', Lit ''true''), slot ''native-select-icon''] Nothing]))"

definition NativeSelectOption :: "'h props \<Rightarrow> 'h node \<Rightarrow> 'h node" where
  "NativeSelectOption props children =
     Tag ''option'' (merge [slot ''native-select-option''] (without [''className''] props)) children"

subsection \<open>components/ui/navigation-menu.tsx\<close>

definition NavigationMenuViewport :: "'h props \<Rightarrow> 'h node" where
  "NavigationMenuViewport props =
     Tag ''div'' []
       (Tag ''NavigationMenuPrimitive.Viewport''
          (merge [slot ''navigation-menu-viewport''] (without [''className''] props)) Nothing)"

definition NavigationMenu :: "'h props \<Rightarrow> 'h node \<Rightarrow> 'h node" where
  "NavigationMenu props children =
     (let viewport = default (attr_of ''viewport'' props) (Flag True)
      in Tag ''NavigationMenuPrimitive.Root''
           (merge [slot ''navigation-menu'', (''data-viewport'', viewport)]
              (without [''className'', ''viewport''] props))
           (Nodes [children, shown_if (attr_truthy viewport) (NavigationMenuViewport [])]))"

definition NavigationMenuList :: "'h props \<Rightarrow> 'h node \<Rightarrow> 'h node" where
  "NavigationMenuList props children =
     Tag ''NavigationMenuPrimitive.List'' (merge [slot ''navigation-menu-list'']
       (without [''className''] props)) children"

definition NavigationMenuItem :: "'h props \<Rightarrow> 'h node \<Rightarrow> 'h node" where
  "NavigationMenuItem props children =
     Tag ''NavigationMenuPrimitive.Item'' (merge [slot ''navigation-menu-item'']
       (without [''className''] props)) children"

definition NavigationMenuTrigger :: "'h props \<Rightarrow> 'h node \<Rightarrow> 'h node" where
  "NavigationMenuTrigger props children =
     Tag ''NavigationMenuPrimitive.Trigger''
       (merge [slot ''navigation-menu-trigger''] (without [''className''] props))
       (Nodes [children, Words (js '' ''), Tag ''ChevronDownIcon'' [(''aria-hidden'', Lit ''true'')] Nothing])"

definition NavigationMenuContent :: "'h props \<Rightarrow> 'h node \<Rightarrow> 'h node" where
  "NavigationMenuContent props children =
     Tag ''NavigationMenuPrimitive.Content'' (merge [slot ''navigation-menu-content'']
       (without [''className''] props)) children"

definition NavigationMenuLink :: "'h props \<Rightarrow> 'h node \<Rightarrow> 'h node" where
  "NavigationMenuLink props children =
     Tag ''NavigationMenuPrimitive.Link'' (merge [slot ''navigation-menu-link'']
       (without [''className''] props)) children"

definition NavigationMenuIndicator :: "'h props \<Rightarrow> 'h node" where
  "NavigationMenuIndicator props =
     Tag ''NavigationMenuPrimitive.Indicator''
       (merge [slot ''navigation-menu-indicator''] (without [''className''] props)) (Tag ''div'' [] Nothing)"

subsection \<open>components/ui/radio-group.tsx\<close>

definition RadioGroup :: "'h props \<Rightarrow> 'h node \<Rightarrow> 'h node" where
  "RadioGroup props children =
     Tag ''RadioGroupPrimitive.Root'' (merge [slot ''radio-group'']
       (without [''className''] props)) children"

definition RadioGroupItem :: "'h props \<Rightarrow> 'h node \<Rightarrow> 'h node" where
  "RadioGroupItem props children =
     Tag ''RadioGroupPrimitive.Item'' (merge [slot ''radio-group-item''] (without [''className''] props))
       (Tag ''RadioGroupPrimitive.Indicator'' [slot ''radio-group-indicator''] (Tag ''span'' [] Nothing))"

subsection \<open>components/ui/sheet.tsx\<close>

definition Sheet :: "'h props \<Rightarrow> 'h node \<Rightarrow> 'h node" where
  "Sheet props children =
     Tag ''SheetPrimitive.Root'' (merge [slot ''sheet''] props) children"

definition SheetTrigger :: "'h props \<Rightarrow> 'h node \<Rightarrow> 'h node" where
  "SheetTrigger props children =
     Tag ''SheetPrimitive.Trigger'' (merge [slot ''sheet-trigger''] props) children"

definition SheetClose :: "'h props \<Rightarrow> 'h node \<Rightarrow> 'h node" where
  "SheetClose props children =
     Tag ''SheetPrimitive.Close'' (merge [slot ''sheet-close''] props) children"

definition SheetPortal :: "'h props \<Rightarrow> 'h node \<Rightarrow> 'h node" where
  "SheetPortal props children =
     Tag ''SheetPrimitive.Portal'' (merge [slot ''sheet-portal''] props) children"

definition SheetOverlay :: "'h props \<Rightarrow> 'h node \<Rightarrow> 'h node" where
  "SheetOverlay props children =
     Tag ''SheetPrimitive.Overlay'' (merge [slot ''sheet-overlay'']
       (without [''className''] props)) children"

definition SheetContent :: "'h props \<Rightarrow> 'h node \<Rightarrow> 'h node" where
  "SheetContent props children =
     SheetPortal [] (Nodes
       [SheetOverlay [] Nothing,
        Tag ''SheetPrimitive.Content''
          (merge [slot ''sheet-content'', (''data-side'', default (attr_of ''side'' props) (Lit ''right''))]
             (without [''className'', ''side'', ''showCloseButton''] props))
          (Nodes
            [children,
             shown_if (attr_truthy (default (attr_of ''showCloseButton'' props) (Flag True)))
               (Tag ''SheetPrimitive.Close'' [slot ''sheet-close'', (''asChild'', Flag True)]
                 (Button_element [(''variant'', Lit ''ghost''), (''size'', Lit ''icon-sm'')] (Nodes
                   [Tag ''XIcon'' [] Nothing, Tag ''span'' [] (Words (js ''Close''))])))])])"

definition SheetHeader :: "'h props \<Rightarrow> 'h node \<Rightarrow> 'h node" where
  "SheetHeader props children =
     Tag ''div'' (merge [slot ''sheet-header''] (without [''className''] props)) children"

definition SheetFooter :: "'h props \<Rightarrow> 'h node \<Rightarrow> 'h node" where
  "SheetFooter props children =
     Tag ''div'' (merge [slot ''sheet-footer''] (without [''className''] props)) children"

definition SheetTitle :: "'h props \<Rightarrow> 'h node \<Rightarrow> 'h node" where
  "SheetTitle props children =
     Tag ''SheetPrimitive.Title'' (merge [slot ''sheet-title'']
       (without [''className''] props)) children"

definition SheetDescription :: "'h props \<Rightarrow> 'h node \<Rightarrow> 'h node" where
  "SheetDescription props children =
     Tag ''SheetPrimitive.Description'' (merge [slot ''sheet-description'']
       (without [''className''] props)) children"

subsection \<open>components/ui/slider.tsx\<close>

text \<open>One thumb for each value, or one at each end when there is no list of values.\<close>

definition slider_values :: "'h attr \<Rightarrow> 'h attr \<Rightarrow> 'h attr \<Rightarrow> 'h attr \<Rightarrow> nat" where
  "slider_values val default_val low high =
     (case val of Vals vs \<Rightarrow> length vs
      | _ \<Rightarrow> (case default_val of Vals vs \<Rightarrow> length vs | _ \<Rightarrow> length [low, high]))"

definition Slider :: "'h props \<Rightarrow> 'h node \<Rightarrow> 'h node" where
  "Slider props children =
     (let low = default (attr_of ''min'' props) (Num 0); high = default (attr_of ''max'' props) (Num 100);
          thumbs = slider_values (attr_of ''value'' props) (attr_of ''defaultValue'' props) low high;
          others = without [''className'', ''defaultValue'', ''value'', ''min'', ''max''] props
      in Tag ''SliderPrimitive.Root''
           (merge [slot ''slider'', (''defaultValue'', attr_of ''defaultValue'' props),
               (''value'', attr_of ''value'' props), (''min'', low), (''max'', high)] others)
           (Nodes
             [Tag ''SliderPrimitive.Track'' [slot ''slider-track'']
                (Tag ''SliderPrimitive.Range'' [slot ''slider-range''] Nothing),
              Nodes (replicate thumbs
                (Tag ''SliderPrimitive.Thumb'' [slot ''slider-thumb'', (''aria-label'', attr_of ''aria-label'' others)]
                  Nothing))]))"

subsection \<open>components/ui/sonner.tsx\<close>

definition Toaster :: "'h props \<Rightarrow> 'h node" where
  "Toaster props =
     Tag ''Sonner'' (merge [(''theme'', Lit ''light''), (''position'', Lit ''top-center'')] props) Nothing"

subsection \<open>components/ui/spinner.tsx\<close>

definition Spinner :: "'h props \<Rightarrow> 'h node \<Rightarrow> 'h node" where
  "Spinner props children =
     Tag ''Loader2Icon''
       (merge [slot ''spinner'', (''role'', Lit ''status''), (''aria-label'', Lit ''Loading'')]
          (without [''className''] props)) children"

subsection \<open>components/ui/toggle-group.tsx\<close>

text \<open>The context of the items of a group; the content of a group is rendered under its own.\<close>

record 'h toggle_context =
  tc_variant :: "'h attr"
  tc_size :: "'h attr"
  tc_spacing :: "'h attr"
  tc_orientation :: "'h attr"

definition ToggleGroupContext :: "'h toggle_context" where
  "ToggleGroupContext =
     \<lparr>tc_variant = Lit ''default'', tc_size = Lit ''default'', tc_spacing = Num 2,
      tc_orientation = Lit ''horizontal''\<rparr>"

definition ToggleGroup :: "'h props \<Rightarrow> ('h toggle_context \<Rightarrow> 'h node) \<Rightarrow> 'h node" where
  "ToggleGroup props children =
     (let variant = attr_of ''variant'' props; size = attr_of ''size'' props;
          spacing = default (attr_of ''spacing'' props) (Num 2);
          orientation = default (attr_of ''orientation'' props) (Lit ''horizontal'')
      in Tag ''ToggleGroupPrimitive.Root''
           (merge [slot ''toggle-group'', (''data-variant'', variant), (''data-size'', size),
               (''data-spacing'', spacing), (''data-orientation'', orientation)]
              (without [''className'', ''variant'', ''size'', ''spacing'', ''orientation''] props))
           (children \<lparr>tc_variant = variant, tc_size = size, tc_spacing = spacing,
              tc_orientation = orientation\<rparr>))"

definition ToggleGroupItem :: "'h toggle_context \<Rightarrow> 'h props \<Rightarrow> 'h node \<Rightarrow> 'h node" where
  "ToggleGroupItem ctx props children =
     Tag ''ToggleGroupPrimitive.Item''
       (merge [slot ''toggle-group-item'',
           (''data-variant'', or_else (tc_variant ctx) (default (attr_of ''variant'' props) (Lit ''default''))),
           (''data-size'', or_else (tc_size ctx) (default (attr_of ''size'' props) (Lit ''default''))),
           (''data-spacing'', tc_spacing ctx)]
          (without [''className'', ''variant'', ''size''] props)) children"

subsection \<open>The header and the container of a page\<close>

definition PageHeader :: "'h node \<Rightarrow> 'h node \<Rightarrow> 'h node \<Rightarrow> 'h node" where
  "PageHeader title description actions =
     Tag ''header'' [] (Nodes
       [Tag ''div'' [] (Nodes
          [Tag ''h1'' [] title,
           if node_truthy description then Tag ''p'' [] description else description]),
        actions])"

definition PageContainer :: "'h node \<Rightarrow> 'h node" where
  "PageContainer children = Tag ''div'' [] children"

end
