(* ===== verification/Primitive_Laws.thy ===== *)
theory Primitive_Laws
  imports Interface_Primitives
begin

text \<open>
  What the interface primitives guarantee: a plain primitive forwards the attributes and the content
  of its caller; the error of a field shows each message once; which variant an item of a toggle
  group has; when a dialog can be closed; how many thumbs a slider has.
\<close>

subsection \<open>Attributes\<close>

lemma put_get: "map_of (put k v ps) j = (if j = k then Some v else map_of ps j)"
  by (induction k v ps rule: put.induct) auto

lemma merge_get:
  "distinct (map fst ys) \<Longrightarrow>
   map_of (merge xs ys) k = (case map_of ys k of None \<Rightarrow> map_of xs k | Some v \<Rightarrow> Some v)"
proof (induction ys arbitrary: xs)
  case Nil
  then show ?case by (simp add: merge_def)
next
  case (Cons y ys)
  obtain j v where y: "y = (j, v)" by (cases y)
  have "merge xs (y # ys) = merge (put j v xs) ys" by (simp add: merge_def y)
  moreover have "map_of ys j = None" using Cons.prems by (simp add: y map_of_eq_None_iff)
  ultimately show ?case
    using Cons.IH [of "put j v xs"] Cons.prems by (auto simp: y put_get split: option.splits)
qed

lemma without_get: "map_of (without ks ps) k = (if k \<in> set ks then None else map_of ps k)"
  by (induction ps) (auto simp: without_def)

lemma distinct_without: "distinct (map fst ps) \<Longrightarrow> distinct (map fst (without ks ps))"
  by (simp add: without_def distinct_map_filter)

lemma merge_nil [simp]: "merge xs [] = xs"
  by (simp add: merge_def)

lemma without_nil [simp]: "without ks [] = []"
  by (simp add: without_def)

subsection \<open>What a primitive forwards\<close>

text \<open>
  A plain primitive renders one element around its content, with every attribute of the caller
  but those it takes out, whatever it sets of its own.
\<close>

definition forwards :: "('h props \<Rightarrow> 'h node \<Rightarrow> 'h node) \<Rightarrow> string list \<Rightarrow> bool" where
  "forwards X ks \<longleftrightarrow>
     (\<forall>props children. distinct (map fst props) \<longrightarrow>
        (\<exists>t as. X props children = Tag t as children
           \<and> (\<forall>k v. map_of props k = Some v \<and> k \<notin> set ks \<longrightarrow> map_of as k = Some v)))"

lemma forwards_tag:
  assumes "\<And>props children. X props children = Tag (t props) (merge (own props) (without ks props)) children"
  shows "forwards X ks"
  using assms by (auto simp: forwards_def merge_get distinct_without without_get)

lemma forwards_all_tag:
  assumes "\<And>props children. X props children = Tag t (merge own props) children"
  shows "forwards X []"
  using assms by (auto simp: forwards_def merge_get)

lemma put_keys: "map fst (put k v ps) = (if k \<in> set (map fst ps) then map fst ps else map fst ps @ [k])"
  by (induction k v ps rule: put.induct) auto

lemma merge_distinct: "distinct (map fst xs) \<Longrightarrow> distinct (map fst (merge xs ys))"
proof (induction ys arbitrary: xs)
  case (Cons y ys)
  have "distinct (map fst (put k v xs))" for k v
    unfolding put_keys using Cons.prems by auto
  then show ?case using Cons.IH by (auto simp: merge_def split: prod.splits)
qed simp

text \<open>The label of a field goes through the label, whose own slot it replaces.\<close>

lemma FieldLabel_forwards: "forwards FieldLabel [''className'']"
  unfolding forwards_def
proof (intro allI impI)
  fix props :: "'h props" and children
  assume props: "distinct (map fst props)"
  let ?inner = "merge [slot ''field-label''] (without [''className''] props)"
  have inner: "distinct (map fst ?inner)" by (rule merge_distinct) simp
  have "map_of (merge [slot ''label''] (without [''className''] ?inner)) k = Some v"
    if "map_of props k = Some v" and "k \<notin> set [''className'']" for k v
    using that by (simp add: merge_get [OF distinct_without [OF inner]] without_get
        merge_get [OF distinct_without [OF props]])
  then show "\<exists>t as. FieldLabel props children = Tag t as children
      \<and> (\<forall>k v. map_of props k = Some v \<and> k \<notin> set [''className''] \<longrightarrow> map_of as k = Some v)"
    unfolding FieldLabel_def Label_def by blast
qed

definition plain_primitives :: "(('h props \<Rightarrow> 'h node \<Rightarrow> 'h node) \<times> string list) list" where
  "plain_primitives =
     [(AlertDialog, []), (AlertDialogTrigger, []), (AlertDialogPortal, []),
      (AlertDialogOverlay, [''className'']), (AlertDialogHeader, [''className'']),
      (AlertDialogFooter, [''className'']), (AlertDialogMedia, [''className'']),
      (AlertDialogTitle, [''className'']), (AlertDialogDescription, [''className'']),
      (Alert, [''className'', ''variant'']), (AlertTitle, [''className'']),
      (AlertDescription, [''className'']), (AlertAction, [''className'']),
      (Badge, [''className'', ''variant'', ''asChild'']),
      (Button_element, [''className'', ''variant'', ''size'', ''asChild'']),
      (Card, [''className'', ''size'']), (CardHeader, [''className'']),
      (CardTitle, [''className'']), (CardDescription, [''className'']),
      (CardAction, [''className'']), (CardContent, [''className'']), (CardFooter, [''className'']),
      (Dialog, []), (DialogTrigger, []), (DialogPortal, []), (DialogClose, []),
      (DialogOverlay, [''className'']), (DialogHeader, [''className'']),
      (DialogTitle, [''className'']), (DialogDescription, [''className'']),
      (Empty, [''className'', ''variant'']), (EmptyHeader, [''className'']),
      (EmptyMedia, [''className'', ''variant'']), (EmptyTitle, [''className'']),
      (EmptyDescription, [''className'']), (EmptyContent, [''className'']),
      (FieldSet, [''className'']), (FieldLegend, [''className'', ''variant'']),
      (FieldGroup, [''className'']), (Field, [''className'', ''orientation'']),
      (FieldContent, [''className'']), (FieldTitle, [''className'']),
      (FieldDescription, [''className'']), (Input_element, [''className'', ''type'']),
      (Label, [''className'']), (NativeSelectOption, [''className'']),
      (NavigationMenuList, [''className'']), (NavigationMenuItem, [''className'']),
      (NavigationMenuContent, [''className'']), (NavigationMenuLink, [''className'']),
      (RadioGroup, [''className'']), (Separator, [''className'', ''orientation'', ''decorative'']),
      (Sheet, []), (SheetTrigger, []), (SheetClose, []), (SheetPortal, []),
      (SheetOverlay, [''className'']), (SheetHeader, [''className'']),
      (SheetFooter, [''className'']), (SheetTitle, [''className'']),
      (SheetDescription, [''className'']), (Spinner, [''className'']),
      (Toggle_element, [''className'', ''variant'', ''size'']), (FieldLabel, [''className''])]"

lemmas plain_forwards =
  forwards_all_tag [OF AlertDialog_def] forwards_all_tag [OF AlertDialogTrigger_def]
  forwards_all_tag [OF AlertDialogPortal_def] forwards_tag [OF AlertDialogOverlay_def]
  forwards_tag [OF AlertDialogHeader_def] forwards_tag [OF AlertDialogFooter_def]
  forwards_tag [OF AlertDialogMedia_def] forwards_tag [OF AlertDialogTitle_def]
  forwards_tag [OF AlertDialogDescription_def] forwards_tag [OF Alert_def]
  forwards_tag [OF AlertTitle_def] forwards_tag [OF AlertDescription_def]
  forwards_tag [OF AlertAction_def] forwards_tag [OF Badge_def] forwards_tag [OF Button_element_def]
  forwards_tag [OF Card_def] forwards_tag [OF CardHeader_def] forwards_tag [OF CardTitle_def]
  forwards_tag [OF CardDescription_def] forwards_tag [OF CardAction_def]
  forwards_tag [OF CardContent_def] forwards_tag [OF CardFooter_def]
  forwards_all_tag [OF Dialog_def] forwards_all_tag [OF DialogTrigger_def]
  forwards_all_tag [OF DialogPortal_def] forwards_all_tag [OF DialogClose_def]
  forwards_tag [OF DialogOverlay_def] forwards_tag [OF DialogHeader_def]
  forwards_tag [OF DialogTitle_def] forwards_tag [OF DialogDescription_def]
  forwards_tag [OF Empty_def] forwards_tag [OF EmptyHeader_def] forwards_tag [OF EmptyMedia_def]
  forwards_tag [OF EmptyTitle_def] forwards_tag [OF EmptyDescription_def]
  forwards_tag [OF EmptyContent_def] forwards_tag [OF FieldSet_def]
  forwards_tag [OF FieldLegend_def] forwards_tag [OF FieldGroup_def] forwards_tag [OF Field_def]
  forwards_tag [OF FieldContent_def] forwards_tag [OF FieldTitle_def]
  forwards_tag [OF FieldDescription_def] forwards_tag [OF Input_element_def]
  forwards_tag [OF Label_def] forwards_tag [OF NativeSelectOption_def]
  forwards_tag [OF NavigationMenuList_def] forwards_tag [OF NavigationMenuItem_def]
  forwards_tag [OF NavigationMenuContent_def] forwards_tag [OF NavigationMenuLink_def]
  forwards_tag [OF RadioGroup_def] forwards_tag [OF Separator_def] forwards_all_tag [OF Sheet_def]
  forwards_all_tag [OF SheetTrigger_def] forwards_all_tag [OF SheetClose_def]
  forwards_all_tag [OF SheetPortal_def] forwards_tag [OF SheetOverlay_def]
  forwards_tag [OF SheetHeader_def] forwards_tag [OF SheetFooter_def]
  forwards_tag [OF SheetTitle_def] forwards_tag [OF SheetDescription_def]
  forwards_tag [OF Spinner_def] forwards_tag [OF Toggle_element_def] FieldLabel_forwards

lemma plain_primitives_forward: "list_all (\<lambda>(X, ks). forwards X ks) plain_primitives"
  by (simp add: plain_primitives_def plain_forwards)

subsection \<open>The errors of a field\<close>

text \<open>The texts of a node, in their order.\<close>

fun texts :: "'h node \<Rightarrow> jstring list" where
  "texts Nothing = []"
| "texts (Words s) = (if s = [] then [] else [s])"
| "texts (Nodes ns) = concat (map texts ns)"
| "texts (Tag t as n) = texts n"

lemma merge_keys: "map fst (merge [] ys) = rev (remdups (rev (map fst ys)))"
  by (induction ys rule: rev_induct) (auto simp: merge_def put_keys simp flip: set_map split: prod.splits)

lemma merge_entries: "list_all P xs \<Longrightarrow> list_all P ys \<Longrightarrow> list_all P (merge xs ys)"
proof (induction ys arbitrary: xs)
  case (Cons y ys)
  have "list_all P (put k v xs)" if "P (k, v)" for k v
    using that Cons.prems(1) by (induction k v xs rule: put.induct) auto
  then show ?case using Cons by (auto simp: merge_def split: prod.splits)
qed simp

lemma unique_messages:
  "map error_message (unique_errors es) = rev (remdups (rev (map error_message es)))"
proof -
  let ?m = "merge [] (map (\<lambda>e. (error_message e, e)) es)"
  have "list_all (\<lambda>(k, e). error_message e = k) ?m"
    by (rule merge_entries) (simp_all add: list_all_iff)
  then have "map (\<lambda>p. error_message (snd p)) ?m = map fst ?m"
    by (auto simp: list_all_iff)
  then show ?thesis by (simp add: unique_errors_def merge_keys comp_def)
qed

definition message_texts :: "error_entry \<Rightarrow> jstring list" where
  "message_texts e = (case error_message e of None \<Rightarrow> [] | Some m \<Rightarrow> filter (\<lambda>s. s \<noteq> []) [m])"

lemma texts_message: "texts (message_node e) = message_texts e"
  by (simp add: message_node_def message_texts_def split: option.splits)

lemma texts_item: "texts (error_item e) = message_texts e"
  by (simp add: error_item_def Let_def texts_message)

definition shown_messages :: "error_entry list \<Rightarrow> jstring list" where
  "shown_messages es =
     filter (\<lambda>s. s \<noteq> []) (List.map_filter (\<lambda>m. m) (rev (remdups (rev (map error_message es)))))"

lemma message_texts_concat:
  "concat (map message_texts us)
     = filter (\<lambda>s. s \<noteq> []) (List.map_filter (\<lambda>m. m) (map error_message us))"
  by (induction us) (auto simp: message_texts_def List.map_filter_simps split: option.splits)

text \<open>
  Without content of its own, the error of a field shows each message once, in the order in which
  they first occur, and leaves out the empty ones.
\<close>

lemma field_error_texts:
  "texts (field_error_content Nothing (Some es)) = shown_messages es"
proof -
  have shown: "shown_messages es = concat (map message_texts (unique_errors es))"
    by (simp add: shown_messages_def message_texts_concat flip: unique_messages)
  show ?thesis
  proof (cases es)
    case Nil
    then show ?thesis by (simp add: field_error_content_def shown_messages_def List.map_filter_simps)
  next
    case (Cons e es')
    then show ?thesis unfolding shown
      by (auto simp: field_error_content_def texts_item texts_message comp_def split: list.splits)
  qed
qed

lemma present_set: "set (List.map_filter (\<lambda>m. m) ms) = {m. Some m \<in> set ms}"
  by (induction ms) (auto simp: List.map_filter_simps split: option.splits)

lemma present_distinct: "distinct ms \<Longrightarrow> distinct (List.map_filter (\<lambda>m. m) ms)"
  by (induction ms) (auto simp: List.map_filter_simps present_set split: option.splits)

lemma message_occurs: "Some m \<in> error_message ` set es \<longleftrightarrow> Some (Some m) \<in> set es"
  by (induction es) (auto simp: error_message_def split: option.splits)

lemma shown_messages_set: "set (shown_messages es) = {m. m \<noteq> [] \<and> Some (Some m) \<in> set es}"
  by (auto simp: shown_messages_def present_set message_occurs)

lemma shown_messages_distinct: "distinct (shown_messages es)"
  by (simp add: shown_messages_def present_distinct)

text \<open>Nothing is shown without an error, but errors without a message make an alert without text.\<close>

lemma field_error_absent: "FieldError props Nothing None = Nothing" "FieldError props Nothing (Some []) = Nothing"
  by (simp_all add: FieldError_def field_error_content_def)

lemma field_error_empty_alert:
  "FieldError [] Nothing (Some [None, Some (Some [])]) \<noteq> Nothing
   \<and> texts (FieldError [] Nothing (Some [None, Some (Some [])])) = []"
  by (simp add: FieldError_def field_error_content_def unique_errors_def merge_def error_message_def
      message_node_def error_item_def Let_def)

subsection \<open>Variants and parts\<close>

text \<open>
  An item of a toggle group has the variant of its group, its own only in a group without one; an
  item outside of a group has the default of the context, never its own.
\<close>

lemma toggle_item_variant:
  assumes "distinct (map fst props)" and "map_of props ''data-variant'' = None"
  shows "ToggleGroup gs (\<lambda>ctx. ToggleGroupItem ctx props c)
     = Tag ''ToggleGroupPrimitive.Root'' as n \<Longrightarrow>
     \<exists>bs. n = Tag ''ToggleGroupPrimitive.Item'' bs c \<and>
      map_of bs ''data-variant'' = Some (if attr_truthy (attr_of ''variant'' gs) then attr_of ''variant'' gs
        else default (attr_of ''variant'' props) (Lit ''default''))"
    and "ToggleGroupItem ToggleGroupContext props c = Tag t as' n' \<Longrightarrow>
      map_of as' ''data-variant'' = Some (Lit ''default'')"
  using assms
  by (auto simp: ToggleGroup_def ToggleGroupItem_def ToggleGroupContext_def Let_def or_else_def merge_get
      distinct_without without_get slot_def)

text \<open>A dialog can be closed unless the caller asks for a dialog without the button.\<close>

fun tags :: "'h node \<Rightarrow> string list" where
  "tags Nothing = []"
| "tags (Words s) = []"
| "tags (Nodes ns) = concat (map tags ns)"
| "tags (Tag t as n) = t # tags n"

lemma dialog_closes:
  "''DialogPrimitive.Close'' \<in> set (tags (DialogContent props Nothing)) \<longleftrightarrow>
     attr_truthy (default (attr_of ''showCloseButton'' props) (Flag True))"
  by (simp add: DialogContent_def DialogPortal_def DialogOverlay_def shown_if_def Button_element_def)

lemma sheet_closes:
  "''SheetPrimitive.Close'' \<in> set (tags (SheetContent props Nothing)) \<longleftrightarrow>
     attr_truthy (default (attr_of ''showCloseButton'' props) (Flag True))"
  by (simp add: SheetContent_def SheetPortal_def SheetOverlay_def shown_if_def Button_element_def)

lemma slider_thumbs:
  "count_list (tags (Slider props c)) ''SliderPrimitive.Thumb'' =
     (case attr_of ''value'' props of Vals vs \<Rightarrow> length vs
      | _ \<Rightarrow> (case attr_of ''defaultValue'' props of Vals vs \<Rightarrow> length vs | _ \<Rightarrow> 2))"
proof -
  have "count_list (concat (replicate n [x])) x = n" for n and x :: string
    by (induction n) auto
  then show ?thesis
    by (simp add: Slider_def slider_values_def Let_def split: attr.splits)
qed

end
