(* ===== verification/Page_Frame.thy ===== *)
theory Page_Frame
  imports Primitive_Laws
begin

text \<open>
  The frames around a page as elements: the root layout with its link past the navigation
  (\<^verbatim>\<open>app/layout.tsx\<close>), the provider of the query cache, and the two layouts of \<^verbatim>\<open>layout\<close>, whose main
  region that link leads to. The header and the footer, whose controls are in \<open>Site_Shell\<close>, are
  arguments, as is the cache. The text of a link is named by a translation.
\<close>

definition QueryProvider :: "'h \<Rightarrow> 'h node \<Rightarrow> 'h node" where
  "QueryProvider queryClient children = Tag ''QueryClientProvider'' [(''client'', Given queryClient)] children"

definition RootLayout :: "'h \<Rightarrow> 'h node \<Rightarrow> 'h node" where
  "RootLayout queryClient children =
     Tag ''html'' [(''lang'', Lit ''zh-CN'')] (Tag ''body'' [] (Nodes
       [Tag ''a'' [(''href'', Lit ''#main-content'')] (Words (js ''skip to the main content'')),
        QueryProvider queryClient children,
        Toaster []]))"

definition SiteLayout :: "'h node \<Rightarrow> 'h node \<Rightarrow> 'h node \<Rightarrow> 'h node" where
  "SiteLayout header footer children =
     Tag ''div'' [] (Nodes
       [header,
        Tag ''main'' [(''id'', Lit ''main-content''), (''tabIndex'', Num (- 1))] children,
        footer])"

definition AuthLayout :: "'h node \<Rightarrow> 'h node \<Rightarrow> 'h node" where
  "AuthLayout brand children =
     Tag ''main'' [(''id'', Lit ''main-content''), (''tabIndex'', Num (- 1))] (Tag ''div'' [] (Nodes
       [Tag ''div'' [] brand,
        children,
        Button_element [(''variant'', Lit ''link''), (''asChild'', Flag True)]
          (Tag ''Link'' [(''href'', Lit ''/'')] (Words (js ''back to the start'')))]))"

text \<open>
  Two parts of the fitting room without a state of the page: the placeholder of the comparison
  while its code is loaded, and the dialog that says that there is no orbit preview.
\<close>

definition comparison_loading :: "'h node" where
  "comparison_loading =
     Tag ''div'' [(''role'', Lit ''status''), (''aria-label'', Lit ''loading the comparison'')] (Nodes
       [Spinner [] Nothing, Tag ''span'' [] (Words (js ''opening the comparison''))])"

definition OrbitPreviewDialog :: "'h node \<Rightarrow> 'h node" where
  "OrbitPreviewDialog children =
     Dialog [] (Nodes
       [DialogTrigger [(''asChild'', Flag True)] children,
        DialogContent [] (DialogHeader [] (Nodes
          [DialogTitle [] (Words (js ''the orbit preview is not ready'')),
           DialogDescription [] (Words (js ''the sample has only a front picture; compare before and after''))]))])"

text \<open>The elements of a node that an attribute has a value in, and where a link to a part leads.\<close>

fun elements :: "'h node \<Rightarrow> (string \<times> 'h props) list" where
  "elements Nothing = []"
| "elements (Words s) = []"
| "elements (Nodes ns) = concat (map elements ns)"
| "elements (Tag t as n) = (t, as) # elements n"

definition with_attr :: "string \<Rightarrow> 'h attr \<Rightarrow> 'h node \<Rightarrow> (string \<times> 'h props) list" where
  "with_attr k v n = filter (\<lambda>(t, as). map_of as k = Some v) (elements n)"

lemma with_attr_simps [simp]:
  "with_attr k v Nothing = []"
  "with_attr k v (Words s) = []"
  "with_attr k v (Nodes ns) = concat (map (with_attr k v) ns)"
  "with_attr k v (Tag t as n) = (if map_of as k = Some v then (t, as) # with_attr k v n else with_attr k v n)"
  by (simp_all add: with_attr_def [abs_def] filter_concat comp_def)

text \<open>The dialog about the orbit preview can be closed and leads nowhere.\<close>

lemma orbit_preview_closes:
  "''DialogPrimitive.Close'' \<in> set (tags (OrbitPreviewDialog Nothing))"
  "''href'' \<notin> fst ` set (concat (map snd (elements (OrbitPreviewDialog Nothing))))"
  by (simp_all add: OrbitPreviewDialog_def Dialog_def DialogTrigger_def DialogContent_def DialogPortal_def
      DialogOverlay_def DialogHeader_def DialogTitle_def DialogDescription_def shown_if_def Button_element_def
      attr_of_def default_def merge_def slot_def without_def)

text \<open>
  The first link of every framed page leads to exactly one element: the main region, which can take
  the focus, when nothing else on the page has its id.
\<close>

lemma skip_link_leads_to_main:
  assumes "with_attr ''id'' (Lit ''main-content'') header = []"
    and "with_attr ''id'' (Lit ''main-content'') footer = []"
    and "with_attr ''id'' (Lit ''main-content'') children = []"
  shows "map fst (with_attr ''id'' (Lit ''main-content'') (RootLayout c (SiteLayout header footer children)))
      = [''main'']"
    and "map fst (with_attr ''id'' (Lit ''main-content'') (RootLayout c (AuthLayout header children))) = [''main'']"
  using assms
  by (simp_all add: RootLayout_def QueryProvider_def SiteLayout_def AuthLayout_def Toaster_def
      Button_element_def attr_of_def default_def merge_def slot_def without_def)

lemma skip_link_first:
  "fst (hd (tl (tl (elements (RootLayout c n))))) = ''a''"
  "map_of (snd (hd (tl (tl (elements (RootLayout c n)))))) ''href'' = Some (Lit ''#main-content'')"
  by (simp_all add: RootLayout_def)

end
