(* ===== verification/Spec2Isabelle.thy ===== *)
theory Spec2Isabelle
  imports Plan_Properties Wear_Properties Wardrobe_Properties Account_Properties Image_Properties
    Recommendation_Properties Upload_Properties Look_Properties Fitting_Room_Properties
    Liveness_Properties Outfit_Refinement Form_Properties Screen_Properties Screen_Guards Cache_Freshness
    Api_Routing Api_Shapes Page_Frame
begin

text \<open>
  The web client of THEN, a private wardrobe: people record their garments, plan outfits and
  confirm what they have actually worn. The development models the application code under
  \<^verbatim>\<open>frontend/src\<close>: the form libraries, the request layer, the hooks, the pages with their
  asynchronous event handlers, and what the pages show.

  \<^bold>\<open>How the parts of the program interact.\<close> A page (\<^verbatim>\<open>components/*/...-view.tsx\<close>) holds its state in
  \<^verbatim>\<open>useState\<close> and \<^verbatim>\<open>useRef\<close> cells. A person's input runs a handler; a handler checks the form with
  a function of \<^verbatim>\<open>lib\<close>, calls an action of a hook, which awaits one function of the generated
  client (\<^verbatim>\<open>api\<close>) and then brings the query cache up to date, and shows an error with one of the
  functions that read caught errors. While a handler awaits a response other handlers run.

  \<^bold>\<open>Theories.\<close>

  \<^item> \<open>Prelude\<close>, \<open>Js_Strings\<close>, \<open>Js_Numbers\<close>, \<open>Js_Values\<close>, \<open>Calendar_Dates\<close>: what the sources use of
    the language: 16-bit code units, code points, UTF-8, \<^verbatim>\<open>trim\<close>, decimal numbers, values of
    unknown type, local dates and the formatter of time zones.
  \<^item> \<open>Api_Types\<close> (\<^verbatim>\<open>api/typings.d.ts\<close>) and \<open>Api_Client\<close> (\<^verbatim>\<open>lib/api/request.ts\<close>, the functions of
    \<^verbatim>\<open>api\<close> that the hooks call, \<^verbatim>\<open>next.config.ts\<close>): records of requests and responses, and the HTTP
    request of every call. \<open>Api_Community\<close> and \<open>Api_Personal\<close>: the hundred generated functions that
    nothing calls, with parameter objects and untyped bodies; \<open>Api_Routing\<close> shows that every request
    of the hooks is handed on to the service and is no page, which of the other functions would be,
    and that the page of the wardrobe alone has an address the rewrite rule matches. \<open>Api_Shapes\<close>: the
    types of their parameters and bodies as shapes; a typed caller fills every part of a path.
  \<^item> \<open>Error_Messages\<close>, \<open>Account_Lib\<close>, \<open>Outfit_Plan_Lib\<close>, \<open>Wear_Event_Lib\<close>, \<open>Wardrobe_Lib\<close>,
    \<open>Image_Processing\<close>: the pure libraries under \<^verbatim>\<open>lib\<close>, one definition for each function.
  \<^item> \<open>Async_Prog\<close>: handlers as programs with awaits, the event loop as a step relation
    \<open>loop_step\<close>, the reachable configurations \<open>reach\<close>, weakest preconditions, and the locales
    that turn facts about one program into facts about every interleaving: \<open>config_invariant\<close>, and
    \<open>exclusive_view\<close>, which is one by a \<^theory_text>\<open>sublocale\<close>.
  \<^item> \<open>Step_System\<close>: reachable states and invariants of the components whose handlers run to their end
    at once, the fitting room and the dialog that saves a look.
  \<^item> \<open>Query_Hooks\<close>: the hooks as programs. \<open>Cache_Freshness\<close> compares what an action changes at the
    service with the cached queries it has fetched again.
  \<^item> \<open>Auth_View\<close>, \<open>Account_View\<close>, \<open>Plan_View\<close>, \<open>Wear_View\<close>, \<open>Wardrobe_View\<close>,
    \<open>Recommendation_View\<close>: a record for the state of each page, one definition for each handler, and
    \<open>*_dispatch\<close>, which says for every control when it is shown and enabled and which handler it
    runs, and for every other event of the page (an answer of a query, a timer, a decoded photo) what
    it runs; each interprets \<open>exclusive_view\<close>. The guards of a dispatch are those of the JSX, which
    the screens below have in their place in the tree.
  \<^item> \<open>Handler_End\<close> and \<open>Page_Liveness\<close>: how often a handler waits at most, and that it catches every
    exception; \<open>settling_view\<close> extends \<open>exclusive_view\<close> by that and is interpreted on every page.
  \<^item> \<open>Photo_Upload\<close> (\<^verbatim>\<open>hooks/wardrobe/use-wardrobe-photo.ts\<close>): the upload of a photo with its digest,
    its signed request, its retries and its polling.
  \<^item> \<open>Json_Text\<close> and \<open>Look_Draft\<close> (\<^verbatim>\<open>hooks/look/use-look-draft.ts\<close>,
    \<^verbatim>\<open>components/look/save-look-dialog.tsx\<close>): JSON text and the draft in the local storage.
  \<^item> \<open>Fitting_Room_View\<close> (\<^verbatim>\<open>components/fitting-room\<close>, \<^verbatim>\<open>person-photo-dialog.tsx\<close>, \<^verbatim>\<open>garment-picker.tsx\<close>):
    a transition system \<open>room_step\<close> with the browser's registry of object URLs in its state.
  \<^item> \<open>Outfit_Refinement\<close>: the outfit as a function of the category, which the selections implement.
    What a garment takes off is specified by the parts of the body that the categories cover
    (\<open>covers\<close>), apart from the table of conflicts of the code.
  \<^item> \<open>Screen\<close>: what a component returns, a tree of texts, links and controls, and the events that the
    enabled controls of a tree \<open>raises\<close>. \<open>Statistics_Screen\<close>, \<open>Plan_Screen\<close>, \<open>Wear_Screen\<close>,
    \<open>Wardrobe_Screen\<close>, \<open>Account_Screen\<close>, \<open>Recommendation_Screen\<close>, \<open>Fitting_Room_Screen\<close> and
    \<open>Look_Screen\<close> give the tree of every page as a function of its state, one definition for each part
    of the page, and compare it with the dispatch: the lemmas \<open>*_screen_offers\<close> show that the controls
    on the screen raise exactly the events that the model of the handlers admits. Both come from the
    same JSX, so that is a check of the model; what the guards are for is stated apart from both in
    \<open>Screen_Guards\<close>: what an enabled control does, what it leaves alone while an operation runs, and
    that nobody is locked out. \<open>room_promise\<close> states it for each control of the fitting room.
  \<^item> \<open>Site_Shell\<close> (\<^verbatim>\<open>layout\<close>, \<^verbatim>\<open>app/error.tsx\<close>, \<^verbatim>\<open>app/not-found.tsx\<close>): navigation, frames, and the pages
    that links lead to. \<open>Interface_Primitives\<close> (\<^verbatim>\<open>components/ui\<close>): the element each primitive renders,
    with its defaults and its caller's attributes; \<open>Primitive_Laws\<close> what they forward, which errors a
    field shows, when a dialog closes; \<open>Page_Frame\<close> the root layout, whose first link leads to the main
    region of every frame. \<open>Screen_Properties\<close> follows the links of all screens and goes from the entry of
    a plan to the record of its wear.
  \<^item> \<open>Demo_Data\<close> and the theories \<open>*_Properties\<close>: the properties C1 and following, each with a
    worked example where it has hypotheses.

  \<^bold>\<open>State and operations.\<close> A configuration of a page is its state, the handlers that are parked at
  an await, and the trace of effects so far. \<^verbatim>\<open>reach\<close> starts a handler when \<open>*_dispatch\<close> admits the
  event in the current state, runs it to its next await, and resumes any parked handler with an
  arbitrary response or failure. So a theorem about \<open>reach\<close> holds for every order of events and
  every behaviour of the server.

  \<^bold>\<open>Assumptions.\<close> The closures of a handler see the state of the rendering they were created in;
  the model takes that to be the state when the event is dispatched, since React renders
  synchronously after a discrete event. Numbers of the image arithmetic are rationals where the code
  has doubles. The pages stay mounted while their handlers run. A dialog or sheet is modal, and the
  browser keeps an input within its \<^verbatim>\<open>maxLength\<close>. The end of the upload rests on one law of the
  clock, \<open>clock_ok\<close>: a wait takes the time it is asked for. The formatter of dates knows some time
  zones and throws a \<^verbatim>\<open>RangeError\<close> for the others (\<open>zone_known\<close>, \<open>range_error\<close>); \<open>env_ok\<close> is its
  documented format for those it knows. The checks of the forms, a save, and the rendering of a plan
  pass that exception on. The model of the network and the canvas of \<open>Image_Processing\<close> record what
  is taken and what is given back (\<open>resource\<close>), an image that is too large included. What a call
  changes at the service (\<open>changed_queries\<close>) is read off the repositories of the backend,
  \<^verbatim>\<open>backend/internal/adapter/postgres\<close>. The polling loop is a partial function
  and its end a theorem; the JSON parser takes as fuel one more than twice the length of its text, which \<open>parse_fuel\<close>
  shows to be enough; every other loop is structurally recursive or has a measure, and handlers are
  well-founded trees.

  A select or a group of checkboxes may raise the event of the value it already has. The page behind
  an alert dialog is taken to react, although the dialog covers it, and the action of an alert dialog, which
  also closes it at once, to leave closing it to its handler (that of the wardrobe does so at the end of
  the deletion); the fitting room, whose
  dialogs are large, is modelled as covered. The text of a label is named by a translation. The
  parser of search parameters is an argument with one law, that it returns a parameter of
  unreserved characters as it is.

  \<^bold>\<open>Not modelled.\<close> Class names and styles; on the screens, attributes that only describe a control
  to assistive technology; the primitives of the component library, which are names; the query
  cache itself (its results are arguments of an event), the browser's decoding, drawing and
  encoding of images and the segmentation network (parameters of \<open>Image_Processing\<close>); the types of
  the responses of the functions that nothing calls, since nothing reads them; the tests and scripts; and the backend, whose answers are arbitrary.
\<close>

end
